(* ===== verification/Prelude.thy ===== *)
theory Prelude
  imports Complex_Main "HOL-Library.AList" "HOL-Library.Word" "HOL-Library.Multiset"
begin

text \<open>
  Shared vocabulary of the development: the collections of rewrite rules the component
  theories fill, the containers of the C++ standard library as the sources use them, and
  the counting lemmas on which the accounting invariants rest.

  \<^item> \<open>std::unordered_map\<close> is an association list in its iteration order, written with
    \<open>AList.update\<close> (assignment through \<open>operator[]\<close>), \<open>umap_insert\<close>
    (\<open>insert\<close>, which keeps an existing entry) and \<open>AList.delete\<close> (\<open>erase\<close>).
  \<^item> \<open>std::map\<close> and \<open>std::set\<close> are lists ordered by key.
  \<^item> \<open>std::unordered_set\<close> is a list without repetition.
\<close>

named_theorems frame \<open>fields an operation leaves alone\<close>
named_theorems sched_defs \<open>definitions unfolded to evaluate the scheduler on a concrete state\<close>

type_synonym u8 = "8 word"
type_synonym u32 = "32 word"
type_synonym u64 = "64 word"
type_synonym ('k, 'v) umap = "('k \<times> 'v) list"
type_synonym ('k, 'v) omap = "('k \<times> 'v) list"

section \<open>Containers\<close>

definition umap_insert :: "'k \<Rightarrow> 'v \<Rightarrow> ('k, 'v) umap \<Rightarrow> ('k, 'v) umap" where
  "umap_insert k v m = (case map_of m k of None \<Rightarrow> AList.update k v m | Some _ \<Rightarrow> m)"

definition umap_at :: "'v \<Rightarrow> ('k, 'v) umap \<Rightarrow> 'k \<Rightarrow> 'v" where
  "umap_at dflt m k = (case map_of m k of None \<Rightarrow> dflt | Some v \<Rightarrow> v)"

definition uset_insert :: "'a \<Rightarrow> 'a list \<Rightarrow> 'a list" where
  "uset_insert x xs = (if x \<in> set xs then xs else xs @ [x])"

definition uset_erase :: "'a \<Rightarrow> 'a list \<Rightarrow> 'a list" where
  "uset_erase x xs = filter (\<lambda>y. y \<noteq> x) xs"

fun omap_set :: "'k::linorder \<Rightarrow> 'v \<Rightarrow> ('k, 'v) omap \<Rightarrow> ('k, 'v) omap" where
  "omap_set k v [] = [(k, v)]"
| "omap_set k v ((k', v') # m) =
     (if k = k' then (k, v) # m
      else if k < k' then (k, v) # (k', v') # m
      else (k', v') # omap_set k v m)"

fun oset_insert :: "'a::linorder \<Rightarrow> 'a list \<Rightarrow> 'a list" where
  "oset_insert x [] = [x]"
| "oset_insert x (y # ys) =
     (if x = y then y # ys else if x < y then x # y # ys else y # oset_insert x ys)"

section \<open>Decimal text\<close>

fun to_string_nat :: "nat \<Rightarrow> string" where
  \<comment> \<open>\<open>std::to_string\<close> of an unsigned integer\<close>
  "to_string_nat n =
     (if n < 10 then [char_of (48 + n)] else to_string_nat (n div 10) @ [char_of (48 + n mod 10)])"

declare to_string_nat.simps [simp del]

section \<open>Sorting by a comparator\<close>

fun insert_by :: "('a \<Rightarrow> 'a \<Rightarrow> bool) \<Rightarrow> 'a \<Rightarrow> 'a list \<Rightarrow> 'a list" where
  "insert_by lt x [] = [x]"
| "insert_by lt x (y # ys) = (if lt x y then x # y # ys else y # insert_by lt x ys)"

definition sort_by :: "('a \<Rightarrow> 'a \<Rightarrow> bool) \<Rightarrow> 'a list \<Rightarrow> 'a list" where
  "sort_by lt xs = foldr (insert_by lt) xs []"

lemma mset_insert_by [simp]: "mset (insert_by lt x ys) = add_mset x (mset ys)"
  by (induction lt x ys rule: insert_by.induct) auto

lemma set_insert_by [simp]: "set (insert_by lt x ys) = insert x (set ys)"
  by (induction lt x ys rule: insert_by.induct) auto

lemma mset_sort_by [simp]: "mset (sort_by lt xs) = mset xs"
  by (induction xs) (simp_all add: sort_by_def)

lemma set_sort_by [simp]: "set (sort_by lt xs) = set xs"
  by (metis mset_sort_by set_mset_mset)

lemma distinct_sort_by [simp]: "distinct (sort_by lt xs) = distinct xs"
  by (metis mset_sort_by mset_eq_imp_distinct_iff)

text \<open>
  A comparator as \<open>std::sort\<close> and \<open>std::priority_queue\<close> require it: a strict weak
  order. Insertion keeps a list sorted, so the head is an element nothing precedes.
\<close>

locale comparator =
  fixes lt :: "'a \<Rightarrow> 'a \<Rightarrow> bool"
  assumes asym: "lt x y \<Longrightarrow> \<not> lt y x"
    and negtrans: "lt x z \<Longrightarrow> lt x y \<or> lt y z"
begin

lemma sorted_insert_by:
  "sorted_wrt (\<lambda>a b. \<not> lt b a) ys \<Longrightarrow> sorted_wrt (\<lambda>a b. \<not> lt b a) (insert_by lt x ys)"
proof (induction ys)
  case (Cons y ys)
  then show ?case
    using asym negtrans by auto blast
qed simp

lemma sorted_sort_by: "sorted_wrt (\<lambda>a b. \<not> lt b a) (sort_by lt xs)"
  by (induction xs) (simp_all add: sort_by_def sorted_insert_by)

lemma head_least: "sorted_wrt (\<lambda>a b. \<not> lt b a) (x # xs) \<Longrightarrow> y \<in> set (x # xs) \<Longrightarrow> \<not> lt y x"
  using asym by auto

end

lemma map_of_umap_insert:
  "map_of (umap_insert k v m) = (if map_of m k = None then (map_of m)(k \<mapsto> v) else map_of m)"
  by (auto simp: umap_insert_def AList.update_conv' split: option.splits)

lemma umap_insert_fresh: "map_of m k = None \<Longrightarrow> umap_insert k v m = AList.update k v m"
  by (simp add: umap_insert_def)

lemma umap_at_update [simp]:
  "umap_at d (AList.update k v m) k' = (if k' = k then v else umap_at d m k')"
  by (simp add: umap_at_def AList.update_conv')

lemma umap_at_Some [simp]: "map_of m k = Some v \<Longrightarrow> umap_at d m k = v"
  by (simp add: umap_at_def)

lemma umap_at_None [simp]: "map_of m k = None \<Longrightarrow> umap_at d m k = d"
  by (simp add: umap_at_def)

lemma set_uset_insert [simp]: "set (uset_insert x xs) = insert x (set xs)"
  by (auto simp: uset_insert_def)

lemma distinct_uset_insert [simp]: "distinct (uset_insert x xs) = distinct xs"
  by (auto simp: uset_insert_def)

lemma length_uset_insert:
  "length (uset_insert x xs) = (if x \<in> set xs then length xs else Suc (length xs))"
  by (simp add: uset_insert_def)

lemma set_uset_erase [simp]: "set (uset_erase x xs) = set xs - {x}"
  by (auto simp: uset_erase_def)

lemma distinct_uset_erase [simp]: "distinct xs \<Longrightarrow> distinct (uset_erase x xs)"
  by (simp add: uset_erase_def)

lemma uset_erase_absent: "x \<notin> set xs \<Longrightarrow> uset_erase x xs = xs"
  unfolding uset_erase_def by (rule filter_True) auto

lemma length_uset_erase:
  "distinct xs \<Longrightarrow> x \<in> set xs \<Longrightarrow> Suc (length (uset_erase x xs)) = length xs"
  unfolding uset_erase_def
  by (induction xs) (auto simp: uset_erase_absent [unfolded uset_erase_def])

lemma map_of_omap_set: "map_of (omap_set k v m) = (map_of m)(k \<mapsto> v)"
  by (induction k v m rule: omap_set.induct) (auto simp: fun_eq_iff)

lemma keys_omap_set: "set (map fst (omap_set k v m)) = insert k (set (map fst m))"
  by (induction k v m rule: omap_set.induct) auto

lemma sorted_omap_set:
  "sorted_wrt (<) (map fst m) \<Longrightarrow> sorted_wrt (<) (map fst (omap_set k v m))"
proof (induction k v m rule: omap_set.induct)
  case (2 k v k' v' m)
  have "\<forall>x\<in>set (map fst (omap_set k v m)). k' < x" if "k' < k"
    using 2(2) that by (simp only: keys_omap_set) auto
  with 2 show ?case by (auto simp: not_less_iff_gr_or_eq)
qed simp

lemma set_oset_insert [simp]: "set (oset_insert x ys) = insert x (set ys)"
  by (induction x ys rule: oset_insert.induct) auto

lemma sorted_oset_insert: "sorted_wrt (<) ys \<Longrightarrow> sorted_wrt (<) (oset_insert x ys)"
  by (induction x ys rule: oset_insert.induct) auto

section \<open>Counting and summing over the values of a map\<close>

definition count_vals :: "('v \<Rightarrow> bool) \<Rightarrow> ('k \<times> 'v) list \<Rightarrow> nat" where
  "count_vals P m = length (filter (\<lambda>p. P (snd p)) m)"

definition sum_vals :: "('v \<Rightarrow> int) \<Rightarrow> ('k \<times> 'v) list \<Rightarrow> int" where
  "sum_vals f m = (\<Sum>p\<leftarrow>m. f (snd p))"

lemma count_vals_simps [simp]:
  "count_vals P [] = 0"
  "count_vals P (p # m) = (if P (snd p) then Suc (count_vals P m) else count_vals P m)"
  by (simp_all add: count_vals_def)

lemma sum_vals_simps [simp]:
  "sum_vals f [] = 0"
  "sum_vals f (p # m) = f (snd p) + sum_vals f m"
  by (simp_all add: sum_vals_def)

lemma count_vals_update:
  "map_of m k = Some v \<Longrightarrow>
   count_vals P (AList.update k v' m) + of_bool (P v) = count_vals P m + of_bool (P v')"
  by (induction m) (auto split: if_splits)

lemma count_vals_update_same:
  "map_of m k = Some v \<Longrightarrow> P v' = P v \<Longrightarrow> count_vals P (AList.update k v' m) = count_vals P m"
  using count_vals_update [of m k v P v'] by simp

lemma count_vals_fresh:
  "map_of m k = None \<Longrightarrow> count_vals P (AList.update k v m) = count_vals P m + of_bool (P v)"
  by (induction m) (auto split: if_splits)

lemma count_vals_pos: "map_of m k = Some v \<Longrightarrow> P v \<Longrightarrow> 0 < count_vals P m"
  by (induction m) (auto split: if_splits)

lemma sum_vals_update:
  "map_of m k = Some v \<Longrightarrow> sum_vals f (AList.update k v' m) = sum_vals f m - f v + f v'"
  by (induction m) (auto split: if_splits)

lemma sum_vals_fresh:
  "map_of m k = None \<Longrightarrow> sum_vals f (AList.update k v m) = sum_vals f m + f v"
  by (induction m) (auto split: if_splits)

lemma sum_vals_nonneg: "(\<And>v. v \<in> snd ` set m \<Longrightarrow> 0 \<le> f v) \<Longrightarrow> 0 \<le> sum_vals f m"
  by (induction m) (simp_all add: add_nonneg_nonneg)

lemma fold_frame: "(\<And>x s. g (f x s) = g s) \<Longrightarrow> g (fold f xs s) = g s"
  by (induction xs arbitrary: s) simp_all

end
