(* ===== verification/Doubles.thy ===== *)
theory Doubles
  imports Prelude
begin

text \<open>
  The C++ types \<open>double\<close> and \<open>float\<close> (IEEE 754 binary64 and binary32, round to
  nearest with ties to even). A finite value is \<open>Fin m k\<close>, the dyadic number
  \<open>m * 2 ^ k\<close>; every operation computes the exact quotient of two integers and rounds it
  once, as the hardware does. Infinities and NaN are values of their own; the two zeros are
  not told apart (the sources divide by a zero only through \<open>deadline_boost_max\<close>).
  Converting a \<open>double\<close> outside the range of \<open>int64_t\<close> is undefined in C++; the
  value taken here is the one the x86-64 instruction produces.
\<close>

datatype fp = NaN | NInf | Fin int int | PInf

type_synonym double = fp
type_synonym float = fp

section \<open>Rounding\<close>

function ilog2 :: "int \<Rightarrow> int" where
  "ilog2 n = (if n < 2 then 0 else 1 + ilog2 (n div 2))"
  by pat_completeness auto
termination
  by (relation "measure nat") auto

declare ilog2.simps [simp del]

definition rne_div :: "int \<Rightarrow> int \<Rightarrow> int" where
  "rne_div n d = (let f = n div d; r = n mod d
     in if 2 * r < d then f else if d < 2 * r then f + 1 else if even f then f else f + 1)"

definition scale :: "int \<Rightarrow> int \<Rightarrow> int \<Rightarrow> int \<times> int" where
  \<comment> \<open>the fraction \<open>n / d\<close> divided by \<open>2 ^ k\<close>\<close>
  "scale k n d = (if 0 \<le> k then (n, d * 2 ^ nat k) else (n * 2 ^ nat (- k), d))"

definition expo :: "int \<Rightarrow> int \<Rightarrow> int" where
  \<comment> \<open>the binade of \<open>\<bar>n\<bar> / d\<close>\<close>
  "expo n d = (let e = ilog2 \<bar>n\<bar> - ilog2 d; (a, b) = scale e \<bar>n\<bar> d
     in if a < b then e - 1 else e)"

function strip :: "int \<Rightarrow> int \<Rightarrow> int \<times> int" where
  "strip m k = (if m = 0 then (0, 0) else if even m then strip (m div 2) (k + 1) else (m, k))"
  by pat_completeness auto
termination
  by (relation "measure (\<lambda>(m, k). nat \<bar>m\<bar>)") auto

declare strip.simps [simp del]

definition fp_round :: "nat \<Rightarrow> int \<Rightarrow> int \<Rightarrow> int \<Rightarrow> fp" where
  "fp_round p emax n d = (if n = 0 then Fin 0 0 else
     let k = max (expo n d) (1 - emax) + 1 - int p;
         (a, b) = scale k n d;
         (m, j) = strip (rne_div a b) k
     in if m \<noteq> 0 \<and> emax < ilog2 \<bar>m\<bar> + j then (if 0 < m then PInf else NInf)
        else Fin m j)"

abbreviation r64 :: "int \<Rightarrow> int \<Rightarrow> double" where
  "r64 \<equiv> fp_round 53 1023"

abbreviation r32 :: "int \<Rightarrow> int \<Rightarrow> float" where
  "r32 \<equiv> fp_round 24 127"

section \<open>Operations\<close>

definition shl :: "int \<Rightarrow> int \<Rightarrow> int" where
  "shl m k = m * 2 ^ nat k"

fun fp_add :: "(int \<Rightarrow> int \<Rightarrow> fp) \<Rightarrow> fp \<Rightarrow> fp \<Rightarrow> fp" where
  "fp_add rnd (Fin a j) (Fin b k) = (let l = min j k in
     (let (n, d) = scale (- l) (shl a (j - l) + shl b (k - l)) 1 in rnd n d))"
| "fp_add rnd NaN y = NaN"
| "fp_add rnd x NaN = NaN"
| "fp_add rnd PInf NInf = NaN"
| "fp_add rnd NInf PInf = NaN"
| "fp_add rnd PInf y = PInf"
| "fp_add rnd NInf y = NInf"
| "fp_add rnd x PInf = PInf"
| "fp_add rnd x NInf = NInf"

fun fp_sign :: "fp \<Rightarrow> int" where
  "fp_sign (Fin a k) = sgn a"
| "fp_sign PInf = 1"
| "fp_sign NInf = -1"
| "fp_sign NaN = 0"

definition fp_inf :: "int \<Rightarrow> fp" where
  "fp_inf sg = (if sg = 0 then NaN else if 0 < sg then PInf else NInf)"

fun fp_mul :: "(int \<Rightarrow> int \<Rightarrow> fp) \<Rightarrow> fp \<Rightarrow> fp \<Rightarrow> fp" where
  "fp_mul rnd (Fin a j) (Fin b k) = (let (n, d) = scale (- (j + k)) (a * b) 1 in rnd n d)"
| "fp_mul rnd NaN y = NaN"
| "fp_mul rnd x NaN = NaN"
| "fp_mul rnd x y = fp_inf (fp_sign x * fp_sign y)"

fun fp_div :: "(int \<Rightarrow> int \<Rightarrow> fp) \<Rightarrow> fp \<Rightarrow> fp \<Rightarrow> fp" where
  "fp_div rnd (Fin a j) (Fin b k) = (if b = 0 then fp_inf (sgn a)
     else (let (n, d) = scale (k - j) (a * sgn b) \<bar>b\<bar> in rnd n d))"
| "fp_div rnd NaN y = NaN"
| "fp_div rnd x NaN = NaN"
| "fp_div rnd (Fin a j) y = Fin 0 0"
| "fp_div rnd x (Fin b k) = fp_inf (fp_sign x * (if b < 0 then -1 else 1))"
| "fp_div rnd x y = NaN"

abbreviation dadd :: "double \<Rightarrow> double \<Rightarrow> double" where "dadd \<equiv> fp_add r64"
abbreviation dmul :: "double \<Rightarrow> double \<Rightarrow> double" where "dmul \<equiv> fp_mul r64"
abbreviation ddiv :: "double \<Rightarrow> double \<Rightarrow> double" where "ddiv \<equiv> fp_div r64"
abbreviation fadd :: "float \<Rightarrow> float \<Rightarrow> float" where "fadd \<equiv> fp_add r32"
abbreviation fmul :: "float \<Rightarrow> float \<Rightarrow> float" where "fmul \<equiv> fp_mul r32"

fun dneg :: "double \<Rightarrow> double" where
  "dneg (Fin a k) = Fin (- a) k"
| "dneg PInf = NInf"
| "dneg NInf = PInf"
| "dneg NaN = NaN"

definition dsub :: "double \<Rightarrow> double \<Rightarrow> double" where
  "dsub x y = dadd x (dneg y)"

fun dlt :: "fp \<Rightarrow> fp \<Rightarrow> bool" where
  "dlt (Fin a j) (Fin b k) = (let l = min j k in shl a (j - l) < shl b (k - l))"
| "dlt NInf (Fin b k) = True"
| "dlt NInf PInf = True"
| "dlt (Fin a j) PInf = True"
| "dlt x y = False"

fun deq :: "fp \<Rightarrow> fp \<Rightarrow> bool" where
  "deq (Fin a j) (Fin b k) = (let l = min j k in shl a (j - l) = shl b (k - l))"
| "deq PInf PInf = True"
| "deq NInf NInf = True"
| "deq x y = False"

definition dle :: "fp \<Rightarrow> fp \<Rightarrow> bool" where
  "dle x y \<longleftrightarrow> dlt x y \<or> deq x y"

definition dmax :: "fp \<Rightarrow> fp \<Rightarrow> fp" where
  \<comment> \<open>\<open>std::max(a, b)\<close> is \<open>a < b ? b : a\<close>\<close>
  "dmax a b = (if dlt a b then b else a)"

definition int64_min :: int where "int64_min = - (2 ^ 63)"
definition int64_max :: int where "int64_max = 2 ^ 63 - 1"

definition of_int64 :: "int \<Rightarrow> double" where
  "of_int64 n = r64 n 1"

definition ceil_int64 :: "double \<Rightarrow> int" where
  \<comment> \<open>\<open>static_cast<std::int64_t>(std::ceil(c))\<close>\<close>
  "ceil_int64 c = (case c of
     Fin m k \<Rightarrow> (let n = (if 0 \<le> k then shl m k else - ((- m) div 2 ^ nat (- k)))
                in if int64_min \<le> n \<and> n \<le> int64_max then n else int64_min)
   | _ \<Rightarrow> int64_min)"

section \<open>Facts about the order\<close>

definition fval :: "int \<Rightarrow> int \<Rightarrow> rat" where
  "fval m k = of_int m * 2 powi k"

lemma shl_fval: "l \<le> k \<Longrightarrow> of_int (shl m (k - l)) * 2 powi l = fval m k"
proof -
  assume "l \<le> k"
  then have "(2::rat) ^ nat (k - l) = 2 powi (k - l)"
    by (simp add: power_int_def)
  then show ?thesis
    by (simp add: shl_def fval_def flip: power_int_add)
qed

lemma shl_less_iff:
  "shl a (j - min j k) < shl b (k - min j k) \<longleftrightarrow> fval a j < fval b k" (is "?l < ?r \<longleftrightarrow> _")
proof -
  have pos: "(0::rat) < 2 powi min j k" by simp
  have "?l < ?r \<longleftrightarrow> of_int ?l * (2::rat) powi min j k < of_int ?r * 2 powi min j k"
    using pos by (simp only: mult_less_cancel_right_pos of_int_less_iff)
  then show ?thesis by (simp add: shl_fval)
qed

lemma shl_eq_iff:
  "shl a (j - min j k) = shl b (k - min j k) \<longleftrightarrow> fval a j = fval b k"
  using shl_less_iff [of a j k b] shl_less_iff [of b k j a]
  by (metis linorder_neq_iff min.commute)

lemma dlt_Fin [simp]: "dlt (Fin a j) (Fin b k) \<longleftrightarrow> fval a j < fval b k"
  by (simp add: shl_less_iff Let_def)

lemma deq_Fin [simp]: "deq (Fin a j) (Fin b k) \<longleftrightarrow> fval a j = fval b k"
  by (simp add: shl_eq_iff Let_def)

lemma dle_Fin [simp]: "dle (Fin a j) (Fin b k) \<longleftrightarrow> fval a j \<le> fval b k"
  unfolding dle_def dlt_Fin deq_Fin by auto

declare dlt.simps(1) [simp del] deq.simps(1) [simp del]

lemma dlt_irrefl [simp]: "\<not> dlt x x"
  by (cases x) auto

lemma dlt_trans: "dlt x y \<Longrightarrow> dlt y z \<Longrightarrow> dlt x z"
  by (cases x; cases y; cases z) auto

lemma dlt_asym: "dlt x y \<Longrightarrow> \<not> dlt y x"
  by (cases x; cases y) auto

lemma dlt_total: "x \<noteq> NaN \<Longrightarrow> y \<noteq> NaN \<Longrightarrow> \<not> dlt x y \<Longrightarrow> \<not> deq x y \<Longrightarrow> dlt y x"
  by (cases x; cases y) auto

lemma dlt_not_NaN: "dlt x y \<Longrightarrow> x \<noteq> NaN \<and> y \<noteq> NaN"
  by (cases x; cases y) auto

lemma deq_refl: "x \<noteq> NaN \<Longrightarrow> deq x x"
  by (cases x) auto

lemma deq_sym: "deq x y \<Longrightarrow> deq y x"
  by (cases x; cases y) auto

lemma deq_trans: "deq x y \<Longrightarrow> deq y z \<Longrightarrow> deq x z"
  by (cases x; cases y; cases z) auto

lemma deq_dlt: "deq x y \<Longrightarrow> dlt y z \<Longrightarrow> dlt x z"
  by (cases x; cases y; cases z) auto

lemma dlt_deq: "dlt x y \<Longrightarrow> deq y z \<Longrightarrow> dlt x z"
  by (cases x; cases y; cases z) auto

lemma dlt_not_deq: "dlt x y \<Longrightarrow> \<not> deq x y"
  by (cases x; cases y) auto

lemma dle_refl: "x \<noteq> NaN \<Longrightarrow> dle x x"
  by (simp add: dle_def deq_refl)

lemma dle_trans: "dle x y \<Longrightarrow> dle y z \<Longrightarrow> dle x z"
  by (cases x; cases y; cases z) (auto simp: dle_def)

lemma dmax_ge: "x \<noteq> NaN \<Longrightarrow> dle x (dmax x y)"
  by (auto simp: dmax_def dle_def deq_refl)

lemma dmax_ge2: "x \<noteq> NaN \<Longrightarrow> y \<noteq> NaN \<Longrightarrow> dle y (dmax x y)"
  by (auto simp: dmax_def dle_def deq_refl intro: deq_sym dest: dlt_total)

lemma dmax_NaN: "x \<noteq> NaN \<Longrightarrow> dmax x y \<noteq> NaN"
  by (auto simp: dmax_def dest: dlt_not_NaN)

end
