(* ===== verification/Enums.thy ===== *)
theory Enums
  imports Prelude
begin

text \<open>
  The scheduling enumerations of \<open>include/inference_scheduler/enums.hpp\<close> and their
  printed names and parsers in \<open>src/enums.cpp\<close>. Every C++ enumeration is a datatype
  whose constructors carry a two-letter prefix, because the C++ enumerators of different
  classes share names. \<open>CompletionStatus\<close> arrives from the network through an unchecked
  cast, so it has a constructor \<open>CS_other\<close> for the integers no enumerator names.
\<close>

datatype PriorityClass =
  PC_Background | PC_Low | PC_Medium | PC_High | PC_Critical

datatype LatencyClass =
  LC_Background | LC_Throughput | LC_Standard | LC_Interactive

datatype QueueClass =
  QC_Latency | QC_Phase | QC_Tenant | QC_Priority

datatype RequestPhase =
  RP_Unknown | RP_Prefill | RP_Decode

datatype RequestState =
  RS_Created | RS_PendingAdmission | RS_Admitted | RS_Queued | RS_Reserved |
  RS_Dispatched | RS_Running | RS_Completing | RS_Completed | RS_Rejected |
  RS_Cancelled | RS_Expired | RS_Failed

datatype AttemptState =
  AS_Created | AS_Reserved | AS_Dispatched | AS_Running | AS_Completing | AS_Succeeded
  | AS_Failed | AS_Cancelled | AS_Stale | AS_Expired

datatype WorkerState =
  WS_Unknown | WS_Booted | WS_Online | WS_Busy | WS_Offline | WS_Drained |
  WS_Unhealthy

datatype AdmissionDecision =
  AD_Admit | AD_Defer | AD_Reject

datatype DispatchDecision =
  DD_Dispatch | DD_Hold | DD_NoEligibleWorker | DD_Cancelled

datatype RetryDecision =
  RD_Retry | RD_GiveUp | RD_NoBudget

datatype CancellationReason =
  CR_ClientRequested | CR_DeadlineExpired | CR_SchedulerDrain | CR_TransientFailure |
  CR_Policy | CR_Overload | CR_Manual

datatype CompletionStatus =
  CS_Succeeded | CS_Failed | CS_Cancelled | CS_Expired | CS_Stale | CS_Ambiguous |
  CS_other int

datatype FailureClass =
  FC_RetryableTransport | FC_RetryableWorker | FC_NonRetryableRequest |
  FC_SchedulerRejection | FC_DeadlineExpiration | FC_Cancellation | FC_StaleAuthority
  | FC_AmbiguousDispatch | FC_Internal

section \<open>Stable integers\<close>

fun priority_class_int :: "PriorityClass \<Rightarrow> int" where
  "priority_class_int PC_Background = 0"
| "priority_class_int PC_Low = 1"
| "priority_class_int PC_Medium = 2"
| "priority_class_int PC_High = 3"
| "priority_class_int PC_Critical = 4"

fun latency_class_int :: "LatencyClass \<Rightarrow> int" where
  "latency_class_int LC_Background = 0"
| "latency_class_int LC_Throughput = 1"
| "latency_class_int LC_Standard = 2"
| "latency_class_int LC_Interactive = 3"

fun request_phase_int :: "RequestPhase \<Rightarrow> int" where
  "request_phase_int RP_Unknown = 0"
| "request_phase_int RP_Prefill = 1"
| "request_phase_int RP_Decode = 2"

fun request_state_int :: "RequestState \<Rightarrow> int" where
  "request_state_int RS_Created = 0"
| "request_state_int RS_PendingAdmission = 1"
| "request_state_int RS_Admitted = 2"
| "request_state_int RS_Queued = 3"
| "request_state_int RS_Reserved = 4"
| "request_state_int RS_Dispatched = 5"
| "request_state_int RS_Running = 6"
| "request_state_int RS_Completing = 7"
| "request_state_int RS_Completed = 8"
| "request_state_int RS_Rejected = 9"
| "request_state_int RS_Cancelled = 10"
| "request_state_int RS_Expired = 11"
| "request_state_int RS_Failed = 12"

fun attempt_state_int :: "AttemptState \<Rightarrow> int" where
  "attempt_state_int AS_Created = 0"
| "attempt_state_int AS_Reserved = 1"
| "attempt_state_int AS_Dispatched = 2"
| "attempt_state_int AS_Running = 3"
| "attempt_state_int AS_Completing = 4"
| "attempt_state_int AS_Succeeded = 5"
| "attempt_state_int AS_Failed = 6"
| "attempt_state_int AS_Cancelled = 7"
| "attempt_state_int AS_Stale = 8"
| "attempt_state_int AS_Expired = 9"

fun worker_state_int :: "WorkerState \<Rightarrow> int" where
  "worker_state_int WS_Unknown = 0"
| "worker_state_int WS_Booted = 1"
| "worker_state_int WS_Online = 2"
| "worker_state_int WS_Busy = 3"
| "worker_state_int WS_Offline = 4"
| "worker_state_int WS_Drained = 5"
| "worker_state_int WS_Unhealthy = 6"

fun cancellation_reason_int :: "CancellationReason \<Rightarrow> int" where
  "cancellation_reason_int CR_ClientRequested = 0"
| "cancellation_reason_int CR_DeadlineExpired = 1"
| "cancellation_reason_int CR_SchedulerDrain = 2"
| "cancellation_reason_int CR_TransientFailure = 3"
| "cancellation_reason_int CR_Policy = 4"
| "cancellation_reason_int CR_Overload = 5"
| "cancellation_reason_int CR_Manual = 6"

fun completion_status_int :: "CompletionStatus \<Rightarrow> int" where
  "completion_status_int CS_Succeeded = 0"
| "completion_status_int CS_Failed = 1"
| "completion_status_int CS_Cancelled = 2"
| "completion_status_int CS_Expired = 3"
| "completion_status_int CS_Stale = 4"
| "completion_status_int CS_Ambiguous = 5"
| "completion_status_int (CS_other i) = i"

fun failure_class_int :: "FailureClass \<Rightarrow> int" where
  "failure_class_int FC_RetryableTransport = 0"
| "failure_class_int FC_RetryableWorker = 1"
| "failure_class_int FC_NonRetryableRequest = 2"
| "failure_class_int FC_SchedulerRejection = 3"
| "failure_class_int FC_DeadlineExpiration = 4"
| "failure_class_int FC_Cancellation = 5"
| "failure_class_int FC_StaleAuthority = 6"
| "failure_class_int FC_AmbiguousDispatch = 7"
| "failure_class_int FC_Internal = 8"

section \<open>Printed names\<close>

fun name_of_priority_class :: "PriorityClass \<Rightarrow> string" where
  "name_of_priority_class PC_Background = ''background''"
| "name_of_priority_class PC_Low = ''low''"
| "name_of_priority_class PC_Medium = ''medium''"
| "name_of_priority_class PC_High = ''high''"
| "name_of_priority_class PC_Critical = ''critical''"

fun name_of_latency_class :: "LatencyClass \<Rightarrow> string" where
  "name_of_latency_class LC_Background = ''background''"
| "name_of_latency_class LC_Throughput = ''throughput''"
| "name_of_latency_class LC_Standard = ''standard''"
| "name_of_latency_class LC_Interactive = ''interactive''"

fun name_of_queue_class :: "QueueClass \<Rightarrow> string" where
  "name_of_queue_class QC_Latency = ''latency''"
| "name_of_queue_class QC_Phase = ''phase''"
| "name_of_queue_class QC_Tenant = ''tenant''"
| "name_of_queue_class QC_Priority = ''priority''"

fun name_of_request_phase :: "RequestPhase \<Rightarrow> string" where
  "name_of_request_phase RP_Unknown = ''unknown''"
| "name_of_request_phase RP_Prefill = ''prefill''"
| "name_of_request_phase RP_Decode = ''decode''"

fun name_of_request_state :: "RequestState \<Rightarrow> string" where
  "name_of_request_state RS_Created = ''created''"
| "name_of_request_state RS_PendingAdmission = ''pending_admission''"
| "name_of_request_state RS_Admitted = ''admitted''"
| "name_of_request_state RS_Queued = ''queued''"
| "name_of_request_state RS_Reserved = ''reserved''"
| "name_of_request_state RS_Dispatched = ''dispatched''"
| "name_of_request_state RS_Running = ''running''"
| "name_of_request_state RS_Completing = ''completing''"
| "name_of_request_state RS_Completed = ''completed''"
| "name_of_request_state RS_Rejected = ''rejected''"
| "name_of_request_state RS_Cancelled = ''cancelled''"
| "name_of_request_state RS_Expired = ''expired''"
| "name_of_request_state RS_Failed = ''failed''"

fun name_of_attempt_state :: "AttemptState \<Rightarrow> string" where
  "name_of_attempt_state AS_Created = ''created''"
| "name_of_attempt_state AS_Reserved = ''reserved''"
| "name_of_attempt_state AS_Dispatched = ''dispatched''"
| "name_of_attempt_state AS_Running = ''running''"
| "name_of_attempt_state AS_Completing = ''completing''"
| "name_of_attempt_state AS_Succeeded = ''succeeded''"
| "name_of_attempt_state AS_Failed = ''failed''"
| "name_of_attempt_state AS_Cancelled = ''cancelled''"
| "name_of_attempt_state AS_Stale = ''stale''"
| "name_of_attempt_state AS_Expired = ''expired''"

fun name_of_worker_state :: "WorkerState \<Rightarrow> string" where
  "name_of_worker_state WS_Unknown = ''unknown''"
| "name_of_worker_state WS_Booted = ''booted''"
| "name_of_worker_state WS_Online = ''online''"
| "name_of_worker_state WS_Busy = ''busy''"
| "name_of_worker_state WS_Offline = ''offline''"
| "name_of_worker_state WS_Drained = ''drained''"
| "name_of_worker_state WS_Unhealthy = ''unhealthy''"

fun name_of_admission_decision :: "AdmissionDecision \<Rightarrow> string" where
  "name_of_admission_decision AD_Admit = ''admit''"
| "name_of_admission_decision AD_Defer = ''defer''"
| "name_of_admission_decision AD_Reject = ''reject''"

fun name_of_dispatch_decision :: "DispatchDecision \<Rightarrow> string" where
  "name_of_dispatch_decision DD_Dispatch = ''dispatch''"
| "name_of_dispatch_decision DD_Hold = ''hold''"
| "name_of_dispatch_decision DD_NoEligibleWorker = ''no_eligible_worker''"
| "name_of_dispatch_decision DD_Cancelled = ''cancelled''"

fun name_of_retry_decision :: "RetryDecision \<Rightarrow> string" where
  "name_of_retry_decision RD_Retry = ''retry''"
| "name_of_retry_decision RD_GiveUp = ''give_up''"
| "name_of_retry_decision RD_NoBudget = ''no_budget''"

fun name_of_cancellation_reason :: "CancellationReason \<Rightarrow> string" where
  "name_of_cancellation_reason CR_ClientRequested = ''client_requested''"
| "name_of_cancellation_reason CR_DeadlineExpired = ''deadline_expired''"
| "name_of_cancellation_reason CR_SchedulerDrain = ''scheduler_drain''"
| "name_of_cancellation_reason CR_TransientFailure = ''transient_failure''"
| "name_of_cancellation_reason CR_Policy = ''policy''"
| "name_of_cancellation_reason CR_Overload = ''overload''"
| "name_of_cancellation_reason CR_Manual = ''manual''"

fun name_of_completion_status :: "CompletionStatus \<Rightarrow> string" where
  "name_of_completion_status CS_Succeeded = ''succeeded''"
| "name_of_completion_status CS_Failed = ''failed''"
| "name_of_completion_status CS_Cancelled = ''cancelled''"
| "name_of_completion_status CS_Expired = ''expired''"
| "name_of_completion_status CS_Stale = ''stale''"
| "name_of_completion_status CS_Ambiguous = ''ambiguous''"
| "name_of_completion_status (CS_other i) = ''unknown''"

fun name_of_failure_class :: "FailureClass \<Rightarrow> string" where
  "name_of_failure_class FC_RetryableTransport = ''retryable_transport''"
| "name_of_failure_class FC_RetryableWorker = ''retryable_worker''"
| "name_of_failure_class FC_NonRetryableRequest = ''non_retryable_request''"
| "name_of_failure_class FC_SchedulerRejection = ''scheduler_rejection''"
| "name_of_failure_class FC_DeadlineExpiration = ''deadline_expiration''"
| "name_of_failure_class FC_Cancellation = ''cancellation''"
| "name_of_failure_class FC_StaleAuthority = ''stale_authority''"
| "name_of_failure_class FC_AmbiguousDispatch = ''ambiguous_dispatch''"
| "name_of_failure_class FC_Internal = ''internal''"

section \<open>Parsers\<close>

definition priority_class_from_string :: "string \<Rightarrow> PriorityClass" where
  "priority_class_from_string s =
     (if s = ''background'' then PC_Background
      else if s = ''low'' then PC_Low
      else if s = ''medium'' then PC_Medium
      else if s = ''high'' then PC_High
      else if s = ''critical'' then PC_Critical
      else PC_Medium)"

definition latency_class_from_string :: "string \<Rightarrow> LatencyClass" where
  "latency_class_from_string s =
     (if s = ''background'' then LC_Background
      else if s = ''throughput'' then LC_Throughput
      else if s = ''standard'' then LC_Standard
      else if s = ''interactive'' then LC_Interactive
      else LC_Standard)"

definition request_phase_from_string :: "string \<Rightarrow> RequestPhase" where
  "request_phase_from_string s =
     (if s = ''prefill'' then RP_Prefill
      else if s = ''decode'' then RP_Decode
      else RP_Unknown)"

section \<open>Terminal and active states\<close>

definition is_terminal :: "RequestState \<Rightarrow> bool" where
  "is_terminal s \<longleftrightarrow> s = RS_Completed \<or> s = RS_Rejected \<or> s = RS_Cancelled \<or>
     s = RS_Expired \<or> s = RS_Failed"

definition is_terminal_attempt :: "AttemptState \<Rightarrow> bool" where
  "is_terminal_attempt s \<longleftrightarrow> s = AS_Succeeded \<or> s = AS_Failed \<or> s = AS_Cancelled \<or>
     s = AS_Stale \<or> s = AS_Expired"

definition is_active :: "RequestState \<Rightarrow> bool" where
  "is_active s \<longleftrightarrow> s = RS_Admitted \<or> s = RS_Queued \<or> s = RS_Reserved \<or> s = RS_Dispatched \<or>
     s = RS_Running \<or> s = RS_Completing"

lemma is_terminal_simps [simp]:
  "is_terminal RS_Completed" "is_terminal RS_Rejected" "is_terminal RS_Cancelled"
  "is_terminal RS_Expired" "is_terminal RS_Failed" "\<not> is_terminal RS_Created"
  "\<not> is_terminal RS_PendingAdmission" "\<not> is_terminal RS_Admitted" "\<not> is_terminal RS_Queued"
  "\<not> is_terminal RS_Reserved" "\<not> is_terminal RS_Dispatched" "\<not> is_terminal RS_Running"
  "\<not> is_terminal RS_Completing"
  by (simp_all add: is_terminal_def)

lemma active_not_terminal: "is_active s \<Longrightarrow> \<not> is_terminal s"
  by (auto simp: is_active_def)

lemma active_iff: "is_active s \<longleftrightarrow> \<not> is_terminal s \<and> s \<noteq> RS_Created \<and> s \<noteq> RS_PendingAdmission"
  by (cases s) (auto simp: is_active_def)

section \<open>Printing and parsing are inverse\<close>

lemma priority_class_round_trip: "priority_class_from_string (name_of_priority_class p) = p"
  by (cases p) (simp_all add: priority_class_from_string_def)

lemma latency_class_round_trip: "latency_class_from_string (name_of_latency_class c) = c"
  by (cases c) (simp_all add: latency_class_from_string_def)

lemma request_phase_round_trip: "request_phase_from_string (name_of_request_phase p) = p"
  by (cases p) (simp_all add: request_phase_from_string_def)

end
