(* ===== verification/Ids.thy ===== *)
theory Ids
  imports Prelude
begin

unbundle bit_operations_syntax

text \<open>
  Identifiers and the identifier factory of \<open>include/inference_scheduler/id_types.hpp\<close>.
  An \<open>Id<Tag>\<close> wraps an unsigned 64-bit value; the tags only keep C++ types apart, so each
  identifier type is a synonym for \<open>u64\<close>. \<open>IdFactory\<close> combines a salt with an atomic
  counter. The lemmas show that while the counter stays below \<open>2 ^ 32\<close> the factory never
  repeats itself and, unless the salt's low half is all ones, never issues the invalid
  identifier.
\<close>

type_synonym RequestId = u64
type_synonym TenantId = u64
type_synonym SessionId = u64
type_synonym SequenceId = u64
type_synonym AttemptId = u64
type_synonym BatchId = u64
type_synonym WorkerId = u64
type_synonym NodeId = u64
type_synonym AcceleratorId = u64
type_synonym ModelIdentity = u64
type_synonym ModelRevision = u64
type_synonym AdapterIdentity = u64
type_synonym SchedulerEpoch = u64
type_synonym WorkerBootId = u64
type_synonym Generation = u64

definition invalid_id :: u64 where
  "invalid_id = 18446744073709551615"

definition valid_id :: "u64 \<Rightarrow> bool" where
  "valid_id v \<longleftrightarrow> v \<noteq> invalid_id"

record IdFactory =
  idf_salt :: u64
  idf_counter :: u64

definition id_value :: "u64 \<Rightarrow> u64 \<Rightarrow> u64" where
  "id_value salt c = push_bit 32 salt OR c"

definition next_id :: "IdFactory \<Rightarrow> u64 \<times> IdFactory" where
  "next_id f = (let c = idf_counter f + 1 in (id_value (idf_salt f) c, f\<lparr>idf_counter := c\<rparr>))"

definition random_salt :: "u64 \<Rightarrow> u64 \<Rightarrow> u64" where
  \<comment> \<open>the two draws of \<open>std::random_device\<close> are the arguments\<close>
  "random_salt rd1 rd2 = (let r = push_bit 16 rd1 XOR rd2 in (r AND 0xFFFFFFFF) OR 0x80000000)"

fun draws :: "('f \<Rightarrow> 'a \<times> 'f) \<Rightarrow> nat \<Rightarrow> 'f \<Rightarrow> 'a list \<times> 'f" where
  "draws nxt 0 f = ([], f)"
| "draws nxt (Suc n) f = (let (v, f1) = nxt f; (vs, f2) = draws nxt n f1 in (v # vs, f2))"

definition issued_id :: "IdFactory \<Rightarrow> u64 \<Rightarrow> bool" where
  "issued_id f v \<longleftrightarrow> (\<exists>c. 0 < c \<and> c \<le> idf_counter f \<and> v = id_value (idf_salt f) c)"

definition ids_left :: "IdFactory \<Rightarrow> nat" where
  "ids_left f = 2 ^ 32 - 1 - unat (idf_counter f)"

section \<open>Uniqueness\<close>

lemma take_bit_id_value: "take_bit 32 (id_value salt c) = take_bit 32 c"
  by (simp add: id_value_def take_bit_or take_bit_push_bit)

lemma take_bit_small: "unat x < 2 ^ 32 \<Longrightarrow> take_bit 32 x = (x :: u64)"
  by (simp add: word_unat_eq_iff unsigned_take_bit_eq take_bit_nat_eq_self)

lemma id_value_inj:
  assumes "unat c < 2 ^ 32" and "unat c' < 2 ^ 32" and "id_value salt c = id_value salt c'"
  shows "c = c'"
  using assms by (metis take_bit_id_value take_bit_small)

lemma id_value_valid:
  assumes "unat c < 2 ^ 32 - 1"
  shows "valid_id (id_value salt c)"
proof -
  have "take_bit 32 (id_value salt c) = c"
    using assms by (simp add: take_bit_id_value take_bit_small)
  moreover have "take_bit 32 invalid_id = (4294967295 :: u64)"
    by (simp add: invalid_id_def)
  ultimately show ?thesis
    using assms by (auto simp: valid_id_def)
qed

text \<open>
  What a client of an identifier source relies on: while identifiers are left, a draw yields
  one that was not issued before and records it.
\<close>

locale id_source =
  fixes nxt :: "'f \<Rightarrow> 'a \<times> 'f"
    and issued :: "'f \<Rightarrow> 'a \<Rightarrow> bool"
    and left :: "'f \<Rightarrow> nat"
  assumes fresh: "0 < left f \<Longrightarrow> \<not> issued f (fst (nxt f))"
    and records: "0 < left f \<Longrightarrow> issued (snd (nxt f)) x \<longleftrightarrow> x = fst (nxt f) \<or> issued f x"
    and spends: "0 < left f \<Longrightarrow> Suc (left (snd (nxt f))) = left f"
begin

lemma draws_fresh:
  "n \<le> left f \<Longrightarrow> distinct (fst (draws nxt n f)) \<and> (\<forall>x\<in>set (fst (draws nxt n f)). \<not> issued f x)"
proof (induction n arbitrary: f)
  case (Suc n)
  have pos: "0 < left f" using Suc.prems by simp
  have "n \<le> left (snd (nxt f))" using Suc.prems spends [OF pos] by simp
  from Suc.IH [OF this] show ?case
    by (auto simp: split_beta Let_def records [OF pos] fresh [OF pos])
qed simp

lemma draws_distinct: "n \<le> left f \<Longrightarrow> distinct (fst (draws nxt n f))"
  by (simp add: draws_fresh)

end

lemma ids_left_counter:
  assumes "0 < ids_left f"
  shows "unat (idf_counter f + 1) = Suc (unat (idf_counter f))" and "Suc (unat (idf_counter f)) < 2 ^ 32"
proof -
  show lt: "Suc (unat (idf_counter f)) < 2 ^ 32"
    using assms by (simp add: ids_left_def)
  then show "unat (idf_counter f + 1) = Suc (unat (idf_counter f))"
    by (simp add: unat_word_ariths)
qed

lemma next_id_simps:
  "fst (next_id f) = id_value (idf_salt f) (idf_counter f + 1)"
  "snd (next_id f) = f\<lparr>idf_counter := idf_counter f + 1\<rparr>"
  by (simp_all add: next_id_def Let_def)

lemma word_le_plus_one_iff:
  fixes c d :: u64
  assumes "unat (d + 1) = Suc (unat d)"
  shows "c \<le> d + 1 \<longleftrightarrow> c = d + 1 \<or> c \<le> d"
  using assms by (auto simp: word_le_nat_alt word_unat_eq_iff)

interpretation idf: id_source next_id issued_id ids_left
proof
  fix f :: IdFactory
  assume pos: "0 < ids_left f"
  note c = ids_left_counter [OF pos]
  show "\<not> issued_id f (fst (next_id f))"
  proof
    assume "issued_id f (fst (next_id f))"
    then obtain d where d: "d \<le> idf_counter f"
      "id_value (idf_salt f) (idf_counter f + 1) = id_value (idf_salt f) d"
      unfolding issued_id_def next_id_simps by blast
    have le: "unat d \<le> unat (idf_counter f)"
      using d(1) by (simp add: word_le_nat_alt)
    have "idf_counter f + 1 = d"
      by (rule id_value_inj [OF _ _ d(2)]) (use c le in linarith)+
    then show False
      using le c(1) by simp
  qed
  have pos1: "0 < idf_counter f + 1"
    using c by (simp add: word_less_nat_alt)
  show "issued_id (snd (next_id f)) x \<longleftrightarrow> x = fst (next_id f) \<or> issued_id f x" for x
    using pos1 by (auto simp: issued_id_def next_id_simps word_le_plus_one_iff [OF c(1)])
  show "Suc (ids_left (snd (next_id f))) = ids_left f"
    using c by (simp add: ids_left_def next_id_simps)
qed

text \<open>
  C31. The identifiers drawn from an \<open>IdFactory\<close> are pairwise distinct, and none of them was
  handed out before, as long as the number of draws fits what is left of the low 32 bits.
\<close>

theorem ids_unique:
  assumes "n \<le> ids_left f"
  shows "distinct (fst (draws next_id n f)) \<and> (\<forall>x\<in>set (fst (draws next_id n f)). \<not> issued_id f x)"
  using assms by (rule idf.draws_fresh)

theorem ids_unique_witness:
  "distinct (fst (draws next_id 3 \<lparr>idf_salt = 7, idf_counter = 5\<rparr>)) \<and>
   fst (draws next_id 3 \<lparr>idf_salt = 7, idf_counter = 5\<rparr>) = [30064771078, 30064771079, 30064771080]"
proof -
  have left: "3 \<le> ids_left \<lparr>idf_salt = 7, idf_counter = 5\<rparr>"
    by (simp add: ids_left_def)
  have "fst (draws next_id 3 \<lparr>idf_salt = 7, idf_counter = 5\<rparr>) = [30064771078, 30064771079, 30064771080]"
    by code_simp
  with ids_unique [OF left] show ?thesis
    by blast
qed

end
