(* ===== verification/Sched_Types.thy ===== *)
theory Sched_Types
  imports Doubles Enums Ids
begin

text \<open>
  The public data types of \<open>include/inference_scheduler/types.hpp\<close> and the completion
  types of \<open>scheduler.hpp\<close>. A \<open>struct\<close> is a record whose fields carry a prefix for
  the structure; its default member initialisers are the constant \<open>default_\<dots>\<close>.
  Instants and durations of the steady clock are integers counting nanoseconds;
  \<open>std::chrono::milliseconds\<close> is the integer count. Signed C++ integers are \<open>int\<close>
  (their overflow is undefined in the sources), unsigned counters are words and wrap.
\<close>

type_synonym ClockTime = int
type_synonym ClockDuration = int
type_synonym millis = int

definition ms_of_ns :: "ClockDuration \<Rightarrow> millis" where
  \<comment> \<open>\<open>duration_cast<milliseconds>\<close> truncates towards zero\<close>
  "ms_of_ns d = (if 0 \<le> d then d div 1000000 else - ((- d) div 1000000))"

section \<open>Token estimates, budgets, deadlines, hints\<close>

record TokenEstimate =
  tok_input :: int
  tok_output :: int
  tok_decoded :: int

definition default_TokenEstimate :: TokenEstimate where
  "default_TokenEstimate = \<lparr>tok_input = 0, tok_output = 0, tok_decoded = 0\<rparr>"

definition tok_total :: "TokenEstimate \<Rightarrow> int" where
  "tok_total t = tok_input t + tok_output t"

record Budget =
  budget_units :: int

definition budget_unbounded :: "Budget \<Rightarrow> bool" where
  "budget_unbounded b \<longleftrightarrow> budget_units b \<le> 0"

record Deadline =
  dl_point :: ClockTime
  dl_valid :: bool

definition deadline_none :: Deadline where
  "deadline_none = \<lparr>dl_point = 0, dl_valid = False\<rparr>"

definition deadline_at :: "ClockTime \<Rightarrow> Deadline" where
  "deadline_at p = \<lparr>dl_point = p, dl_valid = True\<rparr>"

definition deadline_after :: "ClockDuration \<Rightarrow> ClockTime \<Rightarrow> Deadline" where
  "deadline_after d now = deadline_at (now + d)"

definition remaining :: "Deadline \<Rightarrow> ClockTime \<Rightarrow> millis" where
  "remaining d now = (if \<not> dl_valid d then int64_max
     else let r = dl_point d - now in if r < 0 then 0 else ms_of_ns r)"

definition expired :: "Deadline \<Rightarrow> ClockTime \<Rightarrow> bool" where
  "expired d now = (if \<not> dl_valid d then False else dl_point d \<le> now)"

definition slack_ms :: "Deadline \<Rightarrow> ClockTime \<Rightarrow> int" where
  "slack_ms d now = (if \<not> dl_valid d then -1 else ms_of_ns (dl_point d - now))"

definition deadline_eq :: "Deadline \<Rightarrow> Deadline \<Rightarrow> bool" where
  "deadline_eq a b \<longleftrightarrow> dl_valid a = dl_valid b \<and> (\<not> dl_valid a \<or> dl_point a = dl_point b)"

record LocalityHint =
  loc_node :: NodeId
  loc_accelerator :: AcceleratorId
  loc_affinity :: int

definition has_preference :: "LocalityHint \<Rightarrow> bool" where
  "has_preference h \<longleftrightarrow> valid_id (loc_node h) \<or> valid_id (loc_accelerator h)"

record WarmthHint =
  warm_model :: float
  warm_state :: float
  warm_cache_hit :: float

record ResourceDemand =
  dem_tokens :: TokenEstimate
  dem_memory_bytes :: int
  dem_cost_units :: double

record ResourceSnapshot =
  rsn_total_capacity_units :: int
  rsn_available_capacity_units :: int
  rsn_memory_bytes_total :: int
  rsn_memory_bytes_available :: int
  rsn_queue_depth :: int
  rsn_running :: int
  rsn_healthy :: bool

definition default_ResourceSnapshot :: ResourceSnapshot where
  "default_ResourceSnapshot = \<lparr>rsn_total_capacity_units = 0, rsn_available_capacity_units = 0,
     rsn_memory_bytes_total = -1, rsn_memory_bytes_available = -1, rsn_queue_depth = 0,
     rsn_running = 0, rsn_healthy = True\<rparr>"

section \<open>Policies and configuration\<close>

record BatchConstraints =
  bat_max_batch_size :: int
  bat_max_tokens :: int
  bat_max_wait :: millis
  bat_allow_phase_mix :: bool
  bat_require_model_match :: bool
  bat_require_revision_match :: bool
  bat_require_adapter_match :: bool

definition default_BatchConstraints :: BatchConstraints where
  "default_BatchConstraints = \<lparr>bat_max_batch_size = 16, bat_max_tokens = 4096, bat_max_wait = 8,
     bat_allow_phase_mix = False, bat_require_model_match = True,
     bat_require_revision_match = True, bat_require_adapter_match = True\<rparr>"

definition latency_index :: "LatencyClass \<Rightarrow> nat" where
  "latency_index c = nat (latency_class_int c)"

definition priority_index :: "PriorityClass \<Rightarrow> nat" where
  "priority_index c = nat (priority_class_int c)"

record DispatchWeights =
  dw_capability :: double
  dw_capacity :: double
  dw_load :: double
  dw_deadline :: double
  dw_latency_class :: double
  dw_phase :: double
  dw_locality :: double
  dw_model_warmth :: double
  dw_state_warmth :: double
  dw_batch :: double
  dw_fairness :: double

definition default_DispatchWeights :: DispatchWeights where
  "default_DispatchWeights = \<lparr>dw_capability = r64 1 1, dw_capacity = r64 2 1, dw_load = r64 1 1,
     dw_deadline = r64 3 2, dw_latency_class = r64 1 1, dw_phase = r64 1 1,
     dw_locality = r64 1 2, dw_model_warmth = r64 3 5, dw_state_warmth = r64 3 5,
     dw_batch = r64 6 5, dw_fairness = r64 1 1\<rparr>"

record SchedulingPolicy =
  pol_latency_weight :: "double list"
  pol_priority_weight :: "double list"
  pol_phase_weight :: "double list"
  pol_primary :: QueueClass
  pol_deadline_boost_enabled :: bool
  pol_deadline_boost_max :: double
  pol_deadline_boost_threshold_ms :: int
  pol_preemption_enabled :: bool
  pol_dispatch :: DispatchWeights

definition default_SchedulingPolicy :: SchedulingPolicy where
  "default_SchedulingPolicy = \<lparr>pol_latency_weight = replicate 4 (r64 1 1),
     pol_priority_weight = replicate 5 (r64 1 1), pol_phase_weight = replicate 3 (r64 1 1),
     pol_primary = QC_Tenant, pol_deadline_boost_enabled = True,
     pol_deadline_boost_max = r64 4 1, pol_deadline_boost_threshold_ms = 2000,
     pol_preemption_enabled = False, pol_dispatch = default_DispatchWeights\<rparr>"

record TenantWeight =
  tw_tenant :: TenantId
  tw_weight :: double

record FairnessPolicy =
  fair_tenant_weights :: "TenantWeight list"
  fair_default_weight :: double
  fair_quantum :: int
  fair_starvation_guard_factor :: double
  fair_enabled :: bool

definition default_FairnessPolicy :: FairnessPolicy where
  "default_FairnessPolicy = \<lparr>fair_tenant_weights = [], fair_default_weight = r64 1 1,
     fair_quantum = 1, fair_starvation_guard_factor = r64 4 1, fair_enabled = True\<rparr>"

record RetryPolicy =
  ret_max_attempts :: int
  ret_base_backoff :: millis
  ret_backoff_multiplier :: double
  ret_max_backoff :: millis
  ret_retry_on_transport :: bool
  ret_retry_on_worker_failure :: bool
  ret_retry_on_ambiguous :: bool

definition default_RetryPolicy :: RetryPolicy where
  "default_RetryPolicy = \<lparr>ret_max_attempts = 3, ret_base_backoff = 20,
     ret_backoff_multiplier = r64 2 1, ret_max_backoff = 2000, ret_retry_on_transport = True,
     ret_retry_on_worker_failure = True, ret_retry_on_ambiguous = False\<rparr>"

record BackpressurePolicy =
  bp_admission_saturation_fraction :: double
  bp_queue_saturation_fraction :: double
  bp_emit_backpressure :: bool

definition default_BackpressurePolicy :: BackpressurePolicy where
  "default_BackpressurePolicy = \<lparr>bp_admission_saturation_fraction = r64 19 20,
     bp_queue_saturation_fraction = r64 1 1, bp_emit_backpressure = True\<rparr>"

record AdmissionLimits =
  lim_max_global_admitted :: int
  lim_max_global_queued :: int
  lim_max_tenants :: int
  lim_default_tenant_concurrency :: int
  lim_default_tenant_queue_depth :: int
  lim_max_global_token_budget :: int
  lim_enforce_deadline_feasibility :: bool

definition default_AdmissionLimits :: AdmissionLimits where
  "default_AdmissionLimits = \<lparr>lim_max_global_admitted = 1024, lim_max_global_queued = 4096,
     lim_max_tenants = 64, lim_default_tenant_concurrency = 64,
     lim_default_tenant_queue_depth = 512, lim_max_global_token_budget = 0,
     lim_enforce_deadline_feasibility = True\<rparr>"

record SchedulerConfig =
  cfg_admission :: AdmissionLimits
  cfg_scheduling :: SchedulingPolicy
  cfg_fairness :: FairnessPolicy
  cfg_batch :: BatchConstraints
  cfg_retry :: RetryPolicy
  cfg_backpressure :: BackpressurePolicy
  cfg_persist_recovery :: bool
  cfg_state_path :: string
  cfg_strict_deadline_rejection :: bool

definition default_scheduler_config :: SchedulerConfig where
  "default_scheduler_config = \<lparr>cfg_admission = default_AdmissionLimits,
     cfg_scheduling = default_SchedulingPolicy, cfg_fairness = default_FairnessPolicy,
     cfg_batch = default_BatchConstraints, cfg_retry = default_RetryPolicy,
     cfg_backpressure = default_BackpressurePolicy, cfg_persist_recovery = False,
     cfg_state_path = [], cfg_strict_deadline_rejection = True\<rparr>"

section \<open>Requests and admission\<close>

record RequestSpec =
  spec_tenant :: TenantId
  spec_session :: SessionId
  spec_sequence :: SequenceId
  spec_model :: ModelIdentity
  spec_revision :: ModelRevision
  spec_adapter :: AdapterIdentity
  spec_phase :: RequestPhase
  spec_priority :: PriorityClass
  spec_latency_class :: LatencyClass
  spec_tokens :: TokenEstimate
  spec_demand :: ResourceDemand
  spec_locality :: LocalityHint
  spec_warmth :: WarmthHint
  spec_deadline :: Deadline
  spec_budget :: Budget
  spec_estimated_memory_bytes :: int
  spec_model_name :: string
  spec_payload :: string
  spec_max_batch_size :: int
  spec_interactive :: bool

definition default_RequestSpec :: RequestSpec where
  "default_RequestSpec = \<lparr>spec_tenant = invalid_id, spec_session = invalid_id,
     spec_sequence = invalid_id, spec_model = invalid_id, spec_revision = invalid_id,
     spec_adapter = invalid_id, spec_phase = RP_Prefill, spec_priority = PC_Medium,
     spec_latency_class = LC_Standard, spec_tokens = default_TokenEstimate,
     spec_demand = \<lparr>dem_tokens = default_TokenEstimate, dem_memory_bytes = 0,
       dem_cost_units = Fin 1 0\<rparr>,
     spec_locality = \<lparr>loc_node = invalid_id, loc_accelerator = invalid_id, loc_affinity = 0\<rparr>,
     spec_warmth = \<lparr>warm_model = Fin 0 0, warm_state = Fin 0 0, warm_cache_hit = Fin 0 0\<rparr>,
     spec_deadline = deadline_none, spec_budget = \<lparr>budget_units = 0\<rparr>,
     spec_estimated_memory_bytes = 0, spec_model_name = [], spec_payload = [],
     spec_max_batch_size = 0, spec_interactive = False\<rparr>"

record AdmissionOutput =
  ao_decision :: AdmissionDecision
  ao_reason_code :: string
  ao_explanation :: string
  ao_request_id :: RequestId
  ao_attempt_id :: AttemptId
  ao_generation :: Generation
  ao_defer_after :: millis

definition default_AdmissionOutput :: AdmissionOutput where
  "default_AdmissionOutput = \<lparr>ao_decision = AD_Defer, ao_reason_code = [], ao_explanation = [],
     ao_request_id = invalid_id, ao_attempt_id = invalid_id, ao_generation = invalid_id,
     ao_defer_after = 0\<rparr>"

section \<open>Workers\<close>

record WorkerCapability =
  cap_accelerator :: AcceleratorId
  cap_backend :: string
  cap_device_name :: string
  cap_compute_capability_major :: int
  cap_compute_capability_minor :: int
  cap_total_capacity_units :: int
  cap_available_capacity_units :: int
  cap_memory_bytes_total :: int
  cap_memory_bytes_available :: int
  cap_models :: "ModelIdentity list"
  cap_revisions :: "ModelRevision list"
  cap_adapters :: "AdapterIdentity list"
  cap_phases :: "RequestPhase list"
  cap_batch :: BatchConstraints
  cap_locality_tag :: string
  cap_model_warmth :: float
  cap_state_warmth :: float

definition default_WorkerCapability :: WorkerCapability where
  "default_WorkerCapability = \<lparr>cap_accelerator = invalid_id, cap_backend = [],
     cap_device_name = [], cap_compute_capability_major = 0, cap_compute_capability_minor = 0,
     cap_total_capacity_units = 1, cap_available_capacity_units = 1,
     cap_memory_bytes_total = -1, cap_memory_bytes_available = -1, cap_models = [],
     cap_revisions = [], cap_adapters = [], cap_phases = [],
     cap_batch = default_BatchConstraints, cap_locality_tag = [],
     cap_model_warmth = Fin 0 0, cap_state_warmth = Fin 0 0\<rparr>"

record WorkerRegistration =
  reg_worker :: WorkerId
  reg_node :: NodeId
  reg_accelerator :: AcceleratorId
  reg_boot_id :: WorkerBootId
  reg_capability :: WorkerCapability
  reg_state :: WorkerState
  reg_endpoint :: string

definition default_WorkerRegistration :: WorkerRegistration where
  "default_WorkerRegistration = \<lparr>reg_worker = invalid_id, reg_node = invalid_id,
     reg_accelerator = invalid_id, reg_boot_id = invalid_id,
     reg_capability = default_WorkerCapability, reg_state = WS_Booted, reg_endpoint = []\<rparr>"

section \<open>Dispatch scores and outcomes, events, statistics, snapshots\<close>

record ScoreComponent =
  sco_name :: string
  sco_value :: double
  sco_weight :: double

record WorkerScore =
  ws_worker :: WorkerId
  ws_eligible :: bool
  ws_components :: "ScoreComponent list"
  ws_total :: double
  ws_reject_reason_code :: string
  ws_reject_reason :: string

record ExplainResult =
  ex_request_id :: RequestId
  ex_attempt_id :: AttemptId
  ex_admission :: AdmissionDecision
  ex_admitted :: bool
  ex_admission_reason_code :: string
  ex_admission_explanation :: string
  ex_ordering_factors :: "string list"
  ex_candidates :: "WorkerScore list"
  ex_selected_worker :: WorkerId
  ex_batch_id :: BatchId
  ex_batch_formed :: bool
  ex_batch_explanation :: string
  ex_epoch :: SchedulerEpoch
  ex_notes :: "string list"

record DispatchOutcome =
  do_request_id :: RequestId
  do_attempt_id :: AttemptId
  do_generation :: Generation
  do_worker_id :: WorkerId
  do_batch_id :: BatchId
  do_batch_members :: "RequestId list"
  do_decision :: DispatchDecision
  do_reason_code :: string
  do_explanation :: string
  do_candidates :: "WorkerScore list"
  do_estimated_cost_units :: int

definition default_DispatchOutcome :: DispatchOutcome where
  "default_DispatchOutcome = \<lparr>do_request_id = invalid_id, do_attempt_id = invalid_id,
     do_generation = invalid_id, do_worker_id = invalid_id, do_batch_id = invalid_id,
     do_batch_members = [], do_decision = DD_Hold, do_reason_code = [], do_explanation = [],
     do_candidates = [], do_estimated_cost_units = 0\<rparr>"

record SchedulerEvent =
  ev_sequence :: u64
  ev_epoch :: SchedulerEpoch
  ev_type :: string
  ev_request_id :: RequestId
  ev_attempt_id :: AttemptId
  ev_worker_id :: WorkerId
  ev_batch_id :: BatchId
  ev_timestamp_ns :: int
  ev_detail :: string
  ev_reason_code :: string

record LatencyClassStats =
  lcs_admitted :: u64
  lcs_completed :: u64
  lcs_expired :: u64

record SchedulerStats =
  st_requests_submitted :: u64
  st_requests_admitted :: u64
  st_requests_deferred :: u64
  st_requests_rejected :: u64
  st_requests_completed :: u64
  st_requests_cancelled :: u64
  st_requests_expired :: u64
  st_requests_failed :: u64
  st_attempts_created :: u64
  st_dispatches :: u64
  st_completions :: u64
  st_retries :: u64
  st_stale_rejected :: u64
  st_batches_formed :: u64
  st_batch_members :: u64
  st_backpressure_events :: u64
  st_current_admitted :: int
  st_current_queued :: int
  st_current_reserved :: int
  st_current_running :: int
  st_current_capacity_units :: int
  st_current_reserved_units :: int
  st_total_queue_delay_ms :: int
  st_total_schedule_delay_ms :: int
  st_total_dispatch_delay_ms :: int
  st_by_latency :: "LatencyClassStats list"

definition default_SchedulerStats :: SchedulerStats where
  "default_SchedulerStats = \<lparr>st_requests_submitted = 0, st_requests_admitted = 0,
     st_requests_deferred = 0, st_requests_rejected = 0, st_requests_completed = 0,
     st_requests_cancelled = 0, st_requests_expired = 0, st_requests_failed = 0,
     st_attempts_created = 0, st_dispatches = 0, st_completions = 0, st_retries = 0,
     st_stale_rejected = 0, st_batches_formed = 0, st_batch_members = 0,
     st_backpressure_events = 0, st_current_admitted = 0, st_current_queued = 0,
     st_current_reserved = 0, st_current_running = 0, st_current_capacity_units = 0,
     st_current_reserved_units = 0, st_total_queue_delay_ms = 0,
     st_total_schedule_delay_ms = 0, st_total_dispatch_delay_ms = 0,
     st_by_latency = replicate 4 \<lparr>lcs_admitted = 0, lcs_completed = 0, lcs_expired = 0\<rparr>\<rparr>"

record TenantSnapshot =
  ts_tenant :: TenantId
  ts_weight :: double
  ts_virtual_time :: double
  ts_queued :: int
  ts_admitted :: int
  ts_services_consumed :: int
  ts_service_debt :: int

record WorkerSnapshot =
  wsn_worker :: WorkerId
  wsn_node :: NodeId
  wsn_boot_id :: WorkerBootId
  wsn_state :: WorkerState
  wsn_backend :: string
  wsn_device_name :: string
  wsn_total_capacity_units :: int
  wsn_available_capacity_units :: int
  wsn_reserved_units :: int
  wsn_running :: int
  wsn_memory_bytes_total :: int
  wsn_memory_bytes_available :: int

record RequestSnapshot =
  rqs_request_id :: RequestId
  rqs_tenant :: TenantId
  rqs_state :: RequestState
  rqs_phase :: RequestPhase
  rqs_latency_class :: LatencyClass
  rqs_priority :: PriorityClass
  rqs_model :: ModelIdentity
  rqs_revision :: ModelRevision
  rqs_attempt_id :: AttemptId
  rqs_generation :: Generation
  rqs_worker_id :: WorkerId
  rqs_deadline :: Deadline
  rqs_queue_delay_ms :: int

record SchedulerSnapshot =
  snap_epoch :: SchedulerEpoch
  snap_generated_ns :: int
  snap_stats :: SchedulerStats
  snap_tenants :: "TenantSnapshot list"
  snap_workers :: "WorkerSnapshot list"
  snap_requests :: "RequestSnapshot list"

section \<open>Completion reports\<close>

record CompletionReport =
  cr_epoch :: SchedulerEpoch
  cr_worker :: WorkerId
  cr_boot_id :: WorkerBootId
  cr_request_id :: RequestId
  cr_attempt_id :: AttemptId
  cr_generation :: Generation
  cr_status :: CompletionStatus
  cr_failure_class :: FailureClass
  cr_error_message :: string
  cr_output_tokens_produced :: int
  cr_work_units :: int
  cr_duration_us :: int
  cr_worker_snapshot :: ResourceSnapshot

definition default_CompletionReport :: CompletionReport where
  "default_CompletionReport = \<lparr>cr_epoch = invalid_id, cr_worker = invalid_id,
     cr_boot_id = invalid_id, cr_request_id = invalid_id, cr_attempt_id = invalid_id,
     cr_generation = invalid_id, cr_status = CS_Succeeded, cr_failure_class = FC_Internal,
     cr_error_message = [], cr_output_tokens_produced = 0, cr_work_units = 0,
     cr_duration_us = 0, cr_worker_snapshot = default_ResourceSnapshot\<rparr>"

datatype CompletionAcceptance =
  CA_Accepted | CA_CancelledOutcome | CA_StaleEpoch | CA_StaleWorker | CA_StaleAttempt |
  CA_Duplicate | CA_Invalid

record CompletionOutcome =
  co_acceptance :: CompletionAcceptance
  co_reason_code :: string
  co_explanation :: string
  co_retried :: bool
  co_retry_attempt :: AttemptId

definition default_CompletionOutcome :: CompletionOutcome where
  "default_CompletionOutcome = \<lparr>co_acceptance = CA_Invalid, co_reason_code = [],
     co_explanation = [], co_retried = False, co_retry_attempt = invalid_id\<rparr>"

section \<open>Deadlines are consistent\<close>

lemma remaining_nonneg: "0 \<le> remaining d now"
  by (auto simp: remaining_def ms_of_ns_def int64_max_def Let_def)

lemma expired_remaining: "dl_valid d \<Longrightarrow> expired d now \<Longrightarrow> remaining d now = 0"
  by (auto simp: expired_def remaining_def ms_of_ns_def Let_def)

lemma expired_mono: "expired d now \<Longrightarrow> now \<le> now' \<Longrightarrow> expired d now'"
  by (auto simp: expired_def split: if_splits)

lemma deadline_after_expired: "expired (deadline_after d now) now' \<longleftrightarrow> now + d \<le> now'"
  by (simp add: deadline_after_def deadline_at_def expired_def)

end
