(* ===== verification/Errors.thy ===== *)
theory Errors
  imports Prelude
begin

text \<open>
  The explicit error model: \<open>ErrorCode\<close> and \<open>Error\<close> of
  \<open>include/inference_scheduler/error.hpp\<close>, the code tables of \<open>src/error.cpp\<close>, and
  \<open>Result<T>\<close> of \<open>result.hpp\<close> as a sum whose left side is the error. A \<open>Result\<close>
  built from an error whose code is \<open>None\<close> is turned into \<open>Internal\<close> by its
  constructor; \<open>result_err\<close> keeps that.
\<close>

datatype ErrorCode =
  EC_None | EC_InvalidArgument | EC_InvalidState | EC_NotFound | EC_AlreadyExists |
  EC_CapacityExhausted | EC_AdmissionRejected | EC_Deferred | EC_DeadlineExpired |
  EC_Cancelled | EC_StaleEpoch | EC_StaleWorker | EC_StaleAttempt | EC_Incompatible |
  EC_TransportFailure | EC_PersistenceFailure | EC_Corruption | EC_Unsupported |
  EC_Internal

fun error_code_int :: "ErrorCode \<Rightarrow> int" where
  "error_code_int EC_None = 0"
| "error_code_int EC_InvalidArgument = 1"
| "error_code_int EC_InvalidState = 2"
| "error_code_int EC_NotFound = 3"
| "error_code_int EC_AlreadyExists = 4"
| "error_code_int EC_CapacityExhausted = 5"
| "error_code_int EC_AdmissionRejected = 6"
| "error_code_int EC_Deferred = 7"
| "error_code_int EC_DeadlineExpired = 8"
| "error_code_int EC_Cancelled = 9"
| "error_code_int EC_StaleEpoch = 10"
| "error_code_int EC_StaleWorker = 11"
| "error_code_int EC_StaleAttempt = 12"
| "error_code_int EC_Incompatible = 13"
| "error_code_int EC_TransportFailure = 14"
| "error_code_int EC_PersistenceFailure = 15"
| "error_code_int EC_Corruption = 16"
| "error_code_int EC_Unsupported = 17"
| "error_code_int EC_Internal = 18"

fun error_code_name :: "ErrorCode \<Rightarrow> string" where
  "error_code_name EC_None = ''none''"
| "error_code_name EC_InvalidArgument = ''invalid_argument''"
| "error_code_name EC_InvalidState = ''invalid_state''"
| "error_code_name EC_NotFound = ''not_found''"
| "error_code_name EC_AlreadyExists = ''already_exists''"
| "error_code_name EC_CapacityExhausted = ''capacity_exhausted''"
| "error_code_name EC_AdmissionRejected = ''admission_rejected''"
| "error_code_name EC_Deferred = ''deferred''"
| "error_code_name EC_DeadlineExpired = ''deadline_expired''"
| "error_code_name EC_Cancelled = ''cancelled''"
| "error_code_name EC_StaleEpoch = ''stale_epoch''"
| "error_code_name EC_StaleWorker = ''stale_worker''"
| "error_code_name EC_StaleAttempt = ''stale_attempt''"
| "error_code_name EC_Incompatible = ''incompatible''"
| "error_code_name EC_TransportFailure = ''transport_failure''"
| "error_code_name EC_PersistenceFailure = ''persistence_failure''"
| "error_code_name EC_Corruption = ''corruption''"
| "error_code_name EC_Unsupported = ''unsupported''"
| "error_code_name EC_Internal = ''internal''"

definition error_code_from_name :: "string \<Rightarrow> ErrorCode" where
  "error_code_from_name s =
     (if s = ''none'' then EC_None
      else if s = ''invalid_argument'' then EC_InvalidArgument
      else if s = ''invalid_state'' then EC_InvalidState
      else if s = ''not_found'' then EC_NotFound
      else if s = ''already_exists'' then EC_AlreadyExists
      else if s = ''capacity_exhausted'' then EC_CapacityExhausted
      else if s = ''admission_rejected'' then EC_AdmissionRejected
      else if s = ''deferred'' then EC_Deferred
      else if s = ''deadline_expired'' then EC_DeadlineExpired
      else if s = ''cancelled'' then EC_Cancelled
      else if s = ''stale_epoch'' then EC_StaleEpoch
      else if s = ''stale_worker'' then EC_StaleWorker
      else if s = ''stale_attempt'' then EC_StaleAttempt
      else if s = ''incompatible'' then EC_Incompatible
      else if s = ''transport_failure'' then EC_TransportFailure
      else if s = ''persistence_failure'' then EC_PersistenceFailure
      else if s = ''corruption'' then EC_Corruption
      else if s = ''unsupported'' then EC_Unsupported
      else if s = ''internal'' then EC_Internal
      else EC_Internal)"

definition error_code_from_int :: "int \<Rightarrow> ErrorCode" where
  "error_code_from_int v =
     (if 0 \<le> v \<and> v \<le> 18 then
        [EC_None, EC_InvalidArgument, EC_InvalidState, EC_NotFound, EC_AlreadyExists, EC_CapacityExhausted, EC_AdmissionRejected,
         EC_Deferred, EC_DeadlineExpired, EC_Cancelled, EC_StaleEpoch, EC_StaleWorker,
         EC_StaleAttempt, EC_Incompatible, EC_TransportFailure, EC_PersistenceFailure, EC_Corruption, EC_Unsupported, EC_Internal] ! nat v
      else EC_Internal)"

record Error =
  err_code :: ErrorCode
  err_message :: string
  err_context :: string

definition make_error :: "ErrorCode \<Rightarrow> string \<Rightarrow> Error" where
  "make_error c m = \<lparr>err_code = c, err_message = m, err_context = []\<rparr>"

definition make_error_ctx :: "ErrorCode \<Rightarrow> string \<Rightarrow> string \<Rightarrow> Error" where
  "make_error_ctx c m ctx = \<lparr>err_code = c, err_message = m, err_context = ctx\<rparr>"

type_synonym 'a result = "Error + 'a"

definition result_ok :: "'a \<Rightarrow> 'a result" where
  "result_ok v = Inr v"

definition result_err :: "Error \<Rightarrow> 'a result" where
  "result_err e = Inl (if err_code e = EC_None
     then \<lparr>err_code = EC_Internal, err_message = err_message e, err_context = []\<rparr> else e)"

definition is_ok :: "'a result \<Rightarrow> bool" where
  "is_ok r = (case r of Inl e \<Rightarrow> err_code e = EC_None | Inr _ \<Rightarrow> True)"

lemma is_ok_simps [simp]: "is_ok (result_ok v)" "\<not> is_ok (result_err e)"
  by (simp_all add: is_ok_def result_ok_def result_err_def)

lemma result_ok_inject [simp]: "result_ok a = result_ok b \<longleftrightarrow> a = b"
  by (simp add: result_ok_def)

lemma result_ok_err [simp]: "result_ok a \<noteq> result_err e" "result_err e \<noteq> result_ok a"
  by (simp_all add: result_ok_def result_err_def)

lemma make_error_code [simp]: "err_code (make_error c m) = c"
  by (simp add: make_error_def)

lemma result_err_make_error [simp]: "c \<noteq> EC_None \<Longrightarrow> result_err (make_error c m) = Inl (make_error c m)"
  by (simp add: result_err_def)

lemma error_code_name_round_trip: "error_code_from_name (error_code_name c) = c"
  by (cases c) (simp_all add: error_code_from_name_def)

lemma error_code_int_round_trip: "error_code_from_int (error_code_int c) = c"
  by (cases c) (simp_all add: error_code_from_int_def eval_nat_numeral)

end
