(* ===== verification/Sched_State.thy ===== *)
theory Sched_State
  imports Sched_Types Errors
begin

text \<open>
  The state of the scheduler core (\<open>src/scheduler.cpp\<close>): the records of namespace
  \<open>detail\<close>, the fields of \<open>Scheduler::Impl\<close> as the record \<open>Impl\<close>, and the small
  accessors every operation uses. A C++ reference into a container is the key together with
  the state: a read is \<open>req_at\<close>, \<open>worker_at\<close> or \<open>tenant_of\<close>, a write through the
  reference is \<open>modify_req\<close>, \<open>modify_worker\<close> or \<open>modify_tenant\<close>. Like
  \<open>operator[]\<close>, they create a default record for a key that is missing. The injected clock
  is the field \<open>im_clock_now\<close>, which only \<open>advance\<close> and \<open>set\<close> of
  \<open>SimulatedClock\<close> change. Writing \<open>history.back()\<close> on an empty history is undefined in
  C++; \<open>map_last\<close> leaves it alone, and the invariants show that it does not arise.
\<close>

section \<open>Flows and the ready queue\<close>

datatype FlowKey =
  FlowKey (fk_tenant: TenantId) (fk_latency: int) (fk_phase: int) (fk_priority: int)

definition flow_key_less :: "FlowKey \<Rightarrow> FlowKey \<Rightarrow> bool" where
  "flow_key_less a b \<longleftrightarrow>
     (if fk_tenant a \<noteq> fk_tenant b then fk_tenant a < fk_tenant b
      else if fk_latency a \<noteq> fk_latency b then fk_latency a < fk_latency b
      else if fk_phase a \<noteq> fk_phase b then fk_phase a < fk_phase b
      else fk_priority a < fk_priority b)"

instantiation FlowKey :: linorder
begin

definition less_FlowKey :: "FlowKey \<Rightarrow> FlowKey \<Rightarrow> bool" where
  "less_FlowKey = flow_key_less"

definition less_eq_FlowKey :: "FlowKey \<Rightarrow> FlowKey \<Rightarrow> bool" where
  "less_eq_FlowKey a b \<longleftrightarrow> a = b \<or> a < b"

instance
proof
  fix a b c :: FlowKey
  show "a < b \<longleftrightarrow> a \<le> b \<and> \<not> b \<le> a"
    by (cases a; cases b) (auto simp: less_FlowKey_def flow_key_less_def less_eq_FlowKey_def)
  show "a \<le> a" by (simp add: less_eq_FlowKey_def)
  show "a \<le> b \<Longrightarrow> b \<le> c \<Longrightarrow> a \<le> c"
    by (cases a; cases b; cases c) (auto simp: less_FlowKey_def flow_key_less_def less_eq_FlowKey_def split: if_splits)
  show "a \<le> b \<Longrightarrow> b \<le> a \<Longrightarrow> a = b"
    by (cases a; cases b) (auto simp: less_FlowKey_def flow_key_less_def less_eq_FlowKey_def split: if_splits)
  show "a \<le> b \<or> b \<le> a"
    by (cases a; cases b) (auto simp: less_FlowKey_def flow_key_less_def less_eq_FlowKey_def split: if_splits)
qed

end

datatype ReadyEntry =
  ReadyEntry (re_id: RequestId) (re_generation: Generation) (re_slack: int) (re_prio: int)
    (re_idv: u64)

definition ready_less :: "ReadyEntry \<Rightarrow> ReadyEntry \<Rightarrow> bool" where
  "ready_less a b =
     (if re_slack a \<noteq> re_slack b then re_slack a > re_slack b
      else if re_prio a \<noteq> re_prio b then re_prio a < re_prio b
      else re_idv a > re_idv b)"

record Flow =
  fl_weight :: double
  fl_virtual_finish :: double
  fl_pending :: "ReadyEntry list"  \<comment> \<open>the priority queue, its top first\<close>

definition default_Flow :: Flow where
  "default_Flow = \<lparr>fl_weight = Fin 1 0, fl_virtual_finish = Fin 0 0, fl_pending = []\<rparr>"

datatype CompatKey =
  CompatKey (ck_model: u64) (ck_revision: u64) (ck_adapter: u64) (ck_phase: int) (ck_latency: int)

section \<open>Attempts, requests, tenants, workers\<close>

record AttemptRecord =
  att_attempt_id :: AttemptId
  att_generation :: Generation
  att_state :: AttemptState
  att_worker :: WorkerId
  att_batch :: BatchId
  att_final_status :: CompletionStatus
  att_failure_class :: FailureClass
  att_error_message :: string
  att_created_at :: ClockTime
  att_output_tokens :: int
  att_work_units :: int
  att_duration_us :: int

definition default_AttemptRecord :: AttemptRecord where
  "default_AttemptRecord = \<lparr>att_attempt_id = invalid_id, att_generation = invalid_id,
     att_state = AS_Created, att_worker = invalid_id, att_batch = invalid_id,
     att_final_status = CS_Succeeded, att_failure_class = FC_Internal, att_error_message = [],
     att_created_at = 0, att_output_tokens = 0, att_work_units = 0, att_duration_us = 0\<rparr>"

record RequestRecord =
  rec_spec :: RequestSpec
  rec_request_id :: RequestId
  rec_state :: RequestState
  rec_current_attempt :: AttemptId
  rec_generation :: Generation
  rec_history :: "AttemptRecord list"
  rec_created_at :: ClockTime
  rec_admitted_at :: ClockTime
  rec_queued_at :: ClockTime
  rec_reserved_at :: ClockTime
  rec_started_at :: ClockTime
  rec_completed_at :: ClockTime
  rec_queue_delay_ms :: int
  rec_schedule_delay_ms :: int
  rec_dispatch_delay_ms :: int
  rec_cancellation_requested :: bool
  rec_cancellation_committed :: bool
  rec_cancel_reason :: CancellationReason
  rec_terminal_reason :: string
  rec_in_batch :: bool
  rec_batch_id :: BatchId
  rec_attempts_used :: int
  rec_last_attempt_order :: u64

definition default_RequestRecord :: RequestRecord where
  "default_RequestRecord = \<lparr>rec_spec = default_RequestSpec, rec_request_id = invalid_id,
     rec_state = RS_Created, rec_current_attempt = invalid_id, rec_generation = invalid_id,
     rec_history = [], rec_created_at = 0, rec_admitted_at = 0, rec_queued_at = 0,
     rec_reserved_at = 0, rec_started_at = 0, rec_completed_at = 0, rec_queue_delay_ms = 0,
     rec_schedule_delay_ms = 0, rec_dispatch_delay_ms = 0, rec_cancellation_requested = False,
     rec_cancellation_committed = False, rec_cancel_reason = CR_ClientRequested,
     rec_terminal_reason = [], rec_in_batch = False, rec_batch_id = invalid_id,
     rec_attempts_used = 0, rec_last_attempt_order = 0\<rparr>"

record TenantRecord =
  ten_tenant :: TenantId
  ten_weight :: double
  ten_admitted :: int
  ten_queued :: int
  ten_running :: int
  ten_services_consumed :: int
  ten_service_debt :: int

record WorkerRecord =
  wk_registration :: WorkerRegistration
  wk_state :: WorkerState
  wk_resource :: ResourceSnapshot
  wk_reserved_units :: int
  wk_running_units :: int
  wk_batch_units :: "(BatchId, int) omap"
  wk_batch_pending :: "(BatchId, int) omap"
  wk_batch_members :: "(BatchId, RequestId list) omap"
  wk_started_batches :: "BatchId list"
  wk_in_flight :: "(RequestId, AttemptId) omap"

definition default_WorkerRecord :: WorkerRecord where
  "default_WorkerRecord = \<lparr>wk_registration = default_WorkerRegistration, wk_state = WS_Unknown,
     wk_resource = default_ResourceSnapshot, wk_reserved_units = 0, wk_running_units = 0,
     wk_batch_units = [], wk_batch_pending = [], wk_batch_members = [],
     wk_started_batches = [], wk_in_flight = []\<rparr>"

section \<open>The scheduler\<close>

record Impl =
  im_cfg :: SchedulerConfig
  im_clock_now :: ClockTime
  im_epoch_value :: u64
  im_id_factory :: IdFactory
  im_virtual_time :: double
  im_requests :: "(RequestId, RequestRecord) umap"
  im_workers :: "(WorkerId, WorkerRecord) umap"
  im_tenants :: "(TenantId, TenantRecord) umap"
  im_flows :: "(FlowKey, Flow) umap"
  im_compat :: "(CompatKey, RequestId list) umap"
  im_active_flows :: "FlowKey list"
  im_queued :: "RequestId list"
  im_global_admitted :: int
  im_global_queued :: int
  im_global_reserved_units :: int
  im_global_running_units :: int
  im_global_tokens :: int
  im_draining :: bool
  im_drain_reason :: string
  im_recovery_mode :: int
  im_event_log :: "SchedulerEvent list"
  im_event_stream_mode :: bool
  im_event_seq :: u64
  im_stats :: SchedulerStats

definition new_impl :: "SchedulerConfig \<Rightarrow> ClockTime \<Rightarrow> u64 \<Rightarrow> SchedulerEpoch option \<Rightarrow> Impl" where
  "new_impl cfg now salt epoch = \<lparr>
     im_cfg = (if cfg_state_path cfg = []
               then cfg\<lparr>cfg_state_path := ''inference_scheduler_state.bin''\<rparr> else cfg),
     im_clock_now = now,
     im_epoch_value = (case epoch of Some e \<Rightarrow> if valid_id e then e else 1 | None \<Rightarrow> 1),
     im_id_factory = \<lparr>idf_salt = salt, idf_counter = 0\<rparr>, im_virtual_time = Fin 0 0,
     im_requests = [], im_workers = [], im_tenants = [], im_flows = [], im_compat = [],
     im_active_flows = [], im_queued = [], im_global_admitted = 0, im_global_queued = 0,
     im_global_reserved_units = 0, im_global_running_units = 0, im_global_tokens = 0,
     im_draining = False, im_drain_reason = [], im_recovery_mode = 0, im_event_log = [],
     im_event_stream_mode = False, im_event_seq = 0, im_stats = default_SchedulerStats\<rparr>"

section \<open>Clock\<close>

definition clock_advance :: "ClockDuration \<Rightarrow> Impl \<Rightarrow> Impl" where
  "clock_advance d s = s\<lparr>im_clock_now := im_clock_now s + d\<rparr>"

definition clock_set :: "ClockTime \<Rightarrow> Impl \<Rightarrow> Impl" where
  "clock_set t s = s\<lparr>im_clock_now := t\<rparr>"

definition ms_between :: "ClockTime \<Rightarrow> ClockTime \<Rightarrow> millis" where
  "ms_between a b = ms_of_ns (b - a)"

section \<open>Small helpers\<close>

definition clamp01 :: "double \<Rightarrow> double" where
  "clamp01 v = (if dlt v (Fin 0 0) then Fin 0 0 else if dlt (Fin 1 0) v then Fin 1 0 else v)"

definition ceil_cost :: "double \<Rightarrow> int" where
  "ceil_cost c = (if dle c (Fin 0 0) then 1 else ceil_int64 c)"

definition dec_pos :: "int \<Rightarrow> int" where
  \<comment> \<open>\<open>if (x > 0) x -= 1;\<close>\<close>
  "dec_pos x = (if 0 < x then x - 1 else x)"

fun map_last :: "('a \<Rightarrow> 'a) \<Rightarrow> 'a list \<Rightarrow> 'a list" where
  "map_last f [] = []"
| "map_last f [x] = [f x]"
| "map_last f (x # xs) = x # map_last f xs"

section \<open>Keys and weights\<close>

definition tenant_weight :: "SchedulerConfig \<Rightarrow> TenantId \<Rightarrow> double" where
  "tenant_weight cfg t =
     (case find (\<lambda>c. tw_tenant c = t) (fair_tenant_weights (cfg_fairness cfg)) of
        Some c \<Rightarrow> tw_weight c
      | None \<Rightarrow> fair_default_weight (cfg_fairness cfg))"

definition phase_index :: "RequestPhase \<Rightarrow> nat" where
  "phase_index p = nat (request_phase_int p)"

definition flow_weight :: "SchedulerConfig \<Rightarrow> RequestSpec \<Rightarrow> double" where
  "flow_weight cfg sp = (let p = cfg_scheduling cfg in
     dmul (dmul (dmul (tenant_weight cfg (spec_tenant sp))
                      (pol_latency_weight p ! latency_index (spec_latency_class sp)))
                (pol_priority_weight p ! priority_index (spec_priority sp)))
          (pol_phase_weight p ! phase_index (spec_phase sp)))"

definition flow_key :: "RequestSpec \<Rightarrow> FlowKey" where
  "flow_key sp = FlowKey (spec_tenant sp) (latency_class_int (spec_latency_class sp))
     (request_phase_int (spec_phase sp)) (priority_class_int (spec_priority sp))"

definition compat_key :: "SchedulerConfig \<Rightarrow> RequestSpec \<Rightarrow> CompatKey" where
  "compat_key cfg sp = CompatKey (spec_model sp) (spec_revision sp)
     (if valid_id (spec_adapter sp) then spec_adapter sp else 0)
     (if bat_allow_phase_mix (cfg_batch cfg) then 256 else request_phase_int (spec_phase sp))
     (latency_class_int (spec_latency_class sp))"

section \<open>Access to records through references\<close>

abbreviation find_req :: "Impl \<Rightarrow> RequestId \<Rightarrow> RequestRecord option" where
  "find_req s rid \<equiv> map_of (im_requests s) rid"

abbreviation find_wrk :: "Impl \<Rightarrow> WorkerId \<Rightarrow> WorkerRecord option" where
  "find_wrk s w \<equiv> map_of (im_workers s) w"

definition req_at :: "Impl \<Rightarrow> RequestId \<Rightarrow> RequestRecord" where
  "req_at s rid = umap_at default_RequestRecord (im_requests s) rid"

definition modify_req :: "RequestId \<Rightarrow> (RequestRecord \<Rightarrow> RequestRecord) \<Rightarrow> Impl \<Rightarrow> Impl" where
  "modify_req rid f s = s\<lparr>im_requests := AList.update rid (f (req_at s rid)) (im_requests s)\<rparr>"

definition worker_at :: "Impl \<Rightarrow> WorkerId \<Rightarrow> WorkerRecord" where
  "worker_at s w = umap_at default_WorkerRecord (im_workers s) w"

definition modify_worker :: "WorkerId \<Rightarrow> (WorkerRecord \<Rightarrow> WorkerRecord) \<Rightarrow> Impl \<Rightarrow> Impl" where
  "modify_worker w f s = s\<lparr>im_workers := AList.update w (f (worker_at s w)) (im_workers s)\<rparr>"

definition new_tenant :: "SchedulerConfig \<Rightarrow> TenantId \<Rightarrow> TenantRecord" where
  "new_tenant cfg t = \<lparr>ten_tenant = t, ten_weight = tenant_weight cfg t, ten_admitted = 0,
     ten_queued = 0, ten_running = 0, ten_services_consumed = 0, ten_service_debt = 0\<rparr>"

definition tenant_of :: "Impl \<Rightarrow> TenantId \<Rightarrow> TenantRecord" where
  "tenant_of s t = umap_at (new_tenant (im_cfg s) t) (im_tenants s) t"

definition modify_tenant :: "TenantId \<Rightarrow> (TenantRecord \<Rightarrow> TenantRecord) \<Rightarrow> Impl \<Rightarrow> Impl" where
  "modify_tenant t f s = s\<lparr>im_tenants := AList.update t (f (tenant_of s t)) (im_tenants s)\<rparr>"

definition modify_tenant_present :: "TenantId \<Rightarrow> (TenantRecord \<Rightarrow> TenantRecord) \<Rightarrow> Impl \<Rightarrow> Impl" where
  \<comment> \<open>a write through \<open>tenants_.find(t)\<close>: nothing happens when the tenant is unknown\<close>
  "modify_tenant_present t f s = (case map_of (im_tenants s) t of
     None \<Rightarrow> s | Some r \<Rightarrow> s\<lparr>im_tenants := AList.update t (f r) (im_tenants s)\<rparr>)"

definition flow_at :: "Impl \<Rightarrow> FlowKey \<Rightarrow> Flow" where
  "flow_at s k = umap_at default_Flow (im_flows s) k"

definition modify_flow :: "FlowKey \<Rightarrow> (Flow \<Rightarrow> Flow) \<Rightarrow> Impl \<Rightarrow> Impl" where
  "modify_flow k f s = s\<lparr>im_flows := AList.update k (f (flow_at s k)) (im_flows s)\<rparr>"

definition modify_stats :: "(SchedulerStats \<Rightarrow> SchedulerStats) \<Rightarrow> Impl \<Rightarrow> Impl" where
  "modify_stats f s = s\<lparr>im_stats := f (im_stats s)\<rparr>"

definition fresh_id :: "Impl \<Rightarrow> u64 \<times> Impl" where
  \<comment> \<open>\<open>id_factory_.next<Tag>()\<close>\<close>
  "fresh_id s = (let (v, f) = next_id (im_id_factory s) in (v, s\<lparr>im_id_factory := f\<rparr>))"

section \<open>Events\<close>

definition emit_event :: "string \<Rightarrow> RequestId \<Rightarrow> AttemptId \<Rightarrow> WorkerId \<Rightarrow> BatchId \<Rightarrow> string \<Rightarrow> Impl \<Rightarrow> Impl" where
  "emit_event ty rid aid wid bid detail s =
     (let sq = im_event_seq s + 1;
          e = \<lparr>ev_sequence = sq, ev_epoch = im_epoch_value s, ev_type = ty, ev_request_id = rid,
               ev_attempt_id = aid, ev_worker_id = wid, ev_batch_id = bid,
               ev_timestamp_ns = im_clock_now s, ev_detail = detail, ev_reason_code = []\<rparr>;
          log = im_event_log s @ [e]
      in s\<lparr>im_event_seq := sq,
           im_event_log := (if length log > 65536 then tl log else log)\<rparr>)"

definition drain_events :: "Impl \<Rightarrow> SchedulerEvent list \<times> Impl" where
  "drain_events s = (im_event_log s, s\<lparr>im_event_log := []\<rparr>)"

definition set_event_handler :: "bool \<Rightarrow> Impl \<Rightarrow> Impl" where
  \<comment> \<open>the argument says whether the handler is callable; the handler itself is client code\<close>
  "set_event_handler h s = s\<lparr>im_event_stream_mode := h\<rparr>"

definition flush_events :: "Impl \<Rightarrow> SchedulerEvent list \<times> Impl" where
  \<comment> \<open>the events handed to the handler, in order, and the state with the log swapped out\<close>
  "flush_events s = (if \<not> im_event_stream_mode s then ([], s)
     else (im_event_log s, s\<lparr>im_event_log := []\<rparr>))"

section \<open>What each write leaves alone\<close>

lemma modify_req_frame [simp, frame]:
  "im_cfg (modify_req rid f s) = im_cfg s"
  "im_clock_now (modify_req rid f s) = im_clock_now s"
  "im_epoch_value (modify_req rid f s) = im_epoch_value s"
  "im_id_factory (modify_req rid f s) = im_id_factory s"
  "im_virtual_time (modify_req rid f s) = im_virtual_time s"
  "im_workers (modify_req rid f s) = im_workers s"
  "im_tenants (modify_req rid f s) = im_tenants s"
  "im_flows (modify_req rid f s) = im_flows s"
  "im_compat (modify_req rid f s) = im_compat s"
  "im_active_flows (modify_req rid f s) = im_active_flows s"
  "im_queued (modify_req rid f s) = im_queued s"
  "im_global_admitted (modify_req rid f s) = im_global_admitted s"
  "im_global_queued (modify_req rid f s) = im_global_queued s"
  "im_global_reserved_units (modify_req rid f s) = im_global_reserved_units s"
  "im_global_running_units (modify_req rid f s) = im_global_running_units s"
  "im_global_tokens (modify_req rid f s) = im_global_tokens s"
  "im_draining (modify_req rid f s) = im_draining s"
  "im_drain_reason (modify_req rid f s) = im_drain_reason s"
  "im_recovery_mode (modify_req rid f s) = im_recovery_mode s"
  "im_event_log (modify_req rid f s) = im_event_log s"
  "im_event_stream_mode (modify_req rid f s) = im_event_stream_mode s"
  "im_event_seq (modify_req rid f s) = im_event_seq s"
  "im_stats (modify_req rid f s) = im_stats s"
  by (simp_all add: modify_req_def)

lemma modify_worker_frame [simp, frame]:
  "im_cfg (modify_worker w g s) = im_cfg s"
  "im_clock_now (modify_worker w g s) = im_clock_now s"
  "im_epoch_value (modify_worker w g s) = im_epoch_value s"
  "im_id_factory (modify_worker w g s) = im_id_factory s"
  "im_virtual_time (modify_worker w g s) = im_virtual_time s"
  "im_requests (modify_worker w g s) = im_requests s"
  "im_tenants (modify_worker w g s) = im_tenants s"
  "im_flows (modify_worker w g s) = im_flows s"
  "im_compat (modify_worker w g s) = im_compat s"
  "im_active_flows (modify_worker w g s) = im_active_flows s"
  "im_queued (modify_worker w g s) = im_queued s"
  "im_global_admitted (modify_worker w g s) = im_global_admitted s"
  "im_global_queued (modify_worker w g s) = im_global_queued s"
  "im_global_reserved_units (modify_worker w g s) = im_global_reserved_units s"
  "im_global_running_units (modify_worker w g s) = im_global_running_units s"
  "im_global_tokens (modify_worker w g s) = im_global_tokens s"
  "im_draining (modify_worker w g s) = im_draining s"
  "im_drain_reason (modify_worker w g s) = im_drain_reason s"
  "im_recovery_mode (modify_worker w g s) = im_recovery_mode s"
  "im_event_log (modify_worker w g s) = im_event_log s"
  "im_event_stream_mode (modify_worker w g s) = im_event_stream_mode s"
  "im_event_seq (modify_worker w g s) = im_event_seq s"
  "im_stats (modify_worker w g s) = im_stats s"
  by (simp_all add: modify_worker_def)

lemma modify_tenant_frame [simp, frame]:
  "im_cfg (modify_tenant t h s) = im_cfg s"
  "im_clock_now (modify_tenant t h s) = im_clock_now s"
  "im_epoch_value (modify_tenant t h s) = im_epoch_value s"
  "im_id_factory (modify_tenant t h s) = im_id_factory s"
  "im_virtual_time (modify_tenant t h s) = im_virtual_time s"
  "im_requests (modify_tenant t h s) = im_requests s"
  "im_workers (modify_tenant t h s) = im_workers s"
  "im_flows (modify_tenant t h s) = im_flows s"
  "im_compat (modify_tenant t h s) = im_compat s"
  "im_active_flows (modify_tenant t h s) = im_active_flows s"
  "im_queued (modify_tenant t h s) = im_queued s"
  "im_global_admitted (modify_tenant t h s) = im_global_admitted s"
  "im_global_queued (modify_tenant t h s) = im_global_queued s"
  "im_global_reserved_units (modify_tenant t h s) = im_global_reserved_units s"
  "im_global_running_units (modify_tenant t h s) = im_global_running_units s"
  "im_global_tokens (modify_tenant t h s) = im_global_tokens s"
  "im_draining (modify_tenant t h s) = im_draining s"
  "im_drain_reason (modify_tenant t h s) = im_drain_reason s"
  "im_recovery_mode (modify_tenant t h s) = im_recovery_mode s"
  "im_event_log (modify_tenant t h s) = im_event_log s"
  "im_event_stream_mode (modify_tenant t h s) = im_event_stream_mode s"
  "im_event_seq (modify_tenant t h s) = im_event_seq s"
  "im_stats (modify_tenant t h s) = im_stats s"
  by (simp_all add: modify_tenant_def)

lemma modify_tenant_present_frame [simp, frame]:
  "im_cfg (modify_tenant_present t h s) = im_cfg s"
  "im_clock_now (modify_tenant_present t h s) = im_clock_now s"
  "im_epoch_value (modify_tenant_present t h s) = im_epoch_value s"
  "im_id_factory (modify_tenant_present t h s) = im_id_factory s"
  "im_virtual_time (modify_tenant_present t h s) = im_virtual_time s"
  "im_requests (modify_tenant_present t h s) = im_requests s"
  "im_workers (modify_tenant_present t h s) = im_workers s"
  "im_flows (modify_tenant_present t h s) = im_flows s"
  "im_compat (modify_tenant_present t h s) = im_compat s"
  "im_active_flows (modify_tenant_present t h s) = im_active_flows s"
  "im_queued (modify_tenant_present t h s) = im_queued s"
  "im_global_admitted (modify_tenant_present t h s) = im_global_admitted s"
  "im_global_queued (modify_tenant_present t h s) = im_global_queued s"
  "im_global_reserved_units (modify_tenant_present t h s) = im_global_reserved_units s"
  "im_global_running_units (modify_tenant_present t h s) = im_global_running_units s"
  "im_global_tokens (modify_tenant_present t h s) = im_global_tokens s"
  "im_draining (modify_tenant_present t h s) = im_draining s"
  "im_drain_reason (modify_tenant_present t h s) = im_drain_reason s"
  "im_recovery_mode (modify_tenant_present t h s) = im_recovery_mode s"
  "im_event_log (modify_tenant_present t h s) = im_event_log s"
  "im_event_stream_mode (modify_tenant_present t h s) = im_event_stream_mode s"
  "im_event_seq (modify_tenant_present t h s) = im_event_seq s"
  "im_stats (modify_tenant_present t h s) = im_stats s"
  by (simp_all add: modify_tenant_present_def split: option.split)

lemma modify_flow_frame [simp, frame]:
  "im_cfg (modify_flow k fl s) = im_cfg s"
  "im_clock_now (modify_flow k fl s) = im_clock_now s"
  "im_epoch_value (modify_flow k fl s) = im_epoch_value s"
  "im_id_factory (modify_flow k fl s) = im_id_factory s"
  "im_virtual_time (modify_flow k fl s) = im_virtual_time s"
  "im_requests (modify_flow k fl s) = im_requests s"
  "im_workers (modify_flow k fl s) = im_workers s"
  "im_tenants (modify_flow k fl s) = im_tenants s"
  "im_compat (modify_flow k fl s) = im_compat s"
  "im_active_flows (modify_flow k fl s) = im_active_flows s"
  "im_queued (modify_flow k fl s) = im_queued s"
  "im_global_admitted (modify_flow k fl s) = im_global_admitted s"
  "im_global_queued (modify_flow k fl s) = im_global_queued s"
  "im_global_reserved_units (modify_flow k fl s) = im_global_reserved_units s"
  "im_global_running_units (modify_flow k fl s) = im_global_running_units s"
  "im_global_tokens (modify_flow k fl s) = im_global_tokens s"
  "im_draining (modify_flow k fl s) = im_draining s"
  "im_drain_reason (modify_flow k fl s) = im_drain_reason s"
  "im_recovery_mode (modify_flow k fl s) = im_recovery_mode s"
  "im_event_log (modify_flow k fl s) = im_event_log s"
  "im_event_stream_mode (modify_flow k fl s) = im_event_stream_mode s"
  "im_event_seq (modify_flow k fl s) = im_event_seq s"
  "im_stats (modify_flow k fl s) = im_stats s"
  by (simp_all add: modify_flow_def)

lemma modify_stats_frame [simp, frame]:
  "im_cfg (modify_stats st s) = im_cfg s"
  "im_clock_now (modify_stats st s) = im_clock_now s"
  "im_epoch_value (modify_stats st s) = im_epoch_value s"
  "im_id_factory (modify_stats st s) = im_id_factory s"
  "im_virtual_time (modify_stats st s) = im_virtual_time s"
  "im_requests (modify_stats st s) = im_requests s"
  "im_workers (modify_stats st s) = im_workers s"
  "im_tenants (modify_stats st s) = im_tenants s"
  "im_flows (modify_stats st s) = im_flows s"
  "im_compat (modify_stats st s) = im_compat s"
  "im_active_flows (modify_stats st s) = im_active_flows s"
  "im_queued (modify_stats st s) = im_queued s"
  "im_global_admitted (modify_stats st s) = im_global_admitted s"
  "im_global_queued (modify_stats st s) = im_global_queued s"
  "im_global_reserved_units (modify_stats st s) = im_global_reserved_units s"
  "im_global_running_units (modify_stats st s) = im_global_running_units s"
  "im_global_tokens (modify_stats st s) = im_global_tokens s"
  "im_draining (modify_stats st s) = im_draining s"
  "im_drain_reason (modify_stats st s) = im_drain_reason s"
  "im_recovery_mode (modify_stats st s) = im_recovery_mode s"
  "im_event_log (modify_stats st s) = im_event_log s"
  "im_event_stream_mode (modify_stats st s) = im_event_stream_mode s"
  "im_event_seq (modify_stats st s) = im_event_seq s"
  by (simp_all add: modify_stats_def)

lemma emit_event_frame [simp, frame]:
  "im_cfg (emit_event ty rid aid wid bid d s) = im_cfg s"
  "im_clock_now (emit_event ty rid aid wid bid d s) = im_clock_now s"
  "im_epoch_value (emit_event ty rid aid wid bid d s) = im_epoch_value s"
  "im_id_factory (emit_event ty rid aid wid bid d s) = im_id_factory s"
  "im_virtual_time (emit_event ty rid aid wid bid d s) = im_virtual_time s"
  "im_requests (emit_event ty rid aid wid bid d s) = im_requests s"
  "im_workers (emit_event ty rid aid wid bid d s) = im_workers s"
  "im_tenants (emit_event ty rid aid wid bid d s) = im_tenants s"
  "im_flows (emit_event ty rid aid wid bid d s) = im_flows s"
  "im_compat (emit_event ty rid aid wid bid d s) = im_compat s"
  "im_active_flows (emit_event ty rid aid wid bid d s) = im_active_flows s"
  "im_queued (emit_event ty rid aid wid bid d s) = im_queued s"
  "im_global_admitted (emit_event ty rid aid wid bid d s) = im_global_admitted s"
  "im_global_queued (emit_event ty rid aid wid bid d s) = im_global_queued s"
  "im_global_reserved_units (emit_event ty rid aid wid bid d s) = im_global_reserved_units s"
  "im_global_running_units (emit_event ty rid aid wid bid d s) = im_global_running_units s"
  "im_global_tokens (emit_event ty rid aid wid bid d s) = im_global_tokens s"
  "im_draining (emit_event ty rid aid wid bid d s) = im_draining s"
  "im_drain_reason (emit_event ty rid aid wid bid d s) = im_drain_reason s"
  "im_recovery_mode (emit_event ty rid aid wid bid d s) = im_recovery_mode s"
  "im_event_stream_mode (emit_event ty rid aid wid bid d s) = im_event_stream_mode s"
  "im_stats (emit_event ty rid aid wid bid d s) = im_stats s"
  by (simp_all add: emit_event_def Let_def)

lemma fresh_id_frame [simp, frame]:
  "im_cfg (snd (fresh_id s)) = im_cfg s"
  "im_clock_now (snd (fresh_id s)) = im_clock_now s"
  "im_epoch_value (snd (fresh_id s)) = im_epoch_value s"
  "im_virtual_time (snd (fresh_id s)) = im_virtual_time s"
  "im_requests (snd (fresh_id s)) = im_requests s"
  "im_workers (snd (fresh_id s)) = im_workers s"
  "im_tenants (snd (fresh_id s)) = im_tenants s"
  "im_flows (snd (fresh_id s)) = im_flows s"
  "im_compat (snd (fresh_id s)) = im_compat s"
  "im_active_flows (snd (fresh_id s)) = im_active_flows s"
  "im_queued (snd (fresh_id s)) = im_queued s"
  "im_global_admitted (snd (fresh_id s)) = im_global_admitted s"
  "im_global_queued (snd (fresh_id s)) = im_global_queued s"
  "im_global_reserved_units (snd (fresh_id s)) = im_global_reserved_units s"
  "im_global_running_units (snd (fresh_id s)) = im_global_running_units s"
  "im_global_tokens (snd (fresh_id s)) = im_global_tokens s"
  "im_draining (snd (fresh_id s)) = im_draining s"
  "im_drain_reason (snd (fresh_id s)) = im_drain_reason s"
  "im_recovery_mode (snd (fresh_id s)) = im_recovery_mode s"
  "im_event_log (snd (fresh_id s)) = im_event_log s"
  "im_event_stream_mode (snd (fresh_id s)) = im_event_stream_mode s"
  "im_event_seq (snd (fresh_id s)) = im_event_seq s"
  "im_stats (snd (fresh_id s)) = im_stats s"
  by (simp_all add: fresh_id_def split_beta Let_def)

lemma modify_req_requests [simp]:
  "im_requests (modify_req rid f s) = AList.update rid (f (req_at s rid)) (im_requests s)"
  by (simp add: modify_req_def)

lemma modify_worker_workers [simp]:
  "im_workers (modify_worker w g s) = AList.update w (g (worker_at s w)) (im_workers s)"
  by (simp add: modify_worker_def)

lemma modify_tenant_tenants [simp]:
  "im_tenants (modify_tenant t h s) = AList.update t (h (tenant_of s t)) (im_tenants s)"
  by (simp add: modify_tenant_def)

lemma modify_flow_flows [simp]:
  "im_flows (modify_flow k fl s) = AList.update k (fl (flow_at s k)) (im_flows s)"
  by (simp add: modify_flow_def)

lemma modify_stats_stats [simp]: "im_stats (modify_stats st s) = st (im_stats s)"
  by (simp add: modify_stats_def)

lemma fresh_id_simps [simp]:
  "fst (fresh_id s) = fst (next_id (im_id_factory s))"
  "im_id_factory (snd (fresh_id s)) = snd (next_id (im_id_factory s))"
  by (simp_all add: fresh_id_def split_beta Let_def)

lemma req_at_cong: "im_requests s = im_requests s' \<Longrightarrow> req_at s rid = req_at s' rid"
  by (simp add: req_at_def)

lemma worker_at_cong: "im_workers s = im_workers s' \<Longrightarrow> worker_at s w = worker_at s' w"
  by (simp add: worker_at_def)

lemma flow_at_cong: "im_flows s = im_flows s' \<Longrightarrow> flow_at s k = flow_at s' k"
  by (simp add: flow_at_def)

lemma req_at_Some [simp]: "find_req s rid = Some r \<Longrightarrow> req_at s rid = r"
  by (simp add: req_at_def)

lemma worker_at_Some [simp]: "find_wrk s w = Some r \<Longrightarrow> worker_at s w = r"
  by (simp add: worker_at_def)

lemma req_at_modify_req [simp]:
  "req_at (modify_req rid f s) rid' = (if rid' = rid then f (req_at s rid) else req_at s rid')"
  by (simp add: req_at_def)

lemma worker_at_modify_worker [simp]:
  "worker_at (modify_worker w g s) w' = (if w' = w then g (worker_at s w) else worker_at s w')"
  by (simp add: worker_at_def)

lemma flow_at_modify_flow [simp]:
  "flow_at (modify_flow k fl s) k' = (if k' = k then fl (flow_at s k) else flow_at s k')"
  by (simp add: flow_at_def)

lemma accessor_frame [simp, frame]:
  "req_at (modify_worker w g s) x = req_at s x"
  "flow_at (modify_worker w g s) z = flow_at s z"
  "req_at (modify_tenant t h s) x = req_at s x"
  "worker_at (modify_tenant t h s) y = worker_at s y"
  "flow_at (modify_tenant t h s) z = flow_at s z"
  "req_at (modify_tenant_present t h s) x = req_at s x"
  "worker_at (modify_tenant_present t h s) y = worker_at s y"
  "flow_at (modify_tenant_present t h s) z = flow_at s z"
  "req_at (modify_flow k fl s) x = req_at s x"
  "worker_at (modify_flow k fl s) y = worker_at s y"
  "req_at (modify_stats st s) x = req_at s x"
  "worker_at (modify_stats st s) y = worker_at s y"
  "flow_at (modify_stats st s) z = flow_at s z"
  "req_at (emit_event ty rid aid wid bid d s) x = req_at s x"
  "worker_at (emit_event ty rid aid wid bid d s) y = worker_at s y"
  "flow_at (emit_event ty rid aid wid bid d s) z = flow_at s z"
  "req_at (snd (fresh_id s)) x = req_at s x"
  "worker_at (snd (fresh_id s)) y = worker_at s y"
  "flow_at (snd (fresh_id s)) z = flow_at s z"
  "worker_at (modify_req r f s) y = worker_at s y"
  "flow_at (modify_req r f s) z = flow_at s z"
  by (simp_all add: req_at_def worker_at_def flow_at_def)

lemma tenant_of_frame [simp, frame]:
  "tenant_of (modify_req r f s) u = tenant_of s u"
  "tenant_of (modify_worker w g s) u = tenant_of s u"
  "tenant_of (modify_flow k fl s) u = tenant_of s u"
  "tenant_of (modify_stats st s) u = tenant_of s u"
  "tenant_of (emit_event ty rid aid wid bid d s) u = tenant_of s u"
  "tenant_of (snd (fresh_id s)) u = tenant_of s u"
  by (simp_all add: tenant_of_def)

lemma tenant_of_modify_tenant [simp]:
  "tenant_of (modify_tenant t h s) u = (if u = t then h (tenant_of s t) else tenant_of s u)"
  by (simp add: tenant_of_def)

lemma dec_pos_nonneg: "0 \<le> x \<Longrightarrow> 0 \<le> dec_pos x"
  by (simp add: dec_pos_def)

lemma map_last_eq: "map_last f xs = (if xs = [] then [] else butlast xs @ [f (last xs)])"
  by (induction f xs rule: map_last.induct) auto

lemma map_last_Nil_iff [simp]: "map_last f xs = [] \<longleftrightarrow> xs = []"
  by (simp add: map_last_eq)

lemma length_map_last [simp]: "length (map_last f xs) = length xs"
  by (simp add: map_last_eq)

lemma last_map_last [simp]: "xs \<noteq> [] \<Longrightarrow> last (map_last f xs) = f (last xs)"
  by (simp add: map_last_eq)

lemma butlast_map_last [simp]: "butlast (map_last f xs) = butlast xs"
  by (simp add: map_last_eq)

lemma req_at_update_frame [simp, frame]:
  "req_at (im_cfg_update u_cfg s) x = req_at s x"
  "req_at (im_clock_now_update u_clock_now s) x = req_at s x"
  "req_at (im_epoch_value_update u_epoch_value s) x = req_at s x"
  "req_at (im_id_factory_update u_id_factory s) x = req_at s x"
  "req_at (im_virtual_time_update u_virtual_time s) x = req_at s x"
  "req_at (im_workers_update u_workers s) x = req_at s x"
  "req_at (im_tenants_update u_tenants s) x = req_at s x"
  "req_at (im_flows_update u_flows s) x = req_at s x"
  "req_at (im_compat_update u_compat s) x = req_at s x"
  "req_at (im_active_flows_update u_active_flows s) x = req_at s x"
  "req_at (im_queued_update u_queued s) x = req_at s x"
  "req_at (im_global_admitted_update u_global_admitted s) x = req_at s x"
  "req_at (im_global_queued_update u_global_queued s) x = req_at s x"
  "req_at (im_global_reserved_units_update u_global_reserved_units s) x = req_at s x"
  "req_at (im_global_running_units_update u_global_running_units s) x = req_at s x"
  "req_at (im_global_tokens_update u_global_tokens s) x = req_at s x"
  "req_at (im_draining_update u_draining s) x = req_at s x"
  "req_at (im_drain_reason_update u_drain_reason s) x = req_at s x"
  "req_at (im_recovery_mode_update u_recovery_mode s) x = req_at s x"
  "req_at (im_event_log_update u_event_log s) x = req_at s x"
  "req_at (im_event_stream_mode_update u_event_stream_mode s) x = req_at s x"
  "req_at (im_event_seq_update u_event_seq s) x = req_at s x"
  "req_at (im_stats_update u_stats s) x = req_at s x"
  by (simp_all add: req_at_def)

lemma worker_at_update_frame [simp, frame]:
  "worker_at (im_cfg_update u_cfg s) y = worker_at s y"
  "worker_at (im_clock_now_update u_clock_now s) y = worker_at s y"
  "worker_at (im_epoch_value_update u_epoch_value s) y = worker_at s y"
  "worker_at (im_id_factory_update u_id_factory s) y = worker_at s y"
  "worker_at (im_virtual_time_update u_virtual_time s) y = worker_at s y"
  "worker_at (im_requests_update u_requests s) y = worker_at s y"
  "worker_at (im_tenants_update u_tenants s) y = worker_at s y"
  "worker_at (im_flows_update u_flows s) y = worker_at s y"
  "worker_at (im_compat_update u_compat s) y = worker_at s y"
  "worker_at (im_active_flows_update u_active_flows s) y = worker_at s y"
  "worker_at (im_queued_update u_queued s) y = worker_at s y"
  "worker_at (im_global_admitted_update u_global_admitted s) y = worker_at s y"
  "worker_at (im_global_queued_update u_global_queued s) y = worker_at s y"
  "worker_at (im_global_reserved_units_update u_global_reserved_units s) y = worker_at s y"
  "worker_at (im_global_running_units_update u_global_running_units s) y = worker_at s y"
  "worker_at (im_global_tokens_update u_global_tokens s) y = worker_at s y"
  "worker_at (im_draining_update u_draining s) y = worker_at s y"
  "worker_at (im_drain_reason_update u_drain_reason s) y = worker_at s y"
  "worker_at (im_recovery_mode_update u_recovery_mode s) y = worker_at s y"
  "worker_at (im_event_log_update u_event_log s) y = worker_at s y"
  "worker_at (im_event_stream_mode_update u_event_stream_mode s) y = worker_at s y"
  "worker_at (im_event_seq_update u_event_seq s) y = worker_at s y"
  "worker_at (im_stats_update u_stats s) y = worker_at s y"
  by (simp_all add: worker_at_def)

lemma flow_at_update_frame [simp, frame]:
  "flow_at (im_cfg_update u_cfg s) z = flow_at s z"
  "flow_at (im_clock_now_update u_clock_now s) z = flow_at s z"
  "flow_at (im_epoch_value_update u_epoch_value s) z = flow_at s z"
  "flow_at (im_id_factory_update u_id_factory s) z = flow_at s z"
  "flow_at (im_virtual_time_update u_virtual_time s) z = flow_at s z"
  "flow_at (im_requests_update u_requests s) z = flow_at s z"
  "flow_at (im_workers_update u_workers s) z = flow_at s z"
  "flow_at (im_tenants_update u_tenants s) z = flow_at s z"
  "flow_at (im_compat_update u_compat s) z = flow_at s z"
  "flow_at (im_active_flows_update u_active_flows s) z = flow_at s z"
  "flow_at (im_queued_update u_queued s) z = flow_at s z"
  "flow_at (im_global_admitted_update u_global_admitted s) z = flow_at s z"
  "flow_at (im_global_queued_update u_global_queued s) z = flow_at s z"
  "flow_at (im_global_reserved_units_update u_global_reserved_units s) z = flow_at s z"
  "flow_at (im_global_running_units_update u_global_running_units s) z = flow_at s z"
  "flow_at (im_global_tokens_update u_global_tokens s) z = flow_at s z"
  "flow_at (im_draining_update u_draining s) z = flow_at s z"
  "flow_at (im_drain_reason_update u_drain_reason s) z = flow_at s z"
  "flow_at (im_recovery_mode_update u_recovery_mode s) z = flow_at s z"
  "flow_at (im_event_log_update u_event_log s) z = flow_at s z"
  "flow_at (im_event_stream_mode_update u_event_stream_mode s) z = flow_at s z"
  "flow_at (im_event_seq_update u_event_seq s) z = flow_at s z"
  "flow_at (im_stats_update u_stats s) z = flow_at s z"
  by (simp_all add: flow_at_def)

lemma tenant_of_update_frame [simp, frame]:
  "tenant_of (im_clock_now_update u_clock_now s) t = tenant_of s t"
  "tenant_of (im_epoch_value_update u_epoch_value s) t = tenant_of s t"
  "tenant_of (im_id_factory_update u_id_factory s) t = tenant_of s t"
  "tenant_of (im_virtual_time_update u_virtual_time s) t = tenant_of s t"
  "tenant_of (im_requests_update u_requests s) t = tenant_of s t"
  "tenant_of (im_workers_update u_workers s) t = tenant_of s t"
  "tenant_of (im_flows_update u_flows s) t = tenant_of s t"
  "tenant_of (im_compat_update u_compat s) t = tenant_of s t"
  "tenant_of (im_active_flows_update u_active_flows s) t = tenant_of s t"
  "tenant_of (im_queued_update u_queued s) t = tenant_of s t"
  "tenant_of (im_global_admitted_update u_global_admitted s) t = tenant_of s t"
  "tenant_of (im_global_queued_update u_global_queued s) t = tenant_of s t"
  "tenant_of (im_global_reserved_units_update u_global_reserved_units s) t = tenant_of s t"
  "tenant_of (im_global_running_units_update u_global_running_units s) t = tenant_of s t"
  "tenant_of (im_global_tokens_update u_global_tokens s) t = tenant_of s t"
  "tenant_of (im_draining_update u_draining s) t = tenant_of s t"
  "tenant_of (im_drain_reason_update u_drain_reason s) t = tenant_of s t"
  "tenant_of (im_recovery_mode_update u_recovery_mode s) t = tenant_of s t"
  "tenant_of (im_event_log_update u_event_log s) t = tenant_of s t"
  "tenant_of (im_event_stream_mode_update u_event_stream_mode s) t = tenant_of s t"
  "tenant_of (im_event_seq_update u_event_seq s) t = tenant_of s t"
  "tenant_of (im_stats_update u_stats s) t = tenant_of s t"
  by (simp_all add: tenant_of_def)

end
