(* ===== verification/Admission.thy ===== *)
theory Admission
  imports Sched_State
begin

text \<open>
  Admission control: \<open>validate_spec\<close>, \<open>compatible\<close> and \<open>make_admission\<close> of
  \<open>Scheduler::Impl\<close>, each branch in the order of the source.
\<close>

definition validate_spec :: "RequestSpec \<Rightarrow> unit result" where
  "validate_spec sp =
     (if \<not> valid_id (spec_tenant sp) then result_err (make_error EC_InvalidArgument ''tenant id required'')
      else if \<not> valid_id (spec_model sp) then result_err (make_error EC_InvalidArgument ''model identity required'')
      else if tok_input (spec_tokens sp) < 0 \<or> tok_output (spec_tokens sp) < 0 \<or> tok_decoded (spec_tokens sp) < 0
        then result_err (make_error EC_InvalidArgument ''negative token estimate'')
      else if dlt (dem_cost_units (spec_demand sp)) (Fin 0 0)
        then result_err (make_error EC_InvalidArgument ''negative cost units'')
      else if spec_estimated_memory_bytes sp < 0
        then result_err (make_error EC_InvalidArgument ''negative memory estimate'')
      else if spec_max_batch_size sp < 0
        then result_err (make_error EC_InvalidArgument ''negative max batch size'')
      else result_ok ())"

definition compatible :: "RequestSpec \<Rightarrow> WorkerCapability \<Rightarrow> bool" where
  "compatible sp cap =
     (if cap_total_capacity_units cap \<le> 0 then False
      else if cap_models cap \<noteq> [] \<and> \<not> list_ex (\<lambda>m. m = spec_model sp) (cap_models cap) then False
      else if cap_revisions cap \<noteq> [] \<and> \<not> list_ex (\<lambda>m. m = spec_revision sp) (cap_revisions cap) then False
      else if valid_id (spec_adapter sp) \<and> cap_adapters cap \<noteq> [] \<and>
              \<not> list_ex (\<lambda>m. m = spec_adapter sp) (cap_adapters cap) then False
      else if cap_phases cap \<noteq> [] \<and> \<not> list_ex (\<lambda>p. p = spec_phase sp) (cap_phases cap) then False
      else True)"

definition deadline_feasibility :: "SchedulerConfig \<Rightarrow> RequestSpec \<Rightarrow> ClockTime \<Rightarrow> (AdmissionDecision \<times> string) option" where
  \<comment> \<open>the early returns of the block guarded by \<open>enforce_deadline_feasibility\<close>\<close>
  "deadline_feasibility cfg sp now =
     (if lim_enforce_deadline_feasibility (cfg_admission cfg) \<and> dl_valid (spec_deadline sp) then
        (let rem = remaining (spec_deadline sp) now;
             cost = ceil_cost (dem_cost_units (spec_demand sp))
         in if rem < 0 then Some (AD_Reject, ''deadline_impossible'')
            else if rem > 0 \<and> cost > rem then
              (if cfg_strict_deadline_rejection cfg then Some (AD_Reject, ''deadline_infeasible'')
               else Some (AD_Defer, ''deadline_infeasible''))
            else None)
      else None)"

definition make_admission :: "Impl \<Rightarrow> RequestSpec \<Rightarrow> ClockTime \<Rightarrow> AdmissionDecision \<times> string" where
  "make_admission s sp now =
     (let cfg = im_cfg s; a = cfg_admission cfg; it = map_of (im_tenants s) (spec_tenant sp) in
      if im_draining s then (AD_Reject, ''scheduler_draining'')
      else if im_recovery_mode s = 1 then (AD_Reject, ''recovering'')
      else if dl_valid (spec_deadline sp) \<and> expired (spec_deadline sp) now
        then (AD_Reject, ''deadline_expired_at_submit'')
      else case deadline_feasibility cfg sp now of Some r \<Rightarrow> r | None \<Rightarrow>
      if im_global_admitted s \<ge> lim_max_global_admitted a then (AD_Defer, ''global_admission_saturated'')
      else if im_global_queued s \<ge> lim_max_global_queued a then (AD_Defer, ''global_queue_saturated'')
      else if lim_max_global_token_budget a > 0 \<and>
              im_global_tokens s + tok_total (spec_tokens sp) > lim_max_global_token_budget a
        then (AD_Defer, ''token_budget_exhausted'')
      else if (case it of Some t \<Rightarrow> ten_admitted t \<ge> lim_default_tenant_concurrency a | None \<Rightarrow> False)
        then (AD_Defer, ''tenant_concurrency_saturated'')
      else if (case it of Some t \<Rightarrow> ten_queued t \<ge> lim_default_tenant_queue_depth a | None \<Rightarrow> False)
        then (AD_Defer, ''tenant_queue_depth_saturated'')
      else if im_workers s = [] then (AD_Admit, ''admitted'')
      else if list_ex (\<lambda>(w, wr). compatible sp (reg_capability (wk_registration wr))) (im_workers s)
        then (AD_Admit, ''admitted'')
      else (AD_Defer, ''no_compatible_worker''))"

section \<open>What an admission means\<close>

lemma make_admission_admit:
  assumes "make_admission s sp now = (AD_Admit, code)"
  shows "\<not> im_draining s" and "im_recovery_mode s \<noteq> 1"
    and "\<not> (dl_valid (spec_deadline sp) \<and> expired (spec_deadline sp) now)"
    and "im_global_admitted s < lim_max_global_admitted (cfg_admission (im_cfg s))"
    and "im_global_queued s < lim_max_global_queued (cfg_admission (im_cfg s))"
    and "map_of (im_tenants s) (spec_tenant sp) = Some t \<Longrightarrow>
      ten_admitted t < lim_default_tenant_concurrency (cfg_admission (im_cfg s)) \<and>
      ten_queued t < lim_default_tenant_queue_depth (cfg_admission (im_cfg s))"
    and "code = ''admitted''"
  using assms
  by (auto simp: make_admission_def Let_def deadline_feasibility_def split: if_splits option.splits)

lemma validate_spec_error: "validate_spec sp = Inl e \<Longrightarrow> err_code e = EC_InvalidArgument"
  by (auto simp: validate_spec_def result_err_def result_ok_def make_error_def split: if_splits)

end
