(* ===== verification/Ready_Queue.thy ===== *)
theory Ready_Queue
  imports Sched_State
begin

text \<open>
  Queueing and weighted-fair selection of \<open>Scheduler::Impl\<close>: the per-flow priority queue,
  \<open>enqueue_request\<close>, \<open>dequeue_request\<close>, \<open>expire_request\<close>, \<open>expire_scan\<close>,
  \<open>effective_finish\<close>, \<open>pick_seed\<close> and \<open>account_flow\<close>. A request is named by its
  key in \<open>requests_\<close>. The loop of \<open>pick_seed\<close> that pops stale entries is \<open>purge\<close>,
  which works on the popped-down queue and is written back to the flow once.
\<close>

section \<open>The priority queue of a flow\<close>

definition pq_push :: "ReadyEntry \<Rightarrow> ReadyEntry list \<Rightarrow> ReadyEntry list" where
  "pq_push = insert_by (\<lambda>a b. ready_less b a)"

section \<open>Enqueue, dequeue, expire\<close>

definition ready_slack :: "RequestSpec \<Rightarrow> ClockTime \<Rightarrow> int" where
  "ready_slack sp now = (if dl_valid (spec_deadline sp) then remaining (spec_deadline sp) now else int64_max)"

definition ready_entry :: "RequestRecord \<Rightarrow> ClockTime \<Rightarrow> ReadyEntry" where
  "ready_entry r now = ReadyEntry (rec_request_id r) (rec_generation r)
     (ready_slack (rec_spec r) now) (priority_class_int (spec_priority (rec_spec r)))
     (rec_request_id r)"

definition enqueue_flow :: "RequestRecord \<Rightarrow> Impl \<Rightarrow> Impl" where
  \<comment> \<open>the part of \<open>enqueue_request\<close> that touches \<open>flows_\<close> and \<open>active_flows_\<close>\<close>
  "enqueue_flow r s =
     (let k = flow_key (rec_spec r);
          f = (flow_at s k)\<lparr>fl_weight := flow_weight (im_cfg s) (rec_spec r)\<rparr>;
          e = ready_entry r (im_clock_now s);
          f1 = (if fl_pending f = [] then
                  f\<lparr>fl_virtual_finish := dmax (fl_virtual_finish f) (im_virtual_time s)\<rparr> else f);
          s1 = (if fl_pending f = [] then
                  s\<lparr>im_active_flows := oset_insert k (im_active_flows s)\<rparr> else s)
      in modify_flow k (\<lambda>_. f1\<lparr>fl_pending := pq_push e (fl_pending f1)\<rparr>) s1)"

definition enqueue_request :: "RequestId \<Rightarrow> Impl \<Rightarrow> Impl" where
  "enqueue_request rid s =
     (let r = req_at s rid;
          ck = compat_key (im_cfg s) (rec_spec r);
          s1 = enqueue_flow r s;
          s2 = s1\<lparr>im_queued := uset_insert (rec_request_id r) (im_queued s1)\<rparr>;
          s3 = s2\<lparr>im_compat := AList.update ck
                    (uset_insert (rec_request_id r) (umap_at [] (im_compat s2) ck)) (im_compat s2)\<rparr>;
          s4 = modify_req rid (\<lambda>r. r\<lparr>rec_state := RS_Queued, rec_queued_at := im_clock_now s\<rparr>) s3;
          s5 = s4\<lparr>im_global_queued := im_global_queued s4 + 1\<rparr>
      in modify_tenant (spec_tenant (rec_spec r)) (\<lambda>t. t\<lparr>ten_queued := ten_queued t + 1\<rparr>) s5)"

definition compat_erase :: "CompatKey \<Rightarrow> RequestId \<Rightarrow> (CompatKey, RequestId list) umap \<Rightarrow> (CompatKey, RequestId list) umap" where
  "compat_erase k rid m = (case map_of m k of
     None \<Rightarrow> m
   | Some ids \<Rightarrow> (let ids' = uset_erase rid ids
       in if ids' = [] then AList.delete k m else AList.update k ids' m))"

definition dequeue_request :: "RequestId \<Rightarrow> Impl \<Rightarrow> Impl" where
  "dequeue_request rid s =
     (let r = req_at s rid;
          s1 = (if rec_request_id r \<in> set (im_queued s) then
                  s\<lparr>im_queued := uset_erase (rec_request_id r) (im_queued s),
                    im_global_queued := im_global_queued s - 1\<rparr>
                else s);
          s2 = s1\<lparr>im_compat := compat_erase (compat_key (im_cfg s) (rec_spec r)) (rec_request_id r) (im_compat s1)\<rparr>
      in modify_tenant_present (spec_tenant (rec_spec r)) (\<lambda>t. t\<lparr>ten_queued := dec_pos (ten_queued t)\<rparr>) s2)"

definition expire_request :: "RequestId \<Rightarrow> Impl \<Rightarrow> Impl" where
  "expire_request rid s =
     (if rec_state (req_at s rid) \<noteq> RS_Queued then s
      else let
          s1 = dequeue_request rid s;
          s2 = modify_req rid (\<lambda>r. r\<lparr>rec_state := RS_Expired, rec_terminal_reason := ''deadline_expired'',
                 rec_history := map_last (\<lambda>a. a\<lparr>att_state := AS_Expired\<rparr>) (rec_history r)\<rparr>) s1;
          s3 = s2\<lparr>im_global_admitted := dec_pos (im_global_admitted s2)\<rparr>;
          r = req_at s3 rid;
          s4 = modify_tenant (spec_tenant (rec_spec r)) (\<lambda>t. t\<lparr>ten_admitted := dec_pos (ten_admitted t)\<rparr>) s3;
          s5 = modify_stats (\<lambda>st. st\<lparr>st_requests_expired := st_requests_expired st + 1\<rparr>) s4
        in if bat_max_wait (cfg_batch (im_cfg s)) \<ge> 0 \<and> dl_valid (spec_deadline (rec_spec r))
           then emit_event ''expired'' (rec_request_id r) (rec_current_attempt r) invalid_id invalid_id ''deadline_expired'' s5
           else s5)"

definition expire_due :: "Impl \<Rightarrow> ClockTime \<Rightarrow> RequestId \<Rightarrow> bool" where
  "expire_due s now rid = (case find_req s rid of
     None \<Rightarrow> False
   | Some r \<Rightarrow> rec_state r = RS_Queued \<and> dl_valid (spec_deadline (rec_spec r)) \<and>
              expired (spec_deadline (rec_spec r)) now)"

definition expire_scan :: "ClockTime \<Rightarrow> Impl \<Rightarrow> Impl" where
  "expire_scan now s = fold (\<lambda>rid s. case find_req s rid of None \<Rightarrow> s | Some _ \<Rightarrow> expire_request rid s)
     (filter (expire_due s now) (im_queued s)) s"

section \<open>Weighted fair selection\<close>

definition effective_finish :: "SchedulerConfig \<Rightarrow> Flow \<Rightarrow> RequestRecord \<Rightarrow> ClockTime \<Rightarrow> double" where
  "effective_finish cfg f r now =
     (let pol = cfg_scheduling cfg; v = fl_virtual_finish f in
      if pol_deadline_boost_enabled pol then
        (let slack = (if dl_valid (spec_deadline (rec_spec r)) then remaining (spec_deadline (rec_spec r)) now else -1)
         in if 0 \<le> slack \<and> slack \<le> pol_deadline_boost_threshold_ms pol
            then ddiv v (pol_deadline_boost_max pol) else v)
      else v)"

definition entry_stale :: "Impl \<Rightarrow> ReadyEntry \<Rightarrow> bool" where
  "entry_stale s e = (case find_req s (re_id e) of
     None \<Rightarrow> True
   | Some r \<Rightarrow> re_id e \<notin> set (im_queued s) \<or> rec_generation r \<noteq> re_generation e)"

fun purge :: "ClockTime \<Rightarrow> ReadyEntry list \<Rightarrow> Impl \<Rightarrow> ReadyEntry list \<times> Impl" where
  "purge now [] s = ([], s)"
| "purge now (e # q) s =
     (if entry_stale s e then purge now q s
      else let d = spec_deadline (rec_spec (req_at s (re_id e))) in
        if dl_valid d \<and> expired d now then purge now q (expire_request (re_id e) s)
        else (e # q, s))"

definition better_flow :: "double \<times> FlowKey \<Rightarrow> (double \<times> FlowKey) option \<Rightarrow> (double \<times> FlowKey) option" where
  \<comment> \<open>\<open>if (!found || eff < bf || (eff == bf && *it < best))\<close>\<close>
  "better_flow c best = (case best of
     None \<Rightarrow> Some c
   | Some b \<Rightarrow> if dlt (fst c) (fst b) \<or> (deq (fst c) (fst b) \<and> snd c < snd b) then Some c else best)"

fun pick_loop :: "ClockTime \<Rightarrow> FlowKey list \<Rightarrow> (double \<times> FlowKey) option \<Rightarrow> Impl \<Rightarrow> (double \<times> FlowKey) option \<times> Impl" where
  "pick_loop now [] best s = (best, s)"
| "pick_loop now (k # ks) best s =
     (let (q, s1) = purge now (fl_pending (flow_at s k)) s;
          s2 = modify_flow k (\<lambda>f. f\<lparr>fl_pending := q\<rparr>) s1
      in case q of
           [] \<Rightarrow> pick_loop now ks best (s2\<lparr>im_active_flows := uset_erase k (im_active_flows s2)\<rparr>)
         | e # _ \<Rightarrow>
             (let eff = effective_finish (im_cfg s2) (flow_at s2 k) (req_at s2 (re_id e)) now
              in pick_loop now ks (better_flow (eff, k) best) s2))"

definition pick_seed :: "ClockTime \<Rightarrow> Impl \<Rightarrow> RequestId option \<times> Impl" where
  "pick_seed now s = (let (best, s1) = pick_loop now (im_active_flows s) None s in
     case best of
       None \<Rightarrow> (None, s1)
     | Some b \<Rightarrow> (case fl_pending (flow_at s1 (snd b)) of
                   [] \<Rightarrow> (None, s1)
                 | e # _ \<Rightarrow> (Some (re_id e), s1)))"

definition account_flow :: "RequestSpec \<Rightarrow> double \<Rightarrow> Impl \<Rightarrow> Impl" where
  "account_flow sp cost s =
     (let k = flow_key sp; f = flow_at s k;
          w = (if dlt (Fin 0 0) (fl_weight f) then fl_weight f else Fin 1 0);
          vf = dadd (fl_virtual_finish f) (ddiv cost w)
      in (modify_flow k (\<lambda>f. f\<lparr>fl_virtual_finish := vf\<rparr>) s)\<lparr>im_virtual_time := dmax (im_virtual_time s) vf\<rparr>)"

section \<open>What each operation leaves alone\<close>

lemma enqueue_flow_frame [simp, frame]:
  "im_cfg (enqueue_flow r s) = im_cfg s"
  "im_clock_now (enqueue_flow r s) = im_clock_now s"
  "im_id_factory (enqueue_flow r s) = im_id_factory s"
  "im_virtual_time (enqueue_flow r s) = im_virtual_time s"
  "im_requests (enqueue_flow r s) = im_requests s"
  "im_workers (enqueue_flow r s) = im_workers s"
  "im_tenants (enqueue_flow r s) = im_tenants s"
  "im_compat (enqueue_flow r s) = im_compat s"
  "im_queued (enqueue_flow r s) = im_queued s"
  "im_global_admitted (enqueue_flow r s) = im_global_admitted s"
  "im_global_queued (enqueue_flow r s) = im_global_queued s"
  "im_global_reserved_units (enqueue_flow r s) = im_global_reserved_units s"
  "im_global_running_units (enqueue_flow r s) = im_global_running_units s"
  "req_at (enqueue_flow r s) x = req_at s x"
  "worker_at (enqueue_flow r s) y = worker_at s y"
  "tenant_of (enqueue_flow r s) v = tenant_of s v"
  by (simp_all add: enqueue_flow_def Let_def split_beta)

lemma enqueue_request_frame [simp, frame]:
  "im_cfg (enqueue_request rid s) = im_cfg s"
  "im_clock_now (enqueue_request rid s) = im_clock_now s"
  "im_id_factory (enqueue_request rid s) = im_id_factory s"
  "im_virtual_time (enqueue_request rid s) = im_virtual_time s"
  "im_workers (enqueue_request rid s) = im_workers s"
  "im_global_admitted (enqueue_request rid s) = im_global_admitted s"
  "im_global_reserved_units (enqueue_request rid s) = im_global_reserved_units s"
  "im_global_running_units (enqueue_request rid s) = im_global_running_units s"
  "worker_at (enqueue_request rid s) y = worker_at s y"
  by (simp_all add: enqueue_request_def Let_def split_beta)

lemma dequeue_request_frame [simp, frame]:
  "im_cfg (dequeue_request rid s) = im_cfg s"
  "im_clock_now (dequeue_request rid s) = im_clock_now s"
  "im_id_factory (dequeue_request rid s) = im_id_factory s"
  "im_virtual_time (dequeue_request rid s) = im_virtual_time s"
  "im_requests (dequeue_request rid s) = im_requests s"
  "im_workers (dequeue_request rid s) = im_workers s"
  "im_flows (dequeue_request rid s) = im_flows s"
  "im_active_flows (dequeue_request rid s) = im_active_flows s"
  "im_global_admitted (dequeue_request rid s) = im_global_admitted s"
  "im_global_reserved_units (dequeue_request rid s) = im_global_reserved_units s"
  "im_global_running_units (dequeue_request rid s) = im_global_running_units s"
  "req_at (dequeue_request rid s) x = req_at s x"
  "worker_at (dequeue_request rid s) y = worker_at s y"
  "flow_at (dequeue_request rid s) z = flow_at s z"
  by (simp_all add: dequeue_request_def Let_def split_beta)

lemma expire_request_frame [simp, frame]:
  "im_cfg (expire_request rid s) = im_cfg s"
  "im_clock_now (expire_request rid s) = im_clock_now s"
  "im_id_factory (expire_request rid s) = im_id_factory s"
  "im_virtual_time (expire_request rid s) = im_virtual_time s"
  "im_workers (expire_request rid s) = im_workers s"
  "im_flows (expire_request rid s) = im_flows s"
  "im_active_flows (expire_request rid s) = im_active_flows s"
  "im_global_reserved_units (expire_request rid s) = im_global_reserved_units s"
  "im_global_running_units (expire_request rid s) = im_global_running_units s"
  "worker_at (expire_request rid s) y = worker_at s y"
  "flow_at (expire_request rid s) z = flow_at s z"
  by (simp_all add: expire_request_def Let_def split_beta)

lemma expire_scan_frame [simp, frame]:
  "im_cfg (expire_scan now s) = im_cfg s"
  "im_clock_now (expire_scan now s) = im_clock_now s"
  "im_id_factory (expire_scan now s) = im_id_factory s"
  "im_virtual_time (expire_scan now s) = im_virtual_time s"
  "im_workers (expire_scan now s) = im_workers s"
  "im_flows (expire_scan now s) = im_flows s"
  "im_active_flows (expire_scan now s) = im_active_flows s"
  "im_global_reserved_units (expire_scan now s) = im_global_reserved_units s"
  "im_global_running_units (expire_scan now s) = im_global_running_units s"
  "worker_at (expire_scan now s) y = worker_at s y"
  "flow_at (expire_scan now s) z = flow_at s z"
  by (simp_all add: expire_scan_def Let_def fold_frame worker_at_def flow_at_def split: option.split)

lemma account_flow_frame [simp, frame]:
  "im_cfg (account_flow sp c s) = im_cfg s"
  "im_clock_now (account_flow sp c s) = im_clock_now s"
  "im_id_factory (account_flow sp c s) = im_id_factory s"
  "im_requests (account_flow sp c s) = im_requests s"
  "im_workers (account_flow sp c s) = im_workers s"
  "im_tenants (account_flow sp c s) = im_tenants s"
  "im_compat (account_flow sp c s) = im_compat s"
  "im_active_flows (account_flow sp c s) = im_active_flows s"
  "im_queued (account_flow sp c s) = im_queued s"
  "im_global_admitted (account_flow sp c s) = im_global_admitted s"
  "im_global_queued (account_flow sp c s) = im_global_queued s"
  "im_global_reserved_units (account_flow sp c s) = im_global_reserved_units s"
  "im_global_running_units (account_flow sp c s) = im_global_running_units s"
  "req_at (account_flow sp c s) x = req_at s x"
  "worker_at (account_flow sp c s) y = worker_at s y"
  "tenant_of (account_flow sp c s) v = tenant_of s v"
  by (simp_all add: account_flow_def Let_def split_beta)

section \<open>Effects\<close>

text \<open>
  What the operations do to the tables, in the form the invariants use. A record keeps its
  identity when its specification, identifier, attempt, generation and the identifiers of its
  attempts stay; only a retry changes them.
\<close>

definition hist_ids :: "RequestRecord \<Rightarrow> (AttemptId \<times> Generation) list" where
  "hist_ids r = map (\<lambda>a. (att_attempt_id a, att_generation a)) (rec_history r)"

definition same_id :: "RequestRecord \<Rightarrow> RequestRecord \<Rightarrow> bool" where
  "same_id r' r \<longleftrightarrow> rec_spec r' = rec_spec r \<and> rec_request_id r' = rec_request_id r \<and>
     rec_current_attempt r' = rec_current_attempt r \<and> rec_generation r' = rec_generation r \<and>
     hist_ids r' = hist_ids r"

lemma hist_ids_map_last:
  "(\<And>a. att_attempt_id (f a) = att_attempt_id a \<and> att_generation (f a) = att_generation a) \<Longrightarrow>
   map (\<lambda>a. (att_attempt_id a, att_generation a)) (map_last f xs) =
   map (\<lambda>a. (att_attempt_id a, att_generation a)) xs"
  by (induction f xs rule: map_last.induct) auto

lemma same_idD:
  assumes "same_id r' r"
  shows "rec_spec r' = rec_spec r" "rec_request_id r' = rec_request_id r"
    "rec_current_attempt r' = rec_current_attempt r" "rec_generation r' = rec_generation r"
    "hist_ids r' = hist_ids r" "length (rec_history r') = length (rec_history r)"
  using assms map_eq_imp_length_eq by (auto simp: same_id_def hist_ids_def)

lemma tenant_of_modify_present [simp]:
  "tenant_of (modify_tenant_present t f s) u =
     (if u = t \<and> map_of (im_tenants s) t \<noteq> None then f (tenant_of s t) else tenant_of s u)"
  by (auto simp: modify_tenant_present_def tenant_of_def split: option.splits)

lemma tenant_of_unknown: "map_of (im_tenants s) t = None \<Longrightarrow> tenant_of s t = new_tenant (im_cfg s) t"
  by (simp add: tenant_of_def)

lemma enqueue_request_requests [simp]:
  "im_requests (enqueue_request rid s) =
     AList.update rid ((req_at s rid)\<lparr>rec_state := RS_Queued, rec_queued_at := im_clock_now s\<rparr>) (im_requests s)"
  by (simp add: enqueue_request_def Let_def)

lemma enqueue_request_queue [simp]:
  "im_queued (enqueue_request rid s) = uset_insert (rec_request_id (req_at s rid)) (im_queued s)"
  "im_global_queued (enqueue_request rid s) = im_global_queued s + 1"
  "im_compat (enqueue_request rid s) =
     (let k = compat_key (im_cfg s) (rec_spec (req_at s rid))
      in AList.update k (uset_insert (rec_request_id (req_at s rid)) (umap_at [] (im_compat s) k)) (im_compat s))"
  "im_flows (enqueue_request rid s) = im_flows (enqueue_flow (req_at s rid) s)"
  "im_active_flows (enqueue_request rid s) = im_active_flows (enqueue_flow (req_at s rid) s)"
  by (simp_all add: enqueue_request_def Let_def)

lemma enqueue_request_tenant [simp]:
  "tenant_of (enqueue_request rid s) u =
     (if u = spec_tenant (rec_spec (req_at s rid))
      then (tenant_of s u)\<lparr>ten_queued := ten_queued (tenant_of s u) + 1\<rparr> else tenant_of s u)"
  by (simp add: enqueue_request_def Let_def)

lemma dequeue_request_queue [simp]:
  "im_queued (dequeue_request rid s) = uset_erase (rec_request_id (req_at s rid)) (im_queued s)"
  "im_global_queued (dequeue_request rid s) =
     (if rec_request_id (req_at s rid) \<in> set (im_queued s) then im_global_queued s - 1 else im_global_queued s)"
  "im_compat (dequeue_request rid s) =
     compat_erase (compat_key (im_cfg s) (rec_spec (req_at s rid))) (rec_request_id (req_at s rid)) (im_compat s)"
  by (simp_all add: dequeue_request_def Let_def uset_erase_absent)

lemma dequeue_request_tenant [simp]:
  "ten_admitted (tenant_of (dequeue_request rid s) u) = ten_admitted (tenant_of s u)"
  "ten_running (tenant_of (dequeue_request rid s) u) = ten_running (tenant_of s u)"
  "ten_queued (tenant_of (dequeue_request rid s) u) =
     (if u = spec_tenant (rec_spec (req_at s rid)) then dec_pos (ten_queued (tenant_of s u))
      else ten_queued (tenant_of s u))"
  by (auto simp: dequeue_request_def Let_def dec_pos_def tenant_of_unknown new_tenant_def)

lemma expire_request_idle: "rec_state (req_at s rid) \<noteq> RS_Queued \<Longrightarrow> expire_request rid s = s"
  by (simp add: expire_request_def)

lemma expire_request_effect:
  assumes "rec_state (req_at s rid) = RS_Queued"
  obtains r' where "im_requests (expire_request rid s) = AList.update rid r' (im_requests s)"
    and "rec_state r' = RS_Expired" and "same_id r' (req_at s rid)"
    and "rec_in_batch r' = rec_in_batch (req_at s rid)" and "rec_batch_id r' = rec_batch_id (req_at s rid)"
  by (rule that [of "(req_at s rid)\<lparr>rec_state := RS_Expired, rec_terminal_reason := ''deadline_expired'',
        rec_history := map_last (\<lambda>a. a\<lparr>att_state := AS_Expired\<rparr>) (rec_history (req_at s rid))\<rparr>"])
    (use assms in \<open>simp_all add: expire_request_def Let_def same_id_def hist_ids_def hist_ids_map_last\<close>)

lemma expire_request_queue:
  assumes "rec_state (req_at s rid) = RS_Queued"
  shows "im_queued (expire_request rid s) = im_queued (dequeue_request rid s)"
    and "im_global_queued (expire_request rid s) = im_global_queued (dequeue_request rid s)"
    and "im_compat (expire_request rid s) = im_compat (dequeue_request rid s)"
    and "im_global_admitted (expire_request rid s) = dec_pos (im_global_admitted s)"
    and "ten_admitted (tenant_of (expire_request rid s) u) =
      (if u = spec_tenant (rec_spec (req_at s rid)) then dec_pos (ten_admitted (tenant_of s u))
       else ten_admitted (tenant_of s u))"
    and "ten_queued (tenant_of (expire_request rid s) u) = ten_queued (tenant_of (dequeue_request rid s) u)"
  using assms by (simp_all add: expire_request_def Let_def)

lemma enqueue_flow_pending:
  "fl_pending (flow_at (enqueue_flow r s) k) =
     (if k = flow_key (rec_spec r) then pq_push (ready_entry r (im_clock_now s)) (fl_pending (flow_at s k))
      else fl_pending (flow_at s k))"
  by (simp add: enqueue_flow_def Let_def)

lemma enqueue_flow_active:
  "set (im_active_flows (enqueue_flow r s)) =
     (if fl_pending (flow_at s (flow_key (rec_spec r))) = [] then insert (flow_key (rec_spec r)) (set (im_active_flows s))
      else set (im_active_flows s))"
  by (simp add: enqueue_flow_def Let_def)

lemma enqueue_request_flow_at: "flow_at (enqueue_request rid s) k = flow_at (enqueue_flow (req_at s rid) s) k"
  by (rule flow_at_cong) simp

lemma req_at_enqueue_request [simp]:
  "req_at (enqueue_request rid s) x =
     (if x = rid then (req_at s rid)\<lparr>rec_state := RS_Queued, rec_queued_at := im_clock_now s\<rparr> else req_at s x)"
  by (simp add: req_at_def)

end
