(* ===== verification/Submission.thy ===== *)
theory Submission
  imports Admission Ready_Queue
begin

text \<open>
  \<open>do_submit\<close>: validation, the admission decision, and the three outcomes. The record
  inserted by \<open>requests_.insert\<close> keeps an existing record with the same identifier, as
  \<open>std::unordered_map::insert\<close> does.
\<close>

definition admitted_record :: "RequestSpec \<Rightarrow> RequestId \<Rightarrow> Generation \<Rightarrow> ClockTime \<Rightarrow> RequestRecord" where
  "admitted_record sp rid gen now = default_RequestRecord\<lparr>rec_spec := sp, rec_request_id := rid,
     rec_state := RS_Admitted, rec_generation := gen, rec_created_at := now, rec_admitted_at := now,
     rec_queue_delay_ms := 0\<rparr>"

definition count_admitted :: "LatencyClass \<Rightarrow> SchedulerStats \<Rightarrow> SchedulerStats" where
  "count_admitted c st = st\<lparr>st_requests_submitted := st_requests_submitted st + 1,
     st_requests_admitted := st_requests_admitted st + 1,
     st_by_latency := (st_by_latency st)[latency_index c :=
       (st_by_latency st ! latency_index c)\<lparr>lcs_admitted := lcs_admitted (st_by_latency st ! latency_index c) + 1\<rparr>]\<rparr>"

definition insert_req :: "RequestId \<Rightarrow> RequestRecord \<Rightarrow> Impl \<Rightarrow> Impl" where
  "insert_req rid r s = s\<lparr>im_requests := umap_insert rid r (im_requests s)\<rparr>"

definition submit_expired :: "AdmissionOutput \<Rightarrow> RequestId \<Rightarrow> RequestRecord \<Rightarrow> Impl \<Rightarrow> AdmissionOutput result \<times> Impl" where
  \<comment> \<open>the branch for a deadline that passed; the moved-from record's reason is printed as empty\<close>
  "submit_expired out rid r s =
     (let r1 = r\<lparr>rec_state := RS_Expired, rec_terminal_reason := ''deadline_expired_at_admit''\<rparr>;
          s1 = insert_req rid r1 s;
          s2 = modify_stats (\<lambda>st. st\<lparr>st_requests_expired := st_requests_expired st + 1\<rparr>) s1;
          s3 = emit_event ''expired'' rid invalid_id invalid_id invalid_id [] s2
      in (result_ok (out\<lparr>ao_decision := AD_Reject, ao_reason_code := ''deadline_expired_at_submit'',
            ao_explanation := ''request deadline already expired at admission''\<rparr>), s3))"

definition submit_admit :: "AdmissionOutput \<Rightarrow> RequestSpec \<Rightarrow> RequestId \<Rightarrow> Impl \<Rightarrow> AdmissionOutput result \<times> Impl" where
  "submit_admit out sp rid s =
     (let now = im_clock_now s;
          (gen, s1) = fresh_id s;
          r = admitted_record sp rid gen now;
          s2 = modify_stats (count_admitted (spec_latency_class sp)) s1
      in if dl_valid (spec_deadline sp) \<and> expired (spec_deadline sp) now then submit_expired out rid r s2
         else let
          (att, s3) = fresh_id s2;
          a0 = default_AttemptRecord\<lparr>att_attempt_id := att, att_generation := gen,
                 att_state := AS_Created, att_created_at := now\<rparr>;
          r1 = r\<lparr>rec_current_attempt := att, rec_state := RS_Queued, rec_queued_at := now,
                 rec_attempts_used := 0, rec_history := rec_history r @ [a0]\<rparr>;
          s4 = modify_stats (\<lambda>st. st\<lparr>st_attempts_created := st_attempts_created st + 1\<rparr>) s3;
          s5 = insert_req rid r1 s4;
          s6 = enqueue_request rid s5;
          s7 = s6\<lparr>im_global_admitted := im_global_admitted s6 + 1\<rparr>;
          s8 = modify_tenant (spec_tenant sp) (\<lambda>t. t\<lparr>ten_admitted := ten_admitted t + 1\<rparr>) s7;
          q = req_at s8 rid;
          out1 = out\<lparr>ao_request_id := rid, ao_attempt_id := rec_current_attempt q,
                     ao_generation := rec_generation q, ao_explanation := ''admitted; queued for scheduling''\<rparr>;
          s9 = emit_event ''admitted'' rid (rec_current_attempt q) invalid_id invalid_id ''admitted'' s8;
          s10 = emit_event ''queued'' rid (rec_current_attempt q) invalid_id invalid_id ''queued'' s9
        in (result_ok out1, s10))"

definition submit_defer :: "AdmissionOutput \<Rightarrow> string \<Rightarrow> Impl \<Rightarrow> AdmissionOutput result \<times> Impl" where
  "submit_defer out reason s =
     (result_ok (out\<lparr>ao_defer_after := 25, ao_explanation := reason\<rparr>),
      modify_stats (\<lambda>st. st\<lparr>st_requests_submitted := st_requests_submitted st + 1,
                         st_requests_deferred := st_requests_deferred st + 1\<rparr>) s)"

definition submit_reject :: "AdmissionOutput \<Rightarrow> RequestSpec \<Rightarrow> RequestId \<Rightarrow> string \<Rightarrow> Impl \<Rightarrow> AdmissionOutput result \<times> Impl" where
  "submit_reject out sp rid reason s =
     (let s1 = modify_stats (\<lambda>st. st\<lparr>st_requests_submitted := st_requests_submitted st + 1,
                                 st_requests_rejected := st_requests_rejected st + 1\<rparr>) s;
          (gen, s2) = fresh_id s1;
          r = default_RequestRecord\<lparr>rec_spec := sp, rec_request_id := rid, rec_state := RS_Rejected,
                rec_terminal_reason := reason, rec_created_at := im_clock_now s, rec_generation := gen\<rparr>;
          s3 = insert_req rid r s2;
          s4 = emit_event ''rejected'' rid invalid_id invalid_id invalid_id reason s3
      in (result_ok (out\<lparr>ao_explanation := reason\<rparr>), s4))"

definition submit_id :: "RequestId option \<Rightarrow> Impl \<Rightarrow> RequestId \<times> Impl" where
  "submit_id pre s = (case pre of Some rid \<Rightarrow> (rid, s) | None \<Rightarrow> fresh_id s)"

definition do_submit :: "RequestSpec \<Rightarrow> RequestId option \<Rightarrow> Impl \<Rightarrow> AdmissionOutput result \<times> Impl" where
  "do_submit sp pre s = (case validate_spec sp of
     Inl e \<Rightarrow> (result_err e, s)
   | Inr _ \<Rightarrow>
       (let (rid, s1) = submit_id pre s;
            ad = make_admission s1 sp (im_clock_now s1);
            out = default_AdmissionOutput\<lparr>ao_decision := fst ad, ao_reason_code := snd ad\<rparr>
        in case fst ad of
             AD_Admit \<Rightarrow> submit_admit out sp rid s1
           | AD_Defer \<Rightarrow> submit_defer out (snd ad) s1
           | AD_Reject \<Rightarrow> submit_reject out sp rid (snd ad) s1))"

section \<open>What each operation leaves alone\<close>

lemma insert_req_frame [simp, frame]:
  "im_cfg (insert_req rid r s) = im_cfg s"
  "im_clock_now (insert_req rid r s) = im_clock_now s"
  "im_id_factory (insert_req rid r s) = im_id_factory s"
  "im_virtual_time (insert_req rid r s) = im_virtual_time s"
  "im_workers (insert_req rid r s) = im_workers s"
  "im_tenants (insert_req rid r s) = im_tenants s"
  "im_flows (insert_req rid r s) = im_flows s"
  "im_compat (insert_req rid r s) = im_compat s"
  "im_active_flows (insert_req rid r s) = im_active_flows s"
  "im_queued (insert_req rid r s) = im_queued s"
  "im_global_admitted (insert_req rid r s) = im_global_admitted s"
  "im_global_queued (insert_req rid r s) = im_global_queued s"
  "im_global_reserved_units (insert_req rid r s) = im_global_reserved_units s"
  "im_global_running_units (insert_req rid r s) = im_global_running_units s"
  "worker_at (insert_req rid r s) y = worker_at s y"
  "flow_at (insert_req rid r s) z = flow_at s z"
  "tenant_of (insert_req rid r s) v = tenant_of s v"
  by (simp_all add: insert_req_def Let_def split_beta)

section \<open>Effects\<close>

lemma submit_id_frame [simp]:
  "im_cfg (snd (submit_id pre s)) = im_cfg s"
  "im_clock_now (snd (submit_id pre s)) = im_clock_now s"
  "im_virtual_time (snd (submit_id pre s)) = im_virtual_time s"
  "im_requests (snd (submit_id pre s)) = im_requests s"
  "im_workers (snd (submit_id pre s)) = im_workers s"
  "im_tenants (snd (submit_id pre s)) = im_tenants s"
  "im_flows (snd (submit_id pre s)) = im_flows s"
  "im_compat (snd (submit_id pre s)) = im_compat s"
  "im_active_flows (snd (submit_id pre s)) = im_active_flows s"
  "im_queued (snd (submit_id pre s)) = im_queued s"
  "im_global_admitted (snd (submit_id pre s)) = im_global_admitted s"
  "im_global_queued (snd (submit_id pre s)) = im_global_queued s"
  "im_global_reserved_units (snd (submit_id pre s)) = im_global_reserved_units s"
  "im_global_running_units (snd (submit_id pre s)) = im_global_running_units s"
  "im_draining (snd (submit_id pre s)) = im_draining s"
  "tenant_of (snd (submit_id pre s)) t = tenant_of s t"
  "flow_at (snd (submit_id pre s)) k = flow_at s k"
  "req_at (snd (submit_id pre s)) x = req_at s x"
  by (simp_all add: submit_id_def split: option.split)

lemma do_submit_cases:
  fixes sp pre s
  defines "rid \<equiv> fst (submit_id pre s)" and "s1 \<equiv> snd (submit_id pre s)"
  obtains (invalid) e where "validate_spec sp = Inl e" and "do_submit sp pre s = (Inl e, s)"
  | (admitted) code out where "make_admission s1 sp (im_clock_now s) = (AD_Admit, code)"
      and "do_submit sp pre s = submit_admit out sp rid s1" and "ao_decision out = AD_Admit"
  | (deferred) code out where "make_admission s1 sp (im_clock_now s) = (AD_Defer, code)"
      and "do_submit sp pre s = submit_defer out code s1" and "ao_decision out = AD_Defer"
  | (rejected) code out where "make_admission s1 sp (im_clock_now s) = (AD_Reject, code)"
      and "do_submit sp pre s = submit_reject out sp rid code s1" and "ao_decision out = AD_Reject"
proof (cases "validate_spec sp")
  case (Inl e)
  then show thesis
    by (intro invalid) (simp_all add: do_submit_def result_err_def validate_spec_error)
next
  case (Inr u)
  obtain d code where ad: "make_admission s1 sp (im_clock_now s) = (d, code)"
    by fastforce
  have eq: "do_submit sp pre s =
      (let out = default_AdmissionOutput\<lparr>ao_decision := d, ao_reason_code := code\<rparr>
       in case d of AD_Admit \<Rightarrow> submit_admit out sp rid s1 | AD_Defer \<Rightarrow> submit_defer out code s1
          | AD_Reject \<Rightarrow> submit_reject out sp rid code s1)"
    using Inr ad by (cases d) (simp_all add: do_submit_def s1_def rid_def split_beta Let_def)
  show thesis
    by (cases d) (use ad eq in \<open>auto simp: Let_def intro: admitted deferred rejected\<close>)
qed

lemma insert_req_requests [simp]: "im_requests (insert_req rid r s) = umap_insert rid r (im_requests s)"
  by (simp add: insert_req_def)

lemma req_at_insert_req:
  "find_req s rid = None \<Longrightarrow> req_at (insert_req rid r s) x = (if x = rid then r else req_at s x)"
  by (simp add: req_at_def umap_insert_fresh)

lemma submit_admit_effect:
  assumes "\<not> (dl_valid (spec_deadline sp) \<and> expired (spec_deadline sp) (im_clock_now s))"
    and "find_req s rid = None"
  obtains r' where "im_requests (snd (submit_admit out sp rid s)) = AList.update rid r' (im_requests s)"
    and "rec_state r' = RS_Queued" and "rec_spec r' = sp" and "rec_request_id r' = rid"
    and "rec_generation r' = fst (next_id (im_id_factory s))"
    and "rec_current_attempt r' = fst (next_id (snd (next_id (im_id_factory s))))"
    and "hist_ids r' = [(rec_current_attempt r', rec_generation r')]"
    and "\<not> rec_in_batch r'" and "\<not> rec_cancellation_committed r'"
proof (rule that)
  show "im_requests (snd (submit_admit out sp rid s)) =
      AList.update rid (req_at (snd (submit_admit out sp rid s)) rid) (im_requests s)"
    unfolding submit_admit_def Let_def split_beta if_not_P [OF assms(1)]
    using assms(2) by (simp add: umap_insert_fresh req_at_insert_req)
qed (unfold submit_admit_def Let_def split_beta if_not_P [OF assms(1)],
     use assms(2) in \<open>simp_all add: req_at_insert_req umap_insert_fresh req_at_def
       admitted_record_def default_RequestRecord_def hist_ids_def\<close>)

lemma submit_admit_tables:
  assumes "\<not> (dl_valid (spec_deadline sp) \<and> expired (spec_deadline sp) (im_clock_now s))"
    and "find_req s rid = None"
  shows "im_queued (snd (submit_admit out sp rid s)) = uset_insert rid (im_queued s)"
    and "im_global_queued (snd (submit_admit out sp rid s)) = im_global_queued s + 1"
    and "im_global_admitted (snd (submit_admit out sp rid s)) = im_global_admitted s + 1"
    and "im_compat (snd (submit_admit out sp rid s)) = AList.update (compat_key (im_cfg s) sp)
           (uset_insert rid (umap_at [] (im_compat s) (compat_key (im_cfg s) sp))) (im_compat s)"
    and "ten_admitted (tenant_of (snd (submit_admit out sp rid s)) u) =
           (if u = spec_tenant sp then ten_admitted (tenant_of s u) + 1 else ten_admitted (tenant_of s u))"
    and "ten_queued (tenant_of (snd (submit_admit out sp rid s)) u) =
           (if u = spec_tenant sp then ten_queued (tenant_of s u) + 1 else ten_queued (tenant_of s u))"
    and "im_workers (snd (submit_admit out sp rid s)) = im_workers s"
    and "im_cfg (snd (submit_admit out sp rid s)) = im_cfg s"
    and "im_clock_now (snd (submit_admit out sp rid s)) = im_clock_now s"
    and "im_id_factory (snd (submit_admit out sp rid s)) = snd (next_id (snd (next_id (im_id_factory s))))"
  unfolding submit_admit_def Let_def split_beta if_not_P [OF assms(1)]
  using assms(2) by (simp_all add: req_at_insert_req admitted_record_def Let_def)

lemma submit_admit_flows:
  assumes "\<not> (dl_valid (spec_deadline sp) \<and> expired (spec_deadline sp) (im_clock_now s))"
    and "find_req s rid = None"
  shows "fl_pending (flow_at (snd (submit_admit out sp rid s)) k) =
      (if k = flow_key sp then pq_push (ReadyEntry rid (fst (next_id (im_id_factory s)))
         (ready_slack sp (im_clock_now s)) (priority_class_int (spec_priority sp)) rid) (fl_pending (flow_at s k))
       else fl_pending (flow_at s k))"
    and "set (im_active_flows (snd (submit_admit out sp rid s))) =
      (if fl_pending (flow_at s (flow_key sp)) = [] then insert (flow_key sp) (set (im_active_flows s))
       else set (im_active_flows s))"
  unfolding submit_admit_def Let_def split_beta if_not_P [OF assms(1)]
  using assms(2) by (simp_all add: req_at_insert_req admitted_record_def
        enqueue_flow_active enqueue_request_flow_at enqueue_flow_pending ready_entry_def)

lemma submit_reject_effect:
  assumes "find_req s rid = None"
  obtains r' where "im_requests (snd (submit_reject out sp rid reason s)) = AList.update rid r' (im_requests s)"
    and "rec_state r' = RS_Rejected" and "rec_spec r' = sp" and "rec_request_id r' = rid"
    and "rec_history r' = []" and "\<not> rec_in_batch r'"
    and "rec_generation r' = fst (next_id (im_id_factory s))" and "rec_current_attempt r' = invalid_id"
proof (rule that)
  show "im_requests (snd (submit_reject out sp rid reason s)) =
      AList.update rid (req_at (snd (submit_reject out sp rid reason s)) rid) (im_requests s)"
    using assms by (simp add: submit_reject_def Let_def split_beta umap_insert_fresh req_at_insert_req)
qed (use assms in \<open>simp_all add: submit_reject_def Let_def split_beta req_at_insert_req default_RequestRecord_def\<close>)

lemma submit_reject_frame [simp, frame]:
  "im_cfg (snd (submit_reject out sp rid reason s)) = im_cfg s"
  "im_clock_now (snd (submit_reject out sp rid reason s)) = im_clock_now s"
  "im_virtual_time (snd (submit_reject out sp rid reason s)) = im_virtual_time s"
  "im_workers (snd (submit_reject out sp rid reason s)) = im_workers s"
  "im_tenants (snd (submit_reject out sp rid reason s)) = im_tenants s"
  "im_flows (snd (submit_reject out sp rid reason s)) = im_flows s"
  "im_compat (snd (submit_reject out sp rid reason s)) = im_compat s"
  "im_active_flows (snd (submit_reject out sp rid reason s)) = im_active_flows s"
  "im_queued (snd (submit_reject out sp rid reason s)) = im_queued s"
  "im_global_admitted (snd (submit_reject out sp rid reason s)) = im_global_admitted s"
  "im_global_queued (snd (submit_reject out sp rid reason s)) = im_global_queued s"
  "im_id_factory (snd (submit_reject out sp rid reason s)) = snd (next_id (im_id_factory s))"
  "tenant_of (snd (submit_reject out sp rid reason s)) u = tenant_of s u"
  "flow_at (snd (submit_reject out sp rid reason s)) k = flow_at s k"
  by (simp_all add: submit_reject_def Let_def split_beta)

end
