(* ===== verification/Batching.thy ===== *)
theory Batching
  imports Ready_Queue
begin

text \<open>
  Batch formation, \<open>form_batch\<close> of \<open>Scheduler::Impl\<close>: the compatible queued candidates,
  sorted by the comparator of the source, fill the batch of the seed request until the size
  or the token limit stops the loop.
\<close>

definition batch_less :: "Impl \<Rightarrow> ClockTime \<Rightarrow> RequestId \<Rightarrow> RequestId \<Rightarrow> bool" where
  "batch_less s now a b =
     (let ra = rec_spec (req_at s a); rb = rec_spec (req_at s b);
          sa = ready_slack ra now; sb = ready_slack rb now;
          pa = priority_class_int (spec_priority ra); pb = priority_class_int (spec_priority rb)
      in if sa \<noteq> sb then sa < sb else if pa \<noteq> pb then pa > pb else a < b)"

definition max_batch :: "SchedulerConfig \<Rightarrow> RequestSpec \<Rightarrow> int" where
  "max_batch cfg sp =
     (let maxb = (if spec_max_batch_size sp > 0 then spec_max_batch_size sp
                  else bat_max_batch_size (cfg_batch cfg))
      in if maxb < 1 then 1 else maxb)"

definition batchable :: "Impl \<Rightarrow> ClockTime \<Rightarrow> RequestId \<Rightarrow> RequestId \<Rightarrow> bool" where
  "batchable s now seed rid =
     (if rid = seed then False
      else if rid \<notin> set (im_queued s) then False
      else case find_req s rid of
             None \<Rightarrow> False
           | Some c \<Rightarrow> rec_state c = RS_Queued \<and>
               \<not> (dl_valid (spec_deadline (rec_spec c)) \<and> expired (spec_deadline (rec_spec c)) now))"

definition batch_candidates :: "Impl \<Rightarrow> ClockTime \<Rightarrow> RequestId \<Rightarrow> RequestId list" where
  "batch_candidates s now seed =
     (case map_of (im_compat s) (compat_key (im_cfg s) (rec_spec (req_at s seed))) of
        None \<Rightarrow> []
      | Some ids \<Rightarrow> filter (batchable s now seed) ids)"

fun fill_batch :: "Impl \<Rightarrow> int \<Rightarrow> RequestId list \<Rightarrow> RequestId list \<Rightarrow> int \<Rightarrow> RequestId list" where
  "fill_batch s maxb [] result tok = result"
| "fill_batch s maxb (rid # cands) result tok =
     (if int (length result) \<ge> maxb then result
      else if bat_max_tokens (cfg_batch (im_cfg s)) > 0 then
        (let add = tok_total (spec_tokens (rec_spec (req_at s rid)))
         in if tok + add > bat_max_tokens (cfg_batch (im_cfg s)) then result
            else fill_batch s maxb cands (result @ [rid]) (tok + add))
      else fill_batch s maxb cands (result @ [rid]) tok)"

definition form_batch :: "RequestId \<Rightarrow> ClockTime \<Rightarrow> Impl \<Rightarrow> RequestId list" where
  "form_batch seed now s = (case find_req s seed of
     None \<Rightarrow> []
   | Some r \<Rightarrow> fill_batch s (max_batch (im_cfg s) (rec_spec r))
       (sort_by (batch_less s now) (batch_candidates s now seed)) [seed]
       (tok_total (spec_tokens (rec_spec r))))"

section \<open>The shape of a batch\<close>

lemma fill_batch_prefix: "\<exists>n. fill_batch s maxb cs res tok = res @ take n cs"
proof (induction s maxb cs res tok rule: fill_batch.induct)
  case (2 s maxb rid cands res tok)
  have stop: "\<exists>n. res = res @ take n (rid # cands)"
    by (rule exI [of _ 0]) simp
  have go: "\<exists>n. fill_batch s maxb cands (res @ [rid]) t = res @ take n (rid # cands)"
    if "\<exists>n. fill_batch s maxb cands (res @ [rid]) t = (res @ [rid]) @ take n cands" for t
  proof -
    from that obtain n where "fill_batch s maxb cands (res @ [rid]) t = (res @ [rid]) @ take n cands" ..
    then show ?thesis
      by (intro exI [of _ "Suc n"]) simp
  qed
  show ?case
    using stop go 2 by (auto simp: Let_def)
qed simp

lemma form_batch_shape:
  assumes "find_req s seed = Some r"
  obtains n where "form_batch seed now s = seed # take n (sort_by (batch_less s now) (batch_candidates s now seed))"
  using fill_batch_prefix [of s _ _ "[seed]"] assms by (force simp: form_batch_def)

lemma batch_candidate_props:
  assumes "rid \<in> set (batch_candidates s now seed)"
  shows "rid \<noteq> seed" and "rid \<in> set (im_queued s)"
    and "\<exists>r. find_req s rid = Some r \<and> rec_state r = RS_Queued \<and>
           \<not> (dl_valid (spec_deadline (rec_spec r)) \<and> expired (spec_deadline (rec_spec r)) now)"
    and "rid \<in> set (umap_at [] (im_compat s) (compat_key (im_cfg s) (rec_spec (req_at s seed))))"
  using assms by (auto simp: batch_candidates_def batchable_def umap_at_def split: option.splits if_splits)

lemma form_batch_member:
  assumes "find_req s seed = Some r" and "rid \<in> set (form_batch seed now s)"
  shows "rid = seed \<or> rid \<in> set (batch_candidates s now seed)"
proof -
  obtain n where "form_batch seed now s = seed # take n (sort_by (batch_less s now) (batch_candidates s now seed))"
    using assms(1) by (rule form_batch_shape)
  with assms(2) show ?thesis
    by (auto dest: in_set_takeD)
qed

end
