(* ===== verification/Dispatch.thy ===== *)
theory Dispatch
  imports Admission Batching
begin

text \<open>
  Dispatch scoring and planning: \<open>score_worker\<close>, \<open>select_worker\<close>,
  \<open>do_plan_dispatch\<close> and \<open>do_plan_next\<close> of \<open>Scheduler::Impl\<close>.
  \<open>do_plan_next\<close> takes the scheduler lock twice; its two critical sections are
  \<open>plan_next_pick\<close> and \<open>do_plan_dispatch\<close>, between which other calls may run.
\<close>

section \<open>Scoring\<close>

definition rejected_score :: "WorkerId \<Rightarrow> string \<Rightarrow> WorkerScore" where
  "rejected_score w code = \<lparr>ws_worker = w, ws_eligible = False, ws_components = [],
     ws_total = Fin 0 0, ws_reject_reason_code = code, ws_reject_reason = []\<rparr>"

definition free_units :: "WorkerRecord \<Rightarrow> int" where
  "free_units wr = rsn_available_capacity_units (wk_resource wr) - wk_reserved_units wr"

definition locality_score :: "LocalityHint \<Rightarrow> WorkerRegistration \<Rightarrow> double" where
  "locality_score h reg =
     (if has_preference h then
        (let l0 = Fin 0 0;
             l1 = (if valid_id (loc_accelerator h) \<and> loc_accelerator h = reg_accelerator reg then Fin 1 0 else l0)
         in if valid_id (loc_node h) \<and> loc_node h = reg_node reg then dmax l1 (r64 4 5) else l1)
      else Fin 1 0)"

definition score_components :: "SchedulerConfig \<Rightarrow> WorkerRecord \<Rightarrow> RequestSpec \<Rightarrow> ClockTime \<Rightarrow> ScoreComponent list" where
  "score_components cfg wr sp now =
     (let cap = reg_capability (wk_registration wr); dw = pol_dispatch (cfg_scheduling cfg);
          total = cap_total_capacity_units cap; avail = free_units wr;
          capfrac = (if total > 0 then ddiv (of_int64 avail) (of_int64 total) else Fin 1 0);
          load = (if total > 0 then dsub (Fin 1 0) (clamp01 (ddiv (of_int64 (total - avail)) (of_int64 total)))
                  else Fin 1 0);
          slack = remaining (spec_deadline sp) now;
          dl = (if dl_valid (spec_deadline sp) then
                  (if slack < 0 then Fin 0 0
                   else clamp01 (ddiv (of_int64 slack)
                          (of_int64 (max 1 (pol_deadline_boost_threshold_ms (cfg_scheduling cfg))))))
                else Fin 1 0);
          loc = locality_score (spec_locality sp) (wk_registration wr);
          mw = warm_model (spec_warmth sp);
          warm = clamp01 (dadd (fmul mw (cap_model_warmth cap))
                   (dmul (dmul (Fin 1 (-1)) (fadd mw (cap_model_warmth cap))) (Fin 1 (-1))));
          state = clamp01 (dadd (fmul (warm_state (spec_warmth sp)) (cap_state_warmth cap)) (Fin 1 (-1)))
      in [\<lparr>sco_name = ''capability'', sco_value = Fin 1 0, sco_weight = dw_capability dw\<rparr>,
          \<lparr>sco_name = ''capacity'', sco_value = capfrac, sco_weight = dw_capacity dw\<rparr>,
          \<lparr>sco_name = ''load'', sco_value = load, sco_weight = dw_load dw\<rparr>,
          \<lparr>sco_name = ''deadline'', sco_value = dl, sco_weight = dw_deadline dw\<rparr>,
          \<lparr>sco_name = ''latency_class'', sco_value = Fin 1 0, sco_weight = dw_latency_class dw\<rparr>,
          \<lparr>sco_name = ''phase'', sco_value = Fin 1 0, sco_weight = dw_phase dw\<rparr>,
          \<lparr>sco_name = ''locality'', sco_value = loc, sco_weight = dw_locality dw\<rparr>,
          \<lparr>sco_name = ''model_warmth'', sco_value = warm, sco_weight = dw_model_warmth dw\<rparr>,
          \<lparr>sco_name = ''state_warmth'', sco_value = state, sco_weight = dw_state_warmth dw\<rparr>,
          \<lparr>sco_name = ''batch'', sco_value = Fin 1 0, sco_weight = dw_batch dw\<rparr>,
          \<lparr>sco_name = ''fairness'', sco_value = Fin 1 0, sco_weight = dw_fairness dw\<rparr>])"

fun weighted_sum :: "ScoreComponent list \<Rightarrow> double \<Rightarrow> double \<Rightarrow> double \<times> double" where
  "weighted_sum [] num den = (num, den)"
| "weighted_sum (c # cs) num den =
     (if dlt (Fin 0 0) (sco_weight c)
      then weighted_sum cs (dadd num (dmul (sco_value c) (sco_weight c))) (dadd den (sco_weight c))
      else weighted_sum cs num den)"

definition score_total :: "ScoreComponent list \<Rightarrow> double" where
  "score_total cs = (let (num, den) = weighted_sum cs (Fin 0 0) (Fin 0 0)
     in if dlt (Fin 0 0) den then ddiv num den else Fin 0 0)"

definition score_worker :: "SchedulerConfig \<Rightarrow> WorkerRecord \<Rightarrow> RequestSpec \<Rightarrow> double \<Rightarrow> ClockTime \<Rightarrow> WorkerScore" where
  "score_worker cfg wr sp batch_cost now =
     (let w = reg_worker (wk_registration wr); cap = reg_capability (wk_registration wr);
          cost = ceil_cost batch_cost; avail = free_units wr in
      if wk_state wr \<noteq> WS_Online \<and> wk_state wr \<noteq> WS_Busy then rejected_score w ''worker_not_online''
      else if \<not> compatible sp cap then rejected_score w ''incompatible''
      else if cap_total_capacity_units cap > 0 \<and> avail < cost then rejected_score w ''no_capacity''
      else if cap_total_capacity_units cap > 0 \<and> cost > cap_total_capacity_units cap
        then rejected_score w ''oversized''
      else if dl_valid (spec_deadline sp) \<and> expired (spec_deadline sp) now
        then rejected_score w ''deadline_expired''
      else (let cs = score_components cfg wr sp now
            in \<lparr>ws_worker = w, ws_eligible = True, ws_components = cs, ws_total = score_total cs,
                ws_reject_reason_code = [], ws_reject_reason = []\<rparr>))"

definition better_score :: "WorkerScore \<Rightarrow> WorkerScore \<Rightarrow> bool" where
  \<comment> \<open>\<open>sc.total > bestv || (sc.total == bestv && sc.worker < best)\<close>\<close>
  "better_score a b \<longleftrightarrow> dlt (ws_total b) (ws_total a) \<or>
     (deq (ws_total a) (ws_total b) \<and> ws_worker a < ws_worker b)"

fun best_score :: "WorkerScore list \<Rightarrow> WorkerScore option \<Rightarrow> WorkerScore option" where
  "best_score [] best = best"
| "best_score (c # cs) best =
     (if ws_eligible c \<and> (case best of None \<Rightarrow> True | Some b \<Rightarrow> better_score c b)
      then best_score cs (Some c) else best_score cs best)"

definition select_worker :: "RequestId list \<Rightarrow> double \<Rightarrow> ClockTime \<Rightarrow> Impl \<Rightarrow> WorkerId \<times> WorkerScore list" where
  "select_worker members batch_cost now s =
     (case members of
        [] \<Rightarrow> (invalid_id, [])
      | m # _ \<Rightarrow>
          (let sp = rec_spec (req_at s m);
               scores = map (\<lambda>(w, wr). score_worker (im_cfg s) wr sp batch_cost now) (im_workers s)
           in (case best_score scores None of None \<Rightarrow> invalid_id | Some b \<Rightarrow> ws_worker b, scores)))"

section \<open>Planning a dispatch\<close>

definition member_cost :: "RequestSpec \<Rightarrow> double" where
  "member_cost sp = dmax (Fin 1 0) (dem_cost_units (spec_demand sp))"

definition batch_cost_of :: "Impl \<Rightarrow> RequestId list \<Rightarrow> double" where
  "batch_cost_of s members = fold (\<lambda>rid c. dadd c (member_cost (rec_spec (req_at s rid)))) members (Fin 0 0)"

definition batch_units_of :: "Impl \<Rightarrow> RequestId list \<Rightarrow> int" where
  "batch_units_of s members = (\<Sum>rid\<leftarrow>members. ceil_cost (dem_cost_units (spec_demand (rec_spec (req_at s rid)))))"

definition reserve_worker :: "WorkerId \<Rightarrow> BatchId \<Rightarrow> int \<Rightarrow> RequestId list \<Rightarrow> Impl \<Rightarrow> Impl" where
  "reserve_worker w bid units members s =
     (let s1 = modify_worker w (\<lambda>wr. wr\<lparr>wk_reserved_units := wk_reserved_units wr + units,
                 wk_batch_units := omap_set bid units (wk_batch_units wr),
                 wk_batch_pending := omap_set bid (int (length members)) (wk_batch_pending wr),
                 wk_batch_members := omap_set bid members (wk_batch_members wr)\<rparr>) s
      in s1\<lparr>im_global_reserved_units := im_global_reserved_units s1 + units\<rparr>)"

definition reserve_member :: "WorkerId \<Rightarrow> BatchId \<Rightarrow> ClockTime \<Rightarrow> RequestId \<Rightarrow> Impl \<Rightarrow> Impl" where
  "reserve_member w bid now rid s =
     (let s1 = dequeue_request rid s;
          sp = rec_spec (req_at s1 rid);
          s2 = account_flow sp (member_cost sp) s1;
          s3 = modify_req rid (\<lambda>r. r\<lparr>rec_state := RS_Reserved, rec_reserved_at := now,
                 rec_in_batch := True, rec_batch_id := bid,
                 rec_history := map_last (\<lambda>a. a\<lparr>att_state := AS_Reserved\<rparr>) (rec_history r)\<rparr>) s2;
          r = req_at s3 rid
      in emit_event ''reserved'' (rec_request_id r) (rec_current_attempt r) w bid (rec_terminal_reason r) s3)"

definition commit_dispatch :: "DispatchOutcome \<Rightarrow> RequestId \<Rightarrow> bool \<Rightarrow> RequestId list \<Rightarrow> int \<Rightarrow> WorkerId \<Rightarrow> WorkerScore list \<Rightarrow> ClockTime \<Rightarrow> Impl \<Rightarrow> DispatchOutcome result \<times> Impl" where
  \<comment> \<open>from \<open>// reserve batch\<close> to the end of \<open>do_plan_dispatch\<close>\<close>
  "commit_dispatch out request expl members units w scores now s =
     (let (bid, s1) = fresh_id s;
          s2 = reserve_worker w bid units members s1;
          s3 = fold (reserve_member w bid now) members s2;
          out1 = out\<lparr>do_worker_id := w, do_batch_id := bid, do_decision := DD_Dispatch,
                   do_reason_code := ''dispatched'', do_estimated_cost_units := units,
                   do_batch_members := members, do_generation := rec_generation (req_at s3 request),
                   do_explanation := (if expl \<and> list_ex (\<lambda>sc. ws_worker sc = w) scores
                     then ''selected worker by weighted score'' else do_explanation out)\<rparr>;
          s4 = modify_stats (\<lambda>st. st\<lparr>st_dispatches := st_dispatches st + 1,
                 st_batches_formed := (if length members > 1 then st_batches_formed st + 1 else st_batches_formed st),
                 st_batch_members := st_batch_members st + of_nat (length members)\<rparr>) s3
      in (result_ok out1, s4))"

definition do_plan_dispatch :: "RequestId \<Rightarrow> bool \<Rightarrow> Impl \<Rightarrow> DispatchOutcome result \<times> Impl" where
  "do_plan_dispatch request expl s0 =
     (let now = im_clock_now s0; s = expire_scan now s0 in
      case find_req s request of
        None \<Rightarrow> (result_err (make_error EC_NotFound ''request not found''), s)
      | Some r \<Rightarrow>
        (let out = default_DispatchOutcome\<lparr>do_request_id := request, do_attempt_id := rec_current_attempt r\<rparr> in
         if dl_valid (spec_deadline (rec_spec r)) \<and> expired (spec_deadline (rec_spec r)) now then
           (result_ok (out\<lparr>do_decision := DD_Hold, do_reason_code := ''deadline_expired''\<rparr>),
            if rec_state r = RS_Queued then expire_request request s else s)
         else if rec_state r \<noteq> RS_Queued \<and> rec_state r \<noteq> RS_Admitted then
           (result_ok (out\<lparr>do_decision := DD_Hold, do_reason_code := ''not_runnable''\<rparr>), s)
         else
           (let members = (case form_batch request now s of [] \<Rightarrow> [request] | ms \<Rightarrow> ms);
                cost = batch_cost_of s members; units = batch_units_of s members;
                (w, scores) = select_worker members cost now s;
                out1 = out\<lparr>do_candidates := scores\<rparr>
            in if \<not> valid_id w then
                 (result_ok (out1\<lparr>do_decision := DD_NoEligibleWorker, do_reason_code := ''no_eligible_worker'',
                    do_explanation := (if expl then ''no eligible worker with capacity/compatibility''
                                       else do_explanation out1)\<rparr>), s)
               else
                 (let wr = worker_at s w in
                  if cap_total_capacity_units (reg_capability (wk_registration wr)) > 0 \<and> units > free_units wr then
                    (result_ok (out1\<lparr>do_decision := DD_Hold, do_reason_code := ''reservation_capacity_exceeded''\<rparr>), s)
                  else commit_dispatch out1 request expl members units w scores now s))))"

definition plan_next_pick :: "Impl \<Rightarrow> RequestId option \<times> Impl" where
  "plan_next_pick s = (let now = im_clock_now s in pick_seed now (expire_scan now s))"

definition do_plan_next :: "bool \<Rightarrow> Impl \<Rightarrow> DispatchOutcome result \<times> Impl" where
  "do_plan_next expl s = (case plan_next_pick s of
     (None, s1) \<Rightarrow> (result_ok (default_DispatchOutcome\<lparr>do_decision := DD_Hold, do_reason_code := ''no_runnable''\<rparr>), s1)
   | (Some seed, s1) \<Rightarrow> do_plan_dispatch seed expl s1)"

section \<open>What each operation leaves alone\<close>

lemma reserve_worker_frame [simp, frame]:
  "im_cfg (reserve_worker w bid u ms s) = im_cfg s"
  "im_clock_now (reserve_worker w bid u ms s) = im_clock_now s"
  "im_id_factory (reserve_worker w bid u ms s) = im_id_factory s"
  "im_virtual_time (reserve_worker w bid u ms s) = im_virtual_time s"
  "im_requests (reserve_worker w bid u ms s) = im_requests s"
  "im_tenants (reserve_worker w bid u ms s) = im_tenants s"
  "im_flows (reserve_worker w bid u ms s) = im_flows s"
  "im_compat (reserve_worker w bid u ms s) = im_compat s"
  "im_active_flows (reserve_worker w bid u ms s) = im_active_flows s"
  "im_queued (reserve_worker w bid u ms s) = im_queued s"
  "im_global_admitted (reserve_worker w bid u ms s) = im_global_admitted s"
  "im_global_queued (reserve_worker w bid u ms s) = im_global_queued s"
  "im_global_running_units (reserve_worker w bid u ms s) = im_global_running_units s"
  "req_at (reserve_worker w bid u ms s) x = req_at s x"
  "flow_at (reserve_worker w bid u ms s) z = flow_at s z"
  "tenant_of (reserve_worker w bid u ms s) v = tenant_of s v"
  by (simp_all add: reserve_worker_def Let_def split_beta)

lemma reserve_member_frame [simp, frame]:
  "im_cfg (reserve_member w bid now rid s) = im_cfg s"
  "im_clock_now (reserve_member w bid now rid s) = im_clock_now s"
  "im_id_factory (reserve_member w bid now rid s) = im_id_factory s"
  "im_workers (reserve_member w bid now rid s) = im_workers s"
  "im_active_flows (reserve_member w bid now rid s) = im_active_flows s"
  "im_global_admitted (reserve_member w bid now rid s) = im_global_admitted s"
  "im_global_reserved_units (reserve_member w bid now rid s) = im_global_reserved_units s"
  "im_global_running_units (reserve_member w bid now rid s) = im_global_running_units s"
  "worker_at (reserve_member w bid now rid s) y = worker_at s y"
  by (simp_all add: reserve_member_def Let_def split_beta)

section \<open>Effects\<close>

lemma reserve_member_effect:
  obtains r' where "im_requests (reserve_member w bid now rid s) = AList.update rid r' (im_requests s)"
    and "rec_state r' = RS_Reserved" and "same_id r' (req_at s rid)"
    and "rec_in_batch r'" and "rec_batch_id r' = bid"
    and "rec_cancellation_committed r' = rec_cancellation_committed (req_at s rid)"
  by (rule that [of "(req_at s rid)\<lparr>rec_state := RS_Reserved, rec_reserved_at := now,
        rec_in_batch := True, rec_batch_id := bid,
        rec_history := map_last (\<lambda>a. a\<lparr>att_state := AS_Reserved\<rparr>) (rec_history (req_at s rid))\<rparr>"])
    (simp_all add: reserve_member_def Let_def same_id_def hist_ids_def hist_ids_map_last)

lemma account_flow_pending [simp]: "fl_pending (flow_at (account_flow sp c s) k) = fl_pending (flow_at s k)"
  by (simp add: account_flow_def Let_def)

lemma reserve_member_tables [simp]:
  "im_queued (reserve_member w bid now rid s) = im_queued (dequeue_request rid s)"
  "im_global_queued (reserve_member w bid now rid s) = im_global_queued (dequeue_request rid s)"
  "im_compat (reserve_member w bid now rid s) = im_compat (dequeue_request rid s)"
  "ten_admitted (tenant_of (reserve_member w bid now rid s) u) = ten_admitted (tenant_of s u)"
  "ten_queued (tenant_of (reserve_member w bid now rid s) u) = ten_queued (tenant_of (dequeue_request rid s) u)"
  "fl_pending (flow_at (reserve_member w bid now rid s) k) = fl_pending (flow_at s k)"
  by (simp_all add: reserve_member_def Let_def)

lemma reserve_worker_workers:
  "im_workers (reserve_worker w bid units members s) = AList.update w ((worker_at s w)\<lparr>
     wk_reserved_units := wk_reserved_units (worker_at s w) + units,
     wk_batch_units := omap_set bid units (wk_batch_units (worker_at s w)),
     wk_batch_pending := omap_set bid (int (length members)) (wk_batch_pending (worker_at s w)),
     wk_batch_members := omap_set bid members (wk_batch_members (worker_at s w))\<rparr>) (im_workers s)"
  by (simp add: reserve_worker_def Let_def)

section \<open>Case analysis of a planning call\<close>

lemma do_plan_dispatch_cases:
  fixes rid s0
  defines "now \<equiv> im_clock_now s0" and "s \<equiv> expire_scan (im_clock_now s0) s0"
  obtains (idle) "snd (do_plan_dispatch rid expl s0) = s"
    and "\<forall>out. fst (do_plan_dispatch rid expl s0) = Inr out \<longrightarrow> do_decision out \<noteq> DD_Dispatch"
  | (expire) "snd (do_plan_dispatch rid expl s0) = expire_request rid s"
    and "\<forall>out. fst (do_plan_dispatch rid expl s0) = Inr out \<longrightarrow> do_decision out \<noteq> DD_Dispatch"
  | (commit) r members out w scores where "find_req s rid = Some r"
      and "rec_state r = RS_Queued \<or> rec_state r = RS_Admitted"
      and "\<not> (dl_valid (spec_deadline (rec_spec r)) \<and> expired (spec_deadline (rec_spec r)) now)"
      and "members = form_batch rid now s"
      and "select_worker members (batch_cost_of s members) now s = (w, scores)" and "valid_id w"
      and "\<not> (cap_total_capacity_units (reg_capability (wk_registration (worker_at s w))) > 0 \<and>
               batch_units_of s members > free_units (worker_at s w))"
      and "do_plan_dispatch rid expl s0 =
             commit_dispatch out rid expl members (batch_units_of s members) w scores now s"
proof (cases "find_req s rid")
  case None
  then show thesis
    by (intro idle) (simp_all add: do_plan_dispatch_def Let_def s_def result_err_def)
next
  case (Some r)
  let ?late = "dl_valid (spec_deadline (rec_spec r)) \<and> expired (spec_deadline (rec_spec r)) now"
  let ?ready = "rec_state r = RS_Queued \<or> rec_state r = RS_Admitted"
  note found = Some [unfolded s_def]
  show thesis
  proof (cases "?late \<or> \<not> ?ready")
    case True
    note eq = do_plan_dispatch_def [of rid expl s0] Let_def s_def now_def result_ok_def found
    show thesis
    proof (cases "?late \<and> rec_state r = RS_Queued")
      case True
      then show thesis
        by (intro expire) (auto simp: eq)
    next
      case False
      with \<open>?late \<or> \<not> ?ready\<close> show thesis
        by (intro idle) (auto simp: eq)
    qed
  next
    case False
    obtain n where shape: "form_batch rid now s =
        rid # take n (sort_by (batch_less s now) (batch_candidates s now rid))"
      using Some by (rule form_batch_shape)
    let ?ms = "form_batch rid now s"
    obtain w scores where sel: "select_worker ?ms (batch_cost_of s ?ms) now s = (w, scores)"
      by fastforce
    have ms: "(case ?ms of [] \<Rightarrow> [rid] | m # ms \<Rightarrow> m # ms) = ?ms"
      using shape by simp
    let ?full = "cap_total_capacity_units (reg_capability (wk_registration (worker_at s w))) > 0 \<and>
               batch_units_of s ?ms > free_units (worker_at s w)"
    let ?out = "default_DispatchOutcome\<lparr>do_request_id := rid, do_attempt_id := rec_current_attempt r,
      do_candidates := scores\<rparr>"
    note eq = do_plan_dispatch_def [of rid expl s0, unfolded Let_def, folded now_def, folded s_def [folded now_def]]
    show thesis
    proof (cases "valid_id w \<and> \<not> ?full")
      case True
      show thesis
        by (rule commit [of r ?ms w scores ?out])
          (use Some False True ms sel in \<open>auto simp: eq\<close>)
    next
      case held: False
      show thesis
        by (rule idle) (use Some False held ms sel in \<open>auto simp: eq result_ok_def\<close>)
    qed
  qed
qed

lemma commit_dispatch_state:
  "snd (commit_dispatch out rid expl members units w scores now s) =
     modify_stats (\<lambda>st. st\<lparr>st_dispatches := st_dispatches st + 1,
       st_batches_formed := (if length members > 1 then st_batches_formed st + 1 else st_batches_formed st),
       st_batch_members := st_batch_members st + of_nat (length members)\<rparr>)
     (fold (reserve_member w (fst (next_id (im_id_factory s))) now) members
        (reserve_worker w (fst (next_id (im_id_factory s))) units members (snd (fresh_id s))))"
  by (simp add: commit_dispatch_def Let_def split_beta)

end
