(* ===== verification/Lifecycle.thy ===== *)
theory Lifecycle
  imports Dispatch
begin

text \<open>
  The life of a dispatched attempt: releasing reservations (\<open>release_batch\<close>,
  \<open>release_batch_member\<close>), the terminal transitions (\<open>finish_success\<close>,
  \<open>finish_failed\<close>, \<open>finish_cancelled\<close>), retries (\<open>can_retry\<close>, \<open>make_retry\<close>),
  and the calls that drive them: \<open>do_confirm_start\<close>, \<open>do_complete\<close>, \<open>do_cancel\<close> and
  \<open>do_cancel_all_queued\<close>.
\<close>

section \<open>Releasing capacity\<close>

definition nonneg :: "int \<Rightarrow> int" where
  \<comment> \<open>\<open>if (x < 0) x = 0;\<close>\<close>
  "nonneg x = (if x < 0 then 0 else x)"

definition drop_batch :: "BatchId \<Rightarrow> WorkerRecord \<Rightarrow> WorkerRecord" where
  "drop_batch bid wr = wr\<lparr>wk_batch_units := AList.delete bid (wk_batch_units wr),
     wk_batch_pending := AList.delete bid (wk_batch_pending wr),
     wk_batch_members := AList.delete bid (wk_batch_members wr),
     wk_started_batches := uset_erase bid (wk_started_batches wr)\<rparr>"

definition settle_worker :: "WorkerRecord \<Rightarrow> WorkerRecord" where
  "settle_worker wr =
     (let wr1 = wr\<lparr>wk_running_units := nonneg (wk_running_units wr),
                   wk_reserved_units := nonneg (wk_reserved_units wr)\<rparr>
      in if wk_running_units wr1 = 0 \<and> wk_reserved_units wr1 = 0 \<and> wk_state wr1 = WS_Busy
         then wr1\<lparr>wk_state := WS_Online\<rparr> else wr1)"

definition release_batch :: "WorkerId \<Rightarrow> BatchId \<Rightarrow> Impl \<Rightarrow> Impl" where
  "release_batch w bid s = (case find_wrk s w of
     None \<Rightarrow> s
   | Some wr \<Rightarrow>
      (let units = umap_at 0 (wk_batch_units wr) bid;
           started = bid \<in> set (wk_started_batches wr);
           wr1 = (if started then wr\<lparr>wk_running_units := wk_running_units wr - units\<rparr>
                  else wr\<lparr>wk_reserved_units := wk_reserved_units wr - units\<rparr>);
           s1 = (if started then s\<lparr>im_global_running_units := im_global_running_units s - units\<rparr>
                 else s\<lparr>im_global_reserved_units := im_global_reserved_units s - units\<rparr>);
           s2 = modify_worker w (\<lambda>_. settle_worker (drop_batch bid wr1)) s1
       in s2\<lparr>im_global_running_units := nonneg (im_global_running_units s2),
             im_global_reserved_units := nonneg (im_global_reserved_units s2)\<rparr>))"

definition release_batch_member :: "RequestId \<Rightarrow> WorkerId \<Rightarrow> Impl \<Rightarrow> Impl" where
  "release_batch_member rid w s = (case find_wrk s w of
     None \<Rightarrow> s
   | Some _ \<Rightarrow>
      (let r = req_at s rid; bid = rec_batch_id r;
           s1 = modify_worker w (\<lambda>wr. wr\<lparr>wk_in_flight := AList.delete (rec_request_id r) (wk_in_flight wr)\<rparr>) s;
           s2 = (if rec_in_batch r \<and> valid_id bid then
                   (case map_of (wk_batch_pending (worker_at s1 w)) bid of
                      None \<Rightarrow> s1
                    | Some p \<Rightarrow>
                       (let s' = modify_worker w (\<lambda>wr. wr\<lparr>wk_batch_pending := omap_set bid (p - 1) (wk_batch_pending wr)\<rparr>) s1
                        in if p - 1 \<le> 0 then release_batch w bid s' else s'))
                 else s1)
       in modify_req rid (\<lambda>r. r\<lparr>rec_in_batch := False, rec_batch_id := invalid_id\<rparr>) s2))"

section \<open>Terminal transitions\<close>

definition tenant_release :: "TenantId \<Rightarrow> Impl \<Rightarrow> Impl" where
  \<comment> \<open>one unit less admitted globally, for the tenant, and running for the tenant\<close>
  "tenant_release t s =
     modify_tenant t (\<lambda>u. u\<lparr>ten_admitted := dec_pos (ten_admitted u), ten_running := dec_pos (ten_running u)\<rparr>)
       (s\<lparr>im_global_admitted := dec_pos (im_global_admitted s)\<rparr>)"

definition count_completed :: "LatencyClass \<Rightarrow> SchedulerStats \<Rightarrow> SchedulerStats" where
  "count_completed c st = st\<lparr>st_requests_completed := st_requests_completed st + 1,
     st_completions := st_completions st + 1,
     st_by_latency := (st_by_latency st)[latency_index c :=
       (st_by_latency st ! latency_index c)\<lparr>lcs_completed := lcs_completed (st_by_latency st ! latency_index c) + 1\<rparr>]\<rparr>"

definition finish_success :: "RequestId \<Rightarrow> CompletionReport \<Rightarrow> Impl \<Rightarrow> Impl" where
  "finish_success rid rep s =
     (let s1 = modify_req rid (\<lambda>r. r\<lparr>rec_state := RS_Completing, rec_completed_at := im_clock_now s,
                 rec_history := map_last (\<lambda>a. a\<lparr>att_state := AS_Succeeded, att_final_status := CS_Succeeded,
                   att_output_tokens := cr_output_tokens_produced rep, att_work_units := cr_work_units rep,
                   att_duration_us := cr_duration_us rep\<rparr>) (rec_history r)\<rparr>) s;
          s2 = modify_req rid (\<lambda>r. r\<lparr>rec_state := RS_Completed, rec_terminal_reason := []\<rparr>) s1;
          s3 = release_batch_member rid (cr_worker rep) s2;
          sp = rec_spec (req_at s3 rid);
          s4 = tenant_release (spec_tenant sp) s3;
          s5 = modify_stats (count_completed (spec_latency_class sp)) s4;
          r = req_at s5 rid
      in emit_event ''completed'' (rec_request_id r) (rec_current_attempt r) (cr_worker rep) (rec_batch_id r)
           (rec_terminal_reason r) s5)"

definition fail_attempt :: "CompletionReport \<Rightarrow> AttemptRecord \<Rightarrow> AttemptRecord" where
  "fail_attempt rep a = a\<lparr>att_state := AS_Failed, att_final_status := CS_Failed,
     att_failure_class := cr_failure_class rep, att_error_message := cr_error_message rep\<rparr>"

definition finish_failed :: "RequestId \<Rightarrow> CompletionReport \<Rightarrow> Impl \<Rightarrow> Impl" where
  "finish_failed rid rep s =
     (let s1 = modify_req rid (\<lambda>r. r\<lparr>rec_history := map_last (fail_attempt rep) (rec_history r)\<rparr>) s;
          s2 = release_batch_member rid (cr_worker rep) s1;
          s3 = modify_req rid (\<lambda>r. r\<lparr>rec_state := RS_Failed,
                 rec_terminal_reason := name_of_failure_class (cr_failure_class rep)\<rparr>) s2;
          s4 = tenant_release (spec_tenant (rec_spec (req_at s3 rid))) s3;
          s5 = modify_stats (\<lambda>st. st\<lparr>st_requests_failed := st_requests_failed st + 1,
                 st_completions := st_completions st + 1\<rparr>) s4;
          r = req_at s5 rid
      in emit_event ''failed'' (rec_request_id r) (rec_current_attempt r) (cr_worker rep) (rec_batch_id r)
           (rec_terminal_reason r) s5)"

definition on_worker :: "RequestState \<Rightarrow> bool" where
  "on_worker st \<longleftrightarrow> st = RS_Reserved \<or> st = RS_Dispatched \<or> st = RS_Running"

definition dec_running :: "TenantRecord \<Rightarrow> TenantRecord" where
  "dec_running u = u\<lparr>ten_running := dec_pos (ten_running u)\<rparr>"

definition finish_cancelled :: "RequestId \<Rightarrow> WorkerId \<Rightarrow> string \<Rightarrow> Impl \<Rightarrow> Impl" where
  "finish_cancelled rid w reason s =
     (let r = req_at s rid; ten = spec_tenant (rec_spec r) in
      if is_terminal (rec_state r) then s
      else let
          s1 = (if on_worker (rec_state r) then modify_tenant ten dec_running (release_batch_member rid w s) else s);
          s2 = dequeue_request rid s1;
          s3 = modify_req rid (\<lambda>r. r\<lparr>rec_cancellation_committed := True, rec_state := RS_Cancelled,
                 rec_terminal_reason := reason,
                 rec_history := map_last (\<lambda>a. a\<lparr>att_state := AS_Cancelled, att_final_status := CS_Cancelled\<rparr>) (rec_history r)\<rparr>) s2;
          s4 = s3\<lparr>im_global_admitted := dec_pos (im_global_admitted s3)\<rparr>;
          s5 = modify_tenant ten (\<lambda>u. u\<lparr>ten_admitted := dec_pos (ten_admitted u)\<rparr>) s4;
          s6 = modify_stats (\<lambda>st. st\<lparr>st_requests_cancelled := st_requests_cancelled st + 1\<rparr>) s5;
          q = req_at s6 rid
        in emit_event ''cancelled'' (rec_request_id q) (rec_current_attempt q) w (rec_batch_id q)
             (rec_terminal_reason q) s6)"

definition finish_expired :: "RequestId \<Rightarrow> CompletionReport \<Rightarrow> Impl \<Rightarrow> Impl" where
  \<comment> \<open>the branch of \<open>do_complete\<close> for \<open>CompletionStatus::Expired\<close>\<close>
  "finish_expired rid rep s =
     (let s1 = modify_req rid (\<lambda>r. r\<lparr>rec_history := map_last (\<lambda>a. a\<lparr>att_state := AS_Expired\<rparr>) (rec_history r)\<rparr>) s;
          s2 = release_batch_member rid (cr_worker rep) s1;
          s3 = modify_req rid (\<lambda>r. r\<lparr>rec_state := RS_Expired, rec_terminal_reason := ''deadline_expired''\<rparr>) s2;
          s4 = tenant_release (spec_tenant (rec_spec (req_at s3 rid))) s3;
          s5 = modify_stats (\<lambda>st. st\<lparr>st_requests_expired := st_requests_expired st + 1\<rparr>) s4;
          r = req_at s5 rid
      in emit_event ''expired'' (rec_request_id r) (rec_current_attempt r) (cr_worker rep) (rec_batch_id r)
           (rec_terminal_reason r) s5)"

section \<open>Retries\<close>

definition can_retry :: "SchedulerConfig \<Rightarrow> RequestRecord \<Rightarrow> ClockTime \<Rightarrow> bool" where
  "can_retry cfg r now =
     (if rec_cancellation_requested r \<or> rec_cancellation_committed r then False
      else if int (length (rec_history r)) \<ge> ret_max_attempts (cfg_retry cfg) then False
      else if dl_valid (spec_deadline (rec_spec r)) \<and> expired (spec_deadline (rec_spec r)) now then False
      else True)"

definition make_retry :: "RequestId \<Rightarrow> CompletionReport \<Rightarrow> Impl \<Rightarrow> Impl" where
  "make_retry rid rep s =
     (let s1 = modify_req rid (\<lambda>r. r\<lparr>rec_history := map_last (fail_attempt rep) (rec_history r)\<rparr>) s;
          s2 = release_batch_member rid (cr_worker rep) s1;
          s3 = modify_tenant (spec_tenant (rec_spec (req_at s2 rid))) dec_running s2;
          (gen, s4) = fresh_id s3;
          (att, s5) = fresh_id s4;
          a = default_AttemptRecord\<lparr>att_attempt_id := att, att_generation := gen, att_state := AS_Created,
                att_created_at := im_clock_now s\<rparr>;
          s6 = modify_req rid (\<lambda>r. r\<lparr>rec_generation := gen, rec_current_attempt := att,
                 rec_history := rec_history r @ [a]\<rparr>) s5;
          s7 = modify_stats (\<lambda>st. st\<lparr>st_attempts_created := st_attempts_created st + 1,
                 st_retries := st_retries st + 1\<rparr>) s6;
          s8 = modify_req rid (\<lambda>r. r\<lparr>rec_state := RS_Queued, rec_queued_at := im_clock_now s,
                 rec_in_batch := False, rec_batch_id := invalid_id\<rparr>) s7;
          s9 = enqueue_request rid s8;
          r = req_at s9 rid
      in emit_event ''retry'' (rec_request_id r) (rec_current_attempt r) (cr_worker rep) invalid_id
           (rec_terminal_reason r) s9)"

section \<open>Confirming a start\<close>

definition start_batch :: "WorkerId \<Rightarrow> BatchId \<Rightarrow> Impl \<Rightarrow> Impl" where
  \<comment> \<open>the first confirmation of a batch moves its units from reserved to running\<close>
  "start_batch w bid s =
     (let wr = worker_at s w in
      if bid \<in> set (wk_started_batches wr) then s
      else let units = umap_at 0 (wk_batch_units wr) bid;
               s1 = modify_worker w (\<lambda>wr. wr\<lparr>wk_reserved_units := wk_reserved_units wr - units,
                      wk_running_units := wk_running_units wr + units,
                      wk_started_batches := oset_insert bid (wk_started_batches wr)\<rparr>) s
           in s1\<lparr>im_global_reserved_units := im_global_reserved_units s1 - units,
                 im_global_running_units := im_global_running_units s1 + units\<rparr>)"

definition run_request :: "RequestId \<Rightarrow> CompletionReport \<Rightarrow> Impl \<Rightarrow> Impl" where
  "run_request rid rep s =
     (let now = im_clock_now s;
          s1 = modify_req rid (\<lambda>r. r\<lparr>rec_state := RS_Running, rec_started_at := now,
                 rec_schedule_delay_ms := ms_between (rec_queued_at r) now,
                 rec_history := map_last (\<lambda>a. a\<lparr>att_state := AS_Running, att_worker := cr_worker rep,
                   att_batch := rec_batch_id r\<rparr>) (rec_history r)\<rparr>) s;
          r = req_at s1 rid;
          s2 = modify_worker (cr_worker rep) (\<lambda>wr. wr\<lparr>wk_in_flight :=
                 omap_set (rec_request_id r) (rec_current_attempt r) (wk_in_flight wr)\<rparr>) s1;
          s3 = modify_tenant (spec_tenant (rec_spec r)) (\<lambda>t. t\<lparr>ten_running := ten_running t + 1\<rparr>) s2;
          snap = cr_worker_snapshot rep;
          s4 = modify_worker (cr_worker rep) (\<lambda>wr.
                 (let wr1 = (if wk_state wr = WS_Online then wr\<lparr>wk_state := WS_Busy\<rparr> else wr)
                  in if rsn_available_capacity_units snap \<ge> 0 then
                       wr1\<lparr>wk_resource := (wk_resource wr1)\<lparr>
                         rsn_available_capacity_units := rsn_available_capacity_units snap,
                         rsn_queue_depth := rsn_queue_depth snap\<rparr>\<rparr>
                     else wr1)) s3;
          s5 = modify_stats (\<lambda>st. st\<lparr>st_dispatches := st_dispatches st + 1\<rparr>) s4
      in emit_event ''running'' (rec_request_id r) (rec_current_attempt r) (cr_worker rep) (rec_batch_id r)
           ''running'' s5)"

definition do_confirm_start :: "CompletionReport \<Rightarrow> Impl \<Rightarrow> unit result \<times> Impl" where
  "do_confirm_start rep s =
     (if cr_epoch rep \<noteq> im_epoch_value s then (result_err (make_error EC_StaleEpoch ''stale epoch''), s)
      else case find_req s (cr_request_id rep) of
        None \<Rightarrow> (result_err (make_error EC_NotFound ''request not found''), s)
      | Some r \<Rightarrow>
        if rec_current_attempt r \<noteq> cr_attempt_id rep \<or> rec_generation r \<noteq> cr_generation rep
          then (result_err (make_error EC_StaleAttempt ''stale attempt''), s)
        else if rec_state r \<noteq> RS_Reserved then (result_err (make_error EC_InvalidState ''not reserved''), s)
        else case find_wrk s (cr_worker rep) of
          None \<Rightarrow> (result_err (make_error EC_StaleWorker ''stale worker''), s)
        | Some wr \<Rightarrow>
          if reg_boot_id (wk_registration wr) \<noteq> cr_boot_id rep
            then (result_err (make_error EC_StaleWorker ''stale worker''), s)
          else if wk_state wr = WS_Offline \<or> wk_state wr = WS_Unhealthy \<or> wk_state wr = WS_Drained
            then (result_err (make_error EC_InvalidState ''worker not ready''), s)
          else if \<not> valid_id (rec_batch_id r) then (result_err (make_error EC_InvalidState ''no batch''), s)
          else (result_ok (), run_request (cr_request_id rep) rep (start_batch (cr_worker rep) (rec_batch_id r) s)))"

section \<open>Processing a completion\<close>

definition outcome :: "CompletionAcceptance \<Rightarrow> string \<Rightarrow> CompletionOutcome result" where
  "outcome acc reason = result_ok (default_CompletionOutcome\<lparr>co_acceptance := acc, co_reason_code := reason\<rparr>)"

definition count_stale :: "Impl \<Rightarrow> Impl" where
  "count_stale s = modify_stats (\<lambda>st. st\<lparr>st_stale_rejected := st_stale_rejected st + 1\<rparr>) s"

definition retryable :: "SchedulerConfig \<Rightarrow> FailureClass \<Rightarrow> bool" where
  "retryable cfg fc \<longleftrightarrow> fc = FC_RetryableTransport \<or> fc = FC_RetryableWorker \<or>
     (fc = FC_AmbiguousDispatch \<and> ret_retry_on_ambiguous (cfg_retry cfg))"

definition apply_status :: "CompletionReport \<Rightarrow> Impl \<Rightarrow> CompletionOutcome result \<times> Impl" where
  \<comment> \<open>the part of \<open>do_complete\<close> after the authority checks\<close>
  "apply_status rep s =
     (let rid = cr_request_id rep; r = req_at s rid in
      case cr_status rep of
        CS_Succeeded \<Rightarrow>
          if rec_cancellation_requested r
          then (outcome CA_CancelledOutcome ''cancelled'', finish_cancelled rid (cr_worker rep) ''cancelled'' s)
          else (outcome CA_Accepted ''success'', finish_success rid rep s)
      | CS_Cancelled \<Rightarrow> (outcome CA_Accepted ''cancelled'', finish_cancelled rid (cr_worker rep) ''cancelled'' s)
      | CS_Expired \<Rightarrow> (outcome CA_Accepted ''expired'', finish_expired rid rep s)
      | CS_Stale \<Rightarrow>
          (outcome CA_StaleAttempt ''stale'',
           count_stale (modify_req rid (\<lambda>r. r\<lparr>rec_history := map_last (\<lambda>a. a\<lparr>att_state := AS_Stale\<rparr>) (rec_history r)\<rparr>)
             (release_batch_member rid (cr_worker rep) s)))
      | CS_other _ \<Rightarrow> (outcome CA_Invalid ''unrecognized_status'', s)
      | _ \<Rightarrow>
          if retryable (im_cfg s) (cr_failure_class rep) \<and> can_retry (im_cfg s) r (im_clock_now s)
          then (let s1 = make_retry rid rep s in
                (result_ok (default_CompletionOutcome\<lparr>co_acceptance := CA_Accepted, co_reason_code := ''retry'',
                   co_retried := True, co_retry_attempt := rec_current_attempt (req_at s1 rid)\<rparr>), s1))
          else (outcome CA_Accepted ''failed'', finish_failed rid rep s))"

definition do_complete :: "CompletionReport \<Rightarrow> Impl \<Rightarrow> CompletionOutcome result \<times> Impl" where
  "do_complete rep s =
     (if cr_epoch rep \<noteq> im_epoch_value s then (outcome CA_StaleEpoch ''stale_epoch'', count_stale s)
      else case find_wrk s (cr_worker rep) of
        None \<Rightarrow> (outcome CA_StaleWorker ''stale_worker'', count_stale s)
      | Some wr \<Rightarrow>
        if reg_boot_id (wk_registration wr) \<noteq> cr_boot_id rep
          then (outcome CA_StaleWorker ''stale_worker'', count_stale s)
        else case find_req s (cr_request_id rep) of
          None \<Rightarrow> (outcome CA_Invalid ''unknown_request'', s)
        | Some r \<Rightarrow>
          if rec_current_attempt r \<noteq> cr_attempt_id rep \<or> rec_generation r \<noteq> cr_generation rep
            then (outcome CA_StaleAttempt ''stale_attempt'', count_stale s)
          else if is_terminal (rec_state r) then (outcome CA_Duplicate ''duplicate_completion'', s)
          else if rec_cancellation_committed r then (outcome CA_CancelledOutcome ''cancelled'', s)
          else apply_status rep s)"

section \<open>Cancellation\<close>

definition last_worker :: "RequestRecord \<Rightarrow> WorkerId" where
  "last_worker r = (if rec_history r = [] then invalid_id else att_worker (last (rec_history r)))"

definition do_cancel :: "RequestId \<Rightarrow> CancellationReason \<Rightarrow> string \<Rightarrow> Impl \<Rightarrow> unit result \<times> Impl" where
  "do_cancel rid reason detail s = (case find_req s rid of
     None \<Rightarrow> (result_err (make_error EC_NotFound ''request not found''), s)
   | Some r \<Rightarrow>
      if is_terminal (rec_state r) then (result_err (make_error EC_InvalidState ''already terminal''), s)
      else let s1 = modify_req rid (\<lambda>r. r\<lparr>rec_cancel_reason := reason\<rparr>) s in
        if rec_state r = RS_Reserved then (result_ok (), finish_cancelled rid (last_worker r) ''cancelled'' s1)
        else if rec_state r = RS_Dispatched \<or> rec_state r = RS_Running then
          (result_ok (), emit_event ''cancel_requested'' rid (rec_current_attempt r) (last_worker r) (rec_batch_id r) detail
             (modify_req rid (\<lambda>r. r\<lparr>rec_cancellation_requested := True\<rparr>) s1))
        else (result_ok (), finish_cancelled rid invalid_id ''cancelled'' s1))"

definition cancel_queued :: "string \<Rightarrow> RequestId \<Rightarrow> Impl \<Rightarrow> Impl" where
  "cancel_queued detail rid s = (case find_req s rid of
     None \<Rightarrow> s
   | Some r \<Rightarrow> if is_terminal (rec_state r) then s
      else finish_cancelled rid invalid_id (if detail = [] then ''scheduler_drain'' else detail)
             (modify_req rid (\<lambda>r. r\<lparr>rec_cancel_reason := CR_SchedulerDrain\<rparr>) s))"

definition do_cancel_all_queued :: "string \<Rightarrow> Impl \<Rightarrow> unit result \<times> Impl" where
  "do_cancel_all_queued detail s = (result_ok (), fold (cancel_queued detail) (im_queued s) s)"

section \<open>What each operation leaves alone\<close>

lemma release_batch_frame [simp, frame]:
  "im_cfg (release_batch w bid s) = im_cfg s"
  "im_clock_now (release_batch w bid s) = im_clock_now s"
  "im_id_factory (release_batch w bid s) = im_id_factory s"
  "im_virtual_time (release_batch w bid s) = im_virtual_time s"
  "im_requests (release_batch w bid s) = im_requests s"
  "im_tenants (release_batch w bid s) = im_tenants s"
  "im_flows (release_batch w bid s) = im_flows s"
  "im_compat (release_batch w bid s) = im_compat s"
  "im_active_flows (release_batch w bid s) = im_active_flows s"
  "im_queued (release_batch w bid s) = im_queued s"
  "im_global_admitted (release_batch w bid s) = im_global_admitted s"
  "im_global_queued (release_batch w bid s) = im_global_queued s"
  "req_at (release_batch w bid s) x = req_at s x"
  "flow_at (release_batch w bid s) z = flow_at s z"
  "tenant_of (release_batch w bid s) v = tenant_of s v"
  by (simp_all add: release_batch_def Let_def split_beta split: option.split)

lemma release_batch_member_frame [simp, frame]:
  "im_cfg (release_batch_member rid w s) = im_cfg s"
  "im_clock_now (release_batch_member rid w s) = im_clock_now s"
  "im_id_factory (release_batch_member rid w s) = im_id_factory s"
  "im_virtual_time (release_batch_member rid w s) = im_virtual_time s"
  "im_tenants (release_batch_member rid w s) = im_tenants s"
  "im_flows (release_batch_member rid w s) = im_flows s"
  "im_compat (release_batch_member rid w s) = im_compat s"
  "im_active_flows (release_batch_member rid w s) = im_active_flows s"
  "im_queued (release_batch_member rid w s) = im_queued s"
  "im_global_admitted (release_batch_member rid w s) = im_global_admitted s"
  "im_global_queued (release_batch_member rid w s) = im_global_queued s"
  "flow_at (release_batch_member rid w s) z = flow_at s z"
  "tenant_of (release_batch_member rid w s) v = tenant_of s v"
  by (simp_all add: release_batch_member_def Let_def split_beta split: option.split)

lemma tenant_release_frame [simp, frame]:
  "im_cfg (tenant_release t s) = im_cfg s"
  "im_clock_now (tenant_release t s) = im_clock_now s"
  "im_id_factory (tenant_release t s) = im_id_factory s"
  "im_virtual_time (tenant_release t s) = im_virtual_time s"
  "im_requests (tenant_release t s) = im_requests s"
  "im_workers (tenant_release t s) = im_workers s"
  "im_flows (tenant_release t s) = im_flows s"
  "im_compat (tenant_release t s) = im_compat s"
  "im_active_flows (tenant_release t s) = im_active_flows s"
  "im_queued (tenant_release t s) = im_queued s"
  "im_global_queued (tenant_release t s) = im_global_queued s"
  "im_global_reserved_units (tenant_release t s) = im_global_reserved_units s"
  "im_global_running_units (tenant_release t s) = im_global_running_units s"
  "req_at (tenant_release t s) x = req_at s x"
  "worker_at (tenant_release t s) y = worker_at s y"
  "flow_at (tenant_release t s) z = flow_at s z"
  by (simp_all add: tenant_release_def Let_def split_beta)

lemma finish_success_frame [simp, frame]:
  "im_cfg (finish_success rid rep s) = im_cfg s"
  "im_clock_now (finish_success rid rep s) = im_clock_now s"
  "im_id_factory (finish_success rid rep s) = im_id_factory s"
  "im_virtual_time (finish_success rid rep s) = im_virtual_time s"
  "im_flows (finish_success rid rep s) = im_flows s"
  "im_compat (finish_success rid rep s) = im_compat s"
  "im_active_flows (finish_success rid rep s) = im_active_flows s"
  "im_queued (finish_success rid rep s) = im_queued s"
  "im_global_queued (finish_success rid rep s) = im_global_queued s"
  "flow_at (finish_success rid rep s) z = flow_at s z"
  by (simp_all add: finish_success_def Let_def split_beta)

lemma finish_failed_frame [simp, frame]:
  "im_cfg (finish_failed rid rep s) = im_cfg s"
  "im_clock_now (finish_failed rid rep s) = im_clock_now s"
  "im_id_factory (finish_failed rid rep s) = im_id_factory s"
  "im_virtual_time (finish_failed rid rep s) = im_virtual_time s"
  "im_flows (finish_failed rid rep s) = im_flows s"
  "im_compat (finish_failed rid rep s) = im_compat s"
  "im_active_flows (finish_failed rid rep s) = im_active_flows s"
  "im_queued (finish_failed rid rep s) = im_queued s"
  "im_global_queued (finish_failed rid rep s) = im_global_queued s"
  "flow_at (finish_failed rid rep s) z = flow_at s z"
  by (simp_all add: finish_failed_def Let_def split_beta)

lemma finish_expired_frame [simp, frame]:
  "im_cfg (finish_expired rid rep s) = im_cfg s"
  "im_clock_now (finish_expired rid rep s) = im_clock_now s"
  "im_id_factory (finish_expired rid rep s) = im_id_factory s"
  "im_virtual_time (finish_expired rid rep s) = im_virtual_time s"
  "im_flows (finish_expired rid rep s) = im_flows s"
  "im_compat (finish_expired rid rep s) = im_compat s"
  "im_active_flows (finish_expired rid rep s) = im_active_flows s"
  "im_queued (finish_expired rid rep s) = im_queued s"
  "im_global_queued (finish_expired rid rep s) = im_global_queued s"
  "flow_at (finish_expired rid rep s) z = flow_at s z"
  by (simp_all add: finish_expired_def Let_def split_beta)

lemma finish_cancelled_frame [simp, frame]:
  "im_cfg (finish_cancelled rid w reason s) = im_cfg s"
  "im_clock_now (finish_cancelled rid w reason s) = im_clock_now s"
  "im_id_factory (finish_cancelled rid w reason s) = im_id_factory s"
  "im_virtual_time (finish_cancelled rid w reason s) = im_virtual_time s"
  "im_flows (finish_cancelled rid w reason s) = im_flows s"
  "im_active_flows (finish_cancelled rid w reason s) = im_active_flows s"
  "flow_at (finish_cancelled rid w reason s) z = flow_at s z"
  by (simp_all add: finish_cancelled_def Let_def split_beta)

lemma make_retry_frame [simp, frame]:
  "im_cfg (make_retry rid rep s) = im_cfg s"
  "im_clock_now (make_retry rid rep s) = im_clock_now s"
  "im_virtual_time (make_retry rid rep s) = im_virtual_time s"
  "im_global_admitted (make_retry rid rep s) = im_global_admitted s"
  by (simp_all add: make_retry_def Let_def split_beta)

lemma start_batch_frame [simp, frame]:
  "im_cfg (start_batch w bid s) = im_cfg s"
  "im_clock_now (start_batch w bid s) = im_clock_now s"
  "im_id_factory (start_batch w bid s) = im_id_factory s"
  "im_virtual_time (start_batch w bid s) = im_virtual_time s"
  "im_requests (start_batch w bid s) = im_requests s"
  "im_tenants (start_batch w bid s) = im_tenants s"
  "im_flows (start_batch w bid s) = im_flows s"
  "im_compat (start_batch w bid s) = im_compat s"
  "im_active_flows (start_batch w bid s) = im_active_flows s"
  "im_queued (start_batch w bid s) = im_queued s"
  "im_global_admitted (start_batch w bid s) = im_global_admitted s"
  "im_global_queued (start_batch w bid s) = im_global_queued s"
  "req_at (start_batch w bid s) x = req_at s x"
  "flow_at (start_batch w bid s) z = flow_at s z"
  "tenant_of (start_batch w bid s) v = tenant_of s v"
  by (simp_all add: start_batch_def Let_def split_beta)

lemma run_request_frame [simp, frame]:
  "im_cfg (run_request rid rep s) = im_cfg s"
  "im_clock_now (run_request rid rep s) = im_clock_now s"
  "im_id_factory (run_request rid rep s) = im_id_factory s"
  "im_virtual_time (run_request rid rep s) = im_virtual_time s"
  "im_flows (run_request rid rep s) = im_flows s"
  "im_compat (run_request rid rep s) = im_compat s"
  "im_active_flows (run_request rid rep s) = im_active_flows s"
  "im_queued (run_request rid rep s) = im_queued s"
  "im_global_admitted (run_request rid rep s) = im_global_admitted s"
  "im_global_queued (run_request rid rep s) = im_global_queued s"
  "im_global_reserved_units (run_request rid rep s) = im_global_reserved_units s"
  "im_global_running_units (run_request rid rep s) = im_global_running_units s"
  "flow_at (run_request rid rep s) z = flow_at s z"
  by (simp_all add: run_request_def Let_def split_beta)

lemma count_stale_frame [simp, frame]:
  "im_cfg (count_stale s) = im_cfg s"
  "im_clock_now (count_stale s) = im_clock_now s"
  "im_id_factory (count_stale s) = im_id_factory s"
  "im_virtual_time (count_stale s) = im_virtual_time s"
  "im_requests (count_stale s) = im_requests s"
  "im_workers (count_stale s) = im_workers s"
  "im_tenants (count_stale s) = im_tenants s"
  "im_flows (count_stale s) = im_flows s"
  "im_compat (count_stale s) = im_compat s"
  "im_active_flows (count_stale s) = im_active_flows s"
  "im_queued (count_stale s) = im_queued s"
  "im_global_admitted (count_stale s) = im_global_admitted s"
  "im_global_queued (count_stale s) = im_global_queued s"
  "im_global_reserved_units (count_stale s) = im_global_reserved_units s"
  "im_global_running_units (count_stale s) = im_global_running_units s"
  "req_at (count_stale s) x = req_at s x"
  "worker_at (count_stale s) y = worker_at s y"
  "flow_at (count_stale s) z = flow_at s z"
  "tenant_of (count_stale s) v = tenant_of s v"
  by (simp_all add: count_stale_def Let_def split_beta)

lemma cancel_queued_frame [simp, frame]:
  "im_cfg (cancel_queued detail rid s) = im_cfg s"
  "im_clock_now (cancel_queued detail rid s) = im_clock_now s"
  "im_id_factory (cancel_queued detail rid s) = im_id_factory s"
  "im_virtual_time (cancel_queued detail rid s) = im_virtual_time s"
  "im_flows (cancel_queued detail rid s) = im_flows s"
  "im_active_flows (cancel_queued detail rid s) = im_active_flows s"
  "flow_at (cancel_queued detail rid s) z = flow_at s z"
  by (simp_all add: cancel_queued_def Let_def split_beta split: option.split)

section \<open>Effects\<close>

definition released :: "Impl \<Rightarrow> WorkerId \<Rightarrow> RequestRecord \<Rightarrow> RequestRecord" where
  \<comment> \<open>a record after \<open>release_batch_member\<close>: nothing happens for an unknown worker\<close>
  "released s w r = (if find_wrk s w = None then r else r\<lparr>rec_in_batch := False, rec_batch_id := invalid_id\<rparr>)"

definition free_batch :: "BatchId \<Rightarrow> WorkerRecord \<Rightarrow> WorkerRecord" where
  \<comment> \<open>what \<open>release_batch\<close> does to the worker's record\<close>
  "free_batch bid wr =
     (let units = umap_at 0 (wk_batch_units wr) bid
      in settle_worker (drop_batch bid
           (if bid \<in> set (wk_started_batches wr) then wr\<lparr>wk_running_units := wk_running_units wr - units\<rparr>
            else wr\<lparr>wk_reserved_units := wk_reserved_units wr - units\<rparr>)))"

definition free_member :: "RequestId \<Rightarrow> bool \<Rightarrow> BatchId \<Rightarrow> WorkerRecord \<Rightarrow> WorkerRecord" where
  \<comment> \<open>what \<open>release_batch_member\<close> does to the worker's record\<close>
  "free_member rid in_batch bid wr =
     (let wr1 = wr\<lparr>wk_in_flight := AList.delete rid (wk_in_flight wr)\<rparr> in
      if in_batch \<and> valid_id bid then
        (case map_of (wk_batch_pending wr) bid of
           None \<Rightarrow> wr1
         | Some p \<Rightarrow>
            (let wr2 = wr1\<lparr>wk_batch_pending := omap_set bid (p - 1) (wk_batch_pending wr1)\<rparr>
             in if p - 1 \<le> 0 then free_batch bid wr2 else wr2))
      else wr1)"

lemma released_simps [simp]:
  "rec_state (released s w r) = rec_state r"
  "rec_spec (released s w r) = rec_spec r"
  "rec_request_id (released s w r) = rec_request_id r"
  "rec_current_attempt (released s w r) = rec_current_attempt r"
  "rec_generation (released s w r) = rec_generation r"
  "rec_history (released s w r) = rec_history r"
  "rec_cancellation_requested (released s w r) = rec_cancellation_requested r"
  "rec_cancellation_committed (released s w r) = rec_cancellation_committed r"
  by (simp_all add: released_def)

lemma release_batch_workers:
  "im_workers (release_batch w bid s) = (case find_wrk s w of None \<Rightarrow> im_workers s
     | Some wr \<Rightarrow> AList.update w (free_batch bid wr) (im_workers s))"
  by (simp add: release_batch_def free_batch_def Let_def split: option.split)

lemma release_batch_member_workers:
  "im_workers (release_batch_member rid w s) = (case find_wrk s w of None \<Rightarrow> im_workers s
     | Some wr \<Rightarrow> AList.update w (free_member (rec_request_id (req_at s rid)) (rec_in_batch (req_at s rid))
         (rec_batch_id (req_at s rid)) wr) (im_workers s))"
  by (auto simp: release_batch_member_def free_member_def release_batch_workers Let_def AList.update_conv'
        split: option.split)

lemma release_batch_member_requests:
  "im_requests (release_batch_member rid w s) = (case find_wrk s w of None \<Rightarrow> im_requests s
     | Some _ \<Rightarrow> AList.update rid (released s w (req_at s rid)) (im_requests s))"
  by (simp add: release_batch_member_def released_def Let_def split: option.split)

lemma req_at_release_batch_member [simp]:
  "req_at (release_batch_member rid w s) x = (if x = rid then released s w (req_at s rid) else req_at s x)"
  by (simp add: req_at_def release_batch_member_requests released_def split: option.split)

lemma released_cong: "im_workers s' = im_workers s \<Longrightarrow> released s' w r = released s w r"
  by (simp add: released_def)

lemma update_release_batch_member:
  "AList.update rid r (im_requests (release_batch_member rid w s)) = AList.update rid r (im_requests s)"
  by (simp add: release_batch_member_requests split: option.split)

lemma release_batch_member_workers_modify_req [simp]:
  assumes "\<And>r. rec_request_id (f r) = rec_request_id r" "\<And>r. rec_in_batch (f r) = rec_in_batch r"
    "\<And>r. rec_batch_id (f r) = rec_batch_id r"
  shows "im_workers (release_batch_member rid w (modify_req rid f s)) = im_workers (release_batch_member rid w s)"
  using assms by (simp add: release_batch_member_workers split: option.split)

lemma tenant_release_tenant [simp]:
  "ten_admitted (tenant_of (tenant_release t s) u) =
     (if u = t then dec_pos (ten_admitted (tenant_of s u)) else ten_admitted (tenant_of s u))"
  "ten_queued (tenant_of (tenant_release t s) u) = ten_queued (tenant_of s u)"
  "im_global_admitted (tenant_release t s) = dec_pos (im_global_admitted s)"
  by (simp_all add: tenant_release_def)

text \<open>
  Each terminal transition writes one record and releases the worker. The record keeps its
  identity, gets a terminal state and loses its batch if the worker is known.
\<close>

definition ends_as :: "RequestState \<Rightarrow> RequestId \<Rightarrow> WorkerId \<Rightarrow> Impl \<Rightarrow> Impl \<Rightarrow> bool" where
  "ends_as st rid w s s' \<longleftrightarrow> (\<exists>r'. im_requests s' = AList.update rid r' (im_requests s) \<and>
     rec_state r' = st \<and> same_id r' (req_at s rid) \<and>
     rec_in_batch r' = rec_in_batch (released s w (req_at s rid)) \<and>
     rec_batch_id r' = rec_batch_id (released s w (req_at s rid)))"

lemma finish_success_effect: "ends_as RS_Completed rid (cr_worker rep) s (finish_success rid rep s)"
  unfolding ends_as_def
  by (rule exI [of _ "released s (cr_worker rep) ((req_at s rid)\<lparr>rec_completed_at := im_clock_now s,
        rec_history := map_last (\<lambda>a. a\<lparr>att_state := AS_Succeeded, att_final_status := CS_Succeeded,
          att_output_tokens := cr_output_tokens_produced rep, att_work_units := cr_work_units rep,
          att_duration_us := cr_duration_us rep\<rparr>) (rec_history (req_at s rid)),
        rec_state := RS_Completed, rec_terminal_reason := []\<rparr>)"])
    (simp add: finish_success_def Let_def release_batch_member_requests same_id_def hist_ids_def hist_ids_map_last
       released_def split: option.split)

lemma finish_failed_effect: "ends_as RS_Failed rid (cr_worker rep) s (finish_failed rid rep s)"
  unfolding ends_as_def
  by (rule exI [of _ "(released s (cr_worker rep) ((req_at s rid)\<lparr>
        rec_history := map_last (fail_attempt rep) (rec_history (req_at s rid))\<rparr>))\<lparr>
        rec_state := RS_Failed, rec_terminal_reason := name_of_failure_class (cr_failure_class rep)\<rparr>"])
    (simp add: finish_failed_def Let_def update_release_batch_member same_id_def hist_ids_def hist_ids_map_last
       released_def fail_attempt_def)

lemma finish_expired_effect: "ends_as RS_Expired rid (cr_worker rep) s (finish_expired rid rep s)"
  unfolding ends_as_def
  by (rule exI [of _ "(released s (cr_worker rep) ((req_at s rid)\<lparr>
        rec_history := map_last (\<lambda>a. a\<lparr>att_state := AS_Expired\<rparr>) (rec_history (req_at s rid))\<rparr>))\<lparr>
        rec_state := RS_Expired, rec_terminal_reason := ''deadline_expired''\<rparr>"])
    (simp add: finish_expired_def Let_def update_release_batch_member same_id_def hist_ids_def hist_ids_map_last
       released_def)

lemma finish_cancelled_idle: "is_terminal (rec_state (req_at s rid)) \<Longrightarrow> finish_cancelled rid w reason s = s"
  by (simp add: finish_cancelled_def Let_def)

definition cancel_worker :: "RequestState \<Rightarrow> WorkerId \<Rightarrow> Impl \<Rightarrow> RequestRecord \<Rightarrow> RequestRecord" where
  "cancel_worker st w s r = (if on_worker st then released s w r else r)"

lemma finish_cancelled_effect:
  assumes "\<not> is_terminal (rec_state (req_at s rid))"
  obtains r' where "im_requests (finish_cancelled rid w reason s) = AList.update rid r' (im_requests s)"
    and "rec_state r' = RS_Cancelled" and "same_id r' (req_at s rid)"
    and "rec_in_batch r' = rec_in_batch (cancel_worker (rec_state (req_at s rid)) w s (req_at s rid))"
    and "rec_batch_id r' = rec_batch_id (cancel_worker (rec_state (req_at s rid)) w s (req_at s rid))"
  by (rule that [of "(cancel_worker (rec_state (req_at s rid)) w s (req_at s rid))\<lparr>
        rec_cancellation_committed := True, rec_state := RS_Cancelled, rec_terminal_reason := reason,
        rec_history := map_last (\<lambda>a. a\<lparr>att_state := AS_Cancelled, att_final_status := CS_Cancelled\<rparr>)
          (rec_history (req_at s rid))\<rparr>"])
    (use assms in \<open>simp_all add: finish_cancelled_def Let_def update_release_batch_member same_id_def hist_ids_def
       hist_ids_map_last released_def cancel_worker_def\<close>)

lemma finish_success_tables:
  "im_workers (finish_success rid rep s) = im_workers (release_batch_member rid (cr_worker rep) s)"
  "im_global_admitted (finish_success rid rep s) = dec_pos (im_global_admitted s)"
  "ten_admitted (tenant_of (finish_success rid rep s) u) =
     (if u = spec_tenant (rec_spec (req_at s rid)) then dec_pos (ten_admitted (tenant_of s u))
      else ten_admitted (tenant_of s u))"
  "ten_queued (tenant_of (finish_success rid rep s) u) = ten_queued (tenant_of s u)"
  by (simp_all add: finish_success_def Let_def)

lemma finish_failed_tables:
  "im_workers (finish_failed rid rep s) = im_workers (release_batch_member rid (cr_worker rep) s)"
  "im_global_admitted (finish_failed rid rep s) = dec_pos (im_global_admitted s)"
  "ten_admitted (tenant_of (finish_failed rid rep s) u) =
     (if u = spec_tenant (rec_spec (req_at s rid)) then dec_pos (ten_admitted (tenant_of s u))
      else ten_admitted (tenant_of s u))"
  "ten_queued (tenant_of (finish_failed rid rep s) u) = ten_queued (tenant_of s u)"
  by (simp_all add: finish_failed_def Let_def)

lemma finish_expired_tables:
  "im_workers (finish_expired rid rep s) = im_workers (release_batch_member rid (cr_worker rep) s)"
  "im_global_admitted (finish_expired rid rep s) = dec_pos (im_global_admitted s)"
  "ten_admitted (tenant_of (finish_expired rid rep s) u) =
     (if u = spec_tenant (rec_spec (req_at s rid)) then dec_pos (ten_admitted (tenant_of s u))
      else ten_admitted (tenant_of s u))"
  "ten_queued (tenant_of (finish_expired rid rep s) u) = ten_queued (tenant_of s u)"
  by (simp_all add: finish_expired_def Let_def)

lemma finish_cancelled_tables:
  assumes "\<not> is_terminal (rec_state (req_at s rid))"
  shows "im_workers (finish_cancelled rid w reason s) =
      (if on_worker (rec_state (req_at s rid)) then im_workers (release_batch_member rid w s) else im_workers s)"
    and "im_global_admitted (finish_cancelled rid w reason s) = dec_pos (im_global_admitted s)"
    and "ten_admitted (tenant_of (finish_cancelled rid w reason s) u) =
      (if u = spec_tenant (rec_spec (req_at s rid)) then dec_pos (ten_admitted (tenant_of s u))
       else ten_admitted (tenant_of s u))"
    and "ten_queued (tenant_of (finish_cancelled rid w reason s) u) =
      (if u = spec_tenant (rec_spec (req_at s rid)) then dec_pos (ten_queued (tenant_of s u))
       else ten_queued (tenant_of s u))"
    and "im_queued (finish_cancelled rid w reason s) = im_queued (dequeue_request rid s)"
    and "im_global_queued (finish_cancelled rid w reason s) = im_global_queued (dequeue_request rid s)"
    and "im_compat (finish_cancelled rid w reason s) = im_compat (dequeue_request rid s)"
  using assms by (simp_all add: finish_cancelled_def Let_def dec_running_def)

lemma make_retry_effect:
  obtains r' where "im_requests (make_retry rid rep s) = AList.update rid r' (im_requests s)"
    and "rec_state r' = RS_Queued" and "rec_spec r' = rec_spec (req_at s rid)"
    and "rec_request_id r' = rec_request_id (req_at s rid)"
    and "rec_generation r' = fst (next_id (im_id_factory s))"
    and "rec_current_attempt r' = fst (next_id (snd (next_id (im_id_factory s))))"
    and "hist_ids r' = hist_ids (req_at s rid) @ [(rec_current_attempt r', rec_generation r')]"
    and "\<not> rec_in_batch r'"
    and "rec_cancellation_committed r' = rec_cancellation_committed (req_at s rid)"
proof -
  define F where "F = im_id_factory s"
  define a where "a = default_AttemptRecord\<lparr>att_attempt_id := fst (next_id (snd (next_id F))),
    att_generation := fst (next_id F), att_state := AS_Created, att_created_at := im_clock_now s\<rparr>"
  define r1 where "r1 = (released s (cr_worker rep) ((req_at s rid)\<lparr>
        rec_history := map_last (fail_attempt rep) (rec_history (req_at s rid))\<rparr>))"
  define r' where "r' = r1\<lparr>rec_generation := fst (next_id F), rec_current_attempt := fst (next_id (snd (next_id F))),
    rec_history := rec_history r1 @ [a], rec_in_batch := False,
    rec_batch_id := invalid_id, rec_state := RS_Queued, rec_queued_at := im_clock_now s\<rparr>"
  note defs = r'_def r1_def a_def F_def
  have 1: "im_requests (make_retry rid rep s) = AList.update rid r' (im_requests s)"
    unfolding defs
    by (simp add: make_retry_def Let_def split_beta update_release_batch_member released_def)
  have 2: "hist_ids r' = hist_ids (req_at s rid) @ [(rec_current_attempt r', rec_generation r')]"
    by (simp add: defs hist_ids_def hist_ids_map_last fail_attempt_def)
  show ?thesis
    by (rule that [OF 1]) (simp_all add: 2, simp_all add: defs)
qed

lemma make_retry_tables:
  fixes s rid
  defines "sp \<equiv> rec_spec (req_at s rid)" and "id0 \<equiv> rec_request_id (req_at s rid)"
  shows "im_workers (make_retry rid rep s) = im_workers (release_batch_member rid (cr_worker rep) s)"
    and "im_id_factory (make_retry rid rep s) = snd (next_id (snd (next_id (im_id_factory s))))"
    and "im_queued (make_retry rid rep s) = uset_insert id0 (im_queued s)"
    and "im_global_queued (make_retry rid rep s) = im_global_queued s + 1"
    and "im_compat (make_retry rid rep s) = AList.update (compat_key (im_cfg s) sp)
           (uset_insert id0 (umap_at [] (im_compat s) (compat_key (im_cfg s) sp))) (im_compat s)"
    and "ten_admitted (tenant_of (make_retry rid rep s) u) = ten_admitted (tenant_of s u)"
    and "ten_queued (tenant_of (make_retry rid rep s) u) =
           (if u = spec_tenant sp then ten_queued (tenant_of s u) + 1 else ten_queued (tenant_of s u))"
  unfolding sp_def id0_def by (simp_all add: make_retry_def Let_def split_beta dec_running_def)

lemma make_retry_flows:
  fixes s rid
  defines "k0 \<equiv> flow_key (rec_spec (req_at s rid))"
  shows "fl_pending (flow_at (make_retry rid rep s) k) =
      (if k = k0 then pq_push (ReadyEntry (rec_request_id (req_at s rid)) (fst (next_id (im_id_factory s)))
         (ready_slack (rec_spec (req_at s rid)) (im_clock_now s))
         (priority_class_int (spec_priority (rec_spec (req_at s rid)))) (rec_request_id (req_at s rid)))
         (fl_pending (flow_at s k))
       else fl_pending (flow_at s k))"
    and "set (im_active_flows (make_retry rid rep s)) =
      (if fl_pending (flow_at s k0) = [] then insert k0 (set (im_active_flows s)) else set (im_active_flows s))"
  unfolding k0_def
  by (simp_all add: make_retry_def Let_def split_beta enqueue_flow_active enqueue_request_flow_at enqueue_flow_pending ready_entry_def)

lemma start_batch_workers:
  "im_workers (start_batch w bid s) =
     (if bid \<in> set (wk_started_batches (worker_at s w)) then im_workers s
      else AList.update w ((worker_at s w)\<lparr>
        wk_reserved_units := wk_reserved_units (worker_at s w) - umap_at 0 (wk_batch_units (worker_at s w)) bid,
        wk_running_units := wk_running_units (worker_at s w) + umap_at 0 (wk_batch_units (worker_at s w)) bid,
        wk_started_batches := oset_insert bid (wk_started_batches (worker_at s w))\<rparr>) (im_workers s))"
  by (simp add: start_batch_def Let_def)

lemma run_request_effect:
  obtains r' where "im_requests (run_request rid rep s) = AList.update rid r' (im_requests s)"
    and "rec_state r' = RS_Running" and "same_id r' (req_at s rid)"
    and "rec_in_batch r' = rec_in_batch (req_at s rid)" and "rec_batch_id r' = rec_batch_id (req_at s rid)"
    and "rec_cancellation_committed r' = rec_cancellation_committed (req_at s rid)"
  by (rule that [of "(req_at s rid)\<lparr>rec_state := RS_Running, rec_started_at := im_clock_now s,
        rec_schedule_delay_ms := ms_between (rec_queued_at (req_at s rid)) (im_clock_now s),
        rec_history := map_last (\<lambda>a. a\<lparr>att_state := AS_Running, att_worker := cr_worker rep,
          att_batch := rec_batch_id (req_at s rid)\<rparr>) (rec_history (req_at s rid))\<rparr>"])
    (simp_all add: run_request_def Let_def same_id_def hist_ids_def hist_ids_map_last)

lemma run_request_tables:
  "ten_admitted (tenant_of (run_request rid rep s) u) = ten_admitted (tenant_of s u)"
  "ten_queued (tenant_of (run_request rid rep s) u) = ten_queued (tenant_of s u)"
  by (simp_all add: run_request_def Let_def)

lemma run_request_workers:
  obtains wr' where "im_workers (run_request rid rep s) = AList.update (cr_worker rep) wr' (im_workers s)"
    and "wk_registration wr' = wk_registration (worker_at s (cr_worker rep))"
    and "wk_reserved_units wr' = wk_reserved_units (worker_at s (cr_worker rep))"
    and "wk_running_units wr' = wk_running_units (worker_at s (cr_worker rep))"
    and "wk_batch_units wr' = wk_batch_units (worker_at s (cr_worker rep))"
    and "wk_batch_pending wr' = wk_batch_pending (worker_at s (cr_worker rep))"
    and "wk_batch_members wr' = wk_batch_members (worker_at s (cr_worker rep))"
    and "wk_started_batches wr' = wk_started_batches (worker_at s (cr_worker rep))"
    and "wk_in_flight wr' = omap_set (rec_request_id (req_at s rid)) (rec_current_attempt (req_at s rid))
           (wk_in_flight (worker_at s (cr_worker rep)))"
proof (rule that)
  show "im_workers (run_request rid rep s) = AList.update (cr_worker rep)
          (worker_at (run_request rid rep s) (cr_worker rep)) (im_workers s)"
    by (simp add: run_request_def Let_def)
qed (simp_all add: run_request_def Let_def)

section \<open>Case analysis of the calls\<close>

lemma do_complete_cases:
  obtains (stale) acc code where "do_complete rep s = (outcome acc code, count_stale s)"
      and "acc = CA_StaleEpoch \<or> acc = CA_StaleWorker \<or> acc = CA_StaleAttempt"
  | (ignored) acc code where "do_complete rep s = (outcome acc code, s)"
      and "acc = CA_Invalid \<or> acc = CA_Duplicate \<or> acc = CA_CancelledOutcome"
  | (applied) r wr where "cr_epoch rep = im_epoch_value s" and "find_wrk s (cr_worker rep) = Some wr"
      and "reg_boot_id (wk_registration wr) = cr_boot_id rep" and "find_req s (cr_request_id rep) = Some r"
      and "rec_current_attempt r = cr_attempt_id rep" and "rec_generation r = cr_generation rep"
      and "\<not> is_terminal (rec_state r)" and "\<not> rec_cancellation_committed r"
      and "do_complete rep s = apply_status rep s"
proof (cases "cr_epoch rep = im_epoch_value s \<and>
    (\<exists>wr. find_wrk s (cr_worker rep) = Some wr \<and> reg_boot_id (wk_registration wr) = cr_boot_id rep)")
  case False
  then have "do_complete rep s = (outcome CA_StaleEpoch ''stale_epoch'', count_stale s) \<or>
      do_complete rep s = (outcome CA_StaleWorker ''stale_worker'', count_stale s)"
    by (cases "find_wrk s (cr_worker rep)") (auto simp: do_complete_def)
  then show thesis
    using stale by blast
next
  case True
  then obtain wr where wr: "find_wrk s (cr_worker rep) = Some wr" "reg_boot_id (wk_registration wr) = cr_boot_id rep"
    and ep: "cr_epoch rep = im_epoch_value s"
    by blast
  show thesis
  proof (cases "find_req s (cr_request_id rep)")
    case None
    with wr ep have "do_complete rep s = (outcome CA_Invalid ''unknown_request'', s)"
      by (simp add: do_complete_def)
    then show thesis
      using ignored by blast
  next
    case (Some r)
    let ?old = "rec_current_attempt r \<noteq> cr_attempt_id rep \<or> rec_generation r \<noteq> cr_generation rep"
    note eq = do_complete_def wr ep Some
    consider "?old" | "\<not> ?old" "is_terminal (rec_state r)"
      | "\<not> ?old" "\<not> is_terminal (rec_state r)" "rec_cancellation_committed r"
      | "\<not> ?old" "\<not> is_terminal (rec_state r)" "\<not> rec_cancellation_committed r"
      by blast
    then show thesis
    proof cases
      case 1
      then have "do_complete rep s = (outcome CA_StaleAttempt ''stale_attempt'', count_stale s)"
        by (auto simp: eq)
      then show thesis using stale by blast
    next
      case 2
      then have "do_complete rep s = (outcome CA_Duplicate ''duplicate_completion'', s)"
        by (simp add: eq)
      then show thesis using ignored by blast
    next
      case 3
      then have "do_complete rep s = (outcome CA_CancelledOutcome ''cancelled'', s)"
        by (simp add: eq)
      then show thesis using ignored by blast
    next
      case 4
      then show thesis
        by (intro applied [OF ep wr Some]) (simp_all add: eq)
    qed
  qed
qed

lemma apply_status_cases:
  fixes rep s
  defines "rid \<equiv> cr_request_id rep"
  obtains (success) "snd (apply_status rep s) = finish_success rid rep s"
  | (cancelled) "snd (apply_status rep s) = finish_cancelled rid (cr_worker rep) ''cancelled'' s"
  | (expired) "snd (apply_status rep s) = finish_expired rid rep s"
  | (stale) "snd (apply_status rep s) = count_stale (modify_req rid
        (\<lambda>r. r\<lparr>rec_history := map_last (\<lambda>a. a\<lparr>att_state := AS_Stale\<rparr>) (rec_history r)\<rparr>)
        (release_batch_member rid (cr_worker rep) s))"
  | (unknown) "snd (apply_status rep s) = s"
  | (retry) "snd (apply_status rep s) = make_retry rid rep s"
      and "can_retry (im_cfg s) (req_at s rid) (im_clock_now s)"
  | (failed) "snd (apply_status rep s) = finish_failed rid rep s"
proof -
  let ?r = "req_at s rid"
  let ?again = "retryable (im_cfg s) (cr_failure_class rep) \<and> can_retry (im_cfg s) ?r (im_clock_now s)"
  note eq = apply_status_def Let_def
  have fail: thesis if "cr_status rep = CS_Failed \<or> cr_status rep = CS_Ambiguous"
  proof (cases ?again)
    case True
    with that show thesis
      by (intro retry) (auto simp: eq rid_def)
  next
    case False
    have "snd (apply_status rep s) = finish_failed rid rep s"
      using that False unfolding eq rid_def by (elim disjE) (simp_all only: if_False CompletionStatus.case snd_conv)
    then show thesis
      by (rule failed)
  qed
  show thesis
  proof (cases "cr_status rep")
    case CS_Succeeded
    then show thesis
      using success cancelled by (cases "rec_cancellation_requested ?r") (simp_all add: eq rid_def)
  next
    case CS_Cancelled
    then show thesis by (intro cancelled) (simp add: eq rid_def)
  next
    case CS_Expired
    then show thesis by (intro expired) (simp add: eq rid_def)
  next
    case CS_Stale
    then show thesis by (intro stale) (simp add: eq rid_def)
  next
    case (CS_other n)
    then show thesis by (intro unknown) (simp add: eq)
  qed (use fail in blast)+
qed

lemma do_confirm_start_cases:
  obtains (refused) e where "do_confirm_start rep s = (result_err e, s)"
  | (started) r wr where "find_req s (cr_request_id rep) = Some r"
      and "rec_current_attempt r = cr_attempt_id rep" and "rec_generation r = cr_generation rep"
      and "rec_state r = RS_Reserved" and "find_wrk s (cr_worker rep) = Some wr" and "valid_id (rec_batch_id r)"
      and "do_confirm_start rep s =
        (result_ok (), run_request (cr_request_id rep) rep (start_batch (cr_worker rep) (rec_batch_id r) s))"
proof (cases "cr_epoch rep = im_epoch_value s")
  case False
  then show thesis
    by (intro refused [of "make_error EC_StaleEpoch ''stale epoch''"]) (simp add: do_confirm_start_def)
next
  case ep: True
  show thesis
  proof (cases "find_req s (cr_request_id rep)")
    case None
    with ep show thesis
      by (intro refused [of "make_error EC_NotFound ''request not found''"]) (simp add: do_confirm_start_def)
  next
    case (Some r)
    note eq = do_confirm_start_def ep Some
    consider "rec_current_attempt r \<noteq> cr_attempt_id rep \<or> rec_generation r \<noteq> cr_generation rep"
      | "rec_current_attempt r = cr_attempt_id rep" "rec_generation r = cr_generation rep" "rec_state r \<noteq> RS_Reserved"
      | "rec_current_attempt r = cr_attempt_id rep" "rec_generation r = cr_generation rep" "rec_state r = RS_Reserved"
      by blast
    then show thesis
    proof cases
      case 1
      then show thesis
        by (intro refused [of "make_error EC_StaleAttempt ''stale attempt''"]) (auto simp: eq)
    next
      case 2
      then show thesis
        by (intro refused [of "make_error EC_InvalidState ''not reserved''"]) (simp add: eq)
    next
      case here: 3
      let ?boot = "\<lambda>wr. reg_boot_id (wk_registration wr) = cr_boot_id rep"
      let ?down = "\<lambda>wr. wk_state wr = WS_Offline \<or> wk_state wr = WS_Unhealthy \<or> wk_state wr = WS_Drained"
      consider "\<forall>wr. find_wrk s (cr_worker rep) = Some wr \<longrightarrow> \<not> ?boot wr"
        | wr where "find_wrk s (cr_worker rep) = Some wr" "?boot wr" "?down wr"
        | wr where "find_wrk s (cr_worker rep) = Some wr" "?boot wr" "\<not> ?down wr" "\<not> valid_id (rec_batch_id r)"
        | wr where "find_wrk s (cr_worker rep) = Some wr" "?boot wr" "\<not> ?down wr" "valid_id (rec_batch_id r)"
        by blast
      then show thesis
      proof cases
        case 1
        then show thesis
          by (intro refused [of "make_error EC_StaleWorker ''stale worker''"])
            (cases "find_wrk s (cr_worker rep)"; simp add: eq here)
      next
        case 2
        then show thesis
          by (intro refused [of "make_error EC_InvalidState ''worker not ready''"]) (auto simp: eq here)
      next
        case 3
        then show thesis
          by (intro refused [of "make_error EC_InvalidState ''no batch''"]) (simp add: eq here)
      next
        case 4
        then show thesis
          by (intro started [OF Some here]) (simp_all add: eq here)
      qed
    qed
  qed
qed

lemma do_cancel_cases:
  obtains (refused) e where "do_cancel rid reason detail s = (result_err e, s)"
  | (ended) r w where "find_req s rid = Some r" and "\<not> is_terminal (rec_state r)"
      and "w = last_worker r \<and> rec_state r = RS_Reserved \<or> w = invalid_id \<and> \<not> on_worker (rec_state r)"
      and "snd (do_cancel rid reason detail s) = finish_cancelled rid w ''cancelled''
             (modify_req rid (\<lambda>r. r\<lparr>rec_cancel_reason := reason\<rparr>) s)"
  | (requested) r where "find_req s rid = Some r" and "rec_state r = RS_Dispatched \<or> rec_state r = RS_Running"
      and "snd (do_cancel rid reason detail s) = emit_event ''cancel_requested'' rid (rec_current_attempt r)
             (last_worker r) (rec_batch_id r) detail (modify_req rid (\<lambda>r. r\<lparr>rec_cancellation_requested := True\<rparr>)
             (modify_req rid (\<lambda>r. r\<lparr>rec_cancel_reason := reason\<rparr>) s))"
proof (cases "find_req s rid")
  case None
  then show thesis
    by (intro refused [of "make_error EC_NotFound ''request not found''"]) (simp add: do_cancel_def)
next
  case (Some r)
  consider "is_terminal (rec_state r)" | "\<not> is_terminal (rec_state r)" "rec_state r = RS_Reserved"
    | "rec_state r = RS_Dispatched \<or> rec_state r = RS_Running"
    | "\<not> is_terminal (rec_state r)" "rec_state r \<notin> {RS_Reserved, RS_Dispatched, RS_Running}"
    by blast
  then show thesis
  proof cases
    case 1
    with Some show thesis
      by (intro refused [of "make_error EC_InvalidState ''already terminal''"]) (simp add: do_cancel_def)
  next
    case 2
    with Some show thesis
      by (intro ended [OF Some, of "last_worker r"]) (simp_all add: do_cancel_def Let_def)
  next
    case 3
    with Some show thesis
      by (intro requested [OF Some]) (auto simp: do_cancel_def Let_def is_terminal_def)
  next
    case 4
    with Some show thesis
      by (intro ended [OF Some, of invalid_id]) (simp_all add: do_cancel_def Let_def on_worker_def)
  qed
qed

end
