(* ===== verification/Workers.thy ===== *)
theory Workers
  imports Lifecycle
begin

text \<open>
  Worker management and the remaining calls on \<open>Scheduler::Impl\<close>: registration with
  recovery of in-flight work, capability and state updates, drain, epoch rollover, and the
  read-only queries (worker and request snapshots, statistics, counters, \<open>explain\<close>).
\<close>

section \<open>Recovery of in-flight work\<close>

definition restart_report :: "Impl \<Rightarrow> WorkerId \<Rightarrow> RequestId \<Rightarrow> CompletionReport" where
  "restart_report s w rid = default_CompletionReport\<lparr>cr_worker := w,
     cr_boot_id := reg_boot_id (wk_registration (worker_at s w)), cr_request_id := rid,
     cr_attempt_id := rec_current_attempt (req_at s rid), cr_generation := rec_generation (req_at s rid),
     cr_status := CS_Failed, cr_failure_class := FC_RetryableWorker, cr_error_message := ''worker_restart''\<rparr>"

definition recover_request :: "WorkerId \<Rightarrow> RequestId \<Rightarrow> Impl \<Rightarrow> Impl" where
  "recover_request w rid s = (case find_req s rid of
     None \<Rightarrow> s
   | Some r \<Rightarrow>
      if is_terminal (rec_state r) then s
      else let rep = restart_report s w rid;
               s1 = modify_tenant_present (spec_tenant (rec_spec r)) dec_running s
           in if can_retry (im_cfg s) r (im_clock_now s) then make_retry rid rep s1
              else finish_failed rid rep s1)"

definition recover_in_flight :: "WorkerId \<Rightarrow> Impl \<Rightarrow> Impl" where
  "recover_in_flight w s = (case find_wrk s w of
     None \<Rightarrow> s
   | Some wr \<Rightarrow>
      (let s1 = fold (recover_request w) (map fst (wk_in_flight wr)) s;
           units = sum_vals (\<lambda>u. u) (wk_batch_units (worker_at s1 w));
           s2 = modify_worker w (\<lambda>wr. wr\<lparr>wk_in_flight := [], wk_batch_units := [], wk_batch_pending := [],
                  wk_batch_members := [], wk_started_batches := [],
                  wk_reserved_units := nonneg (wk_reserved_units wr - units),
                  wk_running_units := nonneg (wk_running_units wr)\<rparr>) s1
       in s2\<lparr>im_global_reserved_units := nonneg (im_global_reserved_units s2 - units),
             im_global_running_units := nonneg (im_global_running_units s2)\<rparr>))"

section \<open>Registration and updates\<close>

definition copy_capacity :: "WorkerCapability \<Rightarrow> ResourceSnapshot \<Rightarrow> ResourceSnapshot" where
  "copy_capacity cap rs = rs\<lparr>rsn_total_capacity_units := cap_total_capacity_units cap,
     rsn_available_capacity_units := cap_available_capacity_units cap,
     rsn_memory_bytes_total := cap_memory_bytes_total cap,
     rsn_memory_bytes_available := cap_memory_bytes_available cap\<rparr>"

definition do_register_worker :: "WorkerRegistration \<Rightarrow> Impl \<Rightarrow> Impl" where
  "do_register_worker reg s =
     (let w = reg_worker reg;
          s1 = modify_worker w (\<lambda>wr. wr) s;
          old = wk_registration (worker_at s1 w);
          s2 = (if valid_id (reg_worker old) \<and> reg_boot_id old \<noteq> reg_boot_id reg then recover_in_flight w s1 else s1);
          s3 = modify_worker w (\<lambda>wr. wr\<lparr>wk_registration := reg,
                 wk_state := (if reg_state reg = WS_Unknown \<or> reg_state reg = WS_Booted then WS_Online else reg_state reg),
                 wk_resource := copy_capacity (reg_capability reg) (wk_resource wr),
                 wk_reserved_units := nonneg (wk_reserved_units wr)\<rparr>) s2
      in emit_event ''worker_registered'' invalid_id invalid_id w invalid_id (cap_backend (reg_capability reg)) s3)"

definition do_update_capability :: "WorkerId \<Rightarrow> WorkerCapability \<Rightarrow> Impl \<Rightarrow> unit result \<times> Impl" where
  "do_update_capability w cap s = (case find_wrk s w of
     None \<Rightarrow> (result_err (make_error EC_NotFound ''worker not found''), s)
   | Some _ \<Rightarrow> (result_ok (), emit_event ''worker_updated'' invalid_id invalid_id w invalid_id ''capability''
       (modify_worker w (\<lambda>wr. wr\<lparr>wk_registration := (wk_registration wr)\<lparr>reg_capability := cap\<rparr>,
          wk_resource := copy_capacity cap (wk_resource wr)\<rparr>) s)))"

definition do_set_worker_state :: "WorkerId \<Rightarrow> WorkerState \<Rightarrow> ResourceSnapshot option \<Rightarrow> Impl \<Rightarrow> unit result \<times> Impl" where
  "do_set_worker_state w st snap s = (case find_wrk s w of
     None \<Rightarrow> (result_err (make_error EC_NotFound ''worker not found''), s)
   | Some _ \<Rightarrow> (result_ok (), emit_event ''worker_state'' invalid_id invalid_id w invalid_id (name_of_worker_state st)
       (modify_worker w (\<lambda>wr. (wr\<lparr>wk_state := st\<rparr>)\<lparr>wk_resource :=
          (case snap of None \<Rightarrow> wk_resource wr | Some rs \<Rightarrow> rs)\<rparr>) s)))"

definition do_unregister_worker :: "WorkerId \<Rightarrow> Impl \<Rightarrow> unit result \<times> Impl" where
  "do_unregister_worker w s = (case find_wrk s w of
     None \<Rightarrow> (result_err (make_error EC_NotFound ''worker not found''), s)
   | Some _ \<Rightarrow>
      (let s1 = recover_in_flight w s;
           s2 = s1\<lparr>im_workers := AList.delete w (im_workers s1)\<rparr>
       in (result_ok (), emit_event ''worker_unregistered'' invalid_id invalid_id w invalid_id ''unregistered'' s2)))"

section \<open>Drain and epoch rollover\<close>

definition do_begin_drain :: "string \<Rightarrow> Impl \<Rightarrow> unit result \<times> Impl" where
  "do_begin_drain reason s = (result_ok (),
     emit_event ''drain_started'' invalid_id invalid_id invalid_id invalid_id reason
       (s\<lparr>im_draining := True, im_drain_reason := reason\<rparr>))"

definition epoch_detail :: "u64 \<Rightarrow> string" where
  \<comment> \<open>\<open>"epoch=" + std::to_string(epoch_value_)\<close>\<close>
  "epoch_detail e = ''epoch='' @ to_string_nat (unat e)"

definition do_roll_epoch :: "Impl \<Rightarrow> Impl" where
  "do_roll_epoch s =
     (let s1 = s\<lparr>im_epoch_value := im_epoch_value s + 1\<rparr>
      in emit_event ''epoch_rollover'' invalid_id invalid_id invalid_id invalid_id (epoch_detail (im_epoch_value s1)) s1)"

section \<open>Queries\<close>

definition cast_i32 :: "int \<Rightarrow> int" where
  \<comment> \<open>\<open>static_cast<int>\<close> of a wider integer keeps the low 32 bits\<close>
  "cast_i32 n = signed_take_bit 31 n"

definition worker_snapshot_of :: "WorkerRecord \<Rightarrow> WorkerSnapshot" where
  "worker_snapshot_of wr =
     (let reg = wk_registration wr; cap = reg_capability reg in
      \<lparr>wsn_worker = reg_worker reg, wsn_node = reg_node reg, wsn_boot_id = reg_boot_id reg,
       wsn_state = wk_state wr, wsn_backend = cap_backend cap, wsn_device_name = cap_device_name cap,
       wsn_total_capacity_units = cap_total_capacity_units cap,
       wsn_available_capacity_units = rsn_available_capacity_units (wk_resource wr),
       wsn_reserved_units = cast_i32 (wk_reserved_units wr), wsn_running = cast_i32 (wk_running_units wr),
       wsn_memory_bytes_total = rsn_memory_bytes_total (wk_resource wr),
       wsn_memory_bytes_available = rsn_memory_bytes_available (wk_resource wr)\<rparr>)"

definition do_worker_snapshot :: "WorkerId \<Rightarrow> Impl \<Rightarrow> WorkerSnapshot result" where
  "do_worker_snapshot w s = (case find_wrk s w of
     None \<Rightarrow> result_err (make_error EC_NotFound ''worker not found'')
   | Some wr \<Rightarrow> result_ok (worker_snapshot_of wr))"

definition request_snapshot_of :: "RequestId \<Rightarrow> RequestRecord \<Rightarrow> RequestSnapshot" where
  "request_snapshot_of rid r =
     (let sp = rec_spec r in
      \<lparr>rqs_request_id = rid, rqs_tenant = spec_tenant sp, rqs_state = rec_state r,
       rqs_phase = spec_phase sp, rqs_latency_class = spec_latency_class sp,
       rqs_priority = spec_priority sp, rqs_model = spec_model sp, rqs_revision = spec_revision sp,
       rqs_attempt_id = rec_current_attempt r, rqs_generation = rec_generation r,
       rqs_worker_id = last_worker r, rqs_deadline = spec_deadline sp,
       rqs_queue_delay_ms = rec_queue_delay_ms r\<rparr>)"

definition do_request_snapshot :: "RequestId \<Rightarrow> Impl \<Rightarrow> RequestSnapshot result" where
  "do_request_snapshot rid s = (case find_req s rid of
     None \<Rightarrow> result_err (make_error EC_NotFound ''request not found'')
   | Some r \<Rightarrow> result_ok (request_snapshot_of (rec_request_id r) r))"

definition do_request_spec :: "RequestId \<Rightarrow> Impl \<Rightarrow> RequestSpec result" where
  "do_request_spec rid s = (case find_req s rid of
     None \<Rightarrow> result_err (make_error EC_NotFound ''request not found'')
   | Some r \<Rightarrow> result_ok (rec_spec r))"

definition is_reserved :: "RequestRecord \<Rightarrow> bool" where
  "is_reserved r \<longleftrightarrow> rec_state r = RS_Reserved \<or> rec_state r = RS_Dispatched"

definition do_stats :: "Impl \<Rightarrow> SchedulerStats" where
  "do_stats s = (im_stats s)\<lparr>st_current_admitted := cast_i32 (im_global_admitted s),
     st_current_queued := cast_i32 (im_global_queued s),
     st_current_reserved := int (count_vals is_reserved (im_requests s)),
     st_current_running := int (count_vals (\<lambda>r. rec_state r = RS_Running) (im_requests s)),
     st_current_capacity_units := cast_i32 (im_global_reserved_units s + im_global_running_units s),
     st_current_reserved_units := cast_i32 (im_global_reserved_units s)\<rparr>"

definition tenant_snapshot_of :: "TenantId \<times> TenantRecord \<Rightarrow> TenantSnapshot" where
  "tenant_snapshot_of p = (let t = snd p in
     \<lparr>ts_tenant = fst p, ts_weight = ten_weight t, ts_virtual_time = Fin 0 0, ts_queued = ten_queued t,
      ts_admitted = ten_admitted t, ts_services_consumed = ten_services_consumed t,
      ts_service_debt = ten_service_debt t\<rparr>)"

definition do_snapshot :: "Impl \<Rightarrow> SchedulerSnapshot" where
  "do_snapshot s =
     (let ids = sort (map fst (filter (\<lambda>p. \<not> is_terminal (rec_state (snd p))) (im_requests s))) in
      \<lparr>snap_epoch = im_epoch_value s, snap_generated_ns = im_clock_now s, snap_stats = do_stats s,
       snap_tenants = map tenant_snapshot_of (im_tenants s),
       snap_workers = map (\<lambda>p. worker_snapshot_of (snd p)) (im_workers s),
       snap_requests = map (\<lambda>rid. request_snapshot_of rid (req_at s rid)) ids\<rparr>)"

definition do_queued_count :: "Impl \<Rightarrow> nat" where
  "do_queued_count s = nat (if im_global_queued s < 0 then 0 else im_global_queued s)"

definition do_reserved_count :: "Impl \<Rightarrow> nat" where
  "do_reserved_count s = count_vals is_reserved (im_requests s)"

definition do_available_capacity :: "Impl \<Rightarrow> int" where
  "do_available_capacity s = (let n = sum_vals free_units (im_workers s) in cast_i32 (if n < 0 then 0 else n))"

section \<open>What each operation leaves alone\<close>

lemma recover_request_frame [simp, frame]:
  "im_cfg (recover_request w rid s) = im_cfg s"
  "im_clock_now (recover_request w rid s) = im_clock_now s"
  "im_virtual_time (recover_request w rid s) = im_virtual_time s"
  by (simp_all add: recover_request_def Let_def split_beta split: option.split)

lemma recover_in_flight_frame [simp, frame]:
  "im_cfg (recover_in_flight w s) = im_cfg s"
  "im_clock_now (recover_in_flight w s) = im_clock_now s"
  "im_virtual_time (recover_in_flight w s) = im_virtual_time s"
  by (simp_all add: recover_in_flight_def Let_def fold_frame worker_at_def flow_at_def split: option.split)

end
