(* ===== verification/Api.thy ===== *)
theory Api
  imports Submission Workers
begin

text \<open>
  The public calls of \<open>Scheduler\<close> as wrappers around the critical sections of
  \<open>Scheduler::Impl\<close>, and the transition system of a scheduler shared by several threads.
  Every critical section runs under one mutex, so a run of the program is a sequence of
  critical sections in some order; \<open>plan_next_dispatch\<close> contributes two of them and every
  public call that flushes events one more. \<open>reach env s s'\<close> says that a sequence of
  sections, each allowed by \<open>env\<close> in the state it starts from, leads from \<open>s\<close> to \<open>s'\<close>.
\<close>

section \<open>The public calls\<close>

definition flushed :: "'a \<times> Impl \<Rightarrow> 'a \<times> Impl" where
  "flushed p = (fst p, snd (flush_events (snd p)))"

definition submit :: "RequestSpec \<Rightarrow> RequestId option \<Rightarrow> Impl \<Rightarrow> AdmissionOutput result \<times> Impl" where
  "submit sp pre s = flushed (do_submit sp pre s)"

definition admit :: "RequestSpec \<Rightarrow> RequestId option \<Rightarrow> Impl \<Rightarrow> AdmissionOutput result \<times> Impl" where
  "admit sp pre s = flushed (do_submit sp pre s)"

definition cancel :: "RequestId \<Rightarrow> CancellationReason \<Rightarrow> string \<Rightarrow> Impl \<Rightarrow> unit result \<times> Impl" where
  "cancel rid reason detail s = flushed (do_cancel rid reason detail s)"

definition register_worker :: "WorkerRegistration \<Rightarrow> Impl \<Rightarrow> Impl" where
  "register_worker reg s = snd (flush_events (do_register_worker reg s))"

definition update_worker_capability :: "WorkerId \<Rightarrow> WorkerCapability \<Rightarrow> Impl \<Rightarrow> unit result \<times> Impl" where
  \<comment> \<open>this call does not flush\<close>
  "update_worker_capability w cap s = do_update_capability w cap s"

definition set_worker_state :: "WorkerId \<Rightarrow> WorkerState \<Rightarrow> ResourceSnapshot option \<Rightarrow> Impl \<Rightarrow> unit result \<times> Impl" where
  "set_worker_state w st snap s = flushed (do_set_worker_state w st snap s)"

definition unregister_worker :: "WorkerId \<Rightarrow> Impl \<Rightarrow> unit result \<times> Impl" where
  "unregister_worker w s = flushed (do_unregister_worker w s)"

definition plan_dispatch :: "RequestId \<Rightarrow> bool \<Rightarrow> Impl \<Rightarrow> DispatchOutcome result \<times> Impl" where
  "plan_dispatch rid expl s = flushed (do_plan_dispatch rid expl s)"

definition plan_next_dispatch :: "bool \<Rightarrow> Impl \<Rightarrow> DispatchOutcome result \<times> Impl" where
  "plan_next_dispatch expl s = flushed (do_plan_next expl s)"

definition confirm_dispatch_start :: "CompletionReport \<Rightarrow> Impl \<Rightarrow> unit result \<times> Impl" where
  "confirm_dispatch_start rep s = flushed (do_confirm_start rep s)"

definition complete_attempt :: "CompletionReport \<Rightarrow> Impl \<Rightarrow> CompletionOutcome result \<times> Impl" where
  "complete_attempt rep s = flushed (do_complete rep s)"

definition begin_drain :: "string \<Rightarrow> Impl \<Rightarrow> unit result \<times> Impl" where
  "begin_drain reason s = flushed (do_begin_drain reason s)"

definition cancel_all_queued :: "string \<Rightarrow> Impl \<Rightarrow> unit result \<times> Impl" where
  "cancel_all_queued detail s = flushed (do_cancel_all_queued detail s)"

definition roll_epoch :: "Impl \<Rightarrow> Impl" where
  "roll_epoch s = snd (flush_events (do_roll_epoch s))"

section \<open>The critical sections\<close>

datatype call =
    Submit RequestSpec "RequestId option"
  | Cancel RequestId CancellationReason string
  | RegisterWorker WorkerRegistration
  | UpdateCapability WorkerId WorkerCapability
  | SetWorkerState WorkerId WorkerState "ResourceSnapshot option"
  | UnregisterWorker WorkerId
  | PickSeed
  | PlanDispatch RequestId bool
  | ConfirmStart CompletionReport
  | Complete CompletionReport
  | BeginDrain string
  | CancelAllQueued string
  | RollEpoch
  | FlushEvents
  | DrainEvents
  | SetEventHandler bool
  | AdvanceClock ClockDuration
  | SetClock ClockTime

fun exec :: "call \<Rightarrow> Impl \<Rightarrow> Impl" where
  "exec (Submit sp pre) s = snd (do_submit sp pre s)"
| "exec (Cancel rid reason detail) s = snd (do_cancel rid reason detail s)"
| "exec (RegisterWorker reg) s = do_register_worker reg s"
| "exec (UpdateCapability w cap) s = snd (do_update_capability w cap s)"
| "exec (SetWorkerState w st snap) s = snd (do_set_worker_state w st snap s)"
| "exec (UnregisterWorker w) s = snd (do_unregister_worker w s)"
| "exec PickSeed s = snd (plan_next_pick s)"
| "exec (PlanDispatch rid expl) s = snd (do_plan_dispatch rid expl s)"
| "exec (ConfirmStart rep) s = snd (do_confirm_start rep s)"
| "exec (Complete rep) s = snd (do_complete rep s)"
| "exec (BeginDrain reason) s = snd (do_begin_drain reason s)"
| "exec (CancelAllQueued detail) s = snd (do_cancel_all_queued detail s)"
| "exec RollEpoch s = do_roll_epoch s"
| "exec FlushEvents s = snd (flush_events s)"
| "exec DrainEvents s = snd (drain_events s)"
| "exec (SetEventHandler h) s = set_event_handler h s"
| "exec (AdvanceClock d) s = clock_advance d s"
| "exec (SetClock t) s = clock_set t s"

inductive reach :: "(Impl \<Rightarrow> call \<Rightarrow> bool) \<Rightarrow> Impl \<Rightarrow> Impl \<Rightarrow> bool" for env where
  refl: "reach env s s"
| step: "reach env s s' \<Longrightarrow> env s' c \<Longrightarrow> reach env s (exec c s')"

fun allowed :: "(Impl \<Rightarrow> call \<Rightarrow> bool) \<Rightarrow> call list \<Rightarrow> Impl \<Rightarrow> bool" where
  "allowed env [] s = True"
| "allowed env (c # cs) s \<longleftrightarrow> env s c \<and> allowed env cs (exec c s)"

definition run :: "call list \<Rightarrow> Impl \<Rightarrow> Impl" where
  "run cs s = fold exec cs s"

lemma run_simps [simp]: "run [] s = s" "run (c # cs) s = run cs (exec c s)"
  by (simp_all add: run_def)

lemma reach_trans: "reach env s' s'' \<Longrightarrow> reach env s s' \<Longrightarrow> reach env s s''"
  by (induction rule: reach.induct) (auto intro: reach.step)

lemma reach_run: "allowed env cs s \<Longrightarrow> reach env s (run cs s)"
proof (induction cs arbitrary: s)
  case (Cons c cs)
  then have "reach env s (exec c s)" "reach env (exec c s) (run cs (exec c s))"
    by (auto intro: reach.intros)
  then show ?case
    by (simp add: reach_trans)
qed (simp add: reach.refl)

lemma reach_mono: "reach env s s' \<Longrightarrow> (\<And>s c. env s c \<Longrightarrow> env' s c) \<Longrightarrow> reach env' s s'"
  by (induction rule: reach.induct) (auto intro: reach.intros)

text \<open>
  What a predicate on states needs to hold in every reachable state, and what a relation
  between states needs to hold between every two states of a run.
\<close>

locale call_invariant =
  fixes env :: "Impl \<Rightarrow> call \<Rightarrow> bool" and inv :: "Impl \<Rightarrow> bool"
  assumes preserved: "inv s \<Longrightarrow> env s c \<Longrightarrow> inv (exec c s)"
begin

lemma reach_inv: "reach env s s' \<Longrightarrow> inv s \<Longrightarrow> inv s'"
  by (induction rule: reach.induct) (auto intro: preserved)

end

locale call_order = call_invariant env inv
  for env :: "Impl \<Rightarrow> call \<Rightarrow> bool" and inv :: "Impl \<Rightarrow> bool" +
  fixes le :: "Impl \<Rightarrow> Impl \<Rightarrow> bool"
  assumes le_refl: "le s s"
    and le_trans: "le s s' \<Longrightarrow> le s' s'' \<Longrightarrow> le s s''"
    and le_exec: "inv s \<Longrightarrow> env s c \<Longrightarrow> le s (exec c s)"
begin

lemma reach_le: "reach env s s' \<Longrightarrow> inv s \<Longrightarrow> le s s'"
proof (induction rule: reach.induct)
  case (step s s' c)
  then show ?case
    using le_exec [OF reach_inv] le_trans by blast
qed (rule le_refl)

end

section \<open>What callers respect\<close>

definition fresh_submit :: "Impl \<Rightarrow> call \<Rightarrow> bool" where
  \<comment> \<open>the identifier a submission takes is not in use\<close>
  "fresh_submit s c = (case c of Submit sp pre \<Rightarrow> find_req s (fst (submit_id pre s)) = None | _ \<Rightarrow> True)"

end
