(* ===== verification/Sections.thy ===== *)
theory Sections
  imports Api
begin

text \<open>
  How an invariant of the scheduler is proved. The locale \<open>section_invariant\<close> lists what a
  predicate has to be closed under: the writes the critical sections are made of. Its
  interpretations discharge these for one invariant each; the walk through all critical
  sections is done here once. A state change that leaves \<open>core\<close> alone (clock, epoch, events,
  statistics, drain flag) never matters.
\<close>

definition core :: "Impl \<Rightarrow> _" where
  "core s = (im_cfg s, im_id_factory s, im_virtual_time s, im_requests s, im_workers s, im_tenants s,
     im_flows s, im_compat s, im_active_flows s, im_queued s, im_global_admitted s, im_global_queued s,
     im_global_reserved_units s, im_global_running_units s)"

definition purge_flow :: "ClockTime \<Rightarrow> FlowKey \<Rightarrow> Impl \<Rightarrow> Impl" where
  \<comment> \<open>the loop of \<open>pick_seed\<close> over the queue of one flow\<close>
  "purge_flow now k s = modify_flow k (\<lambda>f. f\<lparr>fl_pending := fst (purge now (fl_pending (flow_at s k)) s)\<rparr>)
     (snd (purge now (fl_pending (flow_at s k)) s))"

definition same_load :: "WorkerRecord \<Rightarrow> WorkerRecord \<Rightarrow> bool" where
  \<comment> \<open>a worker's record is rewritten without touching its reservations; a negative count may be reset\<close>
  "same_load wr' wr \<longleftrightarrow> wk_reserved_units wr' \<in> {wk_reserved_units wr, nonneg (wk_reserved_units wr)} \<and>
     wk_running_units wr' = wk_running_units wr \<and> wk_batch_units wr' = wk_batch_units wr \<and>
     wk_batch_pending wr' = wk_batch_pending wr \<and> wk_batch_members wr' = wk_batch_members wr \<and>
     wk_started_batches wr' = wk_started_batches wr \<and> wk_in_flight wr' = wk_in_flight wr"

definition idle_load :: "WorkerRecord \<Rightarrow> bool" where
  "idle_load wr \<longleftrightarrow> wk_batch_units wr = [] \<and> wk_batch_pending wr = [] \<and> wk_batch_members wr = [] \<and>
     wk_started_batches wr = [] \<and> wk_in_flight wr = []"

definition reserve_batch :: "WorkerId \<Rightarrow> ClockTime \<Rightarrow> RequestId list \<Rightarrow> Impl \<Rightarrow> Impl" where
  "reserve_batch w now members s =
     (let bid = fst (next_id (im_id_factory s))
      in fold (reserve_member w bid now) members
           (reserve_worker w bid (batch_units_of s members) members (snd (fresh_id s))))"

definition plan_ready :: "RequestId \<Rightarrow> RequestId list \<Rightarrow> WorkerId \<Rightarrow> ClockTime \<Rightarrow> Impl \<Rightarrow> bool" where
  \<comment> \<open>what holds where \<open>do_plan_dispatch\<close> starts to reserve\<close>
  "plan_ready rid members w now s \<longleftrightarrow>
     (\<exists>r scores. find_req s rid = Some r \<and> (rec_state r = RS_Queued \<or> rec_state r = RS_Admitted) \<and>
        \<not> (dl_valid (spec_deadline (rec_spec r)) \<and> expired (spec_deadline (rec_spec r)) now) \<and>
        members = form_batch rid now s \<and>
        select_worker members (batch_cost_of s members) now s = (w, scores) \<and> valid_id w \<and>
        \<not> (cap_total_capacity_units (reg_capability (wk_registration (worker_at s w))) > 0 \<and>
           batch_units_of s members > free_units (worker_at s w)))"

definition authorised :: "CompletionReport \<Rightarrow> Impl \<Rightarrow> bool" where
  \<comment> \<open>the checks of \<open>do_complete\<close> that precede the transition\<close>
  "authorised rep s \<longleftrightarrow> cr_epoch rep = im_epoch_value s \<and>
     (\<exists>wr. find_wrk s (cr_worker rep) = Some wr \<and> reg_boot_id (wk_registration wr) = cr_boot_id rep) \<and>
     (\<exists>r. find_req s (cr_request_id rep) = Some r \<and> rec_current_attempt r = cr_attempt_id rep \<and>
        rec_generation r = cr_generation rep \<and> \<not> is_terminal (rec_state r) \<and> \<not> rec_cancellation_committed r)"

definition startable :: "CompletionReport \<Rightarrow> RequestRecord \<Rightarrow> Impl \<Rightarrow> bool" where
  "startable rep r s \<longleftrightarrow> find_req s (cr_request_id rep) = Some r \<and> rec_current_attempt r = cr_attempt_id rep \<and>
     rec_generation r = cr_generation rep \<and> rec_state r = RS_Reserved \<and> valid_id (rec_batch_id r) \<and>
     find_wrk s (cr_worker rep) \<noteq> None"

lemma core_cong:
  assumes "core s' = core s"
  shows "im_requests s' = im_requests s" "im_workers s' = im_workers s" "im_tenants s' = im_tenants s"
    "im_flows s' = im_flows s" "im_compat s' = im_compat s" "im_active_flows s' = im_active_flows s"
    "im_queued s' = im_queued s" "im_cfg s' = im_cfg s" "im_id_factory s' = im_id_factory s"
    "im_global_admitted s' = im_global_admitted s" "im_global_queued s' = im_global_queued s"
    "req_at s' x = req_at s x" "worker_at s' y = worker_at s y" "flow_at s' z = flow_at s z"
    "tenant_of s' t = tenant_of s t"
  using assms by (simp_all add: core_def req_at_def worker_at_def flow_at_def tenant_of_def)

lemma purge_flow_pending:
  "fl_pending (flow_at (purge_flow now k s) k) = fst (purge now (fl_pending (flow_at s k)) s)"
  by (simp add: purge_flow_def)

lemma pick_loop_purge_flow:
  fixes s k now
  defines "s2 \<equiv> purge_flow now k s"
  shows "\<exists>best'. pick_loop now (k # ks) best s =
     (if fl_pending (flow_at s2 k) = []
      then pick_loop now ks best' (s2\<lparr>im_active_flows := uset_erase k (im_active_flows s2)\<rparr>)
      else pick_loop now ks best' s2)"
  unfolding s2_def purge_flow_pending
  by (auto simp: split_beta purge_flow_def Let_def split: list.split)

lemma stale_effect:
  fixes rid w s
  defines "s' \<equiv> count_stale (modify_req rid
        (\<lambda>r. r\<lparr>rec_history := map_last (\<lambda>a. a\<lparr>att_state := AS_Stale\<rparr>) (rec_history r)\<rparr>)
        (release_batch_member rid w s))"
  obtains r' where "im_requests s' = AList.update rid r' (im_requests s)"
    and "rec_state r' = rec_state (req_at s rid)" and "same_id r' (req_at s rid)"
    and "rec_in_batch r' = rec_in_batch (released s w (req_at s rid))"
    and "rec_batch_id r' = rec_batch_id (released s w (req_at s rid))"
  by (rule that [of "(released s w (req_at s rid))\<lparr>rec_history :=
        map_last (\<lambda>a. a\<lparr>att_state := AS_Stale\<rparr>) (rec_history (req_at s rid))\<rparr>"])
    (simp_all add: s'_def update_release_batch_member same_id_def hist_ids_def hist_ids_map_last)

lemma find_wrk_release_batch_member:
  "find_wrk s w = Some wr \<Longrightarrow> \<exists>wr'. find_wrk (release_batch_member rid v s) w = Some wr'"
  by (auto simp: release_batch_member_workers AList.update_conv' split: option.split)

lemma find_wrk_recover_request:
  "find_wrk s w = Some wr \<Longrightarrow> \<exists>wr'. find_wrk (recover_request v rid s) w = Some wr'"
  by (auto simp: recover_request_def Let_def make_retry_tables finish_failed_tables
        intro!: find_wrk_release_batch_member split: option.split)

lemma find_wrk_recover:
  assumes "find_wrk s w = Some wr"
  shows "\<exists>wr'. find_wrk (recover_in_flight w s) w = Some wr' \<and> idle_load wr'"
proof -
  have "\<exists>wr'. find_wrk (fold (recover_request w) xs s) w = Some wr'" for xs
    using assms by (induction xs arbitrary: s wr) (use find_wrk_recover_request in \<open>simp, fastforce\<close>)
  then show ?thesis
    using assms by (simp add: recover_in_flight_def Let_def AList.update_conv' idle_load_def)
qed

locale section_invariant =
  fixes env :: "Impl \<Rightarrow> call \<Rightarrow> bool" and inv :: "Impl \<Rightarrow> bool"
  assumes cosmetic: "inv s \<Longrightarrow> core s' = core s \<Longrightarrow> inv s'"
    and expire: "inv s \<Longrightarrow> find_req s rid = Some r \<Longrightarrow> rec_state r = RS_Queued \<Longrightarrow> inv (expire_request rid s)"
    and pop: "inv s \<Longrightarrow> inv (purge_flow now k s)"
    and deactivate: "inv s \<Longrightarrow> fl_pending (flow_at s k) = [] \<Longrightarrow>
      inv (s\<lparr>im_active_flows := uset_erase k (im_active_flows s)\<rparr>)"
    and submit: "inv s \<Longrightarrow> env s (Submit sp pre) \<Longrightarrow> inv (snd (do_submit sp pre s))"
    and reserve: "inv s \<Longrightarrow> env s0 (PlanDispatch rid expl) \<Longrightarrow> s = expire_scan (im_clock_now s0) s0 \<Longrightarrow>
      plan_ready rid members w now s \<Longrightarrow> inv (reserve_batch w now members s)"
    and complete: "inv s \<Longrightarrow> env s (Complete rep) \<Longrightarrow> authorised rep s \<Longrightarrow> inv (snd (apply_status rep s))"
    and start: "inv s \<Longrightarrow> env s (ConfirmStart rep) \<Longrightarrow> startable rep r s \<Longrightarrow>
      inv (run_request (cr_request_id rep) rep (start_batch (cr_worker rep) (rec_batch_id r) s))"
    and cancel: "inv s \<Longrightarrow> find_req s rid = Some r \<Longrightarrow> \<not> is_terminal (rec_state r) \<Longrightarrow>
      w = last_worker r \<and> rec_state r = RS_Reserved \<or> w = invalid_id \<and> \<not> on_worker (rec_state r) \<Longrightarrow>
      inv (finish_cancelled rid w msg s)"
    and cancel_all: "inv s \<Longrightarrow> inv (fold (cancel_queued msg) (im_queued s) s)"
    and note_reason: "inv s \<Longrightarrow> find_req s rid = Some r \<Longrightarrow> \<not> is_terminal (rec_state r) \<Longrightarrow>
      inv (modify_req rid (\<lambda>r. r\<lparr>rec_cancel_reason := reason\<rparr>) s)"
    and note_request: "inv s \<Longrightarrow> find_req s rid = Some r \<Longrightarrow> on_worker (rec_state r) \<Longrightarrow>
      inv (modify_req rid (\<lambda>r. r\<lparr>rec_cancellation_requested := True\<rparr>) s)"
    and recover: "inv s \<Longrightarrow> env s c \<Longrightarrow> find_wrk s w = Some wr \<Longrightarrow> inv (recover_in_flight w s)"
    and new_worker: "inv s \<Longrightarrow> env s (RegisterWorker reg) \<Longrightarrow> w = reg_worker reg \<Longrightarrow> find_wrk s w = None \<Longrightarrow>
      wk_registration wr' = reg \<Longrightarrow> same_load wr' default_WorkerRecord \<Longrightarrow> inv (modify_worker w (\<lambda>_. wr') s)"
    and rewrite_worker: "inv s \<Longrightarrow> find_wrk s w = Some wr \<Longrightarrow> reg_worker (wk_registration wr) = w \<longrightarrow> reg_worker (wk_registration wr') = w \<Longrightarrow>
      same_load wr' wr \<Longrightarrow> inv (modify_worker w (\<lambda>_. wr') s)"
    and drop_worker: "inv s \<Longrightarrow> find_wrk s w = Some wr \<Longrightarrow> idle_load wr \<Longrightarrow>
      inv (s\<lparr>im_workers := AList.delete w (im_workers s)\<rparr>)"
begin

lemma expire_any: "inv s \<Longrightarrow> inv (expire_request rid s)"
proof (cases "rec_state (req_at s rid) = RS_Queued")
  case True
  moreover from this obtain r where "find_req s rid = Some r"
    by (cases "find_req s rid") (simp_all add: req_at_def default_RequestRecord_def)
  ultimately show "inv s \<Longrightarrow> inv (expire_request rid s)"
    using expire by simp
qed (simp add: expire_request_idle)

lemma inv_expire_scan: "inv s \<Longrightarrow> inv (expire_scan now s)"
  unfolding expire_scan_def
  by (rule fold_invariant [where Q = "\<lambda>_. True"]) (auto intro: expire_any split: option.split)

lemma inv_pick_loop: "inv s \<Longrightarrow> inv (snd (pick_loop now ks best s))"
proof (induction ks arbitrary: best s)
  case (Cons k ks)
  let ?s2 = "purge_flow now k s"
  obtain best' where eq: "pick_loop now (k # ks) best s =
     (if fl_pending (flow_at ?s2 k) = []
      then pick_loop now ks best' (?s2\<lparr>im_active_flows := uset_erase k (im_active_flows ?s2)\<rparr>)
      else pick_loop now ks best' ?s2)"
    using pick_loop_purge_flow by blast
  have "inv ?s2"
    using Cons.prems by (rule pop)
  then show ?case
    unfolding eq using Cons.IH deactivate by simp
qed simp

lemma inv_plan_next_pick: "inv s \<Longrightarrow> inv (snd (plan_next_pick s))"
  using inv_pick_loop [OF inv_expire_scan, of s "im_clock_now s"]
  by (simp add: plan_next_pick_def pick_seed_def Let_def split_beta split: option.split list.split)

lemma inv_do_plan_dispatch:
  assumes "inv s0" and "env s0 (PlanDispatch rid expl)"
  shows "inv (snd (do_plan_dispatch rid expl s0))"
proof (cases rule: do_plan_dispatch_cases [of rid expl s0])
  case (commit r members out w scores)
  let ?s = "expire_scan (im_clock_now s0) s0"
  have "plan_ready rid members w (im_clock_now s0) ?s"
    unfolding plan_ready_def using commit by blast
  then have "inv (reserve_batch w (im_clock_now s0) members ?s)"
    using inv_expire_scan [OF assms(1)] assms(2) by (intro reserve) auto
  then show ?thesis
    by (rule cosmetic) (simp add: commit(8) commit_dispatch_state reserve_batch_def Let_def core_def)
qed (simp_all add: inv_expire_scan expire_any assms)

lemma inv_do_complete:
  assumes "inv s" and "env s (Complete rep)"
  shows "inv (snd (do_complete rep s))"
proof (cases rule: do_complete_cases [of rep s])
  case (applied r wr)
  then have "authorised rep s"
    by (auto simp: authorised_def)
  with assms show ?thesis
    by (simp add: applied(9) complete)
qed (use assms in \<open>auto simp: core_def intro: cosmetic\<close>)

lemma inv_do_confirm_start:
  assumes "inv s" and "env s (ConfirmStart rep)"
  shows "inv (snd (do_confirm_start rep s))"
proof (cases rule: do_confirm_start_cases [of rep s])
  case (started r wr)
  then have "startable rep r s"
    by (simp add: startable_def)
  with assms show ?thesis
    by (simp add: started(7) start)
qed (simp add: assms)

lemma inv_do_cancel:
  assumes "inv s"
  shows "inv (snd (do_cancel rid reason detail s))"
proof (cases rule: do_cancel_cases [of rid reason detail s])
  case (ended r w)
  let ?s1 = "modify_req rid (\<lambda>r. r\<lparr>rec_cancel_reason := reason\<rparr>) s"
  have s1: "inv ?s1"
    using assms ended(1,2) by (rule note_reason)
  have found: "find_req ?s1 rid = Some (r\<lparr>rec_cancel_reason := reason\<rparr>)"
    using ended(1) by (simp add: AList.update_conv')
  have "inv (finish_cancelled rid w ''cancelled'' ?s1)"
    by (rule cancel [OF s1 found]) (use ended(2,3) in \<open>auto simp: last_worker_def\<close>)
  then show ?thesis
    by (simp only: ended(4))
next
  case (requested r)
  let ?s1 = "modify_req rid (\<lambda>r. r\<lparr>rec_cancel_reason := reason\<rparr>) s"
  have live: "\<not> is_terminal (rec_state r)" and busy: "on_worker (rec_state r)"
    using requested(2) by (auto simp: is_terminal_def on_worker_def)
  have s1: "inv ?s1"
    using assms requested(1) live by (rule note_reason)
  have found: "find_req ?s1 rid = Some (r\<lparr>rec_cancel_reason := reason\<rparr>)"
    using requested(1) by (simp add: AList.update_conv')
  have "inv (modify_req rid (\<lambda>r. r\<lparr>rec_cancellation_requested := True\<rparr>) ?s1)"
    by (rule note_request [OF s1 found]) (simp add: busy)
  then show ?thesis
    by (rule cosmetic) (simp add: requested(3) core_def)
qed (simp add: assms)

lemma inv_do_register_worker:
  assumes "inv s" and "env s (RegisterWorker reg)"
  shows "inv (do_register_worker reg s)"
proof -
  define w where "w = reg_worker reg"
  define g :: "WorkerRecord \<Rightarrow> WorkerRecord" where "g = (\<lambda>wr. wr\<lparr>wk_registration := reg,
     wk_state := (if reg_state reg = WS_Unknown \<or> reg_state reg = WS_Booted then WS_Online else reg_state reg),
     wk_resource := copy_capacity (reg_capability reg) (wk_resource wr),
     wk_reserved_units := nonneg (wk_reserved_units wr)\<rparr>)"
  have g: "same_load (g wr) wr" "wk_registration (g wr) = reg" for wr
    by (simp_all add: g_def same_load_def)
  have step: "inv (modify_worker w g (if P then recover_in_flight w (modify_worker w (\<lambda>wr. wr) s)
          else modify_worker w (\<lambda>wr. wr) s))"
    if P: "P \<longrightarrow> find_wrk s w \<noteq> None" for P
  proof (cases "find_wrk s w")
    case None
    have "inv (modify_worker w (\<lambda>_. g default_WorkerRecord) s)"
      using assms None g by (intro new_worker) (auto simp: w_def)
    then show ?thesis
      by (rule cosmetic) (use None P in \<open>simp add: core_def worker_at_def\<close>)
  next
    case (Some wr)
    have same: "core (modify_worker w (\<lambda>wr. wr) s) = core s"
      using Some by (simp add: core_def AList.update_triv)
    define s2 where "s2 = (if P then recover_in_flight w (modify_worker w (\<lambda>wr. wr) s) else modify_worker w (\<lambda>wr. wr) s)"
    have s1: "inv (modify_worker w (\<lambda>wr. wr) s)"
      using assms(1) same by (rule cosmetic)
    have s1': "modify_worker w (\<lambda>wr. wr) s = s"
      using Some by (simp add: modify_worker_def AList.update_triv)
    have "inv s2"
      using s1 recover [OF assms Some] by (simp add: s2_def s1')
    moreover obtain wr2 where "find_wrk s2 w = Some wr2"
      using Some find_wrk_recover [of s w wr] by (fastforce simp: s2_def s1')
    ultimately have "inv (modify_worker w (\<lambda>_. g wr2) s2)"
      using g by (intro rewrite_worker) (auto simp: w_def)
    then show ?thesis
      by (rule cosmetic) (use \<open>find_wrk s2 w = Some wr2\<close> in \<open>simp add: core_def s2_def [symmetric]\<close>)
  qed
  have "valid_id (reg_worker (wk_registration (worker_at s w))) \<and>
      reg_boot_id (wk_registration (worker_at s w)) \<noteq> reg_boot_id reg \<longrightarrow> find_wrk s w \<noteq> None"
    by (cases "find_wrk s w")
      (simp_all add: worker_at_def default_WorkerRecord_def default_WorkerRegistration_def valid_id_def)
  from step [OF this] have "inv (modify_worker w g (if valid_id (reg_worker (wk_registration (worker_at s w))) \<and>
      reg_boot_id (wk_registration (worker_at s w)) \<noteq> reg_boot_id reg
      then recover_in_flight w (modify_worker w (\<lambda>wr. wr) s) else modify_worker w (\<lambda>wr. wr) s))" .
  then show ?thesis
    by (rule cosmetic) (simp add: do_register_worker_def Let_def core_def g_def w_def)
qed

lemma inv_rewrite:
  assumes "inv s" and "find_wrk s w = Some wr" and "same_load (f wr) wr"
    and "reg_worker (wk_registration (f wr)) = reg_worker (wk_registration wr)"
  shows "inv (modify_worker w f s)"
proof -
  have "inv (modify_worker w (\<lambda>_. f wr) s)"
    using assms by (intro rewrite_worker) auto
  then show ?thesis
    by (rule cosmetic) (use assms(2) in \<open>simp add: core_def\<close>)
qed

lemma inv_do_unregister_worker:
  assumes "inv s" and "env s (UnregisterWorker w)"
  shows "inv (snd (do_unregister_worker w s))"
proof (cases "find_wrk s w")
  case (Some wr)
  obtain wr2 where wr2: "find_wrk (recover_in_flight w s) w = Some wr2" "idle_load wr2"
    using find_wrk_recover [OF Some] by blast
  have "inv (recover_in_flight w s)"
    using assms Some by (rule recover)
  then have "inv ((recover_in_flight w s)\<lparr>im_workers := AList.delete w (im_workers (recover_in_flight w s))\<rparr>)"
    using wr2 by (rule drop_worker)
  then show ?thesis
    by (rule cosmetic) (simp add: do_unregister_worker_def Some Let_def core_def)
qed (simp add: do_unregister_worker_def assms)

lemma inv_exec:
  assumes "inv s" and "env s c"
  shows "inv (exec c s)"
proof -
  have trivial: "inv (exec c s)" if "core (exec c s) = core s"
    using assms(1) that by (rule cosmetic)
  show ?thesis
proof (cases c)
  case (UpdateCapability w cap)
  show ?thesis
  proof (cases "find_wrk s w")
    case (Some wr)
    have "inv (modify_worker w (\<lambda>wr. wr\<lparr>wk_registration := (wk_registration wr)\<lparr>reg_capability := cap\<rparr>,
          wk_resource := copy_capacity cap (wk_resource wr)\<rparr>) s)"
      by (rule inv_rewrite [OF assms(1) Some]) (simp_all add: same_load_def)
    then show ?thesis
      by (rule cosmetic) (simp add: UpdateCapability do_update_capability_def Some core_def)
  qed (simp add: UpdateCapability do_update_capability_def assms)
next
  case (SetWorkerState w st snap)
  show ?thesis
  proof (cases "find_wrk s w")
    case (Some wr)
    have "inv (modify_worker w (\<lambda>wr. (wr\<lparr>wk_state := st\<rparr>)\<lparr>wk_resource :=
          (case snap of None \<Rightarrow> wk_resource wr | Some rs \<Rightarrow> rs)\<rparr>) s)"
      by (rule inv_rewrite [OF assms(1) Some]) (simp_all add: same_load_def)
    then show ?thesis
      by (rule cosmetic) (simp add: SetWorkerState do_set_worker_state_def Some core_def)
  qed (simp add: SetWorkerState do_set_worker_state_def assms)
next
  case (BeginDrain reason)
  show ?thesis
    by (rule trivial) (simp add: BeginDrain do_begin_drain_def core_def)
next
  case RollEpoch
  show ?thesis
    by (rule trivial) (simp add: RollEpoch do_roll_epoch_def Let_def core_def)
next
  case FlushEvents
  show ?thesis
    by (rule trivial) (simp add: FlushEvents flush_events_def core_def)
next
  case DrainEvents
  show ?thesis
    by (rule trivial) (simp add: DrainEvents drain_events_def core_def)
next
  case (SetEventHandler h)
  show ?thesis
    by (rule trivial) (simp add: SetEventHandler set_event_handler_def core_def)
next
  case (AdvanceClock d)
  show ?thesis
    by (rule trivial) (simp add: AdvanceClock clock_advance_def core_def)
next
  case (SetClock t)
  show ?thesis
    by (rule trivial) (simp add: SetClock clock_set_def core_def)
qed (use assms in \<open>simp_all add: submit inv_do_cancel inv_do_register_worker inv_do_unregister_worker
      inv_plan_next_pick inv_do_plan_dispatch inv_do_confirm_start inv_do_complete do_cancel_all_queued_def cancel_all\<close>)
qed

end

sublocale section_invariant \<subseteq> call_invariant
  by unfold_locales (rule inv_exec)

end
