(* ===== verification/Scenario.thy ===== *)
theory Scenario
  imports Api
begin

text \<open>
  A small concrete run: one request of tenant 1 for model 2, one worker with four units. The
  states are evaluated here once and used by the examples that instantiate the theorems.
\<close>

definition ex_spec :: RequestSpec where
  "ex_spec = default_RequestSpec\<lparr>spec_tenant := 1, spec_model := 2\<rparr>"

definition ex_reg :: WorkerRegistration where
  "ex_reg = default_WorkerRegistration\<lparr>reg_worker := 9, reg_boot_id := 1, reg_state := WS_Online,
     reg_capability := default_WorkerCapability\<lparr>cap_total_capacity_units := 4, cap_available_capacity_units := 4\<rparr>\<rparr>"

definition ex_init :: Impl where
  "ex_init = new_impl default_scheduler_config 0 7 None"

definition ex_queued :: Impl where
  "ex_queued = exec (Submit ex_spec None) ex_init"

lemma ex_init_fields:
  "im_requests ex_init = []" "im_workers ex_init = []" "im_tenants ex_init = []" "im_queued ex_init = []"
  "im_global_admitted ex_init = 0" "im_global_queued ex_init = 0" "im_clock_now ex_init = 0" "im_epoch_value ex_init = 1"
  "im_id_factory ex_init = \<lparr>idf_salt = 7, idf_counter = 0\<rparr>" "im_draining ex_init = False" "im_recovery_mode ex_init = 0"
  "im_flows ex_init = []" "im_active_flows ex_init = []" "im_compat ex_init = []" "im_global_tokens ex_init = 0"
  "cfg_admission (im_cfg ex_init) = default_AdmissionLimits" "cfg_batch (im_cfg ex_init) = default_BatchConstraints"
  "cfg_retry (im_cfg ex_init) = default_RetryPolicy"
  by (simp_all add: ex_init_def new_impl_def default_scheduler_config_def default_AdmissionLimits_def
        default_BatchConstraints_def default_RetryPolicy_def)

lemma ex_ids:
  "fst (next_id (im_id_factory ex_init)) = 30064771073"
  "fst (next_id (snd (next_id (im_id_factory ex_init)))) = 30064771074"
  "fst (next_id (snd (next_id (snd (next_id (im_id_factory ex_init)))))) = 30064771075"
  by (simp_all add: ex_init_fields next_id_def id_value_def)

lemma ex_admit: "make_admission (snd (submit_id None ex_init)) ex_spec 0 = (AD_Admit, ''admitted'')"
  by (simp add: make_admission_def Let_def submit_id_def fresh_id_def split_beta ex_init_fields ex_spec_def
        default_RequestSpec_def deadline_none_def deadline_feasibility_def default_AdmissionLimits_def)

lemma ex_validate: "validate_spec ex_spec = Inr ()"
  by (simp add: validate_spec_def ex_spec_def default_RequestSpec_def default_TokenEstimate_def result_ok_def
        valid_id_def invalid_id_def fval_def)

lemma ex_submit:
  obtains out where "ex_queued = snd (submit_admit out ex_spec 30064771073 (snd (submit_id None ex_init)))"
proof (cases rule: do_submit_cases [of ex_spec None ex_init])
  case (admitted code out)
  have "fst (submit_id None ex_init) = 30064771073"
    using ex_ids(1) by (simp add: submit_id_def fresh_id_def split_beta)
  then show thesis
    using that admitted by (simp add: ex_queued_def)
qed (use ex_validate ex_admit in \<open>simp_all add: ex_init_fields\<close>)

lemma ex_ready:
  "\<not> (dl_valid (spec_deadline ex_spec) \<and> expired (spec_deadline ex_spec) (im_clock_now (snd (submit_id None ex_init))))"
  "find_req (snd (submit_id None ex_init)) 30064771073 = None"
  by (simp_all add: ex_spec_def default_RequestSpec_def deadline_none_def ex_init_fields)

lemma ex_queued_admitted: "im_global_admitted ex_queued = 1"
proof -
  obtain out where eq: "ex_queued = snd (submit_admit out ex_spec 30064771073 (snd (submit_id None ex_init)))"
    by (rule ex_submit)
  show ?thesis
    unfolding eq submit_admit_tables(3) [OF ex_ready] by (simp add: ex_init_fields)
qed

end
