(* ===== verification/Accounting.thy ===== *)
theory Accounting
  imports Sections Scenario
begin

text \<open>
  Admission accounting: \<open>global_admitted_\<close> is the number of live requests, each tenant's
  \<open>admitted\<close> is the number of its live requests, and both stay within the configured limits.
\<close>

definition live :: "RequestRecord \<Rightarrow> bool" where
  "live r \<longleftrightarrow> \<not> is_terminal (rec_state r)"

definition live_of :: "TenantId \<Rightarrow> RequestRecord \<Rightarrow> bool" where
  "live_of t r \<longleftrightarrow> live r \<and> spec_tenant (rec_spec r) = t"

definition admitted_limit :: "SchedulerConfig \<Rightarrow> int" where
  "admitted_limit cfg = max 0 (lim_max_global_admitted (cfg_admission cfg))"

definition tenant_limit :: "SchedulerConfig \<Rightarrow> int" where
  \<comment> \<open>a tenant the scheduler has not seen is admitted once, whatever the limit\<close>
  "tenant_limit cfg = max 1 (lim_default_tenant_concurrency (cfg_admission cfg))"

definition adm_inv :: "Impl \<Rightarrow> bool" where
  "adm_inv s \<longleftrightarrow>
     im_global_admitted s = int (count_vals live (im_requests s)) \<and>
     int (count_vals live (im_requests s)) \<le> admitted_limit (im_cfg s) \<and>
     (\<forall>t. ten_admitted (tenant_of s t) = int (count_vals (live_of t) (im_requests s))) \<and>
     (\<forall>t. int (count_vals (live_of t) (im_requests s)) \<le> tenant_limit (im_cfg s))"

lemma adm_same:
  assumes "adm_inv s" and "im_requests s' = im_requests s" and "im_cfg s' = im_cfg s"
    and "im_global_admitted s' = im_global_admitted s"
    and "\<And>t. ten_admitted (tenant_of s' t) = ten_admitted (tenant_of s t)"
  shows "adm_inv s'"
  using assms by (simp add: adm_inv_def)

lemma adm_keep:
  assumes "adm_inv s" and "im_requests s' = AList.update rid r' (im_requests s)" and "find_req s rid = Some r"
    and "live r' = live r" and "rec_spec r' = rec_spec r" and "im_cfg s' = im_cfg s"
    and "im_global_admitted s' = im_global_admitted s"
    and "\<And>t. ten_admitted (tenant_of s' t) = ten_admitted (tenant_of s t)"
  shows "adm_inv s'"
  using assms by (simp add: adm_inv_def count_vals_update_same live_of_def)

lemma adm_end:
  assumes "adm_inv s" and "im_requests s' = AList.update rid r' (im_requests s)" and "find_req s rid = Some r"
    and "live r" and "\<not> live r'" and "rec_spec r' = rec_spec r" and "im_cfg s' = im_cfg s"
    and "im_global_admitted s' = dec_pos (im_global_admitted s)"
    and "\<And>t. ten_admitted (tenant_of s' t) = (if t = spec_tenant (rec_spec r) then dec_pos (ten_admitted (tenant_of s t))
      else ten_admitted (tenant_of s t))"
  shows "adm_inv s'"
proof -
  have dec: "int (count_vals P (AList.update rid r' (im_requests s))) =
      (if P r then dec_pos (int (count_vals P (im_requests s))) else int (count_vals P (im_requests s)))"
    if "\<not> P r'" for P
    using count_vals_update [of "im_requests s" rid r P r'] count_vals_pos [of "im_requests s" rid r P] assms(3) that
    by (auto simp: dec_pos_def)
  have "dec_pos x \<le> y" if "x \<le> y" for x y
    using that by (simp add: dec_pos_def)
  then show ?thesis
    using assms unfolding adm_inv_def by (auto simp: dec live_of_def)
qed

lemma adm_begin:
  assumes "adm_inv s" and "im_requests s' = AList.update rid r' (im_requests s)" and "find_req s rid = None"
    and "live r'" and "im_cfg s' = im_cfg s" and "im_global_admitted s' = im_global_admitted s + 1"
    and "im_global_admitted s < lim_max_global_admitted (cfg_admission (im_cfg s))"
    and "\<And>t. ten_admitted (tenant_of s' t) = (if t = spec_tenant (rec_spec r') then ten_admitted (tenant_of s t) + 1
      else ten_admitted (tenant_of s t))"
    and "ten_admitted (tenant_of s (spec_tenant (rec_spec r'))) < tenant_limit (im_cfg s)"
  shows "adm_inv s'"
  using assms by (auto simp: adm_inv_def count_vals_fresh live_of_def admitted_limit_def)

lemma adm_reject:
  assumes "adm_inv s" and "im_requests s' = AList.update rid r' (im_requests s)" and "find_req s rid = None"
    and "\<not> live r'" and "im_cfg s' = im_cfg s" and "im_global_admitted s' = im_global_admitted s"
    and "\<And>t. ten_admitted (tenant_of s' t) = ten_admitted (tenant_of s t)"
  shows "adm_inv s'"
  using assms by (simp add: adm_inv_def count_vals_fresh live_of_def)

section \<open>The writes\<close>

lemma adm_expire_request:
  assumes "adm_inv s" and "find_req s rid = Some r" and "rec_state r = RS_Queued"
  shows "adm_inv (expire_request rid s)"
proof -
  have q: "rec_state (req_at s rid) = RS_Queued"
    using assms by simp
  obtain r' where eff: "im_requests (expire_request rid s) = AList.update rid r' (im_requests s)"
      "rec_state r' = RS_Expired"
      "same_id r' (req_at s rid)"
    by (rule expire_request_effect [OF q])
  show ?thesis
    by (rule adm_end [of s _ rid r' r])
      (use eff assms expire_request_queue(4,5) [OF q] in \<open>auto simp: live_def is_terminal_def same_id_def\<close>)
qed

lemma adm_expire_any: "adm_inv s \<Longrightarrow> adm_inv (expire_request rid s)"
  by (cases "find_req s rid"; cases "rec_state (req_at s rid) = RS_Queued")
    (auto simp: expire_request_idle adm_expire_request req_at_def default_RequestRecord_def)

lemma adm_purge: "adm_inv s \<Longrightarrow> adm_inv (snd (purge now q s))"
  by (induction now q s rule: purge.induct) (auto simp: Let_def adm_expire_any)

lemma adm_purge_flow: "adm_inv s \<Longrightarrow> adm_inv (purge_flow now k s)"
  using adm_purge [of s now "fl_pending (flow_at s k)"] by (simp add: purge_flow_def adm_same)

lemma adm_ends_as:
  assumes "adm_inv s" and "ends_as st rid w s s'" and "find_req s rid = Some r" and "live r" and "is_terminal st"
    and "im_cfg s' = im_cfg s" and "im_global_admitted s' = dec_pos (im_global_admitted s)"
    and "\<And>t. ten_admitted (tenant_of s' t) = (if t = spec_tenant (rec_spec (req_at s rid))
      then dec_pos (ten_admitted (tenant_of s t)) else ten_admitted (tenant_of s t))"
  shows "adm_inv s'"
  using assms by (auto simp: ends_as_def live_def same_id_def intro!: adm_end [of s s' rid _ r])

lemma adm_finish:
  assumes "adm_inv s" and "find_req s rid = Some r" and "live r"
  shows "adm_inv (finish_success rid rep s)" and "adm_inv (finish_failed rid rep s)"
    and "adm_inv (finish_expired rid rep s)"
  using assms
  by (auto intro: adm_ends_as [OF _ finish_success_effect] adm_ends_as [OF _ finish_failed_effect]
        adm_ends_as [OF _ finish_expired_effect]
        simp: finish_success_tables finish_failed_tables finish_expired_tables is_terminal_def)

lemma adm_finish_cancelled:
  assumes "adm_inv s" and "find_req s rid = Some r"
  shows "adm_inv (finish_cancelled rid w reason s)"
proof (cases "live r")
  case True
  then have l: "\<not> is_terminal (rec_state (req_at s rid))"
    using assms by (simp add: live_def)
  obtain r' where eff: "im_requests (finish_cancelled rid w reason s) = AList.update rid r' (im_requests s)"
      "rec_state r' = RS_Cancelled"
      "same_id r' (req_at s rid)"
    by (rule finish_cancelled_effect [OF l])
  show ?thesis
    by (rule adm_end [of s _ rid r' r])
      (use eff assms True finish_cancelled_tables(2,3) [OF l] in \<open>auto simp: live_def is_terminal_def same_id_def\<close>)
qed (use assms in \<open>simp add: live_def finish_cancelled_idle\<close>)

lemma adm_make_retry:
  assumes "adm_inv s" and "find_req s rid = Some r" and "live r"
  shows "adm_inv (make_retry rid rep s)"
proof -
  obtain r' where eff: "im_requests (make_retry rid rep s) = AList.update rid r' (im_requests s)"
      "rec_state r' = RS_Queued"
      "rec_spec r' = rec_spec (req_at s rid)"
    by (rule make_retry_effect)
  show ?thesis
    by (rule adm_keep [of s _ rid r' r])
      (use eff assms in \<open>auto simp: live_def is_terminal_def make_retry_tables\<close>)
qed

lemma adm_reserve_members:
  "adm_inv s \<Longrightarrow> (\<And>m. m \<in> set ms \<Longrightarrow> \<exists>r. find_req s m = Some r \<and> live r) \<Longrightarrow>
   adm_inv (fold (reserve_member w bid now) ms s)"
proof (induction ms arbitrary: s)
  case (Cons m ms)
  obtain r where r: "find_req s m = Some r" "live r"
    using Cons.prems(2) by auto
  obtain r' where r': "im_requests (reserve_member w bid now m s) = AList.update m r' (im_requests s)"
    "rec_state r' = RS_Reserved" "same_id r' (req_at s m)"
    by (rule reserve_member_effect)
  have live': "live r'"
    using r'(2) by (simp add: live_def is_terminal_def)
  have "adm_inv (reserve_member w bid now m s)"
    by (rule adm_keep [of s _ m r' r])
      (use Cons.prems(1) r r' live' in \<open>auto simp: same_id_def\<close>)
  moreover have "\<exists>r. find_req (reserve_member w bid now m s) x = Some r \<and> live r" if "x \<in> set ms" for x
    using that Cons.prems(2) [of x] live' by (auto simp: r' AList.update_conv')
  ultimately show ?case
    using Cons.IH by simp
qed simp

lemma plan_ready_live:
  assumes "plan_ready rid members w now s" and "m \<in> set members"
  shows "\<exists>r. find_req s m = Some r \<and> (rec_state r = RS_Queued \<or> rec_state r = RS_Admitted \<and> m = rid)"
proof -
  obtain r where r: "find_req s rid = Some r" "rec_state r = RS_Queued \<or> rec_state r = RS_Admitted"
    and ms: "members = form_batch rid now s"
    using assms(1) by (auto simp: plan_ready_def)
  show ?thesis
    using form_batch_member [OF r(1), of m now] assms(2) r ms batch_candidate_props(3) by blast
qed

lemma adm_reserve_batch:
  assumes "adm_inv s" and "plan_ready rid members w now s"
  shows "adm_inv (reserve_batch w now members s)"
  unfolding reserve_batch_def Let_def
proof (rule adm_reserve_members)
  show "adm_inv (reserve_worker w (fst (next_id (im_id_factory s))) (batch_units_of s members) members (snd (fresh_id s)))"
    using assms(1) by (rule adm_same) simp_all
qed (use plan_ready_live [OF assms(2)] in \<open>fastforce simp: live_def is_terminal_def\<close>)

lemma adm_apply_status:
  assumes "adm_inv s" and "authorised rep s"
  shows "adm_inv (snd (apply_status rep s))"
proof -
  let ?rid = "cr_request_id rep"
  obtain r where r: "find_req s ?rid = Some r" "live r"
    using assms(2) by (auto simp: authorised_def live_def)
  show ?thesis
  proof (cases rule: apply_status_cases [of rep s])
    case stale
    obtain r' where eff: "im_requests (snd (apply_status rep s)) = AList.update ?rid r' (im_requests s)"
      "rec_state r' = rec_state (req_at s ?rid)" "same_id r' (req_at s ?rid)"
      unfolding stale by (rule stale_effect)
    show ?thesis
      by (rule adm_keep [OF assms(1) eff(1) r(1)]) (use eff r in \<open>simp_all add: stale same_id_def live_def\<close>)
  qed (use assms r in \<open>simp_all add: adm_finish adm_finish_cancelled adm_make_retry\<close>)
qed

lemma adm_start:
  assumes "adm_inv s" and "startable rep r s"
  shows "adm_inv (run_request (cr_request_id rep) rep (start_batch (cr_worker rep) (rec_batch_id r) s))"
proof -
  let ?s = "start_batch (cr_worker rep) (rec_batch_id r) s"
  have s: "adm_inv ?s"
    using assms(1) by (rule adm_same) simp_all
  obtain r' where eff: "im_requests (run_request (cr_request_id rep) rep ?s) = AList.update (cr_request_id rep) r' (im_requests ?s)"
      "rec_state r' = RS_Running"
      "same_id r' (req_at ?s (cr_request_id rep))"
    by (rule run_request_effect)
  show ?thesis
    by (rule adm_keep [of ?s _ "cr_request_id rep" r' r])
      (use eff s assms(2) in \<open>auto simp: startable_def live_def is_terminal_def same_id_def run_request_tables\<close>)
qed

lemma adm_modify_req:
  assumes "adm_inv s" and "find_req s rid = Some r" and "live (f r) = live r" and "rec_spec (f r) = rec_spec r"
  shows "adm_inv (modify_req rid f s)"
  by (rule adm_keep [of s _ rid "f r" r]) (use assms in simp_all)

lemma adm_cancel_queued: "adm_inv s \<Longrightarrow> adm_inv (cancel_queued detail rid s)"
proof (cases "find_req s rid")
  case (Some r)
  assume s: "adm_inv s"
  have "adm_inv (modify_req rid (\<lambda>r. r\<lparr>rec_cancel_reason := CR_SchedulerDrain\<rparr>) s)"
    using s Some by (rule adm_modify_req) (simp_all add: live_def)
  then show ?thesis
    using s Some by (simp add: cancel_queued_def adm_finish_cancelled AList.update_conv')
qed (simp add: cancel_queued_def)

lemma adm_recover_request: "adm_inv s \<Longrightarrow> adm_inv (recover_request w rid s)"
proof (cases "find_req s rid")
  case (Some r)
  let ?s1 = "modify_tenant_present (spec_tenant (rec_spec r)) dec_running s"
  assume s: "adm_inv s"
  then have "adm_inv ?s1"
    by (rule adm_same) (simp_all add: dec_running_def)
  then show ?thesis
    using s Some by (simp add: recover_request_def Let_def adm_make_retry adm_finish live_def)
qed (simp add: recover_request_def)

lemma adm_recover_in_flight:
  assumes "adm_inv s"
  shows "adm_inv (recover_in_flight w s)"
proof (cases "find_wrk s w")
  case (Some wr)
  have "adm_inv (fold (recover_request w) (map fst (wk_in_flight wr)) s)"
    using assms by (rule fold_invariant [where Q = "\<lambda>_. True", rotated]) (simp_all add: adm_recover_request)
  then show ?thesis
    by (rule adm_same) (simp_all add: recover_in_flight_def Some Let_def)
qed (simp add: recover_in_flight_def assms)

lemma adm_do_submit:
  assumes "adm_inv s" and "find_req s (fst (submit_id pre s)) = None"
  shows "adm_inv (snd (do_submit sp pre s))"
proof -
  let ?rid = "fst (submit_id pre s)" and ?s1 = "snd (submit_id pre s)"
  have s1: "adm_inv ?s1"
    using assms(1) by (rule adm_same) simp_all
  have new: "find_req ?s1 ?rid = None"
    using assms(2) by simp
  show ?thesis
  proof (cases rule: do_submit_cases [of sp pre s])
    case (admitted code out)
    note adm = make_admission_admit [OF admitted(1)]
    have nolate: "\<not> (dl_valid (spec_deadline sp) \<and> expired (spec_deadline sp) (im_clock_now ?s1))"
      using adm(3) by simp
    have ten: "ten_admitted (tenant_of ?s1 (spec_tenant sp)) < tenant_limit (im_cfg ?s1)"
      using adm(6) by (cases "map_of (im_tenants s) (spec_tenant sp)")
        (auto simp: tenant_of_def new_tenant_def tenant_limit_def)
    obtain r' where eff: "im_requests (snd (submit_admit out sp ?rid ?s1)) = AList.update ?rid r' (im_requests ?s1)"
      "rec_state r' = RS_Queued" "rec_spec r' = sp"
      using nolate new by (rule submit_admit_effect)
    show ?thesis
      unfolding admitted(2)
      by (rule adm_begin [of ?s1 _ ?rid r'])
        (use eff s1 new adm(4) ten submit_admit_tables [OF nolate new] in \<open>simp_all add: live_def is_terminal_def\<close>)
  next
    case (deferred code out)
    show ?thesis
      using s1 by (rule adm_same) (simp_all add: deferred submit_defer_def)
  next
    case (rejected code out)
    obtain r' where eff: "im_requests (snd (submit_reject out sp ?rid code ?s1)) = AList.update ?rid r' (im_requests ?s1)"
      "rec_state r' = RS_Rejected"
      using new by (rule submit_reject_effect)
    show ?thesis
      unfolding rejected(2)
      by (rule adm_reject [of ?s1 _ ?rid r']) (use eff s1 new in \<open>simp_all add: live_def is_terminal_def\<close>)
  qed (simp add: assms)
qed

interpretation adm: section_invariant fresh_submit adm_inv
proof
  fix s s'
  assume s: "adm_inv s" and c: "core s' = core s"
  show "adm_inv s'"
    using s by (rule adm_same) (simp_all add: core_cong [OF c])
next
  fix s and msg :: string
  assume "adm_inv s"
  then show "adm_inv (fold (cancel_queued msg) (im_queued s) s)"
    by (rule fold_invariant [where Q = "\<lambda>_. True", rotated]) (simp_all add: adm_cancel_queued)
qed (auto simp: adm_expire_request adm_purge_flow adm_do_submit fresh_submit_def adm_reserve_batch adm_apply_status
      adm_start adm_finish_cancelled adm_modify_req live_def adm_recover_in_flight elim!: adm_same)


section \<open>The admission limits\<close>



end
