(* ===== verification/Queue_Inv.thy ===== *)
theory Queue_Inv
  imports Sections
begin

text \<open>
  The indices of the ready queue agree with the request table: \<open>queued_\<close> holds exactly the
  requests in state \<open>Queued\<close> and \<open>global_queued_\<close> is their number, \<open>compat_\<close> groups them by
  compatibility key, and each of them has a current entry in the priority queue of its flow,
  which is active and ordered by urgency. The lemmas say how a write that enters, leaves or
  does not touch the queue keeps this.
\<close>

section \<open>The order of the ready queue\<close>

abbreviation urgent :: "ReadyEntry \<Rightarrow> ReadyEntry \<Rightarrow> bool" where
  "urgent a b \<equiv> ready_less b a"

interpretation ready: comparator urgent
  by unfold_locales (auto simp: ready_less_def split: if_splits)

text \<open>
  What the scheduler relies on in \<open>std::priority_queue\<close>: pushing adds one element, and the
  front is one that no element precedes.
\<close>

locale priority_queue =
  fixes push :: "'e \<Rightarrow> 'q \<Rightarrow> 'q" and elems :: "'q \<Rightarrow> 'e multiset" and ordered :: "'q \<Rightarrow> bool"
    and before :: "'e \<Rightarrow> 'e \<Rightarrow> bool" and front :: "'q \<Rightarrow> 'e"
  assumes elems_push: "elems (push e q) = add_mset e (elems q)"
    and ordered_push: "ordered q \<Longrightarrow> ordered (push e q)"
    and front_elem: "elems q \<noteq> {#} \<Longrightarrow> front q \<in># elems q"
    and front_first: "ordered q \<Longrightarrow> e \<in># elems q \<Longrightarrow> \<not> before e (front q)"
begin

lemma front_push_elem: "front (push e q) \<in># add_mset e (elems q)"
  using front_elem [of "push e q"] by (simp add: elems_push)

lemma push_front_first: "ordered q \<Longrightarrow> x \<in># add_mset e (elems q) \<Longrightarrow> \<not> before x (front (push e q))"
  using front_first [OF ordered_push] by (simp add: elems_push)

end

definition pq_ordered :: "ReadyEntry list \<Rightarrow> bool" where
  "pq_ordered q \<longleftrightarrow> sorted_wrt (\<lambda>a b. \<not> urgent b a) q"

interpretation pq: priority_queue pq_push mset pq_ordered urgent hd
proof
  fix e :: ReadyEntry and q
  show "mset (pq_push e q) = add_mset e (mset q)"
    by (simp add: pq_push_def)
  show "pq_ordered q \<Longrightarrow> pq_ordered (pq_push e q)"
    unfolding pq_ordered_def pq_push_def by (rule ready.sorted_insert_by)
  show "mset q \<noteq> {#} \<Longrightarrow> hd q \<in># mset q"
    by simp
  show "pq_ordered q \<Longrightarrow> e \<in># mset q \<Longrightarrow> \<not> urgent e (hd q)"
    unfolding pq_ordered_def by (cases q) (auto dest: ready.head_least ready.asym)
qed

lemma set_pq_push [simp]: "set (pq_push e q) = insert e (set q)"
  by (metis pq.elems_push set_mset_add_mset_insert set_mset_mset)

lemma pq_ordered_tl: "pq_ordered (e # q) \<Longrightarrow> pq_ordered q"
  by (simp add: pq_ordered_def)

section \<open>The invariant\<close>

definition queued_state :: "Impl \<Rightarrow> RequestId \<Rightarrow> bool" where
  "queued_state s rid \<longleftrightarrow> (\<exists>r. find_req s rid = Some r \<and> rec_state r = RS_Queued)"

definition queue_inv :: "Impl \<Rightarrow> bool" where
  "queue_inv s \<longleftrightarrow> distinct (im_queued s) \<and> im_global_queued s = int (length (im_queued s)) \<and>
     (\<forall>rid. rid \<in> set (im_queued s) \<longleftrightarrow> queued_state s rid)"

definition compat_inv :: "Impl \<Rightarrow> bool" where
  "compat_inv s \<longleftrightarrow> (\<forall>k. distinct (umap_at [] (im_compat s) k)) \<and>
     (\<forall>k rid. rid \<in> set (umap_at [] (im_compat s) k) \<longleftrightarrow>
        queued_state s rid \<and> compat_key (im_cfg s) (rec_spec (req_at s rid)) = k)"

definition entry_of :: "Impl \<Rightarrow> RequestId \<Rightarrow> ReadyEntry \<Rightarrow> bool" where
  "entry_of s rid e \<longleftrightarrow> re_id e = rid \<and> re_generation e = rec_generation (req_at s rid)"

definition flow_inv :: "Impl \<Rightarrow> bool" where
  "flow_inv s \<longleftrightarrow>
     (\<forall>rid. queued_state s rid \<longrightarrow>
        (\<exists>e\<in>set (fl_pending (flow_at s (flow_key (rec_spec (req_at s rid))))). entry_of s rid e)) \<and>
     (\<forall>k. fl_pending (flow_at s k) \<noteq> [] \<longrightarrow> k \<in> set (im_active_flows s)) \<and>
     (\<forall>k. pq_ordered (fl_pending (flow_at s k)))"

definition index_inv :: "Impl \<Rightarrow> bool" where
  "index_inv s \<longleftrightarrow> queue_inv s \<and> compat_inv s \<and> flow_inv s"

section \<open>How writes keep it\<close>

lemma umap_at_compat_erase:
  "umap_at [] (compat_erase k rid m) k' = (if k' = k then uset_erase rid (umap_at [] m k) else umap_at [] m k')"
  by (auto simp: compat_erase_def Let_def umap_at_def uset_erase_def delete_conv AList.update_conv' split: option.split)

lemma index_same:
  assumes "index_inv s" and "im_requests s' = im_requests s" and "im_cfg s' = im_cfg s"
    and "im_queued s' = im_queued s" and "im_global_queued s' = im_global_queued s" and "im_compat s' = im_compat s"
    and "\<And>k. fl_pending (flow_at s' k) = fl_pending (flow_at s k)"
    and "set (im_active_flows s') = set (im_active_flows s)"
  shows "index_inv s'"
proof -
  have [simp]: "req_at s' rid = req_at s rid" "queued_state s' rid = queued_state s rid"
    "entry_of s' rid e = entry_of s rid e" for rid e
    using assms(2) by (simp_all add: req_at_def queued_state_def entry_of_def)
  show ?thesis
    using assms by (simp add: index_inv_def queue_inv_def compat_inv_def flow_inv_def)
qed

lemma index_neutral:
  assumes "index_inv s" and "im_requests s' = AList.update rid r' (im_requests s)"
    and "rec_state r' = RS_Queued \<longleftrightarrow> queued_state s rid"
    and "queued_state s rid \<Longrightarrow> rec_spec r' = rec_spec (req_at s rid) \<and> rec_generation r' = rec_generation (req_at s rid)"
    and "im_cfg s' = im_cfg s" and "im_queued s' = im_queued s" and "im_global_queued s' = im_global_queued s"
    and "\<And>k. umap_at [] (im_compat s') k = umap_at [] (im_compat s) k" and "\<And>k. fl_pending (flow_at s' k) = fl_pending (flow_at s k)"
    and "set (im_active_flows s') = set (im_active_flows s)"
  shows "index_inv s'"
proof -
  have q [simp]: "queued_state s' x = queued_state s x" for x
    using assms(2,3) by (auto simp: queued_state_def AList.update_conv')
  have [simp]: "queued_state s x \<Longrightarrow> rec_spec (req_at s' x) = rec_spec (req_at s x)"
    "queued_state s x \<Longrightarrow> entry_of s' x e = entry_of s x e" for x e
    using assms(2,4) by (auto simp: req_at_def entry_of_def)
  show ?thesis
    using assms(1,5-) by (auto simp: index_inv_def queue_inv_def compat_inv_def flow_inv_def)
qed

lemma index_leave:
  assumes "index_inv s" and "im_requests s' = AList.update rid r' (im_requests s)"
    and "find_req s rid = Some r" and "rec_request_id r = rid" and "rec_state r = RS_Queued" and "rec_state r' \<noteq> RS_Queued"
    and "im_cfg s' = im_cfg s" and "im_queued s' = im_queued (dequeue_request rid s)"
    and "im_global_queued s' = im_global_queued (dequeue_request rid s)"
    and "im_compat s' = im_compat (dequeue_request rid s)"
    and "\<And>k. fl_pending (flow_at s' k) = fl_pending (flow_at s k)"
    and "set (im_active_flows s') = set (im_active_flows s)"
  shows "index_inv s'"
proof -
  have rid: "queued_state s rid" and q [simp]: "queued_state s' x \<longleftrightarrow> queued_state s x \<and> x \<noteq> rid" for x
    using assms(2,3,5,6) by (auto simp: queued_state_def AList.update_conv')
  have [simp]: "x \<noteq> rid \<Longrightarrow> req_at s' x = req_at s x" "x \<noteq> rid \<Longrightarrow> entry_of s' x e = entry_of s x e" for x e
    using assms(2) by (simp_all add: req_at_def entry_of_def)
  have mem: "rid \<in> set (im_queued s)" and dist: "distinct (im_queued s)"
    and len: "im_global_queued s = int (length (im_queued s))"
    using assms(1) rid by (auto simp: index_inv_def queue_inv_def)
  have "Suc (length (uset_erase rid (im_queued s))) = length (im_queued s)"
    using dist mem by (rule length_uset_erase)
  then have "queue_inv s'"
    using assms(1,3,4,8,9) mem dist len by (auto simp: index_inv_def queue_inv_def)
  moreover have "compat_inv s'"
  proof -
    have key: "compat_key (im_cfg s) (rec_spec (req_at s' x)) = compat_key (im_cfg s) (rec_spec (req_at s x))"
      if "x \<noteq> rid" for x
      using that by simp
    have key': "compat_key (im_cfg s) (rec_spec (req_at s rid)) = compat_key (im_cfg s) (rec_spec r)"
      using assms(3) by (simp add: req_at_def)
    show ?thesis
      using assms(1,3,4,7,10) rid unfolding index_inv_def compat_inv_def
      by (simp add: umap_at_compat_erase) (metis key key')
  qed
  moreover have "flow_inv s'"
    using assms(1,11,12) by (auto simp: index_inv_def flow_inv_def)
  ultimately show ?thesis
    by (simp add: index_inv_def)
qed

lemma index_enter:
  assumes "index_inv s" and "im_requests s' = AList.update rid r' (im_requests s)"
    and "\<not> queued_state s rid" and "rec_state r' = RS_Queued"
    and "im_cfg s' = im_cfg s" and "im_queued s' = uset_insert rid (im_queued s)"
    and "im_global_queued s' = im_global_queued s + 1"
    and "im_compat s' = AList.update (compat_key (im_cfg s) (rec_spec r'))
          (uset_insert rid (umap_at [] (im_compat s) (compat_key (im_cfg s) (rec_spec r')))) (im_compat s)"
    and "\<And>k. fl_pending (flow_at s' k) = (if k = flow_key (rec_spec r') then pq_push e (fl_pending (flow_at s k))
          else fl_pending (flow_at s k))"
    and "re_id e = rid" and "re_generation e = rec_generation r'"
    and "set (im_active_flows s') = (if fl_pending (flow_at s (flow_key (rec_spec r'))) = []
          then insert (flow_key (rec_spec r')) (set (im_active_flows s)) else set (im_active_flows s))"
  shows "index_inv s'"
proof -
  have q [simp]: "queued_state s' x \<longleftrightarrow> queued_state s x \<or> x = rid" for x
    using assms(2,4) by (auto simp: queued_state_def AList.update_conv')
  have [simp]: "x \<noteq> rid \<Longrightarrow> req_at s' x = req_at s x" "x \<noteq> rid \<Longrightarrow> entry_of s' x e' = entry_of s x e'"
    "req_at s' rid = r'" for x e'
    using assms(2) by (simp_all add: req_at_def entry_of_def)
  have [simp]: "queued_state s x \<Longrightarrow> req_at s' x = req_at s x" for x
    using assms(2,3) by (auto simp: req_at_def AList.update_conv')
  have new: "rid \<notin> set (im_queued s)"
    using assms(1,3) by (simp add: index_inv_def queue_inv_def)
  have "queue_inv s'"
    using assms(1,6,7) new by (auto simp: index_inv_def queue_inv_def length_uset_insert)
  moreover have "compat_inv s'"
    using assms(1,3,5,8) by (auto simp: index_inv_def compat_inv_def)
  moreover have "flow_inv s'"
  proof -
    have fl: "flow_inv s"
      using assms(1) by (simp add: index_inv_def)
    have "\<exists>e\<in>set (fl_pending (flow_at s' (flow_key (rec_spec (req_at s' x))))). entry_of s' x e"
      if "queued_state s' x" for x
    proof (cases "x = rid")
      case True
      then show ?thesis
        using assms(9-11) by (auto simp: entry_of_def)
    next
      case False
      then show ?thesis
        using fl that assms(9) by (auto simp: flow_inv_def)
    qed
    moreover have "fl_pending (flow_at s' k) \<noteq> [] \<longrightarrow> k \<in> set (im_active_flows s')" for k
      using fl assms(9,12) by (auto simp: flow_inv_def)
    moreover have "pq_ordered (fl_pending (flow_at s' k))" for k
      using fl assms(9) by (auto simp: flow_inv_def pq.ordered_push)
    ultimately show ?thesis
      by (simp add: flow_inv_def)
  qed
  ultimately show ?thesis
    by (simp add: index_inv_def)
qed

end
