(* ===== verification/Records.thy ===== *)
theory Records
  imports Sections
begin

text \<open>
  What holds of every request record in every reachable state: it is stored under its own
  identifier, an unfinished request is queued, reserved or running and its last attempt is the
  current one, a queued request is in no batch, an attempt that has not started has no worker,
  and no request has more attempts than the retry policy allows.
\<close>

definition attempt_limit :: "SchedulerConfig \<Rightarrow> int" where
  \<comment> \<open>the first attempt is made whatever \<open>max_attempts\<close> says\<close>
  "attempt_limit cfg = max 1 (ret_max_attempts (cfg_retry cfg))"

definition active_state :: "RequestState \<Rightarrow> bool" where
  "active_state st \<longleftrightarrow> st = RS_Queued \<or> st = RS_Reserved \<or> st = RS_Running"

definition submits :: "(RequestSpec \<Rightarrow> bool) \<Rightarrow> Impl \<Rightarrow> call \<Rightarrow> bool" where
  \<comment> \<open>submissions have unused identifiers and specifications that satisfy \<open>P\<close>\<close>
  "submits P s c \<longleftrightarrow> fresh_submit s c \<and> (case c of Submit sp pre \<Rightarrow> P sp | _ \<Rightarrow> True)"

definition rec_ok :: "(RequestSpec \<Rightarrow> bool) \<Rightarrow> SchedulerConfig \<Rightarrow> RequestId \<Rightarrow> RequestRecord \<Rightarrow> bool" where
  "rec_ok P cfg rid r \<longleftrightarrow> P (rec_spec r) \<and> rec_request_id r = rid \<and> int (length (rec_history r)) \<le> attempt_limit cfg \<and>
     (is_terminal (rec_state r) \<or> active_state (rec_state r) \<and> hist_ids r \<noteq> [] \<and>
        last (hist_ids r) = (rec_current_attempt r, rec_generation r)) \<and>
     (rec_state r = RS_Queued \<longrightarrow> \<not> rec_in_batch r) \<and>
     (rec_state r = RS_Queued \<or> rec_state r = RS_Reserved \<longrightarrow> last_worker r = invalid_id)"

definition rec_inv :: "(RequestSpec \<Rightarrow> bool) \<Rightarrow> Impl \<Rightarrow> bool" where
  "rec_inv P s \<longleftrightarrow> distinct (map fst (im_requests s)) \<and> (\<forall>rid r. find_req s rid = Some r \<longrightarrow> rec_ok P (im_cfg s) rid r)"

lemma rec_invD: "rec_inv P s \<Longrightarrow> find_req s rid = Some r \<Longrightarrow> rec_ok P (im_cfg s) rid r"
  by (simp add: rec_inv_def)

lemma rec_okD:
  assumes "rec_ok P cfg rid r"
  shows "rec_request_id r = rid" and "rec_state r = RS_Queued \<Longrightarrow> \<not> rec_in_batch r"
    and "\<not> is_terminal (rec_state r) \<Longrightarrow> active_state (rec_state r)"
    and "rec_state r = RS_Reserved \<Longrightarrow> last_worker r = invalid_id"
  using assms by (auto simp: rec_ok_def)

lemma rec_same: "rec_inv P s \<Longrightarrow> im_requests s' = im_requests s \<Longrightarrow> im_cfg s' = im_cfg s \<Longrightarrow> rec_inv P s'"
  by (simp add: rec_inv_def)

lemma rec_update:
  "rec_inv P s \<Longrightarrow> im_requests s' = AList.update rid r' (im_requests s) \<Longrightarrow> im_cfg s' = im_cfg s \<Longrightarrow>
   rec_ok P (im_cfg s) rid r' \<Longrightarrow> rec_inv P s'"
  by (simp add: rec_inv_def AList.update_conv' AList.distinct_update)

lemma rec_ok_end:
  assumes "rec_ok P cfg rid r" and "same_id r' r" and "is_terminal (rec_state r')"
  shows "rec_ok P cfg rid r'"
proof -
  have "rec_state r' \<noteq> RS_Queued" and "rec_state r' \<noteq> RS_Reserved"
    using assms(3) by (auto simp: is_terminal_def)
  then show ?thesis
    using assms(1,3) same_idD [OF assms(2)] by (simp add: rec_ok_def)
qed

lemma rec_ok_same:
  assumes "rec_ok P cfg rid r" and "same_id r' r" and "rec_state r' = rec_state r"
    and "rec_in_batch r' \<longrightarrow> rec_in_batch r" and "last_worker r' = last_worker r"
  shows "rec_ok P cfg rid r'"
  using assms(1,3-5) same_idD [OF assms(2)] unfolding rec_ok_def by simp blast

lemma rec_ok_start:
  assumes "rec_ok P cfg rid r" and "same_id r' r" and "rec_state r' = RS_Running" and "\<not> is_terminal (rec_state r)"
  shows "rec_ok P cfg rid r'"
  using assms(1,3,4) same_idD [OF assms(2)] by (simp add: rec_ok_def active_state_def)

lemma rec_ok_reserve:
  assumes "rec_ok P cfg rid r" and "same_id r' r" and "rec_state r' = RS_Reserved"
    and "rec_state r = RS_Queued" and "last_worker r' = last_worker r"
  shows "rec_ok P cfg rid r'"
  using assms(1,3-5) same_idD [OF assms(2)] by (simp add: rec_ok_def active_state_def)

lemma rec_ok_retry:
  assumes "rec_ok P cfg rid r" and "rec_request_id r' = rec_request_id r \<and> rec_spec r' = rec_spec r" and "rec_state r' = RS_Queued"
    and "\<not> rec_in_batch r'" and "last_worker r' = invalid_id" and "can_retry cfg r now"
    and "hist_ids r' = hist_ids r @ [(rec_current_attempt r', rec_generation r')]"
  shows "rec_ok P cfg rid r'"
proof -
  have "length (rec_history r') = Suc (length (rec_history r))"
    using arg_cong [OF assms(7), of length] by (simp add: hist_ids_def)
  then show ?thesis
    using assms by (auto simp: rec_ok_def active_state_def can_retry_def attempt_limit_def split: if_splits)
qed

section \<open>The worker of the last attempt\<close>

lemma last_worker_map_last:
  "(\<And>a. att_worker (f a) = att_worker a) \<Longrightarrow>
   last_worker (r\<lparr>rec_history := map_last f (rec_history r)\<rparr>) = last_worker r"
  by (simp add: last_worker_def)

lemma last_worker_reserve:
  "last_worker (req_at (reserve_member w bid now rid s) rid) = last_worker (req_at s rid)"
  by (simp add: reserve_member_def Let_def last_worker_def)

lemma last_worker_retry: "last_worker (req_at (make_retry rid rep s) rid) = invalid_id"
  by (simp add: make_retry_def Let_def split_beta last_worker_def default_AttemptRecord_def)

lemma last_worker_submit:
  assumes "\<not> (dl_valid (spec_deadline sp) \<and> expired (spec_deadline sp) (im_clock_now s))" and "find_req s rid = None"
  shows "last_worker (req_at (snd (submit_admit out sp rid s)) rid) = invalid_id"
  unfolding submit_admit_def Let_def split_beta if_not_P [OF assms(1)]
  using assms(2) by (simp add: req_at_insert_req admitted_record_def default_AttemptRecord_def last_worker_def)

lemma req_at_updated: "im_requests s' = AList.update rid r' (im_requests s) \<Longrightarrow> req_at s' rid = r'"
  by (simp add: req_at_def)

section \<open>The writes\<close>

lemma rec_expire_request:
  assumes "rec_inv P s"
  shows "rec_inv P (expire_request rid s)"
proof (cases "rec_state (req_at s rid) = RS_Queued")
  case True
  then obtain r where r: "find_req s rid = Some r"
    by (cases "find_req s rid") (simp_all add: req_at_def default_RequestRecord_def)
  obtain r' where eff: "im_requests (expire_request rid s) = AList.update rid r' (im_requests s)"
    "rec_state r' = RS_Expired" "same_id r' (req_at s rid)"
    by (rule expire_request_effect [OF True])
  show ?thesis
    by (rule rec_update [OF assms eff(1)])
      (use eff r rec_ok_end [OF rec_invD [OF assms r]] in \<open>simp_all add: is_terminal_def\<close>)
qed (simp add: expire_request_idle assms)

lemma rec_purge_flow: "rec_inv P s \<Longrightarrow> rec_inv P (purge_flow now k s)"
proof -
  assume s: "rec_inv P s"
  have "rec_inv P s \<Longrightarrow> rec_inv P (snd (purge now q s))" for q
    by (induction now q s rule: purge.induct) (auto simp: Let_def rec_expire_request)
  from this [OF s] show ?thesis
    by (simp add: purge_flow_def rec_inv_def)
qed

lemma rec_ends_as:
  assumes "rec_inv P s" and "ends_as st rid w s s'" and "find_req s rid = Some r" and "is_terminal st"
    and "im_cfg s' = im_cfg s"
  shows "rec_inv P s'"
proof -
  obtain r' where eff: "im_requests s' = AList.update rid r' (im_requests s)" "rec_state r' = st" "same_id r' r"
    using assms(2,3) by (auto simp: ends_as_def)
  show ?thesis
    by (rule rec_update [OF assms(1) eff(1) assms(5)])
      (use eff assms(4) rec_ok_end [OF rec_invD [OF assms(1,3)]] in simp)
qed

lemma rec_finish:
  assumes "rec_inv P s" and "find_req s rid = Some r"
  shows "rec_inv P (finish_success rid rep s)" and "rec_inv P (finish_failed rid rep s)"
    and "rec_inv P (finish_expired rid rep s)"
  using assms
  by (auto intro: rec_ends_as [OF _ finish_success_effect] rec_ends_as [OF _ finish_failed_effect]
        rec_ends_as [OF _ finish_expired_effect] simp: is_terminal_def)

lemma rec_finish_cancelled:
  assumes "rec_inv P s" and "find_req s rid = Some r"
  shows "rec_inv P (finish_cancelled rid w reason s)"
proof (cases "is_terminal (rec_state (req_at s rid))")
  case False
  obtain r' where eff: "im_requests (finish_cancelled rid w reason s) = AList.update rid r' (im_requests s)"
    "rec_state r' = RS_Cancelled" "same_id r' (req_at s rid)"
    by (rule finish_cancelled_effect [OF False])
  show ?thesis
    by (rule rec_update [OF assms(1) eff(1)])
      (use eff assms rec_ok_end [OF rec_invD [OF assms]] in \<open>simp_all add: is_terminal_def\<close>)
qed (simp add: finish_cancelled_idle assms)

lemma rec_make_retry:
  assumes "rec_inv P s" and "find_req s rid = Some r" and "can_retry (im_cfg s) r now"
  shows "rec_inv P (make_retry rid rep s)"
proof -
  obtain r' where eff: "im_requests (make_retry rid rep s) = AList.update rid r' (im_requests s)"
    "rec_state r' = RS_Queued" "rec_spec r' = rec_spec (req_at s rid)"
    "rec_request_id r' = rec_request_id (req_at s rid)"
    "hist_ids r' = hist_ids (req_at s rid) @ [(rec_current_attempt r', rec_generation r')]" "\<not> rec_in_batch r'"
    by (rule make_retry_effect)
  have "last_worker r' = invalid_id"
    using last_worker_retry [of rid rep s] req_at_updated [OF eff(1)] by simp
  then show ?thesis
    by (intro rec_update [OF assms(1) eff(1)])
      (use eff assms rec_ok_retry [OF rec_invD [OF assms(1,2)] _ _ _ _ assms(3)] in simp_all)
qed

lemma rec_seed_queued:
  assumes "rec_inv P s" and "plan_ready rid members w now s" and "m \<in> set members"
  shows "\<exists>r. find_req s m = Some r \<and> rec_state r = RS_Queued"
proof -
  obtain r where r: "find_req s rid = Some r" "rec_state r = RS_Queued \<or> rec_state r = RS_Admitted"
    and ms: "members = form_batch rid now s"
    using assms(2) by (auto simp: plan_ready_def)
  have "rec_state r = RS_Queued"
    using r rec_invD [OF assms(1) r(1)] by (auto simp: rec_ok_def is_terminal_def active_state_def)
  then show ?thesis
    using form_batch_member [OF r(1), of m now] assms(3) r(1) ms batch_candidate_props(3) by blast
qed

lemma distinct_form_batch:
  assumes "find_req s seed = Some r" and "distinct (batch_candidates s now seed)"
  shows "distinct (form_batch seed now s)"
proof -
  obtain n where eq: "form_batch seed now s = seed # take n (sort_by (batch_less s now) (batch_candidates s now seed))"
    using assms(1) by (rule form_batch_shape)
  have "seed \<notin> set (batch_candidates s now seed)"
    using batch_candidate_props(1) by blast
  then show ?thesis
    using assms(2) by (auto simp: eq dest: in_set_takeD)
qed

lemma rec_reserve_members:
  "rec_inv P s \<Longrightarrow> (\<And>m. m \<in> set ms \<Longrightarrow> \<exists>r. find_req s m = Some r \<and> (rec_state r = RS_Queued \<or> rec_state r = RS_Reserved)) \<Longrightarrow>
   rec_inv P (fold (reserve_member w bid now) ms s)"
proof (induction ms arbitrary: s)
  case (Cons m ms)
  obtain r where r: "find_req s m = Some r" "rec_state r = RS_Queued \<or> rec_state r = RS_Reserved"
    using Cons.prems(2) by auto
  obtain r' where eff: "im_requests (reserve_member w bid now m s) = AList.update m r' (im_requests s)"
    "rec_state r' = RS_Reserved" "same_id r' (req_at s m)"
    by (rule reserve_member_effect)
  have last: "last_worker r' = last_worker r"
    using last_worker_reserve [of w bid now m s] req_at_updated [OF eff(1)] r(1) by simp
  have "rec_ok P (im_cfg s) m r'"
    using rec_invD [OF Cons.prems(1) r(1)] eff r last same_idD [of r' r]
    by (auto simp: rec_ok_def active_state_def is_terminal_def)
  then have "rec_inv P (reserve_member w bid now m s)"
    by (intro rec_update [OF Cons.prems(1) eff(1)]) simp_all
  moreover have "\<exists>r. find_req (reserve_member w bid now m s) x = Some r \<and> (rec_state r = RS_Queued \<or> rec_state r = RS_Reserved)"
    if "x \<in> set ms" for x
    using that Cons.prems(2) [of x] eff by (auto simp: AList.update_conv')
  ultimately show ?case
    using Cons.IH by simp
qed simp

lemma rec_reserve_batch:
  assumes "rec_inv P s" and "plan_ready rid members w now s"
  shows "rec_inv P (reserve_batch w now members s)"
  unfolding reserve_batch_def Let_def
proof (rule rec_reserve_members)
  show "rec_inv P (reserve_worker w (fst (next_id (im_id_factory s))) (batch_units_of s members) members (snd (fresh_id s)))"
    using assms(1) by (rule rec_same) simp_all
qed (use rec_seed_queued [OF assms] in fastforce)

lemma rec_apply_status:
  assumes "rec_inv P s" and "authorised rep s"
  shows "rec_inv P (snd (apply_status rep s))"
proof -
  let ?rid = "cr_request_id rep"
  obtain r where r: "find_req s ?rid = Some r"
    using assms(2) by (auto simp: authorised_def)
  show ?thesis
  proof (cases rule: apply_status_cases [of rep s])
    case stale
    let ?r' = "(released s (cr_worker rep) r)\<lparr>rec_history :=
      map_last (\<lambda>a. a\<lparr>att_state := AS_Stale\<rparr>) (rec_history (released s (cr_worker rep) r))\<rparr>"
    have "im_requests (snd (apply_status rep s)) = AList.update ?rid ?r' (im_requests s)"
      using r by (simp add: stale update_release_batch_member)
    moreover have "last_worker ?r' = last_worker r"
      by (subst last_worker_map_last) (simp_all add: last_worker_def)
    moreover have "same_id ?r' r"
      by (simp add: same_id_def hist_ids_def hist_ids_map_last)
    ultimately show ?thesis
      using rec_ok_same [OF rec_invD [OF assms(1) r], of ?r']
      by (intro rec_update [OF assms(1)]) (auto simp: stale released_def)
  qed (use assms r in \<open>simp_all add: rec_finish rec_finish_cancelled rec_make_retry\<close>)
qed

lemma rec_start:
  assumes "rec_inv P s" and "startable rep r s"
  shows "rec_inv P (run_request (cr_request_id rep) rep (start_batch (cr_worker rep) (rec_batch_id r) s))"
proof -
  let ?s = "start_batch (cr_worker rep) (rec_batch_id r) s"
  have s: "rec_inv P ?s"
    using assms(1) by (rule rec_same) simp_all
  have r: "find_req ?s (cr_request_id rep) = Some r" "rec_state r = RS_Reserved"
    using assms(2) by (simp_all add: startable_def)
  obtain r' where eff: "im_requests (run_request (cr_request_id rep) rep ?s) = AList.update (cr_request_id rep) r' (im_requests ?s)"
      "rec_state r' = RS_Running" "same_id r' (req_at ?s (cr_request_id rep))"
    by (rule run_request_effect)
  show ?thesis
    by (rule rec_update [OF s eff(1)])
      (use eff r rec_ok_start [OF rec_invD [OF s r(1)]] in \<open>simp_all add: is_terminal_def\<close>)
qed

lemma rec_modify_req:
  assumes "rec_inv P s" and "find_req s rid = Some r" and "same_id (f r) r" and "rec_state (f r) = rec_state r"
    and "rec_in_batch (f r) = rec_in_batch r" and "rec_history (f r) = rec_history r"
  shows "rec_inv P (modify_req rid f s)"
  by (rule rec_update [OF assms(1), of _ rid "f r"])
    (use assms rec_ok_same [OF rec_invD [OF assms(1,2)], of "f r"] in \<open>simp_all add: last_worker_def\<close>)

lemma rec_cancel_queued: "rec_inv P s \<Longrightarrow> rec_inv P (cancel_queued detail rid s)"
proof (cases "find_req s rid")
  case (Some r)
  assume s: "rec_inv P s"
  have "rec_inv P (modify_req rid (\<lambda>r. r\<lparr>rec_cancel_reason := CR_SchedulerDrain\<rparr>) s)"
    using s Some by (rule rec_modify_req) (simp_all add: same_id_def hist_ids_def)
  then show ?thesis
    using s Some by (simp add: cancel_queued_def rec_finish_cancelled AList.update_conv')
qed (simp add: cancel_queued_def)

lemma rec_recover_request: "rec_inv P s \<Longrightarrow> rec_inv P (recover_request w rid s)"
proof (cases "find_req s rid")
  case (Some r)
  let ?s1 = "modify_tenant_present (spec_tenant (rec_spec r)) dec_running s"
  assume s: "rec_inv P s"
  then have "rec_inv P ?s1"
    by (rule rec_same) simp_all
  then show ?thesis
    using s Some by (simp add: recover_request_def Let_def rec_make_retry rec_finish)
qed (simp add: recover_request_def)

lemma rec_recover_in_flight:
  assumes "rec_inv P s"
  shows "rec_inv P (recover_in_flight w s)"
proof (cases "find_wrk s w")
  case (Some wr)
  have "rec_inv P (fold (recover_request w) (map fst (wk_in_flight wr)) s)"
    using assms by (rule fold_invariant [where Q = "\<lambda>_. True", rotated]) (simp_all add: rec_recover_request)
  then show ?thesis
    by (rule rec_same) (simp_all add: recover_in_flight_def Some Let_def)
qed (simp add: recover_in_flight_def assms)

lemma rec_do_submit:
  assumes "rec_inv P s" and "find_req s (fst (submit_id pre s)) = None" and "P sp"
  shows "rec_inv P (snd (do_submit sp pre s))"
proof -
  let ?rid = "fst (submit_id pre s)" and ?s1 = "snd (submit_id pre s)"
  have s1: "rec_inv P ?s1"
    using assms(1) by (rule rec_same) simp_all
  have new: "find_req ?s1 ?rid = None"
    using assms(2) by simp
  show ?thesis
  proof (cases rule: do_submit_cases [of sp pre s])
    case (admitted code out)
    have nolate: "\<not> (dl_valid (spec_deadline sp) \<and> expired (spec_deadline sp) (im_clock_now ?s1))"
      using make_admission_admit(3) [OF admitted(1)] by simp
    obtain r' where eff: "im_requests (snd (submit_admit out sp ?rid ?s1)) = AList.update ?rid r' (im_requests ?s1)"
      "rec_state r' = RS_Queued" "rec_spec r' = sp" "rec_request_id r' = ?rid"
      "hist_ids r' = [(rec_current_attempt r', rec_generation r')]" "\<not> rec_in_batch r'"
      using nolate new by (rule submit_admit_effect)
    have "last_worker r' = invalid_id"
      using last_worker_submit [OF nolate new, of out] req_at_updated [OF eff(1)] by simp
    moreover have "length (rec_history r') = 1"
      using arg_cong [OF eff(5), of length] by (simp add: hist_ids_def)
    ultimately have "rec_ok P (im_cfg ?s1) ?rid r'"
      using eff assms(3) by (simp add: rec_ok_def active_state_def attempt_limit_def)
    then show ?thesis
      unfolding admitted(2) by (rule rec_update [OF s1 eff(1) submit_admit_tables(8) [OF nolate new]])
  next
    case (deferred code out)
    show ?thesis
      using s1 by (rule rec_same) (simp_all add: deferred submit_defer_def)
  next
    case (rejected code out)
    obtain r' where eff: "im_requests (snd (submit_reject out sp ?rid code ?s1)) = AList.update ?rid r' (im_requests ?s1)"
      "rec_state r' = RS_Rejected" "rec_spec r' = sp" "rec_request_id r' = ?rid" "rec_history r' = []"
      using new by (rule submit_reject_effect)
    show ?thesis
      unfolding rejected(2)
      by (rule rec_update [OF s1 eff(1)]) (use eff assms(3) in \<open>simp_all add: rec_ok_def is_terminal_def attempt_limit_def\<close>)
  qed (simp add: assms)
qed

interpretation recs: section_invariant "submits P" "rec_inv P" for P
proof
  fix s s'
  assume s: "rec_inv P s" and c: "core s' = core s"
  show "rec_inv P s'"
    using s by (rule rec_same) (simp_all add: core_cong [OF c])
next
  fix s and msg :: string
  assume "rec_inv P s"
  then show "rec_inv P (fold (cancel_queued msg) (im_queued s) s)"
    by (rule fold_invariant [where Q = "\<lambda>_. True", rotated]) (simp_all add: rec_cancel_queued)
qed (erule rec_expire_request rec_purge_flow | (erule rec_do_submit rec_reserve_batch rec_apply_status rec_start
      rec_finish_cancelled rec_modify_req; simp add: submits_def fresh_submit_def same_id_def hist_ids_def) |
      (erule rec_recover_in_flight) | (erule rec_same; simp))+

lemma rec_inv_new_impl: "rec_inv P (new_impl cfg now salt ep)"
  by (simp add: rec_inv_def new_impl_def)

end
