(* ===== verification/Batch_Inv.thy ===== *)
theory Batch_Inv
  imports Records
begin

text \<open>
  Reservations: what a worker's record says about the batches it holds, and how that agrees
  with the request table. A worker's \<open>reserved_units\<close> is the sum over its batches that have not
  started, \<open>batch_pending\<close> of a batch is the number of requests still in it, a batch is held by
  one worker only, and everything in flight at a worker is running there.
\<close>

section \<open>Sums over part of a map\<close>

definition sum_keys :: "('k \<Rightarrow> bool) \<Rightarrow> ('k \<times> int) list \<Rightarrow> int" where
  "sum_keys P m = (\<Sum>p\<leftarrow>m. if P (fst p) then snd p else 0)"

lemma sum_keys_simps [simp]:
  "sum_keys P [] = 0" "sum_keys P (p # m) = (if P (fst p) then snd p else 0) + sum_keys P m"
  by (simp_all add: sum_keys_def)

lemma sum_keys_cong: "(\<And>k. k \<in> set (map fst m) \<Longrightarrow> P k = Q k) \<Longrightarrow> sum_keys P m = sum_keys Q m"
  by (induction m) auto

lemma sum_keys_nonneg: "\<forall>u\<in>snd ` set m. 0 \<le> u \<Longrightarrow> 0 \<le> sum_keys P m"
  by (induction m) auto

lemma sum_keys_le_vals: "\<forall>u\<in>snd ` set m. 0 \<le> u \<Longrightarrow> sum_keys P m \<le> sum_vals (\<lambda>u. u) m"
  by (induction m) auto

lemma sum_keys_delete:
  "distinct (map fst m) \<Longrightarrow> map_of m k = Some u \<Longrightarrow>
   sum_keys P (AList.delete k m) = sum_keys P m - (if P k then u else 0)"
  by (induction m) (auto simp: AList.delete_id split: if_splits)

lemma sum_keys_omap_set:
  "k \<notin> set (map fst m) \<Longrightarrow> sum_keys P (omap_set k u m) = sum_keys P m + (if P k then u else 0)"
  by (induction k u m rule: omap_set.induct) auto

lemma sum_keys_move:
  "distinct (map fst m) \<Longrightarrow> map_of m k = Some u \<Longrightarrow> \<not> P k \<Longrightarrow>
   sum_keys (\<lambda>x. x = k \<or> P x) m = sum_keys P m + u"
proof (induction m)
  case (Cons p m)
  then show ?case
    using sum_keys_cong [of m "\<lambda>x. x = k \<or> P x" P] by (cases "fst p = k") (auto simp: image_iff)
qed simp

section \<open>One worker\<close>

definition load_ok :: "WorkerRecord \<Rightarrow> bool" where
  "load_ok wr \<longleftrightarrow> sorted_wrt (<) (map fst (wk_batch_units wr)) \<and> sorted_wrt (<) (map fst (wk_batch_pending wr)) \<and>
     sorted_wrt (<) (map fst (wk_in_flight wr)) \<and>
     set (map fst (wk_batch_units wr)) = set (map fst (wk_batch_pending wr)) \<and>
     set (wk_started_batches wr) \<subseteq> set (map fst (wk_batch_pending wr)) \<and>
     (\<forall>u\<in>snd ` set (wk_batch_units wr). 0 \<le> u) \<and>
     wk_reserved_units wr = sum_keys (\<lambda>b. b \<notin> set (wk_started_batches wr)) (wk_batch_units wr) \<and>
     sum_keys (\<lambda>b. b \<in> set (wk_started_batches wr)) (wk_batch_units wr) \<le> wk_running_units wr"

lemma sorted_distinct: "sorted_wrt (<) (xs :: 'a :: linorder list) \<Longrightarrow> distinct xs"
  by (simp add: strict_sorted_iff)

lemma sorted_delete: "sorted_wrt (<) (map fst m) \<Longrightarrow> sorted_wrt (<) (map fst (AList.delete k m))"
  by (induction m) (auto simp: AList.delete_eq)

lemma keys_delete: "set (map fst (AList.delete k m)) = set (map fst m) - {k}"
  by (auto simp: AList.delete_eq)

lemma vals_delete: "snd ` set (AList.delete k m) \<subseteq> snd ` set m"
  by (auto simp: AList.delete_eq)

lemma vals_omap_set: "snd ` set (omap_set k v m) \<subseteq> insert v (snd ` set m)"
  by (induction k v m rule: omap_set.induct) auto

lemma map_of_key: "k \<in> set (map fst m) \<Longrightarrow> \<exists>v. map_of m k = Some v"
  by (metis domD dom_map_of_conv_image_fst list.set_map)

lemma load_reserve:
  assumes "load_ok wr" and "bid \<notin> set (map fst (wk_batch_pending wr))" and "0 \<le> u"
  shows "load_ok (wr\<lparr>wk_reserved_units := wk_reserved_units wr + u, wk_batch_units := omap_set bid u (wk_batch_units wr),
    wk_batch_pending := omap_set bid n (wk_batch_pending wr), wk_batch_members := ms\<rparr>)"
proof -
  have "bid \<notin> set (wk_started_batches wr)" and new: "bid \<notin> set (map fst (wk_batch_units wr))"
    using assms(1,2) by (auto simp: load_ok_def)
  then show ?thesis
    using assms vals_omap_set [of bid u "wk_batch_units wr"] sum_keys_omap_set [OF new]
    by (fastforce simp: load_ok_def sorted_omap_set keys_omap_set simp del: set_map)
qed

lemma load_start:
  assumes "load_ok wr" and "bid \<in> set (map fst (wk_batch_pending wr))" and "bid \<notin> set (wk_started_batches wr)"
  shows "load_ok (wr\<lparr>wk_reserved_units := wk_reserved_units wr - umap_at 0 (wk_batch_units wr) bid,
    wk_running_units := wk_running_units wr + umap_at 0 (wk_batch_units wr) bid,
    wk_started_batches := oset_insert bid (wk_started_batches wr)\<rparr>)"
proof -
  have dist: "distinct (map fst (wk_batch_units wr))" and "bid \<in> set (map fst (wk_batch_units wr))"
    using assms(1,2) by (auto simp: load_ok_def sorted_distinct)
  then obtain u where u: "map_of (wk_batch_units wr) bid = Some u"
    using map_of_key by metis
  have *: "sum_keys (\<lambda>b. b = bid \<or> b \<notin> insert bid (set (wk_started_batches wr))) (wk_batch_units wr) =
      sum_keys (\<lambda>b. b \<notin> insert bid (set (wk_started_batches wr))) (wk_batch_units wr) + u"
    by (rule sum_keys_move [OF dist u]) simp
  have "(\<lambda>b. b = bid \<or> b \<notin> insert bid (set (wk_started_batches wr))) = (\<lambda>b. b \<notin> set (wk_started_batches wr))"
    using assms(3) by auto
  with * sum_keys_move [OF dist u, of "\<lambda>b. b \<in> set (wk_started_batches wr)"] show ?thesis
    using assms u by (simp add: load_ok_def umap_at_Some)
qed

lemma load_free_batch:
  assumes "load_ok wr" and "bid \<in> set (map fst (wk_batch_pending wr))"
  shows "load_ok (free_batch bid wr)"
proof -
  have dist: "distinct (map fst (wk_batch_units wr))" and "bid \<in> set (map fst (wk_batch_units wr))"
    using assms by (auto simp: load_ok_def sorted_distinct)
  then obtain u where u: "map_of (wk_batch_units wr) bid = Some u"
    using map_of_key by metis
  have pos: "\<forall>x\<in>snd ` set (AList.delete bid (wk_batch_units wr)). 0 \<le> x"
    using assms(1) vals_delete [of bid "wk_batch_units wr"] unfolding load_ok_def by blast
  let ?D = "AList.delete bid (wk_batch_units wr)" and ?S = "uset_erase bid (wk_started_batches wr)"
  have cong: "sum_keys (\<lambda>b. b \<in> set ?S) ?D = sum_keys (\<lambda>b. b \<in> set (wk_started_batches wr)) ?D"
    "sum_keys (\<lambda>b. b \<notin> set ?S) ?D = sum_keys (\<lambda>b. b \<notin> set (wk_started_batches wr)) ?D"
    by (rule sum_keys_cong; auto simp: AList.delete_eq)+
  have nn: "nonneg x = x" if "0 \<le> x" for x
    using that by (simp add: nonneg_def)
  have sums: "sum_keys P ?D = sum_keys P (wk_batch_units wr) - (if P bid then u else 0)" for P
    by (rule sum_keys_delete [OF dist u])
  have S: "set ?S \<subseteq> set (map fst (wk_batch_pending wr)) - {bid}"
    using assms(1) by (auto simp: load_ok_def)
  define wr0 where "wr0 = (if bid \<in> set (wk_started_batches wr) then wr\<lparr>wk_running_units := wk_running_units wr - u\<rparr>
    else wr\<lparr>wk_reserved_units := wk_reserved_units wr - u\<rparr>)"
  have units: "wk_reserved_units wr0 = sum_keys (\<lambda>b. b \<notin> set ?S) ?D" "sum_keys (\<lambda>b. b \<in> set ?S) ?D \<le> wk_running_units wr0"
    unfolding cong sums using assms(1) by (simp_all add: wr0_def load_ok_def)
  have wr0: "wk_batch_units wr0 = wk_batch_units wr" "wk_batch_pending wr0 = wk_batch_pending wr"
    "wk_started_batches wr0 = wk_started_batches wr" "wk_in_flight wr0 = wk_in_flight wr"
    by (simp_all add: wr0_def)
  have "load_ok (drop_batch bid wr0)"
    using assms(1) pos S units
    by (simp add: load_ok_def drop_batch_def wr0 sorted_delete keys_delete del: set_map)
  moreover have "load_ok (settle_worker wr1)" if "load_ok wr1" for wr1
    using that sum_keys_nonneg [of "wk_batch_units wr1" "\<lambda>b. b \<in> set (wk_started_batches wr1)"]
      sum_keys_nonneg [of "wk_batch_units wr1" "\<lambda>b. b \<notin> set (wk_started_batches wr1)"]
    by (simp add: load_ok_def settle_worker_def nn Let_def)
  ultimately show ?thesis
    using u by (simp add: free_batch_def Let_def wr0_def)
qed

lemma settle_worker_simps [simp]:
  "wk_batch_pending (settle_worker wr) = wk_batch_pending wr" "wk_in_flight (settle_worker wr) = wk_in_flight wr"
  "wk_registration (settle_worker wr) = wk_registration wr"
  by (simp_all add: settle_worker_def Let_def)

lemma free_batch_simps [simp]:
  "wk_batch_pending (free_batch bid wr) = AList.delete bid (wk_batch_pending wr)"
  "wk_in_flight (free_batch bid wr) = wk_in_flight wr"
  "wk_registration (free_batch bid wr) = wk_registration wr"
  by (simp_all add: free_batch_def drop_batch_def Let_def)

definition pending_after :: "BatchId \<Rightarrow> WorkerRecord \<Rightarrow> (BatchId \<times> int) list" where
  "pending_after bid wr = (case map_of (wk_batch_pending wr) bid of
     None \<Rightarrow> wk_batch_pending wr
   | Some p \<Rightarrow> if p \<le> 1 then AList.delete bid (omap_set bid (p - 1) (wk_batch_pending wr))
               else omap_set bid (p - 1) (wk_batch_pending wr))"

lemma free_member_simps:
  assumes "valid_id bid"
  shows "wk_batch_pending (free_member rid True bid wr) = pending_after bid wr"
    and "wk_in_flight (free_member rid True bid wr) = AList.delete rid (wk_in_flight wr)"
    and "wk_registration (free_member rid True bid wr) = wk_registration wr"
  using assms by (simp_all add: free_member_def pending_after_def Let_def split: option.split)

lemma load_free_member:
  assumes "load_ok wr"
  shows "load_ok (free_member rid in_batch bid wr)"
proof -
  let ?wr1 = "wr\<lparr>wk_in_flight := AList.delete rid (wk_in_flight wr)\<rparr>"
  have wr1: "load_ok ?wr1"
    using assms by (simp add: load_ok_def sorted_delete)
  have wr2: "load_ok (?wr1\<lparr>wk_batch_pending := omap_set bid n (wk_batch_pending wr)\<rparr>)"
    if "map_of (wk_batch_pending wr) bid = Some p" for n p
  proof -
    have "bid \<in> set (map fst (wk_batch_pending wr))"
      using that by (auto dest: map_of_SomeD simp: rev_image_eqI)
    then show ?thesis
      using wr1 by (simp add: load_ok_def sorted_omap_set keys_omap_set insert_absorb del: set_map)
  qed
  show ?thesis
    using wr1 wr2 load_free_batch [OF wr2]
    by (simp add: free_member_def Let_def keys_omap_set del: set_map split: option.split)
qed

section \<open>The whole table\<close>

definition members_of :: "Impl \<Rightarrow> BatchId \<Rightarrow> nat" where
  "members_of s bid = count_vals (\<lambda>r. rec_in_batch r \<and> rec_batch_id r = bid) (im_requests s)"

definition holds :: "Impl \<Rightarrow> WorkerId \<Rightarrow> BatchId \<Rightarrow> bool" where
  "holds s w bid \<longleftrightarrow> (\<exists>wr. find_wrk s w = Some wr \<and> map_of (wk_batch_pending wr) bid \<noteq> None)"

definition flying :: "Impl \<Rightarrow> WorkerId \<Rightarrow> RequestId \<Rightarrow> bool" where
  "flying s w rid \<longleftrightarrow> (\<exists>wr. find_wrk s w = Some wr \<and> map_of (wk_in_flight wr) rid \<noteq> None)"

definition workers_ok :: "Impl \<Rightarrow> bool" where
  "workers_ok s \<longleftrightarrow> distinct (map fst (im_workers s)) \<and> (\<forall>w wr. find_wrk s w = Some wr \<longrightarrow>
     valid_id w \<and> reg_worker (wk_registration wr) = w \<and> load_ok wr)"

definition counts_ok :: "BatchId \<Rightarrow> nat \<Rightarrow> Impl \<Rightarrow> bool" where
  \<comment> \<open>of batch \<open>b0\<close>, \<open>n\<close> members are still to be marked\<close>
  "counts_ok b0 n s \<longleftrightarrow> (\<forall>w wr bid p. find_wrk s w = Some wr \<longrightarrow> map_of (wk_batch_pending wr) bid = Some p \<longrightarrow>
     0 < p \<and> p = int (members_of s bid + (if bid = b0 then n else 0)))"

definition held_once :: "Impl \<Rightarrow> bool" where
  "held_once s \<longleftrightarrow> (\<forall>w w' bid. holds s w bid \<longrightarrow> holds s w' bid \<longrightarrow> w = w') \<and>
     (\<forall>w bid. holds s w bid \<longrightarrow> valid_id bid \<and> issued_id (im_id_factory s) bid)"

definition flights_ok :: "Impl \<Rightarrow> bool" where
  "flights_ok s \<longleftrightarrow>
     (\<forall>w rid. flying s w rid \<longrightarrow> (\<exists>r. find_req s rid = Some r \<and> rec_state r = RS_Running \<and> rec_in_batch r \<and>
        holds s w (rec_batch_id r))) \<and>
     (\<forall>rid r. find_req s rid = Some r \<longrightarrow> rec_in_batch r \<longrightarrow> issued_id (im_id_factory s) (rec_batch_id r))"

definition batch_inv :: "BatchId \<Rightarrow> nat \<Rightarrow> Impl \<Rightarrow> bool" where
  "batch_inv b0 n s \<longleftrightarrow> workers_ok s \<and> counts_ok b0 n s \<and> held_once s \<and> flights_ok s"

lemma flyingE:
  assumes "batch_inv b0 n s" and "flying s w rid"
  obtains r where "find_req s rid = Some r" and "rec_state r = RS_Running" and "rec_in_batch r"
    and "holds s w (rec_batch_id r)"
  using assms unfolding batch_inv_def flights_ok_def by blast

definition ids_grow :: "Impl \<Rightarrow> Impl \<Rightarrow> bool" where
  "ids_grow s s' \<longleftrightarrow> (\<forall>x. issued_id (im_id_factory s) x \<longrightarrow> issued_id (im_id_factory s') x)"

lemma ids_grow_refl: "im_id_factory s' = im_id_factory s \<Longrightarrow> ids_grow s s'"
  by (simp add: ids_grow_def)

lemma batch_touch:
  assumes "batch_inv b0 n s" and "im_requests s' = AList.update rid r' (im_requests s)" and "im_workers s' = im_workers s"
    and "ids_grow s s'" and "find_req s rid = Some r"
    and "rec_in_batch r' = rec_in_batch r" and "rec_batch_id r' = rec_batch_id r"
    and "rec_in_batch r \<Longrightarrow> rec_state r = RS_Running \<Longrightarrow> rec_state r' = RS_Running"
  shows "batch_inv b0 n s'"
proof -
  have [simp]: "members_of s' b = members_of s b" "holds s' w b = holds s w b" "flying s' w x = flying s w x" for b w x
    using assms(2,3,5-7) by (simp_all add: members_of_def count_vals_update_same holds_def flying_def)
  have "flights_ok s'"
    unfolding flights_ok_def
  proof (intro conjI allI impI)
    fix w x
    assume "flying s' w x"
    then obtain rx where "find_req s x = Some rx" "rec_state rx = RS_Running" "rec_in_batch rx" "holds s w (rec_batch_id rx)"
      using flyingE [OF assms(1)] by auto
    then show "\<exists>r. find_req s' x = Some r \<and> rec_state r = RS_Running \<and> rec_in_batch r \<and> holds s' w (rec_batch_id r)"
      using assms(2,5-8) by (cases "x = rid") (simp_all add: AList.update_conv')
  next
    fix x rx
    assume "find_req s' x = Some rx" and "rec_in_batch rx"
    then show "issued_id (im_id_factory s') (rec_batch_id rx)"
      using assms(1,2,4-7) by (cases "x = rid") (simp_all add: batch_inv_def flights_ok_def ids_grow_def AList.update_conv')
  qed
  then show ?thesis
    using assms(1,3,4) by (auto simp: batch_inv_def workers_ok_def counts_ok_def held_once_def ids_grow_def)
qed

lemma batch_same:
  assumes "batch_inv b0 n s" and "im_requests s' = im_requests s" and "im_workers s' = im_workers s" and "ids_grow s s'"
  shows "batch_inv b0 n s'"
proof -
  have [simp]: "members_of s' b = members_of s b" "holds s' w b = holds s w b" "flying s' w x = flying s w x" for b w x
    using assms(2,3) by (simp_all add: members_of_def holds_def flying_def)
  show ?thesis
    using assms by (auto simp: batch_inv_def workers_ok_def counts_ok_def held_once_def ids_grow_def flights_ok_def)
qed

lemma batch_fresh:
  assumes "batch_inv b0 n s" and "im_requests s' = AList.update rid r' (im_requests s)" and "im_workers s' = im_workers s"
    and "ids_grow s s'" and "find_req s rid = None" and "\<not> rec_in_batch r'"
  shows "batch_inv b0 n s'"
proof -
  have [simp]: "members_of s' b = members_of s b" "holds s' w b = holds s w b" "flying s' w x = flying s w x" for b w x
    using assms(2,3,5,6) by (simp_all add: members_of_def count_vals_fresh holds_def flying_def)
  have "flights_ok s'"
    unfolding flights_ok_def
  proof (intro conjI allI impI)
    fix w x
    assume "flying s' w x"
    then obtain rx where "find_req s x = Some rx" "rec_state rx = RS_Running" "rec_in_batch rx" "holds s w (rec_batch_id rx)"
      using flyingE [OF assms(1)] by auto
    then show "\<exists>r. find_req s' x = Some r \<and> rec_state r = RS_Running \<and> rec_in_batch r \<and> holds s' w (rec_batch_id r)"
      using assms(2,5) by (cases "x = rid") (simp_all add: AList.update_conv')
  next
    fix x rx
    assume "find_req s' x = Some rx" and "rec_in_batch rx"
    then show "issued_id (im_id_factory s') (rec_batch_id rx)"
      using assms(1,2,4,6) by (cases "x = rid") (simp_all add: batch_inv_def flights_ok_def ids_grow_def AList.update_conv')
  qed
  then show ?thesis
    using assms(1,3,4) by (auto simp: batch_inv_def workers_ok_def counts_ok_def held_once_def ids_grow_def)
qed

lemma holdsE:
  assumes "batch_inv b0 n s" and "holds s w bid"
  obtains wr p where "find_wrk s w = Some wr" and "map_of (wk_batch_pending wr) bid = Some p" and "valid_id bid"
    and "0 < p" and "p = int (members_of s bid + (if bid = b0 then n else 0))"
  using assms unfolding batch_inv_def holds_def counts_ok_def held_once_def by blast

lemma map_of_pending_after:
  "map_of (wk_batch_pending wr) bid = Some p \<Longrightarrow>
   map_of (pending_after bid wr) b = (if b = bid then (if p \<le> 1 then None else Some (p - 1))
     else map_of (wk_batch_pending wr) b)"
  by (simp add: pending_after_def delete_conv map_of_omap_set)

lemma batch_release:
  assumes inv: "batch_inv b0 0 s" and req: "im_requests s' = AList.update rid r' (im_requests s)"
    and r': "\<not> rec_in_batch r'" and r: "find_req s rid = Some r" "rec_in_batch r" and h: "holds s w (rec_batch_id r)"
    and wrk: "im_workers s' = im_workers (release_batch_member rid w s)" and id: "rec_request_id r = rid"
    and grow: "ids_grow s s'"
  shows "batch_inv b0 0 s'"
proof -
  let ?bid = "rec_batch_id r"
  obtain wr p where wr: "find_wrk s w = Some wr" "map_of (wk_batch_pending wr) ?bid = Some p" "valid_id ?bid"
    and p: "0 < p" "p = int (members_of s ?bid)"
    using holdsE [OF inv h] by (metis add.right_neutral)
  let ?wr' = "free_member rid True ?bid wr"
  have wrk': "im_workers s' = AList.update w ?wr' (im_workers s)"
    using wrk wr(1) r id by (simp add: release_batch_member_workers)
  note fm = free_member_simps [OF wr(3)] map_of_pending_after [OF wr(2)]
  have mem: "members_of s' b + of_bool (b = ?bid) = members_of s b" for b
    using count_vals_update [OF r(1), of "\<lambda>r. rec_in_batch r \<and> rec_batch_id r = b" r'] r(2) r'
    by (auto simp: members_of_def req)
  have hold: "holds s' v b \<longleftrightarrow> holds s v b \<and> \<not> (v = w \<and> b = ?bid \<and> p \<le> 1)" for v b
    using wr by (auto simp: holds_def wrk' AList.update_conv' fm)
  have fly: "flying s' v x \<longleftrightarrow> flying s v x \<and> \<not> (v = w \<and> x = rid)" for v x
    using wr by (auto simp: flying_def wrk' AList.update_conv' fm delete_conv)
  have once: "holds s v b \<Longrightarrow> holds s w b \<Longrightarrow> v = w" for v b
    using inv by (auto simp: batch_inv_def held_once_def)
  have "workers_ok s'"
    using inv wr by (auto simp: batch_inv_def workers_ok_def wrk' AList.update_conv' fm load_free_member AList.distinct_update split: if_splits)
  moreover have "counts_ok b0 0 s'"
    unfolding counts_ok_def
  proof (intro allI impI)
    fix v vr b q
    assume v: "find_wrk s' v = Some vr" "map_of (wk_batch_pending vr) b = Some q"
    show "0 < q \<and> q = int (members_of s' b + (if b = b0 then 0 else 0))"
    proof (cases "v = w \<and> b = ?bid")
      case True
      then show ?thesis
        using v wr p mem [of ?bid] by (auto simp: wrk' AList.update_conv' fm split: if_splits)
    next
      case False
      obtain vr0 where vr0: "find_wrk s v = Some vr0" "map_of (wk_batch_pending vr0) b = Some q"
        using v wr False by (auto simp: wrk' AList.update_conv' fm split: if_splits)
      then have "holds s v b"
        by (simp add: holds_def)
      then have "b \<noteq> ?bid"
        using once h False by blast
      then show ?thesis
        using inv vr0 mem [of b] by (auto simp: batch_inv_def counts_ok_def)
    qed
  qed
  moreover have "held_once s'"
    using inv grow by (auto simp: batch_inv_def held_once_def hold ids_grow_def)
  moreover have "flights_ok s'"
    unfolding flights_ok_def
  proof (intro conjI allI impI)
    fix v x
    assume f: "flying s' v x"
    then obtain rx where rx: "find_req s x = Some rx" "rec_state rx = RS_Running" "rec_in_batch rx" "holds s v (rec_batch_id rx)"
      using flyingE [OF inv] by (auto simp: fly)
    have "x \<noteq> rid"
      using f rx r once h by (auto simp: fly)
    then have rx': "find_req s' x = Some rx"
      using rx by (simp add: req AList.update_conv')
    have "0 < members_of s' (rec_batch_id rx)"
      unfolding members_of_def using rx' by (rule count_vals_pos) (simp add: rx)
    then have "holds s' v (rec_batch_id rx)"
      using rx(4) p mem [of ?bid] by (auto simp: hold)
    then show "\<exists>r. find_req s' x = Some r \<and> rec_state r = RS_Running \<and> rec_in_batch r \<and> holds s' v (rec_batch_id r)"
      using rx rx' by blast
  next
    fix x rx
    assume "find_req s' x = Some rx" and "rec_in_batch rx"
    then show "issued_id (im_id_factory s') (rec_batch_id rx)"
      using inv grow r' by (auto simp: batch_inv_def flights_ok_def ids_grow_def req AList.update_conv' split: if_splits)
  qed
  ultimately show ?thesis
    by (simp add: batch_inv_def)
qed

section \<open>Reserving a batch\<close>

lemma fresh_id_issued:
  assumes "1 < ids_left (im_id_factory s)"
  shows "issued_id (im_id_factory (snd (fresh_id s))) (fst (next_id (im_id_factory s)))"
    and "\<not> issued_id (im_id_factory s) (fst (next_id (im_id_factory s)))"
    and "valid_id (fst (next_id (im_id_factory s)))" and "ids_grow s (snd (fresh_id s))"
proof -
  have pos: "0 < ids_left (im_id_factory s)"
    using assms by simp
  show "issued_id (im_id_factory (snd (fresh_id s))) (fst (next_id (im_id_factory s)))" and "ids_grow s (snd (fresh_id s))"
    using idf.records [OF pos] by (simp_all add: ids_grow_def)
  show "\<not> issued_id (im_id_factory s) (fst (next_id (im_id_factory s)))"
    using pos by (rule idf.fresh)
  show "valid_id (fst (next_id (im_id_factory s)))"
    unfolding next_id_simps
    by (rule id_value_valid) (use assms ids_left_counter [OF pos] in \<open>simp add: ids_left_def\<close>)
qed

lemma members_of_unissued:
  assumes "flights_ok s" and "\<not> issued_id (im_id_factory s) bid"
  shows "\<not> (\<exists>rid r. find_req s rid = Some r \<and> rec_in_batch r \<and> rec_batch_id r = bid)"
  using assms by (auto simp: flights_ok_def)

lemma count_vals_none:
  "distinct (map fst m) \<Longrightarrow> \<not> (\<exists>k v. map_of m k = Some v \<and> P v) \<Longrightarrow> count_vals P m = 0"
  by (auto simp: count_vals_def filter_empty_conv)

lemma batch_reserve_worker:
  assumes inv: "batch_inv b0 0 s" and dist: "distinct (map fst (im_requests s))" and room: "1 < ids_left (im_id_factory s)"
    and found: "find_wrk s w = Some wr" and ms: "ms \<noteq> []" and u: "0 \<le> u"
  defines "bid \<equiv> fst (next_id (im_id_factory s))"
  shows "batch_inv bid (length ms) (reserve_worker w bid u ms (snd (fresh_id s)))"
proof -
  let ?s' = "reserve_worker w bid u ms (snd (fresh_id s))"
  note new = fresh_id_issued [OF room, folded bid_def]
  have free: "\<not> holds s v bid" for v
    using inv new(2) by (auto simp: batch_inv_def held_once_def)
  have none: "members_of s bid = 0"
    unfolding members_of_def
    by (rule count_vals_none [OF dist]) (use inv new(2) in \<open>auto simp: batch_inv_def flights_ok_def\<close>)
  have mem: "members_of ?s' b = members_of s b" for b
    by (simp add: members_of_def)
  have hold: "holds ?s' v b \<longleftrightarrow> holds s v b \<or> v = w \<and> b = bid" for v b
    using found by (auto simp: holds_def reserve_worker_workers AList.update_conv' map_of_omap_set)
  have fly: "flying ?s' v x = flying s v x" for v x
    using found by (auto simp: flying_def reserve_worker_workers AList.update_conv')
  have load: "load_ok wr"
    using inv found by (auto simp: batch_inv_def workers_ok_def)
  have absent: "bid \<notin> set (map fst (wk_batch_pending wr))"
    using free [of w] found by (simp add: holds_def map_of_eq_None_iff)
  have "workers_ok ?s'"
    using inv found load_reserve [OF load absent u]
    by (auto simp: batch_inv_def workers_ok_def reserve_worker_workers AList.update_conv' AList.distinct_update split: if_splits)
  moreover have "counts_ok bid (length ms) ?s'"
    using inv found none ms free
    by (auto simp: batch_inv_def counts_ok_def reserve_worker_workers AList.update_conv' map_of_omap_set mem holds_def split: if_splits)
  moreover have "held_once ?s'"
    using inv new free by (auto simp: batch_inv_def held_once_def hold ids_grow_def)
  moreover have "flights_ok ?s'"
    using inv new(4) by (simp add: batch_inv_def flights_ok_def fly hold ids_grow_def) blast
  ultimately show ?thesis
    by (simp add: batch_inv_def)
qed

lemma batch_reserve_member:
  assumes inv: "batch_inv bid (Suc n) s" and r: "find_req s m = Some r" "\<not> rec_in_batch r"
    and iss: "issued_id (im_id_factory s) bid"
  shows "batch_inv bid n (reserve_member w bid now m s)"
proof -
  let ?s' = "reserve_member w bid now m s"
  obtain r' where eff: "im_requests ?s' = AList.update m r' (im_requests s)" "rec_in_batch r'" "rec_batch_id r' = bid"
    by (rule reserve_member_effect)
  have mem: "members_of ?s' b = members_of s b + of_bool (b = bid)" for b
    using count_vals_update [OF r(1), of "\<lambda>r. rec_in_batch r \<and> rec_batch_id r = b" r'] r(2) eff
    by (auto simp: members_of_def)
  have same: "holds ?s' v b = holds s v b" "flying ?s' v x = flying s v x" for v b x
    by (simp_all add: holds_def flying_def)
  have "flights_ok ?s'"
    unfolding flights_ok_def
  proof (intro conjI allI impI)
    fix v x
    assume "flying ?s' v x"
    then obtain rx where rx: "find_req s x = Some rx" "rec_state rx = RS_Running" "rec_in_batch rx" "holds s v (rec_batch_id rx)"
      using flyingE [OF inv] by (auto simp: same)
    then have "x \<noteq> m"
      using r by auto
    with rx show "\<exists>r. find_req ?s' x = Some r \<and> rec_state r = RS_Running \<and> rec_in_batch r \<and> holds ?s' v (rec_batch_id r)"
      by (simp add: eff AList.update_conv' same)
  next
    fix x rx
    assume "find_req ?s' x = Some rx" and "rec_in_batch rx"
    then show "issued_id (im_id_factory ?s') (rec_batch_id rx)"
      using inv iss eff by (auto simp: batch_inv_def flights_ok_def AList.update_conv' split: if_splits)
  qed
  moreover have "counts_ok bid n ?s'"
    unfolding counts_ok_def
  proof (intro allI impI)
    fix v vr b p
    assume "find_wrk ?s' v = Some vr" and "map_of (wk_batch_pending vr) b = Some p"
    then have "0 < p \<and> p = int (members_of s b + (if b = bid then Suc n else 0))"
      using inv by (simp add: batch_inv_def counts_ok_def)
    then show "0 < p \<and> p = int (members_of ?s' b + (if b = bid then n else 0))"
      by (simp add: mem)
  qed
  ultimately show ?thesis
    using inv by (simp add: batch_inv_def workers_ok_def held_once_def same)
qed

lemma batch_reserve_members:
  "batch_inv bid (length ms) s \<Longrightarrow> issued_id (im_id_factory s) bid \<Longrightarrow> distinct ms \<Longrightarrow>
   (\<And>m. m \<in> set ms \<Longrightarrow> \<exists>r. find_req s m = Some r \<and> \<not> rec_in_batch r) \<Longrightarrow>
   batch_inv bid 0 (fold (reserve_member w bid now) ms s)"
proof (induction ms arbitrary: s)
  case (Cons m ms)
  obtain r where r: "find_req s m = Some r" "\<not> rec_in_batch r"
    using Cons.prems(4) by auto
  have step: "batch_inv bid (length ms) (reserve_member w bid now m s)"
    using Cons.prems(1,2) r by (simp add: batch_reserve_member)
  obtain r' where eff: "im_requests (reserve_member w bid now m s) = AList.update m r' (im_requests s)"
    by (rule reserve_member_effect)
  have "find_req (reserve_member w bid now m s) x = find_req s x" if "x \<in> set ms" for x
    using that Cons.prems(3) by (auto simp: eff AList.update_conv')
  then show ?case
    using Cons.IH [OF step] Cons.prems by simp
qed simp

section \<open>Rewriting a worker\<close>

lemma batch_fly:
  assumes inv: "batch_inv b0 n s" and req: "im_requests s' = im_requests s" and grow: "ids_grow s s'"
    and wrk: "im_workers s' = AList.update w wr' (im_workers s)" and found: "find_wrk s w = Some wr"
    and load: "load_ok wr'" "reg_worker (wk_registration wr') = w" and pend: "wk_batch_pending wr' = wk_batch_pending wr"
    and new: "\<And>x. map_of (wk_in_flight wr') x \<noteq> None \<Longrightarrow> flying s w x \<or>
      (\<exists>r. find_req s x = Some r \<and> rec_state r = RS_Running \<and> rec_in_batch r \<and> holds s w (rec_batch_id r))"
  shows "batch_inv b0 n s'"
proof -
  have mem: "members_of s' b = members_of s b" for b
    by (simp add: members_of_def req)
  have hold: "holds s' v b = holds s v b" for v b
    using found pend by (auto simp: holds_def wrk AList.update_conv')
  have fly: "\<exists>r. find_req s x = Some r \<and> rec_state r = RS_Running \<and> rec_in_batch r \<and> holds s v (rec_batch_id r)"
    if "flying s' v x" for v x
  proof -
    have "flying s v x \<or> v = w \<and> map_of (wk_in_flight wr') x \<noteq> None"
      using that by (auto simp: flying_def wrk AList.update_conv' split: if_splits)
    then show ?thesis
      using new flyingE [OF inv] by metis
  qed
  have "workers_ok s'"
    using inv found load
    by (auto simp: batch_inv_def workers_ok_def wrk AList.update_conv' AList.distinct_update split: if_splits)
  moreover have "counts_ok b0 n s'"
    using inv found pend
    by (auto simp: batch_inv_def counts_ok_def wrk AList.update_conv' mem split: if_splits)
  moreover have "held_once s'"
    using inv grow by (simp add: batch_inv_def held_once_def hold ids_grow_def)
  moreover have "flights_ok s'"
    using inv grow fly by (simp add: batch_inv_def flights_ok_def hold req ids_grow_def)
  ultimately show ?thesis
    by (simp add: batch_inv_def)
qed

lemma batch_rewrite:
  assumes "batch_inv b0 n s" and "im_requests s' = im_requests s" and "ids_grow s s'"
    and "im_workers s' = AList.update w wr' (im_workers s)" and "find_wrk s w = Some wr"
    and "load_ok wr'" and "reg_worker (wk_registration wr') = w" and "wk_batch_pending wr' = wk_batch_pending wr"
    and "wk_in_flight wr' = wk_in_flight wr"
  shows "batch_inv b0 n s'"
  by (rule batch_fly [OF assms(1-8)]) (use assms(5,9) in \<open>simp add: flying_def\<close>)

lemma load_same:
  assumes "load_ok wr" and "same_load wr' wr"
  shows "load_ok wr'"
proof -
  have "0 \<le> wk_reserved_units wr"
    using assms(1) sum_keys_nonneg [of "wk_batch_units wr"] by (simp add: load_ok_def)
  then show ?thesis
    using assms by (auto simp: load_ok_def same_load_def nonneg_def)
qed

lemma load_idle: "idle_load wr \<Longrightarrow> wk_reserved_units wr = 0 \<Longrightarrow> 0 \<le> wk_running_units wr \<Longrightarrow> load_ok wr"
  by (simp add: idle_load_def load_ok_def)

lemma batch_detach:
  assumes inv: "batch_inv b0 n s" and req: "im_requests s' = im_requests s" and grow: "ids_grow s s'"
    and keys: "distinct (map fst (im_workers s'))" and others: "\<And>v. v \<noteq> w \<Longrightarrow> find_wrk s' v = find_wrk s v"
    and idle: "\<And>wr. find_wrk s' w = Some wr \<Longrightarrow> idle_load wr \<and> load_ok wr \<and> valid_id w \<and> reg_worker (wk_registration wr) = w"
  shows "batch_inv b0 n s'"
proof -
  have mem: "members_of s' b = members_of s b" for b
    by (simp add: members_of_def req)
  have hold: "holds s' v b \<longleftrightarrow> holds s v b \<and> v \<noteq> w" for v b
    using others idle by (cases "v = w") (auto simp: holds_def idle_load_def)
  have fly: "flying s' v x \<longleftrightarrow> flying s v x \<and> v \<noteq> w" for v x
    using others idle by (cases "v = w") (auto simp: flying_def idle_load_def)
  have "workers_ok s'"
    unfolding workers_ok_def using inv others idle keys
    by (metis batch_inv_def workers_ok_def)
  moreover have "counts_ok b0 n s'"
    unfolding counts_ok_def mem
  proof (intro allI impI)
    fix v vr b p
    assume v: "find_wrk s' v = Some vr" "map_of (wk_batch_pending vr) b = Some p"
    then have "v \<noteq> w"
      using idle by (auto simp: idle_load_def)
    then show "0 < p \<and> p = int (members_of s b + (if b = b0 then n else 0))"
      using v inv others by (simp add: batch_inv_def counts_ok_def)
  qed
  moreover have "held_once s'"
    using inv grow by (auto simp: batch_inv_def held_once_def hold ids_grow_def)
  moreover have "flights_ok s'"
    using inv grow by (simp add: batch_inv_def flights_ok_def hold fly req ids_grow_def)
  ultimately show ?thesis
    by (simp add: batch_inv_def)
qed

end
