(* ===== verification/Selection.thy ===== *)
theory Selection
  imports Dispatch
begin

text \<open>
  The choice of a worker: \<open>select_worker\<close> scans the scores once and keeps the best. The lemmas
  show that the result is an eligible worker that no eligible worker beats, and what
  eligibility means.
\<close>

section \<open>Keeping the best so far\<close>

definition keep :: "('a \<Rightarrow> 'a \<Rightarrow> bool) \<Rightarrow> 'a \<Rightarrow> 'a option \<Rightarrow> 'a option" where
  \<comment> \<open>\<open>if (!found || lt(c, best)) best = c;\<close>\<close>
  "keep lt c best = (case best of None \<Rightarrow> Some c | Some b \<Rightarrow> if lt c b then Some c else best)"

locale strict_order =
  fixes lt :: "'a \<Rightarrow> 'a \<Rightarrow> bool"
  assumes lt_asym: "lt x y \<Longrightarrow> \<not> lt y x"
    and lt_trans: "lt x y \<Longrightarrow> lt y z \<Longrightarrow> lt x z"
begin

lemma fold_keep_Some: "\<exists>x. fold (keep lt) cs (Some b) = Some x \<and> (x = b \<or> lt x b)"
proof (induction cs arbitrary: b)
  case (Cons c cs)
  then show ?case
    using lt_trans by (auto simp: keep_def) blast
qed simp

lemma fold_keep_None: "fold (keep lt) cs best = None \<longleftrightarrow> best = None \<and> cs = []"
proof -
  have some: "fold (keep lt) xs (Some b) \<noteq> None" for xs b
    using fold_keep_Some [of xs b] by auto
  show ?thesis
  proof (cases best)
    case None
    then show ?thesis
      using some by (cases cs) (simp_all add: keep_def)
  qed (simp add: some)
qed

lemma fold_keep_best:
  "fold (keep lt) cs best = Some x \<Longrightarrow> (best = Some x \<or> x \<in> set cs) \<and> (\<forall>c\<in>set cs. \<not> lt c x)"
proof (induction cs arbitrary: best)
  case (Cons c cs)
  have "keep lt c best \<noteq> None"
    by (simp add: keep_def split: option.split)
  then obtain b where b: "keep lt c best = Some b"
    by blast
  then have "x = b \<or> lt x b"
    using Cons.prems fold_keep_Some [of cs b] by auto
  moreover have "b = c \<or> best = Some b \<and> \<not> lt c b"
    using b by (auto simp: keep_def split: option.splits if_splits)
  ultimately have "\<not> lt c x"
    using lt_asym lt_trans by blast
  then show ?case
    using Cons b \<open>b = c \<or> best = Some b \<and> \<not> lt c b\<close> by auto
qed simp

lemma fold_keep_order:
  assumes "set cs' = set cs" and "\<And>a b. a \<in> set cs \<Longrightarrow> b \<in> set cs \<Longrightarrow> a \<noteq> b \<Longrightarrow> lt a b \<or> lt b a"
  shows "fold (keep lt) cs' None = fold (keep lt) cs None"
proof (cases "fold (keep lt) cs None")
  case None
  then have "cs = []"
    by (simp add: fold_keep_None)
  then show ?thesis
    using assms(1) by simp
next
  case (Some x)
  then obtain y where y: "fold (keep lt) cs' None = Some y"
    using assms(1) fold_keep_None [of cs' None] by (cases "fold (keep lt) cs' None") auto
  have "x = y"
    using fold_keep_best [OF Some] fold_keep_best [OF y] assms by (metis option.distinct(1))
  then show ?thesis
    using Some y by simp
qed

end

interpretation score: strict_order better_score
proof
  show "better_score x y \<Longrightarrow> \<not> better_score y x" for x y
    by (auto simp: better_score_def dest: dlt_asym dlt_not_deq deq_sym)
  show "better_score x y \<Longrightarrow> better_score y z \<Longrightarrow> better_score x z" for x y z
    by (auto simp: better_score_def dest: dlt_trans deq_trans intro: deq_dlt dlt_deq deq_sym)
qed

lemma best_score_fold: "best_score cs best = fold (keep better_score) (filter ws_eligible cs) best"
  by (induction cs best rule: best_score.induct) (auto simp: keep_def split: option.split)

section \<open>Eligibility\<close>

lemma best_score_mem: "best_score cs best = Some x \<Longrightarrow> best = Some x \<or> x \<in> set cs \<and> ws_eligible x"
  unfolding best_score_fold using score.fold_keep_best by fastforce

lemma score_worker_id [simp]: "ws_worker (score_worker cfg wr sp c now) = reg_worker (wk_registration wr)"
  by (simp add: score_worker_def Let_def rejected_score_def)

lemma score_worker_eligible:
  assumes "ws_eligible (score_worker cfg wr sp cost now)"
  defines "cap \<equiv> reg_capability (wk_registration wr)"
  shows "wk_state wr = WS_Online \<or> wk_state wr = WS_Busy" and "compatible sp cap"
    and "ceil_cost cost \<le> free_units wr" and "ceil_cost cost \<le> cap_total_capacity_units cap"
    and "\<not> (dl_valid (spec_deadline sp) \<and> expired (spec_deadline sp) now)"
  using assms(1) by (auto simp: score_worker_def Let_def rejected_score_def compatible_def cap_def split: if_splits)

lemma select_worker_entry:
  assumes "select_worker members cost now s = (w, scores)" and "valid_id w"
  obtains k wr where "(k, wr) \<in> set (im_workers s)" and "reg_worker (wk_registration wr) = w"
    and "ws_eligible (score_worker (im_cfg s) wr (rec_spec (req_at s (hd members))) cost now)"
proof (cases members)
  case Nil
  then show thesis
    using assms by (simp add: select_worker_def valid_id_def)
next
  case (Cons m ms)
  let ?scores = "map (\<lambda>(w, wr). score_worker (im_cfg s) wr (rec_spec (req_at s m)) cost now) (im_workers s)"
  obtain b where b: "best_score ?scores None = Some b" "w = ws_worker b"
    using assms Cons by (auto simp: select_worker_def Let_def valid_id_def split: option.splits)
  then have "b \<in> set ?scores" "ws_eligible b"
    using best_score_mem [OF b(1)] by auto
  then show thesis
    using that Cons b(2) by auto
qed

end
