(* ===== verification/Ownership.thy ===== *)
theory Ownership
  imports Queue_Inv Batch_Inv Selection
begin

text \<open>
  The whole scheduler under callers that respect the protocol: identifiers are left in the
  factory, submitted costs are in the range of \<open>int64\<close>, workers register with a valid
  identifier, and a report that names the current attempt of a request comes from the worker
  that holds its batch. Then the record, index and reservation invariants hold together after
  every sequence of calls.
\<close>

section \<open>The protocol\<close>

definition cost_ok :: "RequestSpec \<Rightarrow> bool" where
  "cost_ok sp \<longleftrightarrow> 0 \<le> ceil_cost (dem_cost_units (spec_demand sp))"

definition id_room :: "Impl \<Rightarrow> bool" where
  \<comment> \<open>enough identifiers for any one call; recovering a worker takes two for each request in flight\<close>
  "id_room s \<longleftrightarrow> 4 \<le> ids_left (im_id_factory s) \<and>
     (\<forall>w wr. find_wrk s w = Some wr \<longrightarrow> 2 * length (wk_in_flight wr) < ids_left (im_id_factory s))"

definition current :: "CompletionReport \<Rightarrow> Impl \<Rightarrow> bool" where
  "current rep s \<longleftrightarrow> (\<exists>r. find_req s (cr_request_id rep) = Some r \<and> rec_current_attempt r = cr_attempt_id rep \<and>
     rec_generation r = cr_generation rep \<and> \<not> is_terminal (rec_state r))"

definition owns :: "CompletionReport \<Rightarrow> Impl \<Rightarrow> bool" where
  "owns rep s \<longleftrightarrow> (\<exists>r. find_req s (cr_request_id rep) = Some r \<and> rec_in_batch r \<and>
     holds s (cr_worker rep) (rec_batch_id r))"

definition well_behaved :: "Impl \<Rightarrow> call \<Rightarrow> bool" where
  "well_behaved s c \<longleftrightarrow> submits cost_ok s c \<and> id_room s \<and>
     (case c of
        RegisterWorker reg \<Rightarrow> valid_id (reg_worker reg)
      | ConfirmStart rep \<Rightarrow> current rep s \<longrightarrow> owns rep s
      | Complete rep \<Rightarrow> current rep s \<longrightarrow> owns rep s
      | _ \<Rightarrow> True)"

definition sys_inv :: "Impl \<Rightarrow> bool" where
  "sys_inv s \<longleftrightarrow> rec_inv cost_ok s \<and> index_inv s \<and> batch_inv 0 0 s"

lemma batch_inv_any: "batch_inv b 0 s = batch_inv b' 0 s"
  by (simp add: batch_inv_def counts_ok_def)

lemma sys_invD:
  assumes "sys_inv s"
  shows "rec_inv cost_ok s" and "index_inv s" and "batch_inv b 0 s"
    and "find_req s rid = Some r \<Longrightarrow> rec_request_id r = rid"
    and "find_req s rid = Some r \<Longrightarrow> \<not> is_terminal (rec_state r) \<Longrightarrow> active_state (rec_state r)"
proof -
  show "rec_inv cost_ok s" and "index_inv s" and "batch_inv b 0 s"
    using assms batch_inv_any [of b s 0] by (simp_all add: sys_inv_def)
  show "find_req s rid = Some r \<Longrightarrow> rec_request_id r = rid"
    and "find_req s rid = Some r \<Longrightarrow> \<not> is_terminal (rec_state r) \<Longrightarrow> active_state (rec_state r)"
    using assms rec_okD(1,3) [OF rec_invD [of cost_ok s]] unfolding sys_inv_def by blast+
qed

section \<open>Expiry and the loop over a flow\<close>

lemma index_expire_request:
  assumes "index_inv s" and "find_req s rid = Some r" and "rec_request_id r = rid" and "rec_state r = RS_Queued"
  shows "index_inv (expire_request rid s)"
proof -
  have q: "rec_state (req_at s rid) = RS_Queued"
    using assms by simp
  obtain r' where eff: "im_requests (expire_request rid s) = AList.update rid r' (im_requests s)"
    "rec_state r' = RS_Expired"
    by (rule expire_request_effect [OF q])
  show ?thesis
    by (rule index_leave [OF assms(1) eff(1) assms(2-4)]) (simp_all add: eff expire_request_queue [OF q] del: dequeue_request_queue)
qed

lemma batch_expire_request:
  assumes "batch_inv b n s" and "find_req s rid = Some r" and "rec_state r = RS_Queued"
  shows "batch_inv b n (expire_request rid s)"
proof -
  have q: "rec_state (req_at s rid) = RS_Queued"
    using assms by simp
  obtain r' where eff: "im_requests (expire_request rid s) = AList.update rid r' (im_requests s)"
    "rec_in_batch r' = rec_in_batch (req_at s rid)" "rec_batch_id r' = rec_batch_id (req_at s rid)"
    by (rule expire_request_effect [OF q])
  show ?thesis
    by (rule batch_touch [OF assms(1) eff(1) _ _ assms(2)]) (use eff assms in \<open>simp_all add: ids_grow_refl\<close>)
qed

lemma sys_expire_request:
  assumes "sys_inv s" and "find_req s rid = Some r" and "rec_state r = RS_Queued"
  shows "sys_inv (expire_request rid s)"
  using assms sys_invD [OF assms(1)]
  by (simp add: sys_inv_def rec_expire_request index_expire_request batch_expire_request)

abbreviation with_pending :: "FlowKey \<Rightarrow> ReadyEntry list \<Rightarrow> Impl \<Rightarrow> Impl" where
  "with_pending k q s \<equiv> modify_flow k (\<lambda>f. f\<lparr>fl_pending := q\<rparr>) s"

lemma sys_modify_flow:
  assumes "rec_inv cost_ok s" and "batch_inv 0 0 s" and "index_inv (modify_flow k f s)"
  shows "sys_inv (modify_flow k f s)"
  using rec_same [OF assms(1), of "modify_flow k f s"] batch_same [OF assms(2), of "modify_flow k f s"] assms(3)
  by (simp add: sys_inv_def ids_grow_refl)

lemma index_drop_entry:
  assumes "index_inv (with_pending k (e # q) s)" and "\<And>rid. queued_state s rid \<Longrightarrow> \<not> entry_of s rid e"
  shows "index_inv (with_pending k q s)"
proof -
  have eqs: "queued_state (with_pending k p s) rid = queued_state s rid"
    "entry_of (with_pending k p s) rid x = entry_of s rid x" for p rid x
    by (simp_all add: queued_state_def entry_of_def)
  show ?thesis
    using assms unfolding index_inv_def queue_inv_def compat_inv_def flow_inv_def
    by (auto simp: eqs split: if_splits dest: pq_ordered_tl)
qed

lemma entry_stale_none: "queue_inv s \<Longrightarrow> entry_stale s e \<Longrightarrow> queued_state s rid \<Longrightarrow> \<not> entry_of s rid e"
  by (auto simp: entry_stale_def queue_inv_def entry_of_def split: option.splits) (auto simp: queued_state_def)

lemma queue_inv_with_pending: "index_inv (with_pending k q s) \<Longrightarrow> queue_inv s"
  by (simp add: index_inv_def queue_inv_def queued_state_def)

lemma index_expire_pending:
  assumes "index_inv (with_pending k q s)" and "find_req s rid = Some r" and "rec_request_id r = rid" and "rec_state r = RS_Queued"
  shows "index_inv (with_pending k q (expire_request rid s))"
proof -
  have st: "rec_state (req_at s rid) = RS_Queued"
    using assms by simp
  obtain r' where eff: "im_requests (expire_request rid s) = AList.update rid r' (im_requests s)"
    "rec_state r' = RS_Expired"
    by (rule expire_request_effect [OF st])
  show ?thesis
    by (rule index_leave [OF assms(1), of _ rid r' r]) (use assms in \<open>simp_all add: eff expire_request_queue [OF st]\<close>)
qed

lemma sys_purge:
  "rec_inv cost_ok s \<Longrightarrow> batch_inv 0 0 s \<Longrightarrow> index_inv (with_pending k q s) \<Longrightarrow>
   rec_inv cost_ok (snd (purge now q s)) \<and> batch_inv 0 0 (snd (purge now q s)) \<and>
   index_inv (with_pending k (fst (purge now q s)) (snd (purge now q s)))"
proof (induction now q s rule: purge.induct)
  case (2 now e q s)
  let ?d = "spec_deadline (rec_spec (req_at s (re_id e)))"
  consider (stale) "entry_stale s e" | (late) "\<not> entry_stale s e" "dl_valid ?d \<and> expired ?d now"
    | (keep) "\<not> entry_stale s e" "\<not> (dl_valid ?d \<and> expired ?d now)"
    by blast
  then show ?case
  proof cases
    case stale
    then have "index_inv (with_pending k q s)"
      using 2(5) entry_stale_none [OF queue_inv_with_pending [OF 2(5)]] by (blast intro: index_drop_entry)
    then show ?thesis
      using 2 stale by simp
  next
    case late
    then obtain r where r: "find_req s (re_id e) = Some r" "rec_state r = RS_Queued"
      using queue_inv_with_pending [OF 2(5)]
      by (auto simp: entry_stale_def queue_inv_def queued_state_def split: option.splits)
    let ?s = "expire_request (re_id e) s"
    have id: "rec_request_id r = re_id e"
      using rec_okD(1) [OF rec_invD [OF 2(3) r(1)]] .
    have "index_inv (with_pending k (e # q) ?s)"
      using 2(5) r(1) id r(2) by (rule index_expire_pending)
    moreover have "\<not> queued_state ?s (re_id e)"
      using r by (auto simp: queued_state_def expire_request_def Let_def AList.update_conv')
    then have "queued_state ?s x \<Longrightarrow> \<not> entry_of ?s x e" for x
      by (auto simp: entry_of_def)
    ultimately have "index_inv (with_pending k q ?s)"
      by (blast intro: index_drop_entry)
    then show ?thesis
      using 2 late r by (simp add: Let_def rec_expire_request batch_expire_request)
  next
    case keep
    then have "purge now (e # q) s = (e # q, s)"
      by (auto simp: Let_def)
    then show ?thesis
      using 2 by simp
  qed
qed simp

lemma sys_purge_flow:
  assumes "sys_inv s"
  shows "sys_inv (purge_flow now k s)"
proof -
  let ?q = "fl_pending (flow_at s k)"
  have "index_inv (with_pending k ?q s)"
    using sys_invD(2) [OF assms] by (rule index_same) (simp_all split: if_split)
  then have "rec_inv cost_ok (snd (purge now ?q s)) \<and> batch_inv 0 0 (snd (purge now ?q s)) \<and>
      index_inv (with_pending k (fst (purge now ?q s)) (snd (purge now ?q s)))"
    using sys_purge sys_invD [OF assms] by blast
  then show ?thesis
    unfolding purge_flow_def by (blast intro: sys_modify_flow)
qed

lemma sys_deactivate:
  assumes "sys_inv s" and "fl_pending (flow_at s k) = []"
  shows "sys_inv (s\<lparr>im_active_flows := uset_erase k (im_active_flows s)\<rparr>)"
proof -
  let ?s = "s\<lparr>im_active_flows := uset_erase k (im_active_flows s)\<rparr>"
  have "index_inv ?s"
    using sys_invD(2) [OF assms(1)] assms(2)
    by (auto simp: index_inv_def queue_inv_def compat_inv_def flow_inv_def queued_state_def entry_of_def)
  moreover have "batch_inv 0 0 ?s"
    using sys_invD(3) [OF assms(1)] by (rule batch_same) (simp_all add: ids_grow_refl)
  moreover have "rec_inv cost_ok ?s"
    using sys_invD(1) [OF assms(1)] by (rule rec_same) simp_all
  ultimately show ?thesis
    by (simp add: sys_inv_def)
qed

section \<open>Submission\<close>

lemma ids_grow_id:
  "0 < ids_left (im_id_factory s) \<Longrightarrow> im_id_factory s' = snd (next_id (im_id_factory s)) \<Longrightarrow> ids_grow s s'"
  using idf.records by (simp add: ids_grow_def)

lemma ids_grow_trans: "ids_grow s s' \<Longrightarrow> ids_grow s' s'' \<Longrightarrow> ids_grow s s''"
  by (simp add: ids_grow_def)

lemma ids_grow_two:
  assumes "1 < ids_left (im_id_factory s)" and "im_id_factory s' = snd (next_id (snd (next_id (im_id_factory s))))"
  shows "ids_grow s s'"
proof (rule ids_grow_trans)
  show "ids_grow s (snd (fresh_id s))"
    by (rule ids_grow_id) (use assms(1) in simp_all)
  show "ids_grow (snd (fresh_id s)) s'"
    by (rule ids_grow_id) (use assms idf.spends [of "im_id_factory s"] in simp_all)
qed

lemma submit_id_ids: "ids_left (im_id_factory s) \<le> Suc (ids_left (im_id_factory (snd (submit_id pre s))))"
  by (cases "0 < ids_left (im_id_factory s)")
    (use idf.spends [of "im_id_factory s"] in \<open>auto simp: submit_id_def fresh_id_def split_beta split: option.split\<close>)

lemma submit_id_grow: "0 < ids_left (im_id_factory s) \<Longrightarrow> ids_grow s (snd (submit_id pre s))"
  using ids_grow_id [of s "snd (submit_id pre s)"]
  by (auto simp: submit_id_def fresh_id_def split_beta ids_grow_refl split: option.splits)

lemma sys_do_submit:
  assumes "sys_inv s" and "well_behaved s (Submit sp pre)"
  shows "sys_inv (snd (do_submit sp pre s))"
proof -
  let ?rid = "fst (submit_id pre s)" and ?s1 = "snd (submit_id pre s)"
  have wb: "find_req s ?rid = None" "cost_ok sp" "4 \<le> ids_left (im_id_factory s)"
    using assms(2) by (simp_all add: well_behaved_def submits_def fresh_submit_def id_room_def)
  have rec: "rec_inv cost_ok (snd (do_submit sp pre s))"
    using sys_invD(1) [OF assms(1)] wb(1,2) by (rule rec_do_submit)
  have idx: "index_inv ?s1"
    using sys_invD(2) [OF assms(1)] by (rule index_same) simp_all
  have room: "1 < ids_left (im_id_factory ?s1)"
    using submit_id_ids [of s pre] wb(3) by linarith
  have bat: "batch_inv 0 0 ?s1"
    using sys_invD(3) [OF assms(1)] by (rule batch_same) (use submit_id_grow wb(3) in simp_all)
  have new: "find_req ?s1 ?rid = None" and free: "\<not> queued_state ?s1 ?rid"
    using wb(1) by (simp_all add: queued_state_def)
  have "index_inv (snd (do_submit sp pre s)) \<and> batch_inv 0 0 (snd (do_submit sp pre s))"
  proof (cases rule: do_submit_cases [of sp pre s])
    case (admitted code out)
    have nolate: "\<not> (dl_valid (spec_deadline sp) \<and> expired (spec_deadline sp) (im_clock_now ?s1))"
      using make_admission_admit(3) [OF admitted(1)] by simp
    note tab = submit_admit_tables [OF nolate new, of out] submit_admit_flows [OF nolate new, of out]
    obtain r' where eff: "im_requests (snd (submit_admit out sp ?rid ?s1)) = AList.update ?rid r' (im_requests ?s1)"
      "rec_state r' = RS_Queued" "rec_spec r' = sp" "rec_generation r' = fst (next_id (im_id_factory ?s1))" "\<not> rec_in_batch r'"
      using nolate new by (rule submit_admit_effect)
    have "index_inv (snd (submit_admit out sp ?rid ?s1))"
      by (rule index_enter [OF idx eff(1) free eff(2)], unfold tab eff(3,4)) simp+
    moreover have "batch_inv 0 0 (snd (submit_admit out sp ?rid ?s1))"
      by (rule batch_fresh [OF bat eff(1) tab(7) _ new eff(5)]) (rule ids_grow_two [OF room tab(10)])
    ultimately show ?thesis
      by (simp add: admitted(2))
  next
    case (deferred code out)
    have "index_inv (snd (submit_defer out code ?s1))"
      using idx by (rule index_same) (simp_all add: submit_defer_def)
    moreover have "batch_inv 0 0 (snd (submit_defer out code ?s1))"
      using bat by (rule batch_same) (simp_all add: submit_defer_def ids_grow_refl)
    ultimately show ?thesis
      by (simp add: deferred(2))
  next
    case (rejected code out)
    obtain r' where eff: "im_requests (snd (submit_reject out sp ?rid code ?s1)) = AList.update ?rid r' (im_requests ?s1)"
      "rec_state r' = RS_Rejected" "\<not> rec_in_batch r'"
      using new by (rule submit_reject_effect)
    have "index_inv (snd (submit_reject out sp ?rid code ?s1))"
      by (rule index_neutral [OF idx eff(1)]) (use free eff in simp_all)
    moreover have "batch_inv 0 0 (snd (submit_reject out sp ?rid code ?s1))"
      by (rule batch_fresh [OF bat eff(1) _ _ new eff(3)])
        (use room ids_grow_id in \<open>simp_all add: submit_reject_def Let_def split_beta\<close>)
    ultimately show ?thesis
      by (simp add: rejected(2))
  qed (use assms(1) in \<open>simp add: sys_inv_def\<close>)
  with rec show ?thesis
    by (simp add: sys_inv_def)
qed

section \<open>Reservation\<close>

lemma index_reserve_members:
  "index_inv s \<Longrightarrow> distinct ms \<Longrightarrow>
   (\<And>m. m \<in> set ms \<Longrightarrow> \<exists>r. find_req s m = Some r \<and> rec_state r = RS_Queued \<and> rec_request_id r = m) \<Longrightarrow>
   index_inv (fold (reserve_member w bid now) ms s)"
proof (induction ms arbitrary: s)
  case (Cons m ms)
  obtain r where r: "find_req s m = Some r" "rec_request_id r = m" "rec_state r = RS_Queued"
    using Cons.prems(3) by auto
  obtain r' where eff: "im_requests (reserve_member w bid now m s) = AList.update m r' (im_requests s)"
    "rec_state r' = RS_Reserved"
    by (rule reserve_member_effect)
  have "index_inv (reserve_member w bid now m s)"
    by (rule index_leave [OF Cons.prems(1) eff(1) r]) (simp_all add: eff)
  moreover have "find_req (reserve_member w bid now m s) x = find_req s x" if "x \<in> set ms" for x
    using that Cons.prems(2) by (auto simp: eff AList.update_conv')
  ultimately show ?case
    using Cons.IH Cons.prems by simp
qed simp

lemma distinct_candidates:
  assumes "index_inv s"
  shows "distinct (batch_candidates s now rid)"
proof (cases "map_of (im_compat s) (compat_key (im_cfg s) (rec_spec (req_at s rid)))")
  case (Some ids)
  have "distinct (umap_at [] (im_compat s) (compat_key (im_cfg s) (rec_spec (req_at s rid))))"
    using assms by (simp add: index_inv_def compat_inv_def)
  then show ?thesis
    using Some by (simp add: batch_candidates_def)
qed (simp add: batch_candidates_def)

lemma plan_ready_members:
  assumes "sys_inv s" and "plan_ready rid members w now s"
  shows "distinct members" and "members \<noteq> []" and "find_wrk s w \<noteq> None"
    and "m \<in> set members \<Longrightarrow> \<exists>r. find_req s m = Some r \<and> rec_state r = RS_Queued \<and> rec_request_id r = m \<and> \<not> rec_in_batch r"
proof -
  obtain r scores where r: "find_req s rid = Some r" and ms: "members = form_batch rid now s"
    and sel: "select_worker members (batch_cost_of s members) now s = (w, scores)" "valid_id w"
    using assms(2) by (auto simp: plan_ready_def)
  have "distinct (batch_candidates s now rid)"
    using sys_invD(2) [OF assms(1)] by (rule distinct_candidates)
  then show "distinct members"
    unfolding ms by (rule distinct_form_batch [OF r])
  show "members \<noteq> []"
    using form_batch_shape [OF r] ms by (metis list.distinct(1))
  show "find_wrk s w \<noteq> None"
    using select_worker_entry [OF sel] sys_invD(3) [OF assms(1)]
    unfolding batch_inv_def workers_ok_def by (metis map_of_eq_Some_iff option.distinct(1))
  assume "m \<in> set members"
  then obtain rm where "find_req s m = Some rm" "rec_state rm = RS_Queued"
    using rec_seed_queued [OF sys_invD(1) [OF assms(1)] assms(2)] by blast
  then show "\<exists>r. find_req s m = Some r \<and> rec_state r = RS_Queued \<and> rec_request_id r = m \<and> \<not> rec_in_batch r"
    using rec_okD(1,2) [OF rec_invD [OF sys_invD(1) [OF assms(1)]]] by blast
qed

lemma batch_units_of_nonneg:
  assumes "rec_inv cost_ok s" and "\<And>m. m \<in> set members \<Longrightarrow> \<exists>r. find_req s m = Some r"
  shows "0 \<le> batch_units_of s members"
  unfolding batch_units_of_def
proof (rule sum_list_nonneg)
  fix x
  assume "x \<in> set (map (\<lambda>rid. ceil_cost (dem_cost_units (spec_demand (rec_spec (req_at s rid))))) members)"
  then obtain m where m: "m \<in> set members" "x = ceil_cost (dem_cost_units (spec_demand (rec_spec (req_at s m))))"
    by auto
  moreover from m(1) obtain r where r: "find_req s m = Some r"
    using assms(2) by blast
  ultimately show "0 \<le> x"
    using rec_invD [OF assms(1) r] by (simp add: rec_ok_def cost_ok_def)
qed

lemma sys_reserve_batch:
  assumes "sys_inv s" and "plan_ready rid members w now s" and "1 < ids_left (im_id_factory s)"
  shows "sys_inv (reserve_batch w now members s)"
proof -
  note inv = sys_invD [OF assms(1)] and ms = plan_ready_members [OF assms(1,2)]
  define bid where "bid = fst (next_id (im_id_factory s))"
  define s1 where "s1 = reserve_worker w bid (batch_units_of s members) members (snd (fresh_id s))"
  obtain wr where wr: "find_wrk s w = Some wr"
    using ms(3) by blast
  have units: "0 \<le> batch_units_of s members"
    by (rule batch_units_of_nonneg [OF inv(1)]) (use ms(4) in blast)
  have dist: "distinct (map fst (im_requests s))"
    using inv(1) by (simp add: rec_inv_def)
  have found: "find_req s1 m = find_req s m" for m
    by (simp add: s1_def)
  have "batch_inv bid (length members) s1"
    unfolding s1_def bid_def by (rule batch_reserve_worker [OF inv(3) dist assms(3) wr ms(2) units])
  moreover have "issued_id (im_id_factory s1) bid"
    using fresh_id_issued(1) [OF assms(3)] by (simp add: s1_def bid_def)
  ultimately have "batch_inv bid 0 (fold (reserve_member w bid now) members s1)"
    by (rule batch_reserve_members [OF _ _ ms(1)]) (use ms(4) found in fastforce)
  moreover have "index_inv s1"
    using inv(2) by (rule index_same) (simp_all add: s1_def)
  then have "index_inv (fold (reserve_member w bid now) members s1)"
    by (rule index_reserve_members [OF _ ms(1)]) (use ms(4) found in fastforce)
  moreover have "rec_inv cost_ok (reserve_batch w now members s)"
    using inv(1) assms(2) by (rule rec_reserve_batch)
  ultimately show ?thesis
    using batch_inv_any by (simp add: sys_inv_def reserve_batch_def Let_def s1_def bid_def) blast
qed

section \<open>Reports\<close>

lemma sys_finish:
  assumes inv: "sys_inv s" and r: "find_req s rid = Some r" "rec_state r \<noteq> RS_Queued" and own: "rec_in_batch r" "holds s w (rec_batch_id r)"
    and rec: "rec_inv cost_ok s'" and req: "im_requests s' = AList.update rid r' (im_requests s)"
    and r': "rec_state r' \<noteq> RS_Queued" "\<not> rec_in_batch r'"
    and wrk: "im_workers s' = im_workers (release_batch_member rid w s)" and grow: "ids_grow s s'"
    and idx: "im_cfg s' = im_cfg s" "im_queued s' = im_queued s" "im_global_queued s' = im_global_queued s"
      "\<And>k. umap_at [] (im_compat s') k = umap_at [] (im_compat s) k" "\<And>k. fl_pending (flow_at s' k) = fl_pending (flow_at s k)"
      "im_active_flows s' = im_active_flows s"
  shows "sys_inv s'"
proof -
  have nq: "\<not> queued_state s rid"
    using r by (simp add: queued_state_def)
  have "index_inv s'"
    by (rule index_neutral [OF sys_invD(2) [OF inv] req]) (use nq r' idx in simp_all)
  moreover have "batch_inv 0 0 s'"
    by (rule batch_release [OF sys_invD(3) [OF inv] req r'(2) r(1) own wrk sys_invD(4) [OF inv r(1)] grow])
  ultimately show ?thesis
    using rec by (simp add: sys_inv_def)
qed

lemma dequeue_idle:
  assumes "sys_inv s" and "find_req s rid = Some r" and "rec_state r \<noteq> RS_Queued"
  shows "im_queued (dequeue_request rid s) = im_queued s"
    and "im_global_queued (dequeue_request rid s) = im_global_queued s"
    and "umap_at [] (im_compat (dequeue_request rid s)) k = umap_at [] (im_compat s) k"
proof -
  have id: "rec_request_id (req_at s rid) = rid" and nq: "\<not> queued_state s rid"
    using assms sys_invD(4) [OF assms(1,2)] by (simp_all add: queued_state_def)
  then have out: "rid \<notin> set (im_queued s)" "rid \<notin> set (umap_at [] (im_compat s) k)" for k
    using sys_invD(2) [OF assms(1)] by (simp_all add: index_inv_def queue_inv_def compat_inv_def)
  show "im_queued (dequeue_request rid s) = im_queued s"
    and "im_global_queued (dequeue_request rid s) = im_global_queued s"
    and "umap_at [] (im_compat (dequeue_request rid s)) k = umap_at [] (im_compat s) k"
    using id out by (simp_all add: uset_erase_absent umap_at_compat_erase)
qed

lemma sys_ends_as:
  assumes inv: "sys_inv s" and r: "find_req s rid = Some r" "rec_state r \<noteq> RS_Queued" and own: "rec_in_batch r" "holds s w (rec_batch_id r)"
    and rec: "rec_inv cost_ok s'" and e: "ends_as st rid w s s'" "st \<noteq> RS_Queued"
    and wrk: "im_workers s' = im_workers (release_batch_member rid w s)"
    and idx: "im_id_factory s' = im_id_factory s" "im_cfg s' = im_cfg s" "im_queued s' = im_queued s"
      "im_global_queued s' = im_global_queued s" "im_compat s' = im_compat s"
      "\<And>k. flow_at s' k = flow_at s k" "im_active_flows s' = im_active_flows s"
  shows "sys_inv s'"
proof -
  have "find_wrk s w \<noteq> None"
    using own(2) by (auto simp: holds_def)
  then obtain r' where "im_requests s' = AList.update rid r' (im_requests s)" "rec_state r' \<noteq> RS_Queued" "\<not> rec_in_batch r'"
    using e by (auto simp: ends_as_def released_def)
  then show ?thesis
    by (rule sys_finish [OF inv r own rec _ _ _ wrk]) (use idx in \<open>simp_all add: ids_grow_refl\<close>)
qed

lemma sys_make_retry:
  assumes inv: "sys_inv s" and r: "find_req s rid = Some r" "rec_state r \<noteq> RS_Queued"
    and own: "rec_in_batch r" "holds s (cr_worker rep) (rec_batch_id r)"
    and can: "can_retry (im_cfg s) r now" and room: "1 < ids_left (im_id_factory s)"
  shows "sys_inv (make_retry rid rep s)"
proof -
  let ?s' = "make_retry rid rep s"
  have id: "rec_request_id r = rid"
    using inv r(1) by (rule sys_invD(4))
  obtain r' where eff: "im_requests ?s' = AList.update rid r' (im_requests s)"
    "rec_state r' = RS_Queued" "rec_spec r' = rec_spec (req_at s rid)"
    "rec_generation r' = fst (next_id (im_id_factory s))" "\<not> rec_in_batch r'"
    by (rule make_retry_effect)
  have nq: "\<not> queued_state s rid"
    using r by (simp add: queued_state_def)
  have "index_inv ?s'"
    by (rule index_enter [OF sys_invD(2) [OF inv] eff(1) nq eff(2)], unfold make_retry_tables make_retry_flows eff(3,4))
      (simp add: r(1) id)+
  moreover have "batch_inv 0 0 ?s'"
    by (rule batch_release [OF sys_invD(3) [OF inv] eff(1,5) r(1) own make_retry_tables(1) id])
      (rule ids_grow_two [OF room make_retry_tables(2)])
  moreover have "rec_inv cost_ok ?s'"
    using sys_invD(1) [OF inv] r(1) can by (rule rec_make_retry)
  ultimately show ?thesis
    by (simp add: sys_inv_def)
qed

lemma sys_finish_failed:
  assumes "sys_inv s" and "find_req s rid = Some r" and "rec_state r \<noteq> RS_Queued"
    and "rec_in_batch r" and "holds s (cr_worker rep) (rec_batch_id r)"
  shows "sys_inv (finish_failed rid rep s)"
  by (rule sys_ends_as [OF assms _ finish_failed_effect])
    (use rec_finish(2) [OF sys_invD(1) [OF assms(1)] assms(2)] in \<open>simp_all add: finish_failed_tables\<close>)

lemma sys_finish_cancelled_owned:
  assumes inv: "sys_inv s" and r: "find_req s rid = Some r" "on_worker (rec_state r)"
    and own: "rec_in_batch r" "holds s w (rec_batch_id r)"
  shows "sys_inv (finish_cancelled rid w reason s)"
proof -
  have st: "rec_state r \<noteq> RS_Queued" and live: "\<not> is_terminal (rec_state (req_at s rid))"
    using r by (auto simp: on_worker_def is_terminal_def)
  obtain wr where w: "find_wrk s w = Some wr"
    using own(2) by (auto simp: holds_def)
  obtain r' where eff: "im_requests (finish_cancelled rid w reason s) = AList.update rid r' (im_requests s)"
    "rec_state r' = RS_Cancelled"
    "rec_in_batch r' = rec_in_batch (cancel_worker (rec_state (req_at s rid)) w s (req_at s rid))"
    by (rule finish_cancelled_effect [OF live])
  note tab = finish_cancelled_tables [OF live] dequeue_idle [OF inv r(1) st]
  have rec: "rec_inv cost_ok (finish_cancelled rid w reason s)"
    using sys_invD(1) [OF inv] r(1) by (rule rec_finish_cancelled)
  show ?thesis
    by (rule sys_finish [OF inv r(1) st own rec eff(1)], unfold tab)
      (use r w eff in \<open>simp_all add: cancel_worker_def released_def ids_grow_refl\<close>)
qed

lemma sys_stale:
  fixes rid w s
  defines "s' \<equiv> count_stale (modify_req rid
        (\<lambda>r. r\<lparr>rec_history := map_last (\<lambda>a. a\<lparr>att_state := AS_Stale\<rparr>) (rec_history r)\<rparr>)
        (release_batch_member rid w s))"
  assumes inv: "sys_inv s" and r: "find_req s rid = Some r" "rec_state r \<noteq> RS_Queued"
    and own: "rec_in_batch r" "holds s w (rec_batch_id r)" and rec: "rec_inv cost_ok s'"
  shows "sys_inv s'"
proof -
  obtain wr where w: "find_wrk s w = Some wr"
    using own(2) by (auto simp: holds_def)
  obtain r' where eff: "im_requests s' = AList.update rid r' (im_requests s)"
    "rec_state r' = rec_state (req_at s rid)" "rec_in_batch r' = rec_in_batch (released s w (req_at s rid))"
    unfolding s'_def by (rule stale_effect)
  show ?thesis
    by (rule sys_finish [OF inv r own rec eff(1)]) (use r w eff in \<open>simp_all add: s'_def released_def ids_grow_refl\<close>)
qed

lemma sys_owner:
  assumes "sys_inv s" and "find_req s rid = Some r" and "\<not> is_terminal (rec_state r)" and "rec_in_batch r"
  shows "rec_state r \<noteq> RS_Queued" and "on_worker (rec_state r)"
proof -
  show "rec_state r \<noteq> RS_Queued"
    using assms rec_okD(2) [OF rec_invD [OF sys_invD(1)]] by blast
  then show "on_worker (rec_state r)"
    using sys_invD(5) [OF assms(1-3)] by (auto simp: active_state_def on_worker_def)
qed

lemma sys_apply_status:
  assumes inv: "sys_inv s" and wb: "well_behaved s (Complete rep)" and auth: "authorised rep s"
  shows "sys_inv (snd (apply_status rep s))"
proof -
  let ?rid = "cr_request_id rep" and ?w = "cr_worker rep"
  have "current rep s" "owns rep s" and room: "1 < ids_left (im_id_factory s)"
    using wb auth by (auto simp: well_behaved_def authorised_def current_def id_room_def)
  then obtain r where r: "find_req s ?rid = Some r" "\<not> is_terminal (rec_state r)"
    and own: "rec_in_batch r" "holds s ?w (rec_batch_id r)"
    by (auto simp: current_def owns_def)
  note st = sys_owner [OF inv r own(1)]
  have rec: "rec_inv cost_ok (snd (apply_status rep s))"
    using sys_invD(1) [OF inv] auth by (rule rec_apply_status)
  show ?thesis
  proof (cases rule: apply_status_cases [of rep s])
    case success
    then show ?thesis
      using rec by (auto intro!: sys_ends_as [OF inv r(1) st(1) own _ finish_success_effect] simp: finish_success_tables)
  next
    case cancelled
    then show ?thesis
      using sys_finish_cancelled_owned [OF inv r(1) st(2) own] by simp
  next
    case expired
    then show ?thesis
      using rec by (auto intro!: sys_ends_as [OF inv r(1) st(1) own _ finish_expired_effect] simp: finish_expired_tables)
  next
    case stale
    then show ?thesis
      using sys_stale [OF inv r(1) st(1) own] rec by simp
  next
    case retry
    then show ?thesis
      using sys_make_retry [OF inv r(1) st(1) own _ room] r(1) by simp
  next
    case failed
    then show ?thesis
      using sys_finish_failed [OF inv r(1) st(1) own] by simp
  qed (simp add: inv)
qed

section \<open>Starting an attempt\<close>

lemma batch_start_batch:
  assumes inv: "batch_inv b n s" and h: "holds s w bid"
  shows "batch_inv b n (start_batch w bid s)"
proof -
  obtain wr where wr: "find_wrk s w = Some wr" "map_of (wk_batch_pending wr) bid \<noteq> None"
    using h by (auto simp: holds_def)
  have ok: "load_ok wr" "reg_worker (wk_registration wr) = w" and mem: "bid \<in> set (map fst (wk_batch_pending wr))"
    using inv wr by (auto simp: batch_inv_def workers_ok_def map_of_eq_None_iff)
  show ?thesis
  proof (cases "bid \<in> set (wk_started_batches wr)")
    case True
    show ?thesis
      using inv by (rule batch_same) (use True wr(1) in \<open>simp_all add: start_batch_workers ids_grow_refl\<close>)
  next
    case False
    note load = load_start [OF ok(1) mem False]
    show ?thesis
      by (rule batch_rewrite [OF inv _ _ _ wr(1) load])
        (use False wr(1) ok in \<open>simp_all add: start_batch_workers ids_grow_refl\<close>)
  qed
qed

lemma holds_start_batch: "holds s w b \<Longrightarrow> holds (start_batch w' bid s) w b"
  by (auto simp: holds_def start_batch_workers AList.update_conv' worker_at_def split: option.split)

lemma batch_run_request:
  assumes inv: "batch_inv b n s" and r: "find_req s rid = Some r" "rec_request_id r = rid" "rec_in_batch r"
    and h: "holds s (cr_worker rep) (rec_batch_id r)"
  shows "batch_inv b n (run_request rid rep s)"
proof -
  let ?w = "cr_worker rep" and ?s' = "run_request rid rep s"
  obtain wr where wr: "find_wrk s ?w = Some wr"
    using h by (auto simp: holds_def)
  obtain r' where r': "im_requests ?s' = AList.update rid r' (im_requests s)" "rec_state r' = RS_Running"
    "rec_in_batch r' = rec_in_batch (req_at s rid)" "rec_batch_id r' = rec_batch_id (req_at s rid)"
    by (rule run_request_effect)
  obtain wr' where wr': "im_workers ?s' = AList.update ?w wr' (im_workers s)"
    "wk_registration wr' = wk_registration (worker_at s ?w)" "wk_reserved_units wr' = wk_reserved_units (worker_at s ?w)"
    "wk_running_units wr' = wk_running_units (worker_at s ?w)" "wk_batch_units wr' = wk_batch_units (worker_at s ?w)"
    "wk_batch_pending wr' = wk_batch_pending (worker_at s ?w)" "wk_started_batches wr' = wk_started_batches (worker_at s ?w)"
    "wk_in_flight wr' = omap_set (rec_request_id (req_at s rid)) (rec_current_attempt (req_at s rid)) (wk_in_flight (worker_at s ?w))"
    by (rule run_request_workers)
  define s1 where "s1 = s\<lparr>im_requests := AList.update rid r' (im_requests s)\<rparr>"
  have s1: "batch_inv b n s1"
    by (rule batch_touch [OF inv, of s1 rid r' r]) (use r r' in \<open>simp_all add: s1_def ids_grow_refl\<close>)
  have "load_ok wr" "reg_worker (wk_registration wr) = ?w"
    using inv wr by (auto simp: batch_inv_def workers_ok_def)
  then have ok: "load_ok wr'" "reg_worker (wk_registration wr') = ?w"
    using wr wr' by (simp_all add: load_ok_def sorted_omap_set)
  show ?thesis
  proof (rule batch_fly [OF s1 _ _ _ _ ok, of _ wr])
    fix x
    assume "map_of (wk_in_flight wr') x \<noteq> None"
    then have "x = rid \<or> flying s1 ?w x"
      using wr wr' r by (auto simp: flying_def s1_def map_of_omap_set split: if_splits)
    then show "flying s1 ?w x \<or> (\<exists>r. find_req s1 x = Some r \<and> rec_state r = RS_Running \<and> rec_in_batch r \<and> holds s1 ?w (rec_batch_id r))"
      using r r' h by (auto simp: s1_def AList.update_conv' holds_def)
  qed (use wr wr' r' in \<open>simp_all add: s1_def ids_grow_refl\<close>)
qed

lemma sys_start:
  assumes inv: "sys_inv s" and wb: "well_behaved s (ConfirmStart rep)" and st: "startable rep r s"
  shows "sys_inv (run_request (cr_request_id rep) rep (start_batch (cr_worker rep) (rec_batch_id r) s))"
proof -
  let ?rid = "cr_request_id rep" and ?w = "cr_worker rep"
  let ?s1 = "start_batch ?w (rec_batch_id r) s"
  have r: "find_req s ?rid = Some r" "rec_state r = RS_Reserved"
    using st by (simp_all add: startable_def)
  have "owns rep s"
    using wb st by (auto simp: well_behaved_def current_def startable_def is_terminal_def)
  then have own: "rec_in_batch r" "holds s ?w (rec_batch_id r)"
    using r(1) by (auto simp: owns_def)
  obtain r' where eff: "im_requests (run_request ?rid rep ?s1) = AList.update ?rid r' (im_requests ?s1)"
    "rec_state r' = RS_Running"
    by (rule run_request_effect)
  have "index_inv (run_request ?rid rep ?s1)"
    by (rule index_neutral [OF sys_invD(2) [OF inv], of _ ?rid r']) (use r eff in \<open>simp_all add: queued_state_def\<close>)
  moreover have "batch_inv 0 0 (run_request ?rid rep ?s1)"
    by (rule batch_run_request [OF batch_start_batch [OF sys_invD(3) [OF inv] own(2)], of _ r])
      (use r own sys_invD(4) [OF inv r(1)] in \<open>simp_all add: holds_start_batch\<close>)
  moreover have "rec_inv cost_ok (run_request ?rid rep ?s1)"
    using sys_invD(1) [OF inv] st by (rule rec_start)
  ultimately show ?thesis
    by (simp add: sys_inv_def)
qed

section \<open>Cancellation\<close>

lemma sys_invalid_worker: "sys_inv s \<Longrightarrow> find_wrk s invalid_id = None"
  using sys_invD(3) [of s 0] unfolding batch_inv_def workers_ok_def valid_id_def
  by (cases "find_wrk s invalid_id") blast+

lemma sys_finish_cancelled_waiting:
  assumes inv: "sys_inv s" and r: "find_req s rid = Some r" "rec_state r = RS_Queued \<or> rec_state r = RS_Reserved"
  shows "sys_inv (finish_cancelled rid invalid_id reason s)"
proof -
  let ?s' = "finish_cancelled rid invalid_id reason s"
  have live: "\<not> is_terminal (rec_state (req_at s rid))"
    using r by (auto simp: is_terminal_def)
  note none = sys_invalid_worker [OF inv] and tab = finish_cancelled_tables [OF live]
  obtain r' where eff: "im_requests ?s' = AList.update rid r' (im_requests s)" "rec_state r' = RS_Cancelled"
    "rec_in_batch r' = rec_in_batch (cancel_worker (rec_state (req_at s rid)) invalid_id s (req_at s rid))"
    "rec_batch_id r' = rec_batch_id (cancel_worker (rec_state (req_at s rid)) invalid_id s (req_at s rid))"
    by (rule finish_cancelled_effect [OF live])
  have "batch_inv 0 0 ?s'"
    by (rule batch_touch [OF sys_invD(3) [OF inv] eff(1) _ _ r(1)])
      (use r eff none in \<open>auto simp: tab release_batch_member_workers cancel_worker_def released_def ids_grow_refl\<close>)
  moreover have "index_inv ?s'"
  proof (cases "rec_state r = RS_Queued")
    case True
    show ?thesis
      by (rule index_leave [OF sys_invD(2) [OF inv] eff(1) r(1) sys_invD(4) [OF inv r(1)] True])
        (simp_all add: eff tab del: dequeue_request_queue)
  next
    case False
    then have nq: "\<not> queued_state s rid"
      using r(1) by (simp add: queued_state_def)
    show ?thesis
      by (rule index_neutral [OF sys_invD(2) [OF inv] eff(1)], unfold tab dequeue_idle [OF inv r(1) False])
        (use nq in \<open>simp_all add: eff\<close>)
  qed
  moreover have "rec_inv cost_ok ?s'"
    using sys_invD(1) [OF inv] r(1) by (rule rec_finish_cancelled)
  ultimately show ?thesis
    by (simp add: sys_inv_def)
qed

lemma sys_finish_cancelled:
  assumes inv: "sys_inv s" and r: "find_req s rid = Some r" "\<not> is_terminal (rec_state r)"
    and w: "w = last_worker r \<and> rec_state r = RS_Reserved \<or> w = invalid_id \<and> \<not> on_worker (rec_state r)"
  shows "sys_inv (finish_cancelled rid w reason s)"
proof -
  have "w = invalid_id" and "rec_state r = RS_Queued \<or> rec_state r = RS_Reserved"
    using w rec_okD(4) [OF rec_invD [OF sys_invD(1) [OF inv] r(1)]] sys_invD(5) [OF inv r]
    by (auto simp: active_state_def on_worker_def)
  then show ?thesis
    using sys_finish_cancelled_waiting [OF inv r(1)] by simp
qed

lemma sys_modify_req:
  assumes inv: "sys_inv s" and r: "find_req s rid = Some r" and same: "same_id (f r) r" "rec_state (f r) = rec_state r"
    "rec_in_batch (f r) = rec_in_batch r" "rec_batch_id (f r) = rec_batch_id r" "rec_history (f r) = rec_history r"
  shows "sys_inv (modify_req rid f s)"
proof -
  have "index_inv (modify_req rid f s)"
    by (rule index_neutral [OF sys_invD(2) [OF inv], of _ rid "f r"])
      (use r same in \<open>simp_all add: queued_state_def same_id_def\<close>)
  moreover have "batch_inv 0 0 (modify_req rid f s)"
    by (rule batch_touch [OF sys_invD(3) [OF inv], of _ rid "f r" r]) (use r same in \<open>simp_all add: ids_grow_refl\<close>)
  moreover have "rec_inv cost_ok (modify_req rid f s)"
    using sys_invD(1) [OF inv] r same(1-3,5) by (rule rec_modify_req)
  ultimately show ?thesis
    by (simp add: sys_inv_def)
qed

lemma cancel_queued_other:
  "x \<noteq> rid \<Longrightarrow> find_req (cancel_queued msg rid s) x = find_req s x"
proof (cases "find_req s rid")
  case (Some r)
  assume x: "x \<noteq> rid"
  let ?s = "modify_req rid (\<lambda>r. r\<lparr>rec_cancel_reason := CR_SchedulerDrain\<rparr>) s"
  show ?thesis
  proof (cases "is_terminal (rec_state r)")
    case False
    then have "\<not> is_terminal (rec_state (req_at ?s rid))"
      using Some by simp
    then have "find_req (finish_cancelled rid invalid_id m ?s) x = find_req s x" for m
      by (rule finish_cancelled_effect [of _ _ invalid_id m]) (use x in \<open>simp add: AList.update_conv'\<close>)
    then show ?thesis
      using Some False by (simp add: cancel_queued_def)
  qed (simp add: cancel_queued_def Some)
qed (simp add: cancel_queued_def)

lemma sys_cancel_all:
  "sys_inv s \<Longrightarrow> distinct xs \<Longrightarrow> (\<And>x. x \<in> set xs \<Longrightarrow> queued_state s x) \<Longrightarrow> sys_inv (fold (cancel_queued msg) xs s)"
proof (induction xs arbitrary: s)
  case (Cons x xs)
  obtain r where r: "find_req s x = Some r" "rec_state r = RS_Queued"
    using Cons.prems(3) by (auto simp: queued_state_def)
  let ?s = "modify_req x (\<lambda>r. r\<lparr>rec_cancel_reason := CR_SchedulerDrain\<rparr>) s"
  have "sys_inv ?s"
    using Cons.prems(1) r(1) by (rule sys_modify_req) (simp_all add: same_id_def hist_ids_def)
  then have "sys_inv (finish_cancelled x invalid_id m ?s)" for m
    by (rule sys_finish_cancelled_waiting [of _ _ "r\<lparr>rec_cancel_reason := CR_SchedulerDrain\<rparr>"])
      (use r in \<open>simp_all add: AList.update_conv'\<close>)
  then have "sys_inv (cancel_queued msg x s)"
    using r by (simp add: cancel_queued_def is_terminal_def)
  moreover have "queued_state (cancel_queued msg x s) y" if "y \<in> set xs" for y
  proof -
    have "y \<noteq> x"
      using that Cons.prems(2) by auto
    then show ?thesis
      using that Cons.prems(3) [of y] by (simp add: queued_state_def cancel_queued_other)
  qed
  ultimately show ?case
    using Cons.IH Cons.prems(2) by simp
qed simp

section \<open>Recovery of a worker\<close>

lemma sys_modify_tenant: "sys_inv s \<Longrightarrow> sys_inv (modify_tenant_present t f s)"
  using rec_same [of cost_ok s "modify_tenant_present t f s"] index_same [of s "modify_tenant_present t f s"]
    batch_same [of 0 0 s "modify_tenant_present t f s"] by (simp add: sys_inv_def ids_grow_refl)

lemma flying_modify_tenant [simp]: "flying (modify_tenant_present t f s) w x = flying s w x"
  "holds (modify_tenant_present t f s) w b = holds s w b"
  by (simp_all add: flying_def holds_def)

lemma flying_release:
  "flying s w x \<Longrightarrow> x \<noteq> rec_request_id (req_at s rid) \<Longrightarrow> im_workers s' = im_workers (release_batch_member rid w s) \<Longrightarrow>
   flying s' w x"
  by (auto simp: flying_def release_batch_member_workers AList.update_conv' free_member_def Let_def delete_conv
        free_batch_simps split: option.split)

lemma ids_left_two:
  assumes "1 < ids_left f"
  shows "ids_left f = Suc (Suc (ids_left (snd (next_id (snd (next_id f))))))"
  using idf.spends [of f] idf.spends [of "snd (next_id f)"] assms by simp

lemma sys_recover_request:
  assumes inv: "sys_inv s" and fl: "flying s w rid" and room: "1 < ids_left (im_id_factory s)"
  shows "sys_inv (recover_request w rid s)"
    and "ids_left (im_id_factory s) \<le> ids_left (im_id_factory (recover_request w rid s)) + 2"
    and "flying s w x \<Longrightarrow> x \<noteq> rid \<Longrightarrow> flying (recover_request w rid s) w x"
proof -
  obtain r where r: "find_req s rid = Some r" "rec_state r = RS_Running" "rec_in_batch r" "holds s w (rec_batch_id r)"
    using sys_invD(3) [OF inv] fl by (rule flyingE)
  let ?s1 = "modify_tenant_present (spec_tenant (rec_spec r)) dec_running s" and ?rep = "restart_report s w rid"
  have s1: "sys_inv ?s1" and found: "find_req ?s1 rid = Some r"
    using inv r(1) by (simp_all add: sys_modify_tenant)
  have w: "cr_worker ?rep = w" and h: "holds ?s1 (cr_worker ?rep) (rec_batch_id r)"
    using r(4) by (simp_all add: restart_report_def)
  have id: "rec_request_id (req_at s rid) = rid"
    using sys_invD(4) [OF inv r(1)] r(1) by simp
  have eq: "recover_request w rid s = (if can_retry (im_cfg s) r (im_clock_now s) then make_retry rid ?rep ?s1
      else finish_failed rid ?rep ?s1)"
    using r by (simp add: recover_request_def Let_def is_terminal_def)
  have "sys_inv (make_retry rid ?rep ?s1)" if "can_retry (im_cfg s) r (im_clock_now s)"
    by (rule sys_make_retry [OF s1 found _ r(3) h, of "im_clock_now s"]) (use r(2) room that in simp_all)
  moreover have "sys_inv (finish_failed rid ?rep ?s1)"
    by (rule sys_finish_failed [OF s1 found _ r(3) h]) (use r(2) in simp)
  ultimately show "sys_inv (recover_request w rid s)"
    by (simp add: eq)
  have wrk: "im_workers (recover_request w rid s) = im_workers (release_batch_member rid w ?s1)"
    by (simp add: eq make_retry_tables finish_failed_tables w)
  show "flying s w x \<Longrightarrow> x \<noteq> rid \<Longrightarrow> flying (recover_request w rid s) w x"
    by (rule flying_release [OF _ _ wrk]) (use id in simp_all)
  show "ids_left (im_id_factory s) \<le> ids_left (im_id_factory (recover_request w rid s)) + 2"
    using ids_left_two [OF room] by (simp add: eq make_retry_tables)
qed

lemma sys_recover_fold:
  "sys_inv s \<Longrightarrow> distinct xs \<Longrightarrow> (\<And>x. x \<in> set xs \<Longrightarrow> flying s w x) \<Longrightarrow> 2 * length xs < ids_left (im_id_factory s) \<Longrightarrow>
   sys_inv (fold (recover_request w) xs s)"
proof (induction xs arbitrary: s)
  case (Cons x xs)
  have fl: "flying s w x" and room: "1 < ids_left (im_id_factory s)"
    using Cons.prems by simp_all
  note step = sys_recover_request [OF Cons.prems(1) fl room]
  have "2 * length xs < ids_left (im_id_factory (recover_request w x s))"
    using step(2) Cons.prems(4) by simp
  moreover have "flying (recover_request w x s) w y" if "y \<in> set xs" for y
    by (rule step(3)) (use that Cons.prems(2,3) in auto)
  moreover note step(1)
  ultimately show ?case
    using Cons.IH Cons.prems(2) by simp
qed simp

lemma find_wrk_fold_recover:
  "find_wrk s w = Some wr \<Longrightarrow> \<exists>wr'. find_wrk (fold (recover_request v) xs s) w = Some wr'"
  by (induction xs arbitrary: s wr) (use find_wrk_recover_request in \<open>simp, fastforce\<close>)

lemma sys_recover_in_flight:
  assumes inv: "sys_inv s" and room: "id_room s" and wr: "find_wrk s w = Some wr"
  shows "sys_inv (recover_in_flight w s)"
proof -
  let ?ids = "map fst (wk_in_flight wr)" and ?s' = "recover_in_flight w s"
  define s1 where "s1 = fold (recover_request w) ?ids s"
  have "load_ok wr"
    using sys_invD(3) [OF inv] wr by (auto simp: batch_inv_def workers_ok_def)
  then have dist: "distinct ?ids"
    by (simp add: load_ok_def sorted_distinct)
  have fl: "flying s w x" if "x \<in> set ?ids" for x
    using that map_of_key [of x "wk_in_flight wr"] wr unfolding flying_def by blast
  have len: "2 * length ?ids < ids_left (im_id_factory s)"
    using room wr by (simp add: id_room_def)
  have s1: "sys_inv s1"
    unfolding s1_def by (rule sys_recover_fold [OF inv dist fl len])
  obtain wr1 where wr1: "find_wrk s1 w = Some wr1"
    using find_wrk_fold_recover [OF wr] unfolding s1_def by blast
  have w: "valid_id w" "reg_worker (wk_registration wr1) = w" "load_ok wr1" and keys: "distinct (map fst (im_workers s1))"
    using sys_invD(3) [OF s1] wr1 by (auto simp: batch_inv_def workers_ok_def)
  let ?wr' = "wr1\<lparr>wk_in_flight := [], wk_batch_units := [], wk_batch_pending := [], wk_batch_members := [],
    wk_started_batches := [], wk_reserved_units := nonneg (wk_reserved_units wr1 - sum_vals (\<lambda>u. u) (wk_batch_units wr1)),
    wk_running_units := nonneg (wk_running_units wr1)\<rparr>"
  have same: "im_requests ?s' = im_requests s1" "im_id_factory ?s' = im_id_factory s1" "im_cfg s1 = im_cfg s"
    "im_queued ?s' = im_queued s1" "im_global_queued ?s' = im_global_queued s1" "im_compat ?s' = im_compat s1"
    "flow_at ?s' k = flow_at s1 k" "im_active_flows ?s' = im_active_flows s1" for k
    by (simp_all add: recover_in_flight_def wr Let_def s1_def fold_frame)
  have wrk: "im_workers ?s' = AList.update w ?wr' (im_workers s1)"
    using wr1 by (simp add: recover_in_flight_def wr Let_def s1_def)
  have "wk_reserved_units wr1 \<le> sum_vals (\<lambda>u. u) (wk_batch_units wr1)"
    using w(3) sum_keys_le_vals unfolding load_ok_def by metis
  then have load: "load_ok ?wr'"
    by (intro load_idle) (simp_all add: idle_load_def nonneg_def)
  have "batch_inv 0 0 ?s'"
    by (rule batch_detach [OF sys_invD(3) [OF s1], of _ w])
      (use w keys load same in \<open>auto simp: wrk AList.update_conv' AList.distinct_update idle_load_def ids_grow_refl\<close>)
  moreover have "index_inv ?s'"
    using sys_invD(2) [OF s1] by (rule index_same) (simp_all add: same)
  moreover have "rec_inv cost_ok ?s'"
    using sys_invD(1) [OF inv] by (rule rec_recover_in_flight)
  ultimately show ?thesis
    by (simp add: sys_inv_def)
qed

section \<open>The worker table\<close>

lemma sys_workers:
  assumes inv: "sys_inv s" and same: "im_requests s' = im_requests s" "im_cfg s' = im_cfg s" "im_queued s' = im_queued s"
    "im_global_queued s' = im_global_queued s" "im_compat s' = im_compat s" "im_flows s' = im_flows s"
    "im_active_flows s' = im_active_flows s" and bat: "batch_inv 0 0 s'"
  shows "sys_inv s'"
proof -
  have "index_inv s'"
    using sys_invD(2) [OF inv] by (rule index_same) (simp_all add: same flow_at_def)
  moreover have "rec_inv cost_ok s'"
    using sys_invD(1) [OF inv] by (rule rec_same) (simp_all add: same)
  ultimately show ?thesis
    using bat by (simp add: sys_inv_def)
qed

lemma sys_new_worker:
  assumes inv: "sys_inv s" and none: "find_wrk s w = None" and w: "valid_id w" "reg_worker (wk_registration wr') = w"
    and load: "same_load wr' default_WorkerRecord"
  shows "sys_inv (modify_worker w (\<lambda>_. wr') s)"
proof (rule sys_workers [OF inv])
  have "idle_load wr'" "load_ok wr'"
    using load by (auto simp: same_load_def idle_load_def load_ok_def default_WorkerRecord_def nonneg_def)
  moreover have "distinct (map fst (im_workers s))"
    using sys_invD(3) [OF inv] by (auto simp: batch_inv_def workers_ok_def)
  ultimately show "batch_inv 0 0 (modify_worker w (\<lambda>_. wr') s)"
    by (intro batch_detach [OF sys_invD(3) [OF inv], of _ w])
      (use w in \<open>simp_all add: AList.update_conv' AList.distinct_update ids_grow_refl\<close>)
qed simp_all

lemma sys_rewrite_worker:
  assumes inv: "sys_inv s" and wr: "find_wrk s w = Some wr"
    and reg: "reg_worker (wk_registration wr) = w \<longrightarrow> reg_worker (wk_registration wr') = w" and load: "same_load wr' wr"
  shows "sys_inv (modify_worker w (\<lambda>_. wr') s)"
proof (rule sys_workers [OF inv])
  have "load_ok wr" "reg_worker (wk_registration wr) = w"
    using sys_invD(3) [OF inv] wr by (auto simp: batch_inv_def workers_ok_def)
  then show "batch_inv 0 0 (modify_worker w (\<lambda>_. wr') s)"
    by (intro batch_rewrite [OF sys_invD(3) [OF inv] _ _ _ wr, of _ wr'])
      (use reg load load_same in \<open>auto simp: same_load_def ids_grow_refl\<close>)
qed simp_all

lemma sys_drop_worker:
  assumes inv: "sys_inv s"
  shows "sys_inv (s\<lparr>im_workers := AList.delete w (im_workers s)\<rparr>)"
proof (rule sys_workers [OF inv])
  have "distinct (map fst (im_workers s))"
    using sys_invD(3) [OF inv] by (auto simp: batch_inv_def workers_ok_def)
  then show "batch_inv 0 0 (s\<lparr>im_workers := AList.delete w (im_workers s)\<rparr>)"
    by (intro batch_detach [OF sys_invD(3) [OF inv], of _ w])
      (simp_all add: delete_conv AList.distinct_delete ids_grow_refl)
qed simp_all

interpretation own: section_invariant well_behaved sys_inv
proof
  fix s s' :: Impl
  assume s: "sys_inv s" and c: "core s' = core s"
  show "sys_inv s'"
    using s by (rule sys_workers)
      (use batch_same [OF sys_invD(3) [OF s], of s'] in \<open>simp_all add: core_cong [OF c] ids_grow_refl\<close>)
next
  fix s s0 :: Impl and rid expl members w now
  assume s: "sys_inv s" "s = expire_scan (im_clock_now s0) s0" and ready: "plan_ready rid members w now s"
    and "well_behaved s0 (PlanDispatch rid expl)"
  then have "1 < ids_left (im_id_factory s)"
    by (simp add: well_behaved_def id_room_def)
  then show "sys_inv (reserve_batch w now members s)"
    by (rule sys_reserve_batch [OF s(1) ready])
next
  fix s :: Impl and msg :: string
  assume s: "sys_inv s"
  then have "distinct (im_queued s)" and "queued_state s x" if "x \<in> set (im_queued s)" for x
    using sys_invD(2) [OF s] that by (auto simp: index_inv_def queue_inv_def)
  moreover have "distinct (im_queued s)"
    using sys_invD(2) [OF s] by (simp add: index_inv_def queue_inv_def)
  ultimately show "sys_inv (fold (cancel_queued msg) (im_queued s) s)"
    by (intro sys_cancel_all [OF s])
next
  fix s :: Impl and c w wr
  assume "sys_inv s" "well_behaved s c" "find_wrk s w = Some wr"
  then show "sys_inv (recover_in_flight w s)"
    by (simp add: sys_recover_in_flight well_behaved_def)
next
  fix s :: Impl and reg w wr'
  assume "sys_inv s" "well_behaved s (RegisterWorker reg)" "w = reg_worker reg" "find_wrk s w = None"
    "wk_registration wr' = reg" "same_load wr' default_WorkerRecord"
  then show "sys_inv (modify_worker w (\<lambda>_. wr') s)"
    by (intro sys_new_worker) (simp_all add: well_behaved_def)
qed (rule sys_expire_request sys_purge_flow sys_deactivate sys_do_submit sys_apply_status sys_start sys_finish_cancelled
      sys_rewrite_worker sys_drop_worker, assumption+ |
     (erule sys_modify_req, assumption; simp add: same_id_def hist_ids_def))+

lemma sys_inv_new_impl: "sys_inv (new_impl cfg now salt ep)"
proof -
  let ?s = "new_impl cfg now salt ep"
  have empty: "im_requests ?s = []" "im_workers ?s = []" "im_queued ?s = []" "im_global_queued ?s = 0" "im_compat ?s = []"
    "im_flows ?s = []"
    by (simp_all add: new_impl_def)
  have "index_inv ?s"
    by (simp add: index_inv_def queue_inv_def compat_inv_def flow_inv_def queued_state_def empty flow_at_def default_Flow_def
          pq_ordered_def)
  moreover have "batch_inv 0 0 ?s"
    by (simp add: batch_inv_def workers_ok_def counts_ok_def held_once_def flights_ok_def holds_def flying_def empty)
  ultimately show ?thesis
    by (simp add: sys_inv_def rec_inv_new_impl)
qed

end
