(* ===== verification/Evolution.thy ===== *)
theory Evolution
  imports Ownership
begin

text \<open>
  How one request's record may change. \<open>rec_step\<close> is the abstract life cycle of a request
  with its attempts; the scheduler refines it: whatever sequence of calls runs between two
  states, the records of the first are taken to those of the second by such steps, and
  generations drawn on the way are new.
\<close>

inductive rec_step :: "(Generation \<Rightarrow> bool) \<Rightarrow> RequestRecord option \<Rightarrow> RequestRecord option \<Rightarrow> bool" for old where
  submitted: "rec_state r' = RS_Queued \<Longrightarrow> hist_ids r' = [(rec_current_attempt r', rec_generation r')] \<Longrightarrow>
    \<not> old (rec_generation r') \<Longrightarrow> rec_step old None (Some r')"
| refused: "rec_state r' = RS_Rejected \<Longrightarrow> hist_ids r' = [] \<Longrightarrow> \<not> old (rec_generation r') \<Longrightarrow> rec_step old None (Some r')"
| noted: "same_id r' r \<Longrightarrow> rec_state r' = rec_state r \<Longrightarrow> \<not> is_terminal (rec_state r) \<Longrightarrow> rec_step old (Some r) (Some r')"
| reserved: "same_id r' r \<Longrightarrow> rec_state r = RS_Queued \<Longrightarrow> rec_state r' = RS_Reserved \<Longrightarrow> rec_step old (Some r) (Some r')"
| started: "same_id r' r \<Longrightarrow> rec_state r = RS_Reserved \<Longrightarrow> rec_state r' = RS_Running \<Longrightarrow> rec_step old (Some r) (Some r')"
| finished: "same_id r' r \<Longrightarrow> \<not> is_terminal (rec_state r) \<Longrightarrow> is_terminal (rec_state r') \<Longrightarrow> rec_step old (Some r) (Some r')"
| retried: "on_worker (rec_state r) \<Longrightarrow> rec_state r' = RS_Queued \<Longrightarrow> rec_spec r' = rec_spec r \<Longrightarrow>
    rec_request_id r' = rec_request_id r \<Longrightarrow> \<not> old (rec_generation r') \<Longrightarrow>
    hist_ids r' = hist_ids r @ [(rec_current_attempt r', rec_generation r')] \<Longrightarrow> rec_step old (Some r) (Some r')"

inductive_cases rec_step_SomeE: "rec_step old (Some r) y"
inductive_cases rec_step_NoneE: "rec_step old None y"

lemma rec_step_mono: "rec_step old x y \<Longrightarrow> (\<And>g. old' g \<Longrightarrow> old g) \<Longrightarrow> rec_step old' x y"
  by (induction rule: rec_step.induct) (blast intro: rec_step.intros)+

definition evolves :: "Impl \<Rightarrow> Impl \<Rightarrow> bool" where
  "evolves s0 s \<longleftrightarrow> ids_grow s0 s \<and>
     (\<forall>rid r. find_req s rid = Some r \<longrightarrow> issued_id (im_id_factory s) (rec_generation r)) \<and>
     (\<forall>rid. (rec_step (issued_id (im_id_factory s0)))\<^sup>*\<^sup>* (find_req s0 rid) (find_req s rid))"

lemma evolves_restart: "evolves s0 s \<Longrightarrow> evolves s s"
  by (simp add: evolves_def ids_grow_refl)

lemma evo_same:
  "evolves s0 s \<Longrightarrow> im_requests s' = im_requests s \<Longrightarrow> ids_grow s s' \<Longrightarrow> evolves s0 s'"
  using ids_grow_trans by (auto simp: evolves_def ids_grow_def)

lemma evo_update:
  assumes "evolves s0 s" and "im_requests s' = AList.update rid r' (im_requests s)" and "ids_grow s s'"
    and "rec_step (issued_id (im_id_factory s)) (find_req s rid) (Some r')"
    and "(\<exists>r. find_req s rid = Some r \<and> same_id r' r) \<or> issued_id (im_id_factory s') (rec_generation r')"
  shows "evolves s0 s'"
  unfolding evolves_def
proof (intro conjI allI impI)
  show "ids_grow s0 s'"
    using assms(1,3) ids_grow_trans by (auto simp: evolves_def)
  show "issued_id (im_id_factory s') (rec_generation r)" if "find_req s' x = Some r" for x r
    using that assms(1-3,5) by (auto simp: evolves_def ids_grow_def AList.update_conv' same_id_def split: if_splits)
  fix x
  have "rec_step (issued_id (im_id_factory s0)) (find_req s rid) (Some r')"
    using assms(4) by (rule rec_step_mono) (use assms(1) in \<open>auto simp: evolves_def ids_grow_def\<close>)
  then show "(rec_step (issued_id (im_id_factory s0)))\<^sup>*\<^sup>* (find_req s0 x) (find_req s' x)"
    using assms(1,2) by (auto simp: evolves_def AList.update_conv' intro: rtranclp.rtrancl_into_rtrancl)
qed

definition evo_inv :: "Impl \<Rightarrow> Impl \<Rightarrow> bool" where
  "evo_inv s0 s \<longleftrightarrow> sys_inv s \<and> evolves s0 s"

section \<open>The writes\<close>

lemma evo_expire_request:
  assumes "evolves s0 s"
  shows "evolves s0 (expire_request rid s)"
proof (cases "rec_state (req_at s rid) = RS_Queued")
  case True
  then obtain r where r: "find_req s rid = Some r"
    by (cases "find_req s rid") (simp_all add: req_at_def default_RequestRecord_def)
  obtain r' where eff: "im_requests (expire_request rid s) = AList.update rid r' (im_requests s)"
    "rec_state r' = RS_Expired" "same_id r' (req_at s rid)"
    by (rule expire_request_effect [OF True])
  show ?thesis
    by (rule evo_update [OF assms eff(1)]) (use eff r True in \<open>auto simp: ids_grow_refl is_terminal_def intro: rec_step.finished\<close>)
qed (simp add: expire_request_idle assms)

lemma evo_purge_flow:
  assumes "evolves s0 s"
  shows "evolves s0 (purge_flow now k s)"
proof -
  have "evolves s0 (snd (purge now q s))" for q
    using assms by (induction now q s rule: purge.induct) (auto simp: Let_def evo_expire_request)
  then show ?thesis
    unfolding purge_flow_def by (rule evo_same) (simp, rule ids_grow_refl, simp)
qed

lemma evo_ends_as:
  assumes "evolves s0 s" and "ends_as st rid w s s'" and "find_req s rid = Some r" and "\<not> is_terminal (rec_state r)"
    and "is_terminal st" and "im_id_factory s' = im_id_factory s"
  shows "evolves s0 s'"
proof -
  obtain r' where eff: "im_requests s' = AList.update rid r' (im_requests s)" "rec_state r' = st" "same_id r' r"
    using assms(2,3) by (auto simp: ends_as_def)
  show ?thesis
    by (rule evo_update [OF assms(1) eff(1)]) (use eff assms in \<open>auto simp: ids_grow_refl intro: rec_step.finished\<close>)
qed

lemma evo_finish_cancelled:
  assumes "evolves s0 s" and "find_req s rid = Some r"
  shows "evolves s0 (finish_cancelled rid w reason s)"
proof (cases "is_terminal (rec_state (req_at s rid))")
  case False
  obtain r' where eff: "im_requests (finish_cancelled rid w reason s) = AList.update rid r' (im_requests s)"
    "rec_state r' = RS_Cancelled" "same_id r' (req_at s rid)"
    by (rule finish_cancelled_effect [OF False])
  show ?thesis
    by (rule evo_update [OF assms(1) eff(1)])
      (use eff assms False in \<open>auto simp: ids_grow_refl is_terminal_def intro: rec_step.finished\<close>)
qed (simp add: finish_cancelled_idle assms)

lemma fresh_two:
  assumes "1 < ids_left f"
  shows "\<not> issued_id f (fst (next_id f))" and "issued_id (snd (next_id f)) (fst (next_id f))"
    and "issued_id (snd (next_id (snd (next_id f)))) (fst (next_id f))"
  using assms idf.fresh [of f] idf.records [of f] idf.spends [of f] idf.records [of "snd (next_id f)"] by simp_all

lemma evo_make_retry:
  assumes "evolves s0 s" and "find_req s rid = Some r" and "on_worker (rec_state r)" and "1 < ids_left (im_id_factory s)"
  shows "evolves s0 (make_retry rid rep s)"
proof -
  obtain r' where eff: "im_requests (make_retry rid rep s) = AList.update rid r' (im_requests s)"
    "rec_state r' = RS_Queued" "rec_spec r' = rec_spec (req_at s rid)" "rec_request_id r' = rec_request_id (req_at s rid)"
    "rec_generation r' = fst (next_id (im_id_factory s))"
    "hist_ids r' = hist_ids (req_at s rid) @ [(rec_current_attempt r', rec_generation r')]"
    by (rule make_retry_effect)
  have "\<not> issued_id (im_id_factory s) (rec_generation r')"
    and "issued_id (im_id_factory (make_retry rid rep s)) (rec_generation r')"
    using fresh_two [OF assms(4)] eff(5) by (simp_all add: make_retry_tables)
  then show ?thesis
    by (intro evo_update [OF assms(1) eff(1)] ids_grow_two [OF assms(4) make_retry_tables(2)])
      (use eff assms in \<open>auto intro: rec_step.retried\<close>)
qed

lemma evo_reserve_members:
  "evolves s0 s \<Longrightarrow> distinct ms \<Longrightarrow> (\<And>m. m \<in> set ms \<Longrightarrow> \<exists>r. find_req s m = Some r \<and> rec_state r = RS_Queued) \<Longrightarrow>
   evolves s0 (fold (reserve_member w bid now) ms s)"
proof (induction ms arbitrary: s)
  case (Cons m ms)
  obtain r where r: "find_req s m = Some r" "rec_state r = RS_Queued"
    using Cons.prems(3) by auto
  obtain r' where eff: "im_requests (reserve_member w bid now m s) = AList.update m r' (im_requests s)"
    "rec_state r' = RS_Reserved" "same_id r' (req_at s m)"
    by (rule reserve_member_effect)
  have "evolves s0 (reserve_member w bid now m s)"
    by (rule evo_update [OF Cons.prems(1) eff(1)]) (use eff r in \<open>auto simp: ids_grow_refl intro: rec_step.reserved\<close>)
  moreover have "find_req (reserve_member w bid now m s) x = find_req s x" if "x \<in> set ms" for x
    using that Cons.prems(2) by (auto simp: eff AList.update_conv')
  ultimately show ?case
    using Cons.IH Cons.prems by simp
qed simp

lemma evo_reserve_batch:
  assumes "sys_inv s" and "evolves s0 s" and "plan_ready rid members w now s" and "1 < ids_left (im_id_factory s)"
  shows "evolves s0 (reserve_batch w now members s)"
  unfolding reserve_batch_def Let_def
proof (rule evo_reserve_members)
  show "evolves s0 (reserve_worker w (fst (next_id (im_id_factory s))) (batch_units_of s members) members (snd (fresh_id s)))"
    using assms(2) by (rule evo_same) (use fresh_id_issued(4) [OF assms(4)] in \<open>simp_all add: ids_grow_def\<close>)
  show "distinct members"
    using assms(1,3) by (rule plan_ready_members)
  show "\<exists>r. find_req (reserve_worker w (fst (next_id (im_id_factory s))) (batch_units_of s members) members (snd (fresh_id s))) m =
      Some r \<and> rec_state r = RS_Queued" if "m \<in> set members" for m
    using plan_ready_members(4) [OF assms(1,3) that] by fastforce
qed

lemma evo_apply_status:
  assumes inv: "sys_inv s" and evo: "evolves s0 s" and wb: "well_behaved s (Complete rep)" and auth: "authorised rep s"
  shows "evolves s0 (snd (apply_status rep s))"
proof -
  let ?rid = "cr_request_id rep"
  have "current rep s" "owns rep s" and room: "1 < ids_left (im_id_factory s)"
    using wb auth by (auto simp: well_behaved_def authorised_def current_def id_room_def)
  then obtain r where r: "find_req s ?rid = Some r" "\<not> is_terminal (rec_state r)" "rec_in_batch r"
    by (auto simp: current_def owns_def)
  note st = sys_owner [OF inv r]
  show ?thesis
  proof (cases rule: apply_status_cases [of rep s])
    case stale
    obtain r' where eff: "im_requests (snd (apply_status rep s)) = AList.update ?rid r' (im_requests s)"
      "rec_state r' = rec_state (req_at s ?rid)" "same_id r' (req_at s ?rid)"
      unfolding stale by (rule stale_effect)
    show ?thesis
      by (rule evo_update [OF evo eff(1)]) (use eff r in \<open>auto simp: stale ids_grow_refl intro: rec_step.noted\<close>)
  next
    case success
    then show ?thesis
      using evo_ends_as [OF evo finish_success_effect r(1,2)] by (simp add: is_terminal_def)
  next
    case expired
    then show ?thesis
      using evo_ends_as [OF evo finish_expired_effect r(1,2)] by (simp add: is_terminal_def)
  next
    case failed
    then show ?thesis
      using evo_ends_as [OF evo finish_failed_effect r(1,2)] by (simp add: is_terminal_def)
  qed (use evo r st room in \<open>simp_all add: evo_finish_cancelled evo_make_retry\<close>)
qed

lemma evo_start:
  assumes "evolves s0 s" and "startable rep r s"
  shows "evolves s0 (run_request (cr_request_id rep) rep (start_batch (cr_worker rep) (rec_batch_id r) s))"
proof -
  let ?s = "start_batch (cr_worker rep) (rec_batch_id r) s"
  have s: "evolves s0 ?s"
    using assms(1) by (rule evo_same) (simp_all add: ids_grow_refl)
  have r: "find_req s (cr_request_id rep) = Some r" "rec_state r = RS_Reserved"
    using assms(2) by (simp_all add: startable_def)
  obtain r' where eff: "im_requests (run_request (cr_request_id rep) rep ?s) = AList.update (cr_request_id rep) r' (im_requests ?s)"
    "rec_state r' = RS_Running" "same_id r' (req_at ?s (cr_request_id rep))"
    by (rule run_request_effect)
  show ?thesis
    by (rule evo_update [OF s eff(1)]) (use eff r in \<open>auto simp: ids_grow_refl intro: rec_step.started\<close>)
qed

lemma evo_modify_req:
  assumes "evolves s0 s" and "find_req s rid = Some r" and "\<not> is_terminal (rec_state r)" and "same_id (f r) r"
    and "rec_state (f r) = rec_state r"
  shows "evolves s0 (modify_req rid f s)"
  by (rule evo_update [OF assms(1), of _ rid "f r"]) (use assms in \<open>auto simp: ids_grow_refl intro: rec_step.noted\<close>)

lemma evo_cancel_queued:
  assumes "evolves s0 s"
  shows "evolves s0 (cancel_queued msg rid s)"
proof (cases "find_req s rid")
  case (Some r)
  let ?f = "\<lambda>r. r\<lparr>rec_cancel_reason := CR_SchedulerDrain\<rparr>"
  have "evolves s0 (modify_req rid ?f s)" if "\<not> is_terminal (rec_state r)"
    using assms Some that by (rule evo_modify_req) (simp_all add: same_id_def hist_ids_def)
  then show ?thesis
    using assms Some by (simp add: cancel_queued_def evo_finish_cancelled AList.update_conv')
qed (simp add: cancel_queued_def assms)

lemma evo_cancel_all: "evolves s0 s \<Longrightarrow> evolves s0 (fold (cancel_queued msg) xs s)"
  by (induction xs arbitrary: s) (simp_all add: evo_cancel_queued)

lemma evo_recover_request:
  assumes inv: "sys_inv s" and evo: "evolves s0 s" and fl: "flying s w rid" and room: "1 < ids_left (im_id_factory s)"
  shows "evolves s0 (recover_request w rid s)"
proof -
  obtain r where r: "find_req s rid = Some r" "rec_state r = RS_Running"
    using sys_invD(3) [OF inv] fl by (rule flyingE)
  let ?s1 = "modify_tenant_present (spec_tenant (rec_spec r)) dec_running s"
  have s1: "evolves s0 ?s1"
    using evo by (rule evo_same) (simp_all add: ids_grow_refl)
  have "evolves s0 (make_retry rid rep ?s1)" and "evolves s0 (finish_failed rid rep ?s1)" for rep
    using evo_make_retry [OF s1, of rid r] evo_ends_as [OF s1 finish_failed_effect, of rid r] r room
    by (simp_all add: on_worker_def is_terminal_def)
  then show ?thesis
    using r by (simp add: recover_request_def Let_def is_terminal_def)
qed

lemma evo_recover_fold:
  "sys_inv s \<Longrightarrow> evolves s0 s \<Longrightarrow> distinct xs \<Longrightarrow> (\<And>x. x \<in> set xs \<Longrightarrow> flying s w x) \<Longrightarrow>
   2 * length xs < ids_left (im_id_factory s) \<Longrightarrow> evolves s0 (fold (recover_request w) xs s)"
proof (induction xs arbitrary: s)
  case (Cons x xs)
  have fl: "flying s w x" and room: "1 < ids_left (im_id_factory s)"
    using Cons.prems by simp_all
  note step = sys_recover_request [OF Cons.prems(1) fl room]
  have "2 * length xs < ids_left (im_id_factory (recover_request w x s))"
    using step(2) Cons.prems(5) by simp
  moreover have "flying (recover_request w x s) w y" if "y \<in> set xs" for y
    by (rule step(3)) (use that Cons.prems(3,4) in auto)
  moreover have "evolves s0 (recover_request w x s)"
    using Cons.prems(1,2) fl room by (rule evo_recover_request)
  ultimately show ?case
    using Cons.IH [OF step(1)] Cons.prems(3) by simp
qed simp

lemma in_flight_ids:
  assumes "sys_inv s" and "find_wrk s w = Some wr"
  shows "distinct (map fst (wk_in_flight wr))" and "x \<in> set (map fst (wk_in_flight wr)) \<Longrightarrow> flying s w x"
proof -
  have "load_ok wr"
    using sys_invD(3) [OF assms(1)] assms(2) by (auto simp: batch_inv_def workers_ok_def)
  then show "distinct (map fst (wk_in_flight wr))"
    by (simp add: load_ok_def sorted_distinct)
  show "x \<in> set (map fst (wk_in_flight wr)) \<Longrightarrow> flying s w x"
    using map_of_key [of x "wk_in_flight wr"] assms(2) unfolding flying_def by blast
qed

lemma evo_recover_in_flight:
  assumes "sys_inv s" and "evolves s0 s" and "id_room s" and "find_wrk s w = Some wr"
  shows "evolves s0 (recover_in_flight w s)"
proof -
  have "evolves s0 (fold (recover_request w) (map fst (wk_in_flight wr)) s)"
    by (rule evo_recover_fold [OF assms(1,2) in_flight_ids [OF assms(1,4)]]) (use assms(3,4) in \<open>simp_all add: id_room_def\<close>)
  then show ?thesis
    by (rule evo_same) (simp_all add: recover_in_flight_def assms(4) Let_def ids_grow_refl)
qed

lemma evo_do_submit:
  assumes "evolves s0 s" and "well_behaved s (Submit sp pre)"
  shows "evolves s0 (snd (do_submit sp pre s))"
proof -
  let ?rid = "fst (submit_id pre s)" and ?s1 = "snd (submit_id pre s)"
  have room: "4 \<le> ids_left (im_id_factory s)" and new: "find_req ?s1 ?rid = None"
    using assms(2) by (simp_all add: well_behaved_def submits_def fresh_submit_def id_room_def)
  have s1: "evolves s0 ?s1"
    using assms(1) by (rule evo_same) (use submit_id_grow room in simp_all)
  have room1: "1 < ids_left (im_id_factory ?s1)"
    using submit_id_ids [of s pre] room by linarith
  show ?thesis
  proof (cases rule: do_submit_cases [of sp pre s])
    case (admitted code out)
    have nolate: "\<not> (dl_valid (spec_deadline sp) \<and> expired (spec_deadline sp) (im_clock_now ?s1))"
      using make_admission_admit(3) [OF admitted(1)] by simp
    obtain r' where eff: "im_requests (snd (submit_admit out sp ?rid ?s1)) = AList.update ?rid r' (im_requests ?s1)"
      "rec_state r' = RS_Queued" "rec_generation r' = fst (next_id (im_id_factory ?s1))"
      "hist_ids r' = [(rec_current_attempt r', rec_generation r')]"
      using nolate new by (rule submit_admit_effect)
    show ?thesis
      unfolding admitted(2)
      by (rule evo_update [OF s1 eff(1) ids_grow_two [OF room1 submit_admit_tables(10) [OF nolate new]]], unfold new)
        (rule rec_step.submitted, use eff fresh_two [OF room1] in \<open>simp_all add: submit_admit_tables(10) [OF nolate new]\<close>)
  next
    case (deferred code out)
    show ?thesis
      unfolding deferred(2) using s1 by (rule evo_same) (simp_all add: submit_defer_def ids_grow_refl)
  next
    case (rejected code out)
    obtain r' where eff: "im_requests (snd (submit_reject out sp ?rid code ?s1)) = AList.update ?rid r' (im_requests ?s1)"
      "rec_state r' = RS_Rejected" "rec_history r' = []" "rec_generation r' = fst (next_id (im_id_factory ?s1))"
      using new by (rule submit_reject_effect)
    have "ids_grow ?s1 (snd (submit_reject out sp ?rid code ?s1))"
      using room1 by (intro ids_grow_id) (simp_all add: submit_reject_def Let_def split_beta)
    then show ?thesis
      unfolding rejected(2)
      by (rule evo_update [OF s1 eff(1)], unfold new) (rule rec_step.refused, use eff fresh_two [OF room1] in
        \<open>simp_all add: hist_ids_def submit_reject_def Let_def split_beta\<close>)
  qed (simp add: assms)
qed

interpretation evo: section_invariant well_behaved "evo_inv s0" for s0
proof
  fix s s' :: Impl
  assume s: "evo_inv s0 s" and c: "core s' = core s"
  show "evo_inv s0 s'"
    using own.cosmetic [OF _ c] evo_same [of s0 s s'] s by (simp add: evo_inv_def core_cong [OF c] ids_grow_refl)
next
  fix s s1 :: Impl and rid expl members w now
  assume s: "evo_inv s0 s" "well_behaved s1 (PlanDispatch rid expl)" "s = expire_scan (im_clock_now s1) s1"
    "plan_ready rid members w now s"
  then have "1 < ids_left (im_id_factory s)"
    by (simp add: well_behaved_def id_room_def)
  then show "evo_inv s0 (reserve_batch w now members s)"
    using s own.reserve [OF _ s(2,3,4)] evo_reserve_batch by (simp add: evo_inv_def)
next
  fix s :: Impl and c w wr
  assume s: "evo_inv s0 s" "well_behaved s c" "find_wrk s w = Some wr"
  then show "evo_inv s0 (recover_in_flight w s)"
    using own.recover [OF _ s(2,3)] evo_recover_in_flight by (simp add: evo_inv_def well_behaved_def)
next
  fix s :: Impl and rid r reason
  assume "evo_inv s0 s" "find_req s rid = Some r" "\<not> is_terminal (rec_state r)"
  then show "evo_inv s0 (modify_req rid (\<lambda>r. r\<lparr>rec_cancel_reason := reason\<rparr>) s)"
    using own.note_reason evo_modify_req [of s0 s rid r "\<lambda>r. r\<lparr>rec_cancel_reason := reason\<rparr>"]
    by (simp add: evo_inv_def same_id_def hist_ids_def)
next
  fix s :: Impl and rid r
  assume "evo_inv s0 s" "find_req s rid = Some r" "on_worker (rec_state r)"
  then show "evo_inv s0 (modify_req rid (\<lambda>r. r\<lparr>rec_cancellation_requested := True\<rparr>) s)"
    using own.note_request evo_modify_req [of s0 s rid r "\<lambda>r. r\<lparr>rec_cancellation_requested := True\<rparr>"]
    by (auto simp: evo_inv_def same_id_def hist_ids_def on_worker_def is_terminal_def)
qed (auto simp: evo_inv_def evo_expire_request evo_purge_flow evo_do_submit evo_apply_status evo_start evo_finish_cancelled
      evo_cancel_all ids_grow_refl elim!: evo_same
      intro: own.expire own.pop own.deactivate own.submit own.complete own.start own.cancel own.cancel_all
        own.new_worker own.rewrite_worker own.drop_worker)

end
