(* ===== verification/Epoch.thy ===== *)
theory Epoch
  imports Api
begin

text \<open>
  The two mode fields of the scheduler. No call but \<open>roll_epoch\<close> changes the epoch, so the epoch a
  worker was told stays valid exactly until the next rollover; no call but \<open>begin_drain\<close>
  changes \<open>draining_\<close>, and nothing resets it.
\<close>

lemma epoch_queue [simp]:
  "im_epoch_value (enqueue_flow r s) = im_epoch_value s \<and> im_draining (enqueue_flow r s) = im_draining s"
  "im_epoch_value (enqueue_request rid s) = im_epoch_value s \<and> im_draining (enqueue_request rid s) = im_draining s"
  "im_epoch_value (dequeue_request rid s) = im_epoch_value s \<and> im_draining (dequeue_request rid s) = im_draining s"
  "im_epoch_value (expire_request rid s) = im_epoch_value s \<and> im_draining (expire_request rid s) = im_draining s"
  "im_epoch_value (account_flow sp c s) = im_epoch_value s \<and> im_draining (account_flow sp c s) = im_draining s"
  by (simp_all add: enqueue_flow_def enqueue_request_def dequeue_request_def expire_request_def account_flow_def Let_def)

lemma epoch_expire_scan [simp]: "im_epoch_value (expire_scan now s) = im_epoch_value s \<and> im_draining (expire_scan now s) = im_draining s"
  unfolding expire_scan_def by (intro conjI fold_frame) (simp_all split: option.split)

lemma epoch_purge [simp]: "im_epoch_value (snd (purge now q s)) = im_epoch_value s \<and> im_draining (snd (purge now q s)) = im_draining s"
  by (induction now q s rule: purge.induct) (simp_all add: Let_def)

lemma epoch_pick_loop [simp]: "im_epoch_value (snd (pick_loop now ks best s)) = im_epoch_value s \<and> im_draining (snd (pick_loop now ks best s)) = im_draining s"
  by (induction ks arbitrary: best s) (simp_all add: Let_def split_beta split: list.split)

lemma epoch_pick [simp]: "im_epoch_value (snd (plan_next_pick s)) = im_epoch_value s \<and> im_draining (snd (plan_next_pick s)) = im_draining s"
  by (simp add: plan_next_pick_def pick_seed_def Let_def split_beta split: option.split list.split)

lemma epoch_submit [simp]: "im_epoch_value (snd (do_submit sp pre s)) = im_epoch_value s \<and> im_draining (snd (do_submit sp pre s)) = im_draining s"
proof -
  have id: "im_epoch_value (snd (submit_id pre s)) = im_epoch_value s \<and> im_draining (snd (submit_id pre s)) = im_draining s"
    by (simp add: submit_id_def split: option.split)
  show ?thesis
    by (cases rule: do_submit_cases [of sp pre s])
      (simp_all add: submit_admit_def submit_expired_def submit_defer_def submit_reject_def insert_req_def Let_def split_beta id)
qed

lemma epoch_release [simp]:
  "im_epoch_value (release_batch w bid s) = im_epoch_value s \<and> im_draining (release_batch w bid s) = im_draining s"
  "im_epoch_value (release_batch_member rid w s) = im_epoch_value s \<and> im_draining (release_batch_member rid w s) = im_draining s"
  "im_epoch_value (tenant_release t s) = im_epoch_value s \<and> im_draining (tenant_release t s) = im_draining s"
  by (simp_all add: release_batch_def release_batch_member_def tenant_release_def Let_def split: option.split)

lemma epoch_finish [simp]:
  "im_epoch_value (finish_success rid rep s) = im_epoch_value s \<and> im_draining (finish_success rid rep s) = im_draining s"
  "im_epoch_value (finish_failed rid rep s) = im_epoch_value s \<and> im_draining (finish_failed rid rep s) = im_draining s"
  "im_epoch_value (finish_expired rid rep s) = im_epoch_value s \<and> im_draining (finish_expired rid rep s) = im_draining s"
  "im_epoch_value (finish_cancelled rid w reason s) = im_epoch_value s \<and> im_draining (finish_cancelled rid w reason s) = im_draining s"
  "im_epoch_value (make_retry rid rep s) = im_epoch_value s \<and> im_draining (make_retry rid rep s) = im_draining s"
  by (simp_all add: finish_success_def finish_failed_def finish_expired_def finish_cancelled_def make_retry_def Let_def split_beta)

lemma epoch_run [simp]:
  "im_epoch_value (start_batch w bid s) = im_epoch_value s \<and> im_draining (start_batch w bid s) = im_draining s"
  "im_epoch_value (run_request rid rep s) = im_epoch_value s \<and> im_draining (run_request rid rep s) = im_draining s"
  "im_epoch_value (count_stale s) = im_epoch_value s \<and> im_draining (count_stale s) = im_draining s"
  "im_epoch_value (cancel_queued msg rid s) = im_epoch_value s \<and> im_draining (cancel_queued msg rid s) = im_draining s"
  "im_epoch_value (recover_request w rid s) = im_epoch_value s \<and> im_draining (recover_request w rid s) = im_draining s"
  by (simp_all add: start_batch_def run_request_def count_stale_def cancel_queued_def recover_request_def Let_def split: option.split)

lemma epoch_recover [simp]: "im_epoch_value (recover_in_flight w s) = im_epoch_value s \<and> im_draining (recover_in_flight w s) = im_draining s"
  by (simp add: recover_in_flight_def Let_def fold_frame split: option.split)

lemma epoch_plan [simp]: "im_epoch_value (snd (do_plan_dispatch rid expl s)) = im_epoch_value s \<and> im_draining (snd (do_plan_dispatch rid expl s)) = im_draining s"
proof (cases rule: do_plan_dispatch_cases [of rid expl s])
  case (commit r members out w scores)
  have "im_epoch_value (reserve_member w' b n m t) = im_epoch_value t \<and> im_draining (reserve_member w' b n m t) = im_draining t" "im_epoch_value (reserve_worker w' b u ms t) = im_epoch_value t \<and> im_draining (reserve_worker w' b u ms t) = im_draining t"
    for w' b n m t u ms
    by (simp_all add: reserve_member_def reserve_worker_def Let_def)
  then show ?thesis
    unfolding commit(8) commit_dispatch_state by (simp add: fold_frame)
qed simp_all

lemma epoch_complete [simp]: "im_epoch_value (snd (do_complete rep s)) = im_epoch_value s \<and> im_draining (snd (do_complete rep s)) = im_draining s"
proof -
  have "im_epoch_value (snd (apply_status rep s)) = im_epoch_value s \<and> im_draining (snd (apply_status rep s)) = im_draining s"
    by (cases rule: apply_status_cases [of rep s]) simp_all
  then show ?thesis
    by (cases rule: do_complete_cases [of rep s]) simp_all
qed

lemma epoch_start [simp]: "im_epoch_value (snd (do_confirm_start rep s)) = im_epoch_value s \<and> im_draining (snd (do_confirm_start rep s)) = im_draining s"
  by (cases rule: do_confirm_start_cases [of rep s]) simp_all

lemma epoch_cancel [simp]: "im_epoch_value (snd (do_cancel rid reason detail s)) = im_epoch_value s \<and> im_draining (snd (do_cancel rid reason detail s)) = im_draining s"
  by (cases rule: do_cancel_cases [of rid reason detail s]) simp_all

lemma epoch_register [simp]: "im_epoch_value (do_register_worker reg s) = im_epoch_value s \<and> im_draining (do_register_worker reg s) = im_draining s"
  by (simp add: do_register_worker_def Let_def)

lemma epoch_exec: "im_epoch_value (exec c s) = (if c = RollEpoch then im_epoch_value s + 1 else im_epoch_value s)"
  by (cases c) (simp_all add: do_update_capability_def do_set_worker_state_def do_unregister_worker_def do_begin_drain_def
      do_roll_epoch_def do_cancel_all_queued_def flush_events_def drain_events_def set_event_handler_def clock_advance_def
      clock_set_def fold_frame Let_def split: option.split)

lemma draining_exec: "im_draining (exec c s) \<longleftrightarrow> im_draining s \<or> (\<exists>reason. c = BeginDrain reason)"
  by (cases c) (simp_all add: do_update_capability_def do_set_worker_state_def do_unregister_worker_def do_begin_drain_def
      do_roll_epoch_def do_cancel_all_queued_def flush_events_def drain_events_def set_event_handler_def clock_advance_def
      clock_set_def fold_frame Let_def split: option.split)

interpretation ep: call_order "\<lambda>_ c. c \<noteq> RollEpoch" "\<lambda>_. True" "\<lambda>s s'. im_epoch_value s' = im_epoch_value s"
  by unfold_locales (simp_all add: epoch_exec)

interpretation dr: call_invariant "\<lambda>_ _. True" im_draining
  by unfold_locales (simp add: draining_exec)

end
