(* ===== verification/Scenario_Run.thy ===== *)
theory Scenario_Run
  imports Ownership Scenario Epoch
begin

text \<open>
  The concrete run of \<open>Scenario\<close> continued: the request is reserved on the worker, started and
  completed. The states satisfy the protocol of \<open>Ownership\<close>, so they are reachable in its sense.
\<close>

definition ex_ready_state :: Impl where
  "ex_ready_state = exec (RegisterWorker ex_reg) ex_queued"

definition ex_reserved :: Impl where
  "ex_reserved = exec (PlanDispatch 30064771073 False) ex_ready_state"

definition ex_report :: CompletionReport where
  "ex_report = default_CompletionReport\<lparr>cr_epoch := 1, cr_worker := 9, cr_boot_id := 1, cr_request_id := 30064771073,
     cr_attempt_id := 30064771075, cr_generation := 30064771074\<rparr>"

definition ex_running :: Impl where
  "ex_running = exec (ConfirmStart ex_report) ex_reserved"

definition ex_done :: Impl where
  "ex_done = exec (Complete ex_report) ex_running"

definition ex_wrk :: WorkerRecord where
  "ex_wrk = default_WorkerRecord\<lparr>wk_registration := ex_reg, wk_state := WS_Online,
     wk_resource := copy_capacity (reg_capability ex_reg) default_ResourceSnapshot\<rparr>"

definition waiting :: "RequestRecord \<Rightarrow> bool" where
  "waiting r \<longleftrightarrow> rec_spec r = ex_spec \<and> rec_request_id r = 30064771073 \<and>
     rec_generation r = 30064771074 \<and> rec_current_attempt r = 30064771075 \<and> \<not> rec_cancellation_committed r"

section \<open>After the submission\<close>

lemma ex_queued_record:
  obtains r where "im_requests ex_queued = [(30064771073, r)]" and "waiting r" and "rec_state r = RS_Queued"
    and "\<not> rec_in_batch r"
proof -
  obtain out where eq: "ex_queued = snd (submit_admit out ex_spec 30064771073 (snd (submit_id None ex_init)))"
    by (rule ex_submit)
  let ?s1 = "snd (submit_id None ex_init)"
  have f: "im_id_factory ?s1 = snd (next_id (im_id_factory ex_init))" and e: "im_requests ?s1 = []"
    by (simp_all add: submit_id_def fresh_id_def split_beta ex_init_fields)
  obtain r where "im_requests ex_queued = AList.update 30064771073 r (im_requests ?s1)" "rec_state r = RS_Queued"
    "rec_spec r = ex_spec" "rec_request_id r = 30064771073" "rec_generation r = fst (next_id (im_id_factory ?s1))"
    "rec_current_attempt r = fst (next_id (snd (next_id (im_id_factory ?s1))))" "\<not> rec_in_batch r" "\<not> rec_cancellation_committed r"
    unfolding eq using ex_ready by (rule submit_admit_effect)
  then show thesis
    using that [of r] ex_ids by (simp add: waiting_def f ex_init_fields(1))
qed

lemma ex_queued_fields:
  "im_workers ex_queued = []" "im_queued ex_queued = [30064771073]" "im_clock_now ex_queued = 0" "im_cfg ex_queued = im_cfg ex_init"
  "im_compat ex_queued = [(compat_key (im_cfg ex_init) ex_spec, [30064771073])]"
  "im_id_factory ex_queued = \<lparr>idf_salt = 7, idf_counter = 3\<rparr>"
proof -
  obtain out where eq: "ex_queued = snd (submit_admit out ex_spec 30064771073 (snd (submit_id None ex_init)))"
    by (rule ex_submit)
  show "im_workers ex_queued = []" "im_queued ex_queued = [30064771073]" "im_clock_now ex_queued = 0" "im_cfg ex_queued = im_cfg ex_init"
    "im_compat ex_queued = [(compat_key (im_cfg ex_init) ex_spec, [30064771073])]"
    "im_id_factory ex_queued = \<lparr>idf_salt = 7, idf_counter = 3\<rparr>"
    unfolding eq submit_admit_tables [OF ex_ready]
    by (simp_all add: submit_id_def fresh_id_def split_beta ex_init_fields uset_insert_def umap_at_def next_id_def)
qed

lemma ex_epoch: "im_epoch_value ex_queued = 1" "im_epoch_value ex_ready_state = 1" "im_epoch_value ex_reserved = 1"
  "im_epoch_value ex_running = 1"
  by (simp_all add: ex_queued_def ex_ready_state_def ex_reserved_def ex_running_def ex_init_fields)

section \<open>After the registration\<close>

lemma ex_ready_fields:
  "im_requests ex_ready_state = im_requests ex_queued" "im_workers ex_ready_state = [(9, ex_wrk)]"
  "im_queued ex_ready_state = [30064771073]" "im_clock_now ex_ready_state = 0" "im_cfg ex_ready_state = im_cfg ex_init"
  "im_compat ex_ready_state = [(compat_key (im_cfg ex_init) ex_spec, [30064771073])]"
  "im_id_factory ex_ready_state = \<lparr>idf_salt = 7, idf_counter = 3\<rparr>"
  by (simp_all add: ex_ready_state_def do_register_worker_def Let_def ex_queued_fields worker_at_def default_WorkerRecord_def
        default_WorkerRegistration_def valid_id_def ex_wrk_def ex_reg_def nonneg_def)

section \<open>After the dispatch\<close>

lemma ex_cost: "ceil_cost (dadd (Fin 0 0) (dmax (Fin 1 0) (Fin 1 0))) = 1" "ceil_cost (Fin 1 0) = 1"
  by code_simp+

lemma ex_spec_fields: "spec_deadline ex_spec = deadline_none" "dem_cost_units (spec_demand ex_spec) = Fin 1 0"
  "spec_model ex_spec = 2" "spec_adapter ex_spec = invalid_id" "dl_valid deadline_none = False"
  by (simp_all add: ex_spec_def default_RequestSpec_def deadline_none_def)

lemma ex_eligible: "ws_eligible (score_worker cfg ex_wrk ex_spec (dadd (Fin 0 0) (dmax (Fin 1 0) (Fin 1 0))) now)"
  by (simp add: score_worker_def Let_def ex_wrk_def ex_reg_def compatible_def default_WorkerCapability_def free_units_def
        copy_capacity_def ex_cost ex_spec_fields default_WorkerRecord_def)

lemma ex_plan:
  obtains r out scores where "find_req ex_ready_state 30064771073 = Some r" and "waiting r" and "rec_state r = RS_Queued"
    and "ex_reserved = modify_stats (\<lambda>st. st\<lparr>st_dispatches := st_dispatches st + 1,
       st_batches_formed := st_batches_formed st, st_batch_members := st_batch_members st + 1\<rparr>)
       (reserve_member 9 30064771076 0 30064771073
         (reserve_worker 9 30064771076 1 [30064771073] (snd (fresh_id ex_ready_state))))"
    and "do_plan_dispatch 30064771073 False ex_ready_state =
      commit_dispatch out 30064771073 False [30064771073] 1 9 scores 0 ex_ready_state"
proof -
  let ?s = "ex_ready_state"
  obtain r where req: "im_requests ex_queued = [(30064771073, r)]" and r: "waiting r" "rec_state r = RS_Queued"
    by (rule ex_queued_record)
  have found: "find_req ?s 30064771073 = Some r" and at: "req_at ?s 30064771073 = r" and sp: "rec_spec r = ex_spec"
    using r by (simp_all add: ex_ready_fields req req_at_def waiting_def)
  have scan: "expire_scan 0 ?s = ?s"
    by (simp add: expire_scan_def ex_ready_fields expire_due_def req sp ex_spec_fields)
  have cand: "batch_candidates ?s 0 30064771073 = []"
    by (simp add: batch_candidates_def at sp ex_ready_fields batchable_def)
  have batch: "form_batch 30064771073 0 ?s = [30064771073]"
    by (simp add: form_batch_def found cand sort_by_def)
  have cost: "batch_cost_of ?s [30064771073] = dadd (Fin 0 0) (dmax (Fin 1 0) (Fin 1 0))"
    and units: "batch_units_of ?s [30064771073] = 1"
    by (simp_all add: batch_cost_of_def member_cost_def batch_units_of_def at sp ex_spec_fields ex_cost)
  have sel: "fst (select_worker [30064771073] (dadd (Fin 0 0) (dmax (Fin 1 0) (Fin 1 0))) 0 ?s) = 9"
    by (simp add: select_worker_def Let_def ex_ready_fields at sp ex_eligible) (simp add: ex_wrk_def ex_reg_def)
  have wrk: "worker_at ?s 9 = ex_wrk"
    by (simp add: worker_at_def ex_ready_fields)
  have free: "\<not> (0 < cap_total_capacity_units (reg_capability (wk_registration ex_wrk)) \<and> free_units ex_wrk < 1)"
    by (simp add: ex_wrk_def ex_reg_def free_units_def copy_capacity_def default_WorkerRecord_def)
  have bid: "fst (next_id (im_id_factory ?s)) = 30064771076"
    by (simp add: ex_ready_fields next_id_def id_value_def)
  obtain out scores where plan: "do_plan_dispatch 30064771073 False ?s =
      commit_dispatch out 30064771073 False [30064771073] 1 9 scores 0 ?s"
    using sel free
    by (simp add: do_plan_dispatch_def Let_def ex_ready_fields(4) scan found r sp ex_spec_fields batch cost units split_beta
          valid_id_def invalid_id_def wrk)
  have "ex_reserved = snd (commit_dispatch out 30064771073 False [30064771073] 1 9 scores 0 ?s)"
    by (simp add: ex_reserved_def plan)
  then have "ex_reserved = modify_stats (\<lambda>st. st\<lparr>st_dispatches := st_dispatches st + 1,
       st_batches_formed := st_batches_formed st, st_batch_members := st_batch_members st + 1\<rparr>)
       (reserve_member 9 30064771076 0 30064771073
         (reserve_worker 9 30064771076 1 [30064771073] (snd (fresh_id ?s))))"
    unfolding commit_dispatch_state bid by simp
  with found r show thesis
    using plan by (rule that)
qed

lemma ex_dispatch:
  obtains out s' where "do_plan_dispatch 30064771073 False ex_ready_state = (Inr out, s')" and "do_decision out = DD_Dispatch"
proof (rule ex_plan)
  fix out scores
  assume "do_plan_dispatch 30064771073 False ex_ready_state =
    commit_dispatch out 30064771073 False [30064771073] 1 9 scores 0 ex_ready_state"
  then show thesis
    using that by (simp add: commit_dispatch_def Let_def split_beta result_ok_def)
qed

definition ex_wrk1 :: WorkerRecord where
  \<comment> \<open>the worker with the request's unit reserved\<close>
  "ex_wrk1 = ex_wrk\<lparr>wk_reserved_units := 1, wk_batch_units := [(30064771076, 1)],
     wk_batch_pending := [(30064771076, 1)], wk_batch_members := [(30064771076, [30064771073])]\<rparr>"

lemma ex_reserved_eq:
  "ex_reserved = modify_stats (\<lambda>st. st\<lparr>st_dispatches := st_dispatches st + 1,
       st_batches_formed := st_batches_formed st, st_batch_members := st_batch_members st + 1\<rparr>)
     (reserve_member 9 30064771076 0 30064771073
       (reserve_worker 9 30064771076 1 [30064771073] (snd (fresh_id ex_ready_state))))"
  by (rule ex_plan)

lemma ex_reserved_fields: "im_workers ex_reserved = [(9, ex_wrk1)]"
  "im_id_factory ex_reserved = \<lparr>idf_salt = 7, idf_counter = 4\<rparr>" "im_clock_now ex_reserved = 0"
  unfolding ex_reserved_eq
  by (simp_all add: reserve_worker_workers ex_ready_fields worker_at_def ex_wrk1_def ex_wrk_def default_WorkerRecord_def next_id_def)

lemma ex_reserved_record:
  obtains r where "im_requests ex_reserved = [(30064771073, r)]" and "waiting r" and "rec_state r = RS_Reserved"
    and "rec_in_batch r" and "rec_batch_id r = 30064771076"
proof -
  let ?s = "reserve_worker 9 30064771076 1 [30064771073] (snd (fresh_id ex_ready_state))"
  obtain r where found: "find_req ex_ready_state 30064771073 = Some r" and "waiting r"
    by (rule ex_plan)
  obtain r' where r': "im_requests (reserve_member 9 30064771076 0 30064771073 ?s) = AList.update 30064771073 r' (im_requests ?s)"
    "rec_state r' = RS_Reserved" "same_id r' (req_at ?s 30064771073)" "rec_in_batch r'" "rec_batch_id r' = 30064771076"
    "rec_cancellation_committed r' = rec_cancellation_committed (req_at ?s 30064771073)"
    by (rule reserve_member_effect)
  obtain r0 where r0: "im_requests ex_queued = [(30064771073, r0)]"
    by (rule ex_queued_record)
  have "waiting r'"
    using r'(3,6) found \<open>waiting r\<close> by (simp add: waiting_def same_id_def)
  with r' show thesis
    using that [of r'] unfolding ex_reserved_eq by (simp add: ex_ready_fields r0)
qed

section \<open>After the start and the completion\<close>

lemma ex_report_fields: "cr_epoch ex_report = 1" "cr_worker ex_report = 9" "cr_boot_id ex_report = 1"
  "cr_request_id ex_report = 30064771073" "cr_attempt_id ex_report = 30064771075" "cr_generation ex_report = 30064771074"
  "cr_status ex_report = CS_Succeeded"
  by (simp_all add: ex_report_def default_CompletionReport_def)

lemma ex_wrk1_fields: "wk_registration ex_wrk1 = ex_reg" "reg_boot_id ex_reg = 1" "wk_state ex_wrk1 = WS_Online"
  "wk_started_batches ex_wrk1 = []" "wk_in_flight ex_wrk1 = []" "map_of (wk_batch_pending ex_wrk1) 30064771076 = Some 1"
  by (simp_all add: ex_wrk1_def ex_wrk_def ex_reg_def default_WorkerRecord_def)

lemma ex_start: "ex_running = run_request 30064771073 ex_report (start_batch 9 30064771076 ex_reserved)"
proof (rule ex_reserved_record)
  fix r
  assume "im_requests ex_reserved = [(30064771073, r)]" "waiting r" "rec_state r = RS_Reserved" "rec_batch_id r = 30064771076"
  then show ?thesis
    by (simp add: ex_running_def do_confirm_start_def ex_report_fields ex_epoch ex_reserved_fields ex_wrk1_fields waiting_def
          valid_id_def invalid_id_def)
qed

lemma ex_running_record:
  obtains r wr where "im_requests ex_running = [(30064771073, r)]" and "waiting r" and "rec_state r = RS_Running"
    and "rec_in_batch r" and "rec_batch_id r = 30064771076" and "im_workers ex_running = [(9, wr)]"
    and "wk_registration wr = ex_reg" and "map_of (wk_batch_pending wr) 30064771076 = Some 1" and "wk_in_flight wr = [(30064771073, 30064771075)]"
proof (rule ex_reserved_record)
  fix r0
  let ?s = "start_batch 9 30064771076 ex_reserved"
  assume req: "im_requests ex_reserved = [(30064771073, r0)]" and r0: "waiting r0" "rec_in_batch r0" "rec_batch_id r0 = 30064771076"
  obtain r where r: "im_requests (run_request 30064771073 ex_report ?s) = AList.update 30064771073 r (im_requests ?s)"
    "rec_state r = RS_Running" "same_id r (req_at ?s 30064771073)" "rec_in_batch r = rec_in_batch (req_at ?s 30064771073)"
    "rec_batch_id r = rec_batch_id (req_at ?s 30064771073)"
    "rec_cancellation_committed r = rec_cancellation_committed (req_at ?s 30064771073)"
    by (rule run_request_effect)
  obtain wr where wr: "im_workers (run_request 30064771073 ex_report ?s) = AList.update (cr_worker ex_report) wr (im_workers ?s)"
    "wk_registration wr = wk_registration (worker_at ?s (cr_worker ex_report))"
    "wk_batch_pending wr = wk_batch_pending (worker_at ?s (cr_worker ex_report))"
    "wk_in_flight wr = omap_set (rec_request_id (req_at ?s 30064771073)) (rec_current_attempt (req_at ?s 30064771073))
       (wk_in_flight (worker_at ?s (cr_worker ex_report)))"
    by (rule run_request_workers)
  have at: "req_at ?s 30064771073 = r0"
    using req by (simp add: req_at_def)
  have wrk: "worker_at ?s 9 = ex_wrk1\<lparr>wk_reserved_units := 0, wk_running_units := 1, wk_started_batches := [30064771076]\<rparr>"
    "im_workers ?s = [(9, worker_at ?s 9)]"
    by (simp_all add: start_batch_def Let_def worker_at_def ex_reserved_fields ex_wrk1_fields)
      (simp_all add: ex_wrk1_def ex_wrk_def default_WorkerRecord_def)
  show thesis
    by (rule that [of r wr])
      (use r wr r0 req in \<open>simp_all add: ex_start at wrk ex_report_fields ex_wrk1_fields waiting_def same_id_def\<close>)
qed

section \<open>The run respects the protocol\<close>

lemma ex_wb_submit: "well_behaved ex_init (Submit ex_spec None)"
  by (simp add: well_behaved_def submits_def fresh_submit_def cost_ok_def id_room_def ex_init_fields ex_spec_fields ex_cost ids_left_def)

lemma ex_wb_register: "well_behaved ex_queued (RegisterWorker ex_reg)"
  by (simp add: well_behaved_def submits_def fresh_submit_def id_room_def ex_queued_fields ids_left_def ex_reg_def valid_id_def
        invalid_id_def)

lemma ex_wb_plan: "well_behaved ex_ready_state (PlanDispatch 30064771073 False)"
  by (simp add: well_behaved_def submits_def fresh_submit_def id_room_def ex_ready_fields ids_left_def ex_wrk_def default_WorkerRecord_def)

lemma ex_wb_start: "well_behaved ex_reserved (ConfirmStart ex_report)"
  by (rule ex_reserved_record)
    (simp add: well_behaved_def submits_def fresh_submit_def id_room_def ex_reserved_fields ids_left_def owns_def holds_def
       ex_report_fields ex_wrk1_fields)

lemma ex_wb_complete: "well_behaved ex_running (Complete ex_report)"
proof (rule ex_running_record)
  fix r wr
  assume "im_requests ex_running = [(30064771073, r)]" "rec_in_batch r" "rec_batch_id r = 30064771076"
    "im_workers ex_running = [(9, wr)]" "map_of (wk_batch_pending wr) 30064771076 = Some 1" "wk_in_flight wr = [(30064771073, 30064771075)]"
  moreover have "im_id_factory ex_running = \<lparr>idf_salt = 7, idf_counter = 4\<rparr>"
    by (simp add: ex_start ex_reserved_fields)
  ultimately show ?thesis
    by (simp add: well_behaved_def submits_def fresh_submit_def id_room_def ids_left_def owns_def holds_def ex_report_fields)
qed

lemma ex_reach:
  "reach well_behaved ex_init ex_queued" "reach well_behaved ex_init ex_ready_state" "reach well_behaved ex_init ex_reserved"
  "reach well_behaved ex_init ex_running" "reach well_behaved ex_init ex_done"
proof -
  show q: "reach well_behaved ex_init ex_queued"
    unfolding ex_queued_def by (rule reach.step, rule reach.refl, rule ex_wb_submit)
  show r: "reach well_behaved ex_init ex_ready_state"
    unfolding ex_ready_state_def by (rule reach.step, rule q, rule ex_wb_register)
  show v: "reach well_behaved ex_init ex_reserved"
    unfolding ex_reserved_def by (rule reach.step, rule r, rule ex_wb_plan)
  show x: "reach well_behaved ex_init ex_running"
    unfolding ex_running_def by (rule reach.step, rule v, rule ex_wb_start)
  show "reach well_behaved ex_init ex_done"
    unfolding ex_done_def by (rule reach.step, rule x, rule ex_wb_complete)
qed

lemma ex_authorised: "authorised ex_report ex_running"
proof (rule ex_running_record)
  fix r wr
  assume "im_requests ex_running = [(30064771073, r)]" "waiting r" "rec_state r = RS_Running"
    "im_workers ex_running = [(9, wr)]" "wk_registration wr = ex_reg"
  then show ?thesis
    by (simp add: authorised_def ex_report_fields ex_epoch ex_wrk1_fields waiting_def is_terminal_def)
qed

end
