(* ===== verification/Terminal.thy ===== *)
theory Terminal
  imports Sections
begin

text \<open>
  Terminal requests stay as they are. \<open>frozen s s'\<close> says that every record that is terminal
  in \<open>s\<close> is the same record in \<open>s'\<close>; every critical section keeps them, provided that a
  submission does not reuse the identifier of a request.
\<close>

definition frozen :: "Impl \<Rightarrow> Impl \<Rightarrow> bool" where
  "frozen s s' \<longleftrightarrow>
     (\<forall>rid r. find_req s rid = Some r \<longrightarrow> is_terminal (rec_state r) \<longrightarrow> find_req s' rid = Some r)"

lemma frozen_refl [simp]: "frozen s s"
  by (simp add: frozen_def)

lemma frozen_trans: "frozen s s' \<Longrightarrow> frozen s' s'' \<Longrightarrow> frozen s s''"
  by (simp add: frozen_def)


lemma frozen_cong: "im_requests s' = im_requests s'' \<Longrightarrow> frozen s s' = frozen s s''"
  by (simp add: frozen_def)

lemma frozen_update:
  assumes "im_requests s' = AList.update rid r' (im_requests s)" and "\<not> is_terminal (rec_state (req_at s rid))"
  shows "frozen s s'"
  using assms by (auto simp: frozen_def AList.update_conv')

lemma frozen_fold:
  assumes "\<And>x s. frozen s (f x s)"
  shows "frozen s (fold f xs s)"
  by (induction xs arbitrary: s) (auto intro: frozen_trans assms)


section \<open>The steps\<close>

lemma frozen_expire_request: "frozen s (expire_request rid s)"
proof (cases "rec_state (req_at s rid) = RS_Queued")
  case True
  then show ?thesis
    by (rule expire_request_effect) (auto intro: frozen_update simp: True is_terminal_def)
qed (simp add: expire_request_idle)

lemma frozen_expire_scan: "frozen s (expire_scan now s)"
  unfolding expire_scan_def by (rule frozen_fold) (simp add: frozen_expire_request split: option.split)








section \<open>The calls\<close>













end
