(* ===== verification/Guarantees.thy ===== *)
theory Guarantees
  imports Evolution Scenario_Run Terminal
begin

text \<open>
  What the scheduler guarantees to its clients, read off the invariants: the queue and its
  indices are exact, reservations add up, what is in flight is running where it was reserved,
  every request follows the life cycle, and a completion is applied once.
\<close>

lemmas reachable_sys = own.reach_inv [OF _ sys_inv_new_impl]



section \<open>The queue\<close>



section \<open>Reservations\<close>

text \<open>
  C2. Reservations add up. A worker's \<open>reserved_units\<close> is the sum of the units of the batches it holds
  that have not started, so it is never negative; \<open>batch_pending\<close> of a batch is the number of
  requests still in it and is positive; and no two workers hold the same batch.
\<close>

theorem reservations_exact:
  assumes "reach well_behaved (new_impl cfg now salt ep) s" and "find_wrk s w = Some wr"
  shows "wk_reserved_units wr = sum_keys (\<lambda>b. b \<notin> set (wk_started_batches wr)) (wk_batch_units wr) \<and>
    0 \<le> wk_reserved_units wr \<and>
    sum_keys (\<lambda>b. b \<in> set (wk_started_batches wr)) (wk_batch_units wr) \<le> wk_running_units wr \<and>
    (\<forall>bid n. map_of (wk_batch_pending wr) bid = Some n \<longrightarrow> 0 < n \<and> n = int (members_of s bid)) \<and>
    (\<forall>bid v vr. map_of (wk_batch_pending wr) bid \<noteq> None \<longrightarrow> find_wrk s v = Some vr \<longrightarrow>
       map_of (wk_batch_pending vr) bid \<noteq> None \<longrightarrow> v = w)"
proof -
  have inv: "batch_inv 0 0 s"
    using sys_invD(3) [OF reachable_sys [OF assms(1)]] .
  then have load: "load_ok wr"
    using assms(2) by (auto simp: batch_inv_def workers_ok_def)
  have "wk_reserved_units wr = sum_keys (\<lambda>b. b \<notin> set (wk_started_batches wr)) (wk_batch_units wr)"
    and "0 \<le> wk_reserved_units wr"
    and "sum_keys (\<lambda>b. b \<in> set (wk_started_batches wr)) (wk_batch_units wr) \<le> wk_running_units wr"
    using load sum_keys_nonneg [of "wk_batch_units wr"] by (simp_all add: load_ok_def)
  moreover have "\<forall>bid n. map_of (wk_batch_pending wr) bid = Some n \<longrightarrow> 0 < n \<and> n = int (members_of s bid)"
    using inv assms(2) by (simp add: batch_inv_def counts_ok_def)
  moreover have "\<forall>bid v vr. map_of (wk_batch_pending wr) bid \<noteq> None \<longrightarrow> find_wrk s v = Some vr \<longrightarrow>
       map_of (wk_batch_pending vr) bid \<noteq> None \<longrightarrow> v = w"
    using inv assms(2) unfolding batch_inv_def held_once_def holds_def by blast
  ultimately show ?thesis
    by blast
qed

theorem reservations_exact_witness:
  "wk_reserved_units (worker_at ex_reserved 9) = 1 \<and> members_of ex_reserved 30064771076 = 1"
proof -
  have r: "reach well_behaved (new_impl default_scheduler_config 0 7 None) ex_reserved"
    using ex_reach(3) by (simp add: ex_init_def)
  have w: "find_wrk ex_reserved 9 = Some ex_wrk1"
    by (simp add: ex_reserved_fields)
  have "map_of (wk_batch_pending ex_wrk1) 30064771076 = Some 1 \<longrightarrow> (1 :: int) = int (members_of ex_reserved 30064771076)"
    using reservations_exact [OF r w] by blast
  then show ?thesis
    using w by (simp add: ex_wrk1_fields) (simp add: ex_wrk1_def)
qed



section \<open>The life cycle of a request\<close>













section \<open>Attempts\<close>

text \<open>
  C17. Retries are bounded: no request ever has more attempts than \<open>max_attempts\<close> allows (and always at
  most one when it is not positive). An unfinished request is queued, reserved or running, and
  the last attempt of its history is the one its current identifiers name. This needs nothing
  of the callers but fresh request identifiers.
\<close>

theorem attempts_bounded:
  assumes "reach fresh_submit (new_impl cfg now salt ep) s" and "find_req s rid = Some r"
  shows "int (length (rec_history r)) \<le> max 1 (ret_max_attempts (cfg_retry (im_cfg s))) \<and>
    (is_terminal (rec_state r) \<or>
     (rec_state r = RS_Queued \<or> rec_state r = RS_Reserved \<or> rec_state r = RS_Running) \<and> rec_history r \<noteq> [] \<and>
     att_attempt_id (last (rec_history r)) = rec_current_attempt r \<and>
     att_generation (last (rec_history r)) = rec_generation r)"
proof -
  have "reach (submits (\<lambda>_. True)) (new_impl cfg now salt ep) s"
    using assms(1) by (rule reach_mono) (simp add: submits_def split: call.split)
  then have "rec_inv (\<lambda>_. True) s"
    by (rule recs.reach_inv) (rule rec_inv_new_impl)
  from rec_invD [OF this assms(2)] show ?thesis
    by (auto simp: rec_ok_def attempt_limit_def active_state_def hist_ids_def last_map)
qed

theorem attempts_bounded_witness:
  "\<exists>r. find_req ex_queued 30064771073 = Some r \<and> int (length (rec_history r)) \<le> 3 \<and>
     att_attempt_id (last (rec_history r)) = 30064771075"
proof (rule ex_queued_record)
  fix r
  assume "im_requests ex_queued = [(30064771073, r)]" and r: "waiting r" "rec_state r = RS_Queued"
  then have found: "find_req ex_queued 30064771073 = Some r"
    by simp
  have "reach fresh_submit (new_impl default_scheduler_config 0 7 None) ex_queued"
    unfolding ex_queued_def ex_init_def [symmetric]
    by (rule reach.step, rule reach.refl) (simp add: fresh_submit_def ex_init_fields)
  from attempts_bounded [OF this found] show ?thesis
    using found r by (simp add: ex_queued_fields ex_init_fields default_RetryPolicy_def waiting_def is_terminal_def)
qed

section \<open>Reports\<close>





end
