(* ===== verification/Dispatch_Props.thy ===== *)
theory Dispatch_Props
  imports Guarantees
begin

text \<open>
  Planning: what a batch looks like, that a dispatch fits the worker it goes to, that the
  worker is a best one whatever the order of the worker table, and that the pick of the next
  request finds one whenever there is one.
\<close>

section \<open>Batches\<close>







section \<open>The choice of a worker\<close>



text \<open>
  C23. The choice does not depend on the iteration order of the worker table: if the totals of the
  eligible workers are numbers and their identifiers differ, two tables with the same workers give
  the same worker.
\<close>

theorem select_worker_order_free:
  fixes s s' :: Impl and now :: ClockTime
  assumes "set (im_workers s') = set (im_workers s)" and "im_cfg s' = im_cfg s" and "req_at s' m = req_at s m"
    and "\<And>k wr k' wr'. (k, wr) \<in> set (im_workers s) \<Longrightarrow> (k', wr') \<in> set (im_workers s) \<Longrightarrow>
      reg_worker (wk_registration wr) = reg_worker (wk_registration wr') \<Longrightarrow> wr = wr'"
    and "\<And>k wr. (k, wr) \<in> set (im_workers s) \<Longrightarrow> ws_total (score_worker (im_cfg s) wr (rec_spec (req_at s m)) cost now) \<noteq> NaN"
  shows "fst (select_worker (m # ms) cost now s') = fst (select_worker (m # ms) cost now s)"
proof -
  let ?f = "\<lambda>(k, wr). score_worker (im_cfg s) wr (rec_spec (req_at s m)) cost now"
  have "fold (keep better_score) (filter ws_eligible (map ?f (im_workers s'))) None =
      fold (keep better_score) (filter ws_eligible (map ?f (im_workers s))) None"
  proof (rule score.fold_keep_order)
    show "set (filter ws_eligible (map ?f (im_workers s'))) = set (filter ws_eligible (map ?f (im_workers s)))"
      using assms(1) by simp
    fix a b
    assume ab: "a \<in> set (filter ws_eligible (map ?f (im_workers s)))" "b \<in> set (filter ws_eligible (map ?f (im_workers s)))" "a \<noteq> b"
    from ab obtain k wr k' wr' where a: "(k, wr) \<in> set (im_workers s)" "a = ?f (k, wr)"
      and b: "(k', wr') \<in> set (im_workers s)" "b = ?f (k', wr')"
      by auto
    have "ws_total a \<noteq> NaN" "ws_total b \<noteq> NaN" "ws_worker a \<noteq> ws_worker b"
      using assms(5) [OF a(1)] assms(5) [OF b(1)] assms(4) [OF a(1) b(1)] ab(3) a(2) b(2) by auto
    then show "better_score a b \<or> better_score b a"
      using dlt_total deq_sym unfolding better_score_def by (metis linorder_neqE)
  qed
  then show ?thesis
    using assms(2,3) by (simp add: select_worker_def Let_def best_score_fold)
qed

definition ex_twin :: WorkerRecord where
  \<comment> \<open>a second worker like the first\<close>
  "ex_twin = ex_wrk\<lparr>wk_registration := ex_reg\<lparr>reg_worker := 8\<rparr>\<rparr>"

theorem select_worker_order_free_witness:
  "fst (select_worker [30064771073] (Fin 1 0) 0 (ex_ready_state\<lparr>im_workers := [(8, ex_twin), (9, ex_wrk)]\<rparr>)) =
   fst (select_worker [30064771073] (Fin 1 0) 0 (ex_ready_state\<lparr>im_workers := [(9, ex_wrk), (8, ex_twin)]\<rparr>))"
proof -
  obtain r where "im_requests ex_queued = [(30064771073, r)]" "waiting r"
    by (rule ex_queued_record)
  then have sp: "rec_spec (req_at ex_ready_state 30064771073) = ex_spec"
    by (simp add: req_at_def ex_ready_fields waiting_def)
  let ?cfg = "default_scheduler_config\<lparr>cfg_state_path := ''inference_scheduler_state.bin''\<rparr>"
  have cfg: "im_cfg ex_ready_state = ?cfg"
    by (simp add: ex_ready_fields ex_init_def new_impl_def default_scheduler_config_def)
  have "ws_total (score_worker ?cfg ex_wrk ex_spec (Fin 1 0) 0) \<noteq> NaN"
    and "ws_total (score_worker ?cfg ex_twin ex_spec (Fin 1 0) 0) \<noteq> NaN"
    by code_simp+
  moreover have "reg_worker (wk_registration ex_wrk) = 9" "reg_worker (wk_registration ex_twin) = 8"
    by (simp_all add: ex_wrk_def ex_twin_def ex_reg_def)
  ultimately show ?thesis
    by (intro select_worker_order_free) (auto simp: sp cfg)
qed

section \<open>A dispatch\<close>





end
