(* ===== verification/Picking.thy ===== *)
theory Picking
  imports Guarantees
begin

text \<open>
  The pick of the next request. After the expiry scan nothing queued is late, so the loop of
  \<open>pick_seed\<close> only drops stale entries; its result is that of a plain minimum over the flows
  that have a waiting request, and there is a result whenever there is a waiting request.
\<close>

section \<open>The expiry scan\<close>

definition late :: "ClockTime \<Rightarrow> RequestRecord \<Rightarrow> bool" where
  "late now r \<longleftrightarrow> dl_valid (spec_deadline (rec_spec r)) \<and> expired (spec_deadline (rec_spec r)) now"

lemma expire_due_iff: "expire_due s now rid \<longleftrightarrow> (\<exists>r. find_req s rid = Some r \<and> rec_state r = RS_Queued \<and> late now r)"
  by (auto simp: expire_due_def late_def split: option.split)

lemma expire_request_other: "x \<noteq> rid \<Longrightarrow> find_req (expire_request rid s) x = find_req s x"
  by (cases "rec_state (req_at s rid) = RS_Queued")
    (simp_all add: expire_request_idle expire_request_def Let_def AList.update_conv')

lemma expire_request_self:
  assumes "find_req s rid = Some r" and "rec_state r = RS_Queued"
  shows "\<exists>r'. find_req (expire_request rid s) rid = Some r' \<and> rec_state r' = RS_Expired \<and> same_id r' r"
proof -
  have "rec_state (req_at s rid) = RS_Queued"
    using assms by simp
  then show ?thesis
    by (rule expire_request_effect) (use assms in \<open>auto simp: AList.update_conv'\<close>)
qed

text \<open>
  A loop over distinct requests in which each round writes the record of its own request only: the
  others stay as they are, and each request of the loop has the record its own round gives it.
\<close>

lemma fold_pointwise:
  assumes other: "\<And>x y s. x \<noteq> y \<Longrightarrow> find_req (f y s) x = find_req s x"
    and keeps: "\<And>y s. I s \<Longrightarrow> I (f y s)" and "distinct xs" and "I s"
  shows "if x \<in> set xs then \<exists>t. I t \<and> find_req t x = find_req s x \<and> find_req (fold f xs s) x = find_req (f x t) x
    else find_req (fold f xs s) x = find_req s x"
  using assms(3,4)
proof (induction xs arbitrary: s)
  case (Cons y ys)
  have rest: "if x \<in> set ys then \<exists>t. I t \<and> find_req t x = find_req (f y s) x \<and> find_req (fold f ys (f y s)) x = find_req (f x t) x
      else find_req (fold f ys (f y s)) x = find_req (f y s) x"
    by (rule Cons.IH) (use Cons.prems keeps in simp_all)
  show ?case
  proof (cases "x = y")
    case True
    then show ?thesis
      using rest Cons.prems by auto
  next
    case False
    then show ?thesis
      using rest other by auto
  qed
qed simp

lemma expire_round:
  "x \<noteq> y \<Longrightarrow> find_req (case find_req s y of None \<Rightarrow> s | Some _ \<Rightarrow> expire_request y s) x = find_req s x"
  by (simp add: expire_request_other split: option.split)

lemma expire_scan_record:
  assumes "queue_inv s" and "find_req s rid = Some r"
  shows "if rec_state r = RS_Queued \<and> late now r
    then \<exists>r'. find_req (expire_scan now s) rid = Some r' \<and> rec_state r' = RS_Expired \<and> same_id r' r
    else find_req (expire_scan now s) rid = Some r"
proof -
  have dist: "distinct (filter (expire_due s now) (im_queued s))"
    using assms(1) by (simp add: queue_inv_def)
  have mem: "rid \<in> set (filter (expire_due s now) (im_queued s)) \<longleftrightarrow> rec_state r = RS_Queued \<and> late now r"
    using assms by (auto simp: queue_inv_def queued_state_def expire_due_iff)
  let ?f = "\<lambda>rid s. case find_req s rid of None \<Rightarrow> s | Some _ \<Rightarrow> expire_request rid s"
  have "if rid \<in> set (filter (expire_due s now) (im_queued s))
    then \<exists>t. True \<and> find_req t rid = find_req s rid \<and> find_req (expire_scan now s) rid = find_req (?f rid t) rid
    else find_req (expire_scan now s) rid = find_req s rid"
    unfolding expire_scan_def by (rule fold_pointwise [OF expire_round _ dist]) simp_all
  then show ?thesis
    using assms(2) mem expire_request_self by (auto split: if_splits)
qed

lemma reachable_queue: "reach well_behaved (new_impl cfg now0 salt ep) s \<Longrightarrow> queue_inv s"
  using sys_invD(2) [OF reachable_sys] by (simp add: index_inv_def)

text \<open>
  C18. The expiry scan is exact: a queued request whose deadline has passed becomes \<open>Expired\<close>, with its
  identifiers and attempts unchanged, and every other record stays as it is, so no queued request
  is late afterwards.
\<close>

theorem expire_scan_exact:
  assumes "reach well_behaved (new_impl cfg now0 salt ep) s" and "find_req s rid = Some r"
  shows "if rec_state r = RS_Queued \<and> late now r
    then \<exists>r'. find_req (expire_scan now s) rid = Some r' \<and> rec_state r' = RS_Expired \<and> same_id r' r
    else find_req (expire_scan now s) rid = Some r"
  using reachable_queue [OF assms(1)] assms(2) by (rule expire_scan_record)

theorem expire_scan_exact_witness: "rec_state (req_at (expire_scan 5 ex_queued) 30064771073) = RS_Queued"
proof (rule ex_queued_record)
  fix r
  assume "im_requests ex_queued = [(30064771073, r)]" and r: "waiting r" "rec_state r = RS_Queued"
  then have found: "find_req ex_queued 30064771073 = Some r"
    by simp
  have reach: "reach well_behaved (new_impl default_scheduler_config 0 7 None) ex_queued"
    using ex_reach(1) by (simp add: ex_init_def)
  have "\<not> late 5 r"
    using r by (simp add: late_def waiting_def ex_spec_fields)
  then show ?thesis
    using expire_scan_exact [OF reach found, of 5] r by (simp add: req_at_def)
qed

section \<open>The pick as a minimum\<close>

definition none_late :: "ClockTime \<Rightarrow> Impl \<Rightarrow> bool" where
  "none_late now s \<longleftrightarrow> (\<forall>rid r. find_req s rid = Some r \<longrightarrow> rec_state r = RS_Queued \<longrightarrow> \<not> late now r)"

definition live_pending :: "Impl \<Rightarrow> FlowKey \<Rightarrow> ReadyEntry list" where
  "live_pending s k = dropWhile (entry_stale s) (fl_pending (flow_at s k))"

definition flow_before :: "double \<times> FlowKey \<Rightarrow> double \<times> FlowKey \<Rightarrow> bool" where
  "flow_before a b \<longleftrightarrow> dlt (fst a) (fst b) \<or> (deq (fst a) (fst b) \<and> snd a < snd b)"

definition flow_rank :: "ClockTime \<Rightarrow> Impl \<Rightarrow> FlowKey \<Rightarrow> double \<times> FlowKey" where
  "flow_rank now s k = (effective_finish (im_cfg s) (flow_at s k) (req_at s (re_id (hd (live_pending s k)))) now, k)"

definition waiting_flows :: "Impl \<Rightarrow> FlowKey list" where
  "waiting_flows s = filter (\<lambda>k. live_pending s k \<noteq> []) (im_active_flows s)"

definition pick_reference :: "ClockTime \<Rightarrow> Impl \<Rightarrow> RequestId option" where
  "pick_reference now s = map_option (\<lambda>b. re_id (hd (live_pending s (snd b))))
     (fold (keep flow_before) (map (flow_rank now s) (waiting_flows s)) None)"

interpretation flows: strict_order flow_before
proof
  show "flow_before x y \<Longrightarrow> \<not> flow_before y x" for x y
    by (auto simp: flow_before_def dest: dlt_asym dlt_not_deq deq_sym)
  show "flow_before x y \<Longrightarrow> flow_before y z \<Longrightarrow> flow_before x z" for x y z
    by (auto simp: flow_before_def dest: dlt_trans deq_trans intro: deq_dlt dlt_deq deq_sym)
qed

lemma better_flow_keep: "better_flow = keep flow_before"
  by (intro ext) (simp add: better_flow_def keep_def flow_before_def split: option.split)

lemma purge_none_late:
  assumes "queue_inv s" and "none_late now s"
  shows "purge now q s = (dropWhile (entry_stale s) q, s)"
proof (induction q)
  case (Cons e q)
  have "\<not> late now (req_at s (re_id e))" if "\<not> entry_stale s e"
    using that assms by (auto simp: entry_stale_def queue_inv_def queued_state_def none_late_def split: option.splits)
  then show ?case
    using Cons by (auto simp: late_def Let_def)
qed simp

lemma effective_finish_pending [simp]: "effective_finish cfg (f\<lparr>fl_pending := q\<rparr>) r now = effective_finish cfg f r now"
  by (simp add: effective_finish_def Let_def)

text \<open>What a round of the loop writes is nothing the result depends on.\<close>

definition same_ready :: "Impl \<Rightarrow> Impl \<Rightarrow> bool" where
  "same_ready s t \<longleftrightarrow> im_requests t = im_requests s \<and> im_queued t = im_queued s \<and>
     im_global_queued t = im_global_queued s \<and> (\<forall>k. live_pending t k = live_pending s k) \<and>
     (\<forall>now k. flow_rank now t k = flow_rank now s k)"

lemma same_ready_round:
  "same_ready s (modify_flow k (\<lambda>f. f\<lparr>fl_pending := live_pending s k\<rparr>) s)"
  "same_ready s t \<Longrightarrow> same_ready s (t\<lparr>im_active_flows := a\<rparr>)"
proof -
  have stale [simp]: "entry_stale (modify_flow k f s) = entry_stale s" "entry_stale (t\<lparr>im_active_flows := a\<rparr>) = entry_stale t"
    for f s t a
    by (simp_all add: entry_stale_def fun_eq_iff split: option.split)
  have [simp]: "dropWhile (entry_stale s) (live_pending s k) = live_pending s k"
    by (simp add: live_pending_def)
  have live [simp]: "live_pending (modify_flow k (\<lambda>f. f\<lparr>fl_pending := live_pending s k\<rparr>) s) k' = live_pending s k'" for k'
    by (simp add: live_pending_def [of "modify_flow k f s" for f])
      (simp add: live_pending_def)
  show "same_ready s (modify_flow k (\<lambda>f. f\<lparr>fl_pending := live_pending s k\<rparr>) s)"
    by (simp add: same_ready_def flow_rank_def)
  show "same_ready s (t\<lparr>im_active_flows := a\<rparr>)" if "same_ready s t"
  proof -
    have [simp]: "live_pending (t\<lparr>im_active_flows := a\<rparr>) k = live_pending t k" for k
      by (simp add: live_pending_def)
    have "flow_rank now (t\<lparr>im_active_flows := a\<rparr>) k = flow_rank now t k" for now k
      by (simp add: flow_rank_def)
    then show ?thesis
      using that by (simp add: same_ready_def)
  qed
qed

lemma same_ready_inv:
  assumes "same_ready s t" and "queue_inv s" and "none_late now s"
  shows "queue_inv t" and "none_late now t"
  using assms by (simp_all add: same_ready_def queue_inv_def none_late_def queued_state_def)

lemma pick_loop_reference:
  assumes "queue_inv s" and "none_late now s"
  shows "fst (pick_loop now ks best s) = fold (keep flow_before) (map (flow_rank now s) (filter (\<lambda>k. live_pending s k \<noteq> []) ks)) best \<and>
    (\<forall>k. fl_pending (flow_at (snd (pick_loop now ks best s)) k) =
       (if k \<in> set ks then live_pending s k else fl_pending (flow_at s k)))"
  using assms
proof (induction ks arbitrary: best s)
  case (Cons k ks)
  let ?q = "live_pending s k"
  let ?t = "modify_flow k (\<lambda>f. f\<lparr>fl_pending := ?q\<rparr>) s"
  let ?u = "?t\<lparr>im_active_flows := uset_erase k (im_active_flows s)\<rparr>"
  have purge: "purge now (fl_pending (flow_at s k)) s = (?q, s)"
    using purge_none_late [OF Cons.prems] by (simp add: live_pending_def)
  have same: "same_ready s ?t" "same_ready s ?u"
    using same_ready_round by blast+
  note IH = Cons.IH [OF same_ready_inv [OF same(1) Cons.prems]] Cons.IH [OF same_ready_inv [OF same(2) Cons.prems]]
  have pend: "fl_pending (flow_at ?t k') = (if k' = k then ?q else fl_pending (flow_at s k'))"
    "fl_pending (flow_at ?u k') = (if k' = k then ?q else fl_pending (flow_at s k'))" for k'
    by simp_all
  show ?case
  proof (cases ?q)
    case Nil
    then have "pick_loop now (k # ks) best s = pick_loop now ks best ?u"
      using purge by (simp add: Let_def)
    then show ?thesis
      using IH(2) [of best] same(2) Nil pend(2) by (simp add: same_ready_def del: pick_loop.simps)
  next
    case (Cons e q)
    have "flow_rank now s k = (effective_finish (im_cfg ?t) (flow_at ?t k) (req_at ?t (re_id e)) now, k)"
      using Cons by (simp add: flow_rank_def)
    then have "pick_loop now (k # ks) best s = pick_loop now ks (keep flow_before (flow_rank now s k) best) ?t"
      using purge Cons by (simp add: Let_def better_flow_keep)
    then show ?thesis
      using IH(1) [of "keep flow_before (flow_rank now s k) best"] same(1) Cons pend(1)
      by (simp add: same_ready_def del: pick_loop.simps)
  qed
qed simp

lemma pick_seed_reference:
  assumes "queue_inv s" and "none_late now s"
  shows "fst (pick_seed now s) = pick_reference now s"
proof -
  note loop = pick_loop_reference [OF assms, of "im_active_flows s" None]
  obtain best t where p: "pick_loop now (im_active_flows s) None s = (best, t)"
    by fastforce
  then have best: "best = fold (keep flow_before) (map (flow_rank now s) (waiting_flows s)) None"
    and pend: "\<And>k. k \<in> set (im_active_flows s) \<Longrightarrow> fl_pending (flow_at t k) = live_pending s k"
    using loop by (simp_all add: waiting_flows_def)
  show ?thesis
  proof (cases best)
    case None
    then show ?thesis
      using p best by (simp add: pick_seed_def pick_reference_def)
  next
    case (Some b)
    then have "b \<in> set (map (flow_rank now s) (waiting_flows s))"
      using flows.fold_keep_best [of "map (flow_rank now s) (waiting_flows s)" None b] best by simp
    then have "snd b \<in> set (im_active_flows s)" "live_pending s (snd b) \<noteq> []"
      by (auto simp: flow_rank_def waiting_flows_def)
    then show ?thesis
      using p Some pend [of "snd b"] best [symmetric]
      by (cases "live_pending s (snd b)") (simp_all add: pick_seed_def pick_reference_def)
  qed
qed

lemma expire_scan_absent: "find_req s rid = None \<Longrightarrow> find_req (expire_scan now s) rid = None"
proof -
  have "find_req (fold (\<lambda>rid s. case find_req s rid of None \<Rightarrow> s | Some _ \<Rightarrow> expire_request rid s) xs s) rid = None"
    if "find_req s rid = None" for xs
    using that
  proof (induction xs arbitrary: s)
    case (Cons x xs)
    have "find_req (case find_req s x of None \<Rightarrow> s | Some _ \<Rightarrow> expire_request x s) rid = None"
      using Cons.prems by (cases "x = rid") (simp_all add: expire_request_other split: option.split)
    then show ?case
      using Cons.IH by simp
  qed simp
  then show "find_req s rid = None \<Longrightarrow> find_req (expire_scan now s) rid = None"
    by (simp add: expire_scan_def)
qed

lemma expire_scan_queued:
  assumes "queue_inv s"
  shows "find_req (expire_scan now s) rid = Some r \<and> rec_state r = RS_Queued \<longleftrightarrow>
    find_req s rid = Some r \<and> rec_state r = RS_Queued \<and> \<not> late now r"
proof (cases "find_req s rid")
  case None
  then show ?thesis
    by (simp add: expire_scan_absent)
next
  case (Some x)
  then show ?thesis
    using expire_scan_record [OF assms Some, of now] by (auto split: if_splits)
qed

lemma expire_scan_ready:
  assumes "reach well_behaved (new_impl cfg now0 salt ep) s"
  shows "queue_inv (expire_scan now s)" and "none_late now (expire_scan now s)" and "index_inv (expire_scan now s)"
proof -
  show "index_inv (expire_scan now s)"
    by (rule sys_invD(2) [OF own.inv_expire_scan [OF reachable_sys [OF assms]]])
  then show "queue_inv (expire_scan now s)"
    by (simp add: index_inv_def)
  show "none_late now (expire_scan now s)"
    using expire_scan_queued [OF reachable_queue [OF assms]] by (auto simp: none_late_def)
qed

lemma fresh_entry_queued:
  assumes "queue_inv s" and "\<not> entry_stale s e"
  shows "queued_state s (re_id e)"
  using assms by (auto simp: entry_stale_def queue_inv_def split: option.splits)

lemma waiting_flow_iff:
  assumes "index_inv s"
  shows "waiting_flows s = [] \<longleftrightarrow> (\<forall>rid. \<not> queued_state s rid)"
proof
  assume none: "\<forall>rid. \<not> queued_state s rid"
  have "live_pending s k = []" for k
    using none fresh_entry_queued assms unfolding live_pending_def index_inv_def by (metis dropWhile_eq_Nil_conv)
  then show "waiting_flows s = []"
    by (simp add: waiting_flows_def)
next
  assume empty: "waiting_flows s = []"
  have False if q: "queued_state s rid" for rid
  proof -
    let ?k = "flow_key (rec_spec (req_at s rid))"
    obtain e where e: "e \<in> set (fl_pending (flow_at s ?k))" "entry_of s rid e"
      using q assms unfolding index_inv_def flow_inv_def by blast
    then have "?k \<in> set (im_active_flows s)"
      using assms unfolding index_inv_def flow_inv_def by (metis empty_iff empty_set)
    moreover have "\<not> entry_stale s e"
      using e(2) q assms by (auto simp: entry_of_def entry_stale_def index_inv_def queue_inv_def queued_state_def req_at_def)
    then have "live_pending s ?k \<noteq> []"
      using e(1) by (auto simp: live_pending_def)
    ultimately show False
      using empty by (simp add: waiting_flows_def filter_empty_conv)
  qed
  then show "\<forall>rid. \<not> queued_state s rid"
    by blast
qed

lemma pick_reference_None: "index_inv s \<Longrightarrow> pick_reference now s = None \<longleftrightarrow> (\<forall>rid. \<not> queued_state s rid)"
  by (simp add: pick_reference_def flows.fold_keep_None waiting_flow_iff)

lemma live_pending_front:
  assumes "index_inv s" and "live_pending s k \<noteq> []"
  shows "hd (live_pending s k) \<in> set (fl_pending (flow_at s k))" and "queued_state s (re_id (hd (live_pending s k)))"
    and "\<forall>e\<in>set (fl_pending (flow_at s k)). entry_stale s e \<or> \<not> urgent e (hd (live_pending s k))"
proof -
  let ?p = "fl_pending (flow_at s k)"
  have split: "?p = takeWhile (entry_stale s) ?p @ live_pending s k"
    by (simp add: live_pending_def)
  then show "hd (live_pending s k) \<in> set ?p"
    using assms(2) by (metis hd_in_set in_set_conv_decomp set_append UnCI)
  have "\<not> entry_stale s (hd (live_pending s k))"
    using assms(2) unfolding live_pending_def by (rule hd_dropWhile)
  then show "queued_state s (re_id (hd (live_pending s k)))"
    using assms(1) fresh_entry_queued by (simp add: index_inv_def)
  have "pq_ordered ?p"
    using assms(1) by (simp add: index_inv_def flow_inv_def)
  then have "pq_ordered (live_pending s k)"
    unfolding pq_ordered_def using split by (metis sorted_wrt_append)
  then have "\<not> urgent e (hd (live_pending s k))" if "e \<in> set (live_pending s k)" for e
    using that by (intro pq.front_first) simp_all
  then show "\<forall>e\<in>set ?p. entry_stale s e \<or> \<not> urgent e (hd (live_pending s k))"
    using split by (metis Un_iff set_append set_takeWhileD)
qed

lemma pick_reference_Some:
  assumes "index_inv s" and "pick_reference now s = Some rid"
  shows "queued_state s rid \<and> (\<exists>k. \<exists>e\<in>set (fl_pending (flow_at s k)). re_id e = rid \<and>
     (\<forall>e'\<in>set (fl_pending (flow_at s k)). entry_stale s e' \<or> \<not> urgent e' e) \<and>
     (\<forall>k'\<in>set (waiting_flows s). \<not> flow_before (flow_rank now s k') (flow_rank now s k)))"
proof -
  obtain b where b: "fold (keep flow_before) (map (flow_rank now s) (waiting_flows s)) None = Some b"
    and rid: "rid = re_id (hd (live_pending s (snd b)))"
    using assms(2) by (auto simp: pick_reference_def)
  obtain k where k: "b = flow_rank now s k" "live_pending s k \<noteq> []"
    using flows.fold_keep_best [OF b] by (auto simp: waiting_flows_def)
  have rid': "rid = re_id (hd (live_pending s k))"
    using rid by (simp add: k(1) flow_rank_def)
  have "\<forall>k'\<in>set (waiting_flows s). \<not> flow_before (flow_rank now s k') (flow_rank now s k)"
    using flows.fold_keep_best [OF b] k(1) by simp
  then show ?thesis
    unfolding rid' using live_pending_front [OF assms(1) k(2)] by blast
qed

text \<open>
  C8. The pick is weighted fair queueing. \<open>plan_next_dispatch\<close> walks over the active flows, drops the
  entries that are out of date and remembers the best flow so far; what it returns is the front
  request of the flow that comes first, by its virtual finish time (boosted when its front request is
  close to its deadline) and then by its key, among the flows that have a waiting request.
\<close>

theorem pick_is_minimum:
  assumes "reach well_behaved (new_impl cfg now0 salt ep) s"
  shows "fst (plan_next_pick s) = pick_reference (im_clock_now s) (expire_scan (im_clock_now s) s)"
  unfolding plan_next_pick_def Let_def using expire_scan_ready(1,2) [OF assms] by (rule pick_seed_reference)

theorem pick_is_minimum_witness:
  "fst (plan_next_pick ex_queued) = pick_reference 0 (expire_scan 0 ex_queued)"
proof -
  have "reach well_behaved (new_impl default_scheduler_config 0 7 None) ex_queued"
    using ex_reach(1) by (simp add: ex_init_def)
  from pick_is_minimum [OF this] show ?thesis
    by (simp add: ex_queued_fields)
qed

text \<open>
  C7. No waiting request is overlooked: a pick fails only when every queued request is late, and what it
  returns is queued and not late. No entry of its flow that is up to date is more urgent, and
  no other flow with a waiting request comes before its flow.
\<close>

theorem pick_live:
  assumes "reach well_behaved (new_impl cfg now0 salt ep) s"
  defines "now \<equiv> im_clock_now s" and "s1 \<equiv> expire_scan (im_clock_now s) s"
  shows "(fst (plan_next_pick s) = None \<longleftrightarrow>
      (\<forall>rid r. find_req s rid = Some r \<and> rec_state r = RS_Queued \<longrightarrow> late now r)) \<and>
    (\<forall>rid. fst (plan_next_pick s) = Some rid \<longrightarrow>
      (\<exists>r. find_req s rid = Some r \<and> rec_state r = RS_Queued \<and> \<not> late now r) \<and>
      (\<exists>k. \<exists>e\<in>set (fl_pending (flow_at s1 k)). re_id e = rid \<and>
         (\<forall>e'\<in>set (fl_pending (flow_at s1 k)). entry_stale s1 e' \<or> \<not> urgent e' e) \<and>
         (\<forall>k'\<in>set (waiting_flows s1). \<not> flow_before (flow_rank now s1 k') (flow_rank now s1 k))))"
proof -
  note ready = expire_scan_ready [OF assms(1), of now]
  have pick: "fst (plan_next_pick s) = pick_reference now s1"
    unfolding plan_next_pick_def Let_def s1_def now_def using ready(1,2) [unfolded now_def] by (rule pick_seed_reference)
  have q: "queued_state s1 rid \<longleftrightarrow> (\<exists>r. find_req s rid = Some r \<and> rec_state r = RS_Queued \<and> \<not> late now r)" for rid
    unfolding queued_state_def s1_def
    using expire_scan_queued [OF reachable_queue [OF assms(1)]] by (auto simp: now_def)
  have ind: "index_inv s1"
    using ready(3) by (simp add: s1_def now_def)
  show ?thesis
    unfolding pick using pick_reference_None [OF ind, of now] pick_reference_Some [OF ind, of now] unfolding q by blast
qed

theorem pick_live_witness: "fst (plan_next_pick ex_queued) = Some 30064771073"
proof (rule ex_queued_record)
  fix r
  assume reqs: "im_requests ex_queued = [(30064771073, r)]" and r: "waiting r" "rec_state r = RS_Queued"
  then have only: "find_req ex_queued rid = Some x \<longleftrightarrow> rid = 30064771073 \<and> x = r" for rid x
    by auto
  have live: "\<not> late (im_clock_now ex_queued) r"
    using r by (simp add: late_def waiting_def ex_spec_fields)
  have reach: "reach well_behaved (new_impl default_scheduler_config 0 7 None) ex_queued"
    using ex_reach(1) by (simp add: ex_init_def)
  show ?thesis
  proof (cases "fst (plan_next_pick ex_queued)")
    case None
    then show ?thesis
      using pick_live [OF reach] only r(2) live by blast
  next
    case (Some rid)
    then show ?thesis
      using pick_live [OF reach] only by metis
  qed
qed

end
