(* ===== verification/Calls.thy ===== *)
theory Calls
  imports Picking
begin

text \<open>
  What single calls do on every branch: submission while draining, reports of another epoch,
  confirmation of a start, cancellation, and the loss of a worker.
\<close>

section \<open>Drain and epoch\<close>





section \<open>The start of a batch member\<close>

definition may_start :: "CompletionReport \<Rightarrow> Impl \<Rightarrow> bool" where
  "may_start rep s \<longleftrightarrow> cr_epoch rep = im_epoch_value s \<and>
     (\<exists>r. find_req s (cr_request_id rep) = Some r \<and> rec_current_attempt r = cr_attempt_id rep \<and>
        rec_generation r = cr_generation rep \<and> rec_state r = RS_Reserved \<and> valid_id (rec_batch_id r)) \<and>
     (\<exists>wr. find_wrk s (cr_worker rep) = Some wr \<and> reg_boot_id (wk_registration wr) = cr_boot_id rep \<and>
        wk_state wr \<notin> {WS_Offline, WS_Unhealthy, WS_Drained})"

text \<open>
  C14. A start is confirmed exactly for the current attempt of a reserved request, by a registered worker under its
  current boot identity that can run work, in the current epoch. Then the request runs and is in flight on that
  worker, and no other record changes; any other report returns an error and changes nothing.
\<close>

theorem confirm_start_exact:
  "if may_start rep s
   then fst (do_confirm_start rep s) = Inr () \<and>
     rec_state (req_at (snd (do_confirm_start rep s)) (cr_request_id rep)) = RS_Running \<and>
     map_of (wk_in_flight (worker_at (snd (do_confirm_start rep s)) (cr_worker rep))) (rec_request_id (req_at s (cr_request_id rep)))
       = Some (cr_attempt_id rep) \<and>
     (\<forall>x. x \<noteq> cr_request_id rep \<longrightarrow> find_req (snd (do_confirm_start rep s)) x = find_req s x)
   else \<exists>e. do_confirm_start rep s = (Inl e, s)"
proof (cases "may_start rep s")
  case True
  then obtain r wr where r: "find_req s (cr_request_id rep) = Some r" "rec_current_attempt r = cr_attempt_id rep"
    and eq: "do_confirm_start rep s =
      (result_ok (), run_request (cr_request_id rep) rep (start_batch (cr_worker rep) (rec_batch_id r) s))"
    and wr: "find_wrk s (cr_worker rep) = Some wr"
    by (auto simp: may_start_def do_confirm_start_def)
  let ?t = "start_batch (cr_worker rep) (rec_batch_id r) s"
  have t: "im_requests ?t = im_requests s"
    by simp
  obtain r' where r': "im_requests (run_request (cr_request_id rep) rep ?t) = AList.update (cr_request_id rep) r' (im_requests ?t)"
    "rec_state r' = RS_Running"
    by (rule run_request_effect)
  have "map_of (wk_in_flight (worker_at (run_request (cr_request_id rep) rep ?t) (cr_worker rep))) (rec_request_id r) = Some (cr_attempt_id rep)"
    by (rule run_request_workers [of "cr_request_id rep" rep ?t])
      (use r in \<open>simp add: worker_at_def [of "run_request a b c" for a b c] map_of_omap_set req_at_def t\<close>)
  then show ?thesis
    using True r r' by (simp add: eq result_ok_def req_at_def AList.update_conv')
next
  case False
  then have "\<exists>e. do_confirm_start rep s = (Inl e, s)"
    by (auto simp: may_start_def do_confirm_start_def split: option.split)
  then show ?thesis
    using False by simp
qed

theorem confirm_start_exact_witness:
  "rec_state (req_at (snd (do_confirm_start ex_report ex_reserved)) 30064771073) = RS_Running"
proof (rule ex_reserved_record)
  fix r
  assume "im_requests ex_reserved = [(30064771073, r)]" "waiting r" "rec_state r = RS_Reserved" "rec_batch_id r = 30064771076"
  then have "may_start ex_report ex_reserved"
    by (simp add: may_start_def ex_report_fields ex_epoch ex_reserved_fields ex_wrk1_fields waiting_def valid_id_def invalid_id_def)
  then show ?thesis
    using confirm_start_exact [of ex_report ex_reserved] by (simp add: ex_report_fields)
qed

section \<open>Cancellation\<close>

text \<open>
  C20. \<open>cancel\<close> on every branch: an unknown request is \<open>NotFound\<close> and a finished one \<open>InvalidState\<close>, both without
  effect; a running request is only marked, and ends when its worker reports; any other one ends as
  cancelled at once. No other record changes.
\<close>

theorem cancel_outcome:
  "case find_req s rid of
     None \<Rightarrow> do_cancel rid reason detail s = (Inl (make_error EC_NotFound ''request not found''), s)
   | Some r \<Rightarrow>
       if is_terminal (rec_state r)
       then do_cancel rid reason detail s = (Inl (make_error EC_InvalidState ''already terminal''), s)
       else fst (do_cancel rid reason detail s) = Inr () \<and>
         (\<forall>x. x \<noteq> rid \<longrightarrow> find_req (snd (do_cancel rid reason detail s)) x = find_req s x) \<and>
         (\<exists>r'. find_req (snd (do_cancel rid reason detail s)) rid = Some r' \<and> same_id r' r \<and>
           (if rec_state r = RS_Dispatched \<or> rec_state r = RS_Running
            then rec_state r' = rec_state r \<and> rec_cancellation_requested r' else rec_state r' = RS_Cancelled))"
proof (cases "find_req s rid")
  case (Some r)
  let ?s1 = "modify_req rid (\<lambda>r. r\<lparr>rec_cancel_reason := reason\<rparr>) s" and ?r1 = "r\<lparr>rec_cancel_reason := reason\<rparr>"
  have end_as: "(\<forall>x. x \<noteq> rid \<longrightarrow> find_req (finish_cancelled rid w m ?s1) x = find_req s x) \<and>
      (\<exists>r'. find_req (finish_cancelled rid w m ?s1) rid = Some r' \<and> same_id r' r \<and> rec_state r' = RS_Cancelled)"
    if "\<not> is_terminal (rec_state r)" for w m
  proof -
    have nt: "\<not> is_terminal (rec_state (req_at ?s1 rid))"
      using that Some by simp
    obtain r' where req: "im_requests (finish_cancelled rid w m ?s1) = AList.update rid r' (im_requests ?s1)"
      and r': "rec_state r' = RS_Cancelled" "same_id r' (req_at ?s1 rid)"
      by (rule finish_cancelled_effect [OF nt])
    have "same_id r' r"
      using r'(2) Some by (simp add: same_id_def hist_ids_def)
    then show ?thesis
      using r'(1) by (simp add: req AList.update_conv')
  qed
  show ?thesis
  proof (cases "is_terminal (rec_state r) \<or> rec_state r = RS_Dispatched \<or> rec_state r = RS_Running")
    case True
    then show ?thesis
      using Some by (auto simp: do_cancel_def Let_def result_ok_def AList.update_conv' same_id_def hist_ids_def is_terminal_def)
  next
    case False
    then show ?thesis
      using Some end_as by (auto simp: do_cancel_def Let_def result_ok_def)
  qed
qed (simp add: do_cancel_def)

theorem cancel_outcome_witness:
  "\<exists>r'. find_req (snd (do_cancel 30064771073 CR_ClientRequested [] ex_queued)) 30064771073 = Some r' \<and> rec_state r' = RS_Cancelled"
proof (rule ex_queued_record)
  fix r
  assume "im_requests ex_queued = [(30064771073, r)]" and "rec_state r = RS_Queued"
  then show ?thesis
    using cancel_outcome [where s = ex_queued and rid = 30064771073 and reason = CR_ClientRequested and detail = "[]"] by (auto simp: is_terminal_def)
qed



lemma cancel_queued_self:
  assumes "find_req s rid = Some r" and "\<not> is_terminal (rec_state r)"
  shows "\<exists>r'. find_req (cancel_queued detail rid s) rid = Some r' \<and> rec_state r' = RS_Cancelled"
proof -
  let ?s = "modify_req rid (\<lambda>r. r\<lparr>rec_cancel_reason := CR_SchedulerDrain\<rparr>) s"
  have nt: "\<not> is_terminal (rec_state (req_at ?s rid))"
    using assms by simp
  have "\<exists>r'. find_req (finish_cancelled rid invalid_id m ?s) rid = Some r' \<and> rec_state r' = RS_Cancelled" for m
    by (rule finish_cancelled_effect [OF nt, of invalid_id m]) (simp add: AList.update_conv')
  then show ?thesis
    using assms by (simp add: cancel_queued_def)
qed

text \<open>
  C19. Cancelling everything that is queued empties the queue: each queued request ends as cancelled, no other
  record changes, and afterwards the queued set and the global counter are empty.
\<close>

theorem cancel_all_empties:
  assumes "reach well_behaved (new_impl cfg now salt ep) s" and "do_cancel_all_queued detail s = (res, s')"
  shows "im_queued s' = [] \<and> im_global_queued s' = 0 \<and>
    (\<forall>rid. if rid \<in> set (im_queued s) then rec_state (req_at s' rid) = RS_Cancelled else find_req s' rid = find_req s rid)"
proof -
  have inv: "sys_inv s" and q: "queue_inv s"
    using reachable_sys [OF assms(1)] reachable_queue [OF assms(1)] by simp_all
  have s': "s' = fold (cancel_queued detail) (im_queued s) s"
    using assms(2) by (simp add: do_cancel_all_queued_def)
  have waiting: "queued_state s x" if "x \<in> set (im_queued s)" for x
    using that q by (simp add: queue_inv_def)
  have dist: "distinct (im_queued s)"
    using q by (simp add: queue_inv_def)
  have each: "if rid \<in> set (im_queued s)
    then \<exists>t. True \<and> find_req t rid = find_req s rid \<and> find_req s' rid = find_req (cancel_queued detail rid t) rid
    else find_req s' rid = find_req s rid" for rid
    unfolding s' by (rule fold_pointwise [OF cancel_queued_other _ dist]) simp_all
  have rec: "if rid \<in> set (im_queued s) then rec_state (req_at s' rid) = RS_Cancelled else find_req s' rid = find_req s rid" for rid
  proof (cases "rid \<in> set (im_queued s)")
    case True
    then obtain t r where "find_req t rid = Some r" "rec_state r = RS_Queued"
      and "find_req s' rid = find_req (cancel_queued detail rid t) rid"
      using each [of rid] waiting [of rid] by (auto simp: queued_state_def)
    then show ?thesis
      using True cancel_queued_self [of t rid r detail] by (auto simp: is_terminal_def)
  qed (use each [of rid] in simp)
  have "sys_inv s'"
    unfolding s' using inv dist waiting by (rule sys_cancel_all)
  then have q': "queue_inv s'"
    using sys_invD(2) by (simp add: index_inv_def)
  have "rid \<notin> set (im_queued s')" for rid
    using rec [of rid] q q' by (auto simp: queue_inv_def queued_state_def split: if_splits)
  then have "im_queued s' = []"
    by (metis list.set_intros(1) neq_Nil_conv)
  then show ?thesis
    using rec q' by (simp add: queue_inv_def)
qed

theorem cancel_all_empties_witness: "im_queued (snd (do_cancel_all_queued ''stop'' ex_queued)) = []"
proof -
  have "reach well_behaved (new_impl default_scheduler_config 0 7 None) ex_queued"
    using ex_reach(1) by (simp add: ex_init_def)
  from cancel_all_empties [OF this prod.collapse [symmetric], of "''stop''"] show ?thesis
    by blast
qed

section \<open>The loss of a worker\<close>

lemma recover_request_other: "x \<noteq> rid \<Longrightarrow> find_req (recover_request w rid s) x = find_req s x"
proof -
  assume x: "x \<noteq> rid"
  have retry: "find_req (make_retry rid rep t) x = find_req t x" for rep t
    by (rule make_retry_effect [of rid rep t]) (use x in \<open>simp add: AList.update_conv'\<close>)
  have failed: "find_req (finish_failed rid rep t) x = find_req t x" for rep t
    using finish_failed_effect [of rid rep t] x by (auto simp: ends_as_def AList.update_conv')
  show ?thesis
    by (simp add: recover_request_def Let_def retry failed split: option.split)
qed

definition recovered :: "Impl \<Rightarrow> RequestRecord \<Rightarrow> RequestRecord \<Rightarrow> bool" where
  "recovered s r r' \<longleftrightarrow> rec_spec r' = rec_spec r \<and> \<not> rec_in_batch r' \<and>
     (if can_retry (im_cfg s) r (im_clock_now s)
      then rec_state r' = RS_Queued \<and> hist_ids r' = hist_ids r @ [(rec_current_attempt r', rec_generation r')]
      else rec_state r' = RS_Failed \<and> hist_ids r' = hist_ids r)"

lemma recover_request_self:
  assumes "find_req s rid = Some r" and "\<not> is_terminal (rec_state r)" and "find_wrk s w \<noteq> None"
  shows "\<exists>r'. find_req (recover_request w rid s) rid = Some r' \<and> recovered s r r'"
proof -
  let ?t = "modify_tenant_present (spec_tenant (rec_spec r)) dec_running s" and ?rep = "restart_report s w rid"
  have t: "req_at ?t rid = r" "find_wrk ?t (cr_worker ?rep) \<noteq> None"
    using assms by (simp_all add: restart_report_def)
  have eq: "recover_request w rid s =
      (if can_retry (im_cfg s) r (im_clock_now s) then make_retry rid ?rep ?t else finish_failed rid ?rep ?t)"
    using assms by (simp add: recover_request_def Let_def)
  show ?thesis
  proof (cases "can_retry (im_cfg s) r (im_clock_now s)")
    case True
    have "\<exists>r'. find_req (make_retry rid ?rep ?t) rid = Some r' \<and> recovered s r r'"
      by (rule make_retry_effect [of rid ?rep ?t]) (use t(1) True in \<open>auto simp: recovered_def AList.update_conv'\<close>)
    then show ?thesis
      using True eq by simp
  next
    case False
    have "\<exists>r'. find_req (finish_failed rid ?rep ?t) rid = Some r' \<and> recovered s r r'"
      using finish_failed_effect [of rid ?rep ?t] t False
      by (auto simp: recovered_def ends_as_def AList.update_conv' released_def same_id_def)
    then show ?thesis
      using False eq by simp
  qed
qed

lemma recover_in_flight_requests:
  assumes "sys_inv s" and "find_wrk s w = Some wr" and "find_req s rid = Some r"
  shows "if rid \<in> set (map fst (wk_in_flight wr))
    then \<exists>r'. find_req (recover_in_flight w s) rid = Some r' \<and> recovered s r r'
    else find_req (recover_in_flight w s) rid = Some r"
proof -
  let ?ids = "map fst (wk_in_flight wr)"
  let ?I = "\<lambda>t. im_cfg t = im_cfg s \<and> im_clock_now t = im_clock_now s \<and> find_wrk t w \<noteq> None"
  have req: "im_requests (recover_in_flight w s) = im_requests (fold (recover_request w) ?ids s)"
    using assms(2) by (simp add: recover_in_flight_def Let_def)
  have keeps: "?I (recover_request w y t)" if "?I t" for y t
    using that find_wrk_recover_request by fastforce
  have fold: "if rid \<in> set ?ids
    then \<exists>t. ?I t \<and> find_req t rid = find_req s rid \<and> find_req (fold (recover_request w) ?ids s) rid = find_req (recover_request w rid t) rid
    else find_req (fold (recover_request w) ?ids s) rid = find_req s rid"
    by (rule fold_pointwise [where f = "recover_request w" and I = ?I, OF recover_request_other keeps in_flight_ids(1)])
      (use assms(1,2) in simp_all)
  have live: "\<not> is_terminal (rec_state r)" if "rid \<in> set ?ids"
    by (rule flyingE [OF sys_invD(3) [OF assms(1)] in_flight_ids(2) [OF assms(1,2) that]])
      (use assms(3) in \<open>simp add: is_terminal_def\<close>)
  show ?thesis
  proof (cases "rid \<in> set ?ids")
    case True
    then obtain t where t: "?I t" "find_req t rid = Some r"
      and rid: "find_req (fold (recover_request w) ?ids s) rid = find_req (recover_request w rid t) rid"
      using fold assms(3) by auto
    have "\<exists>r'. find_req (recover_request w rid t) rid = Some r' \<and> recovered t r r'"
      using t(2) live [OF True] by (rule recover_request_self) (use t(1) in simp)
    moreover have "recovered t r = recovered s r"
      using t(1) by (simp add: recovered_def fun_eq_iff)
    ultimately show ?thesis
      using True rid by (simp only: req if_True)
  next
    case False
    then show ?thesis
      using fold assms(3) by (simp only: req if_False)
  qed
qed

text \<open>
  C10. Losing a worker loses no running request. When a worker is unregistered, each request it had in flight leaves its
  batch and is queued again under a new attempt when the retry policy allows it, and ends as failed otherwise; no
  other record changes, and the worker is gone.
\<close>

theorem worker_lost_recovers:
  assumes "reach well_behaved (new_impl cfg now salt ep) s" and "find_wrk s w = Some wr"
    and "do_unregister_worker w s = (res, s')" and "find_req s rid = Some r"
  shows "res = Inr () \<and> find_wrk s' w = None \<and>
    (if rid \<in> set (map fst (wk_in_flight wr)) then \<exists>r'. find_req s' rid = Some r' \<and> recovered s r r'
     else find_req s' rid = Some r)"
proof -
  have "res = Inr ()" "im_requests s' = im_requests (recover_in_flight w s)"
    "im_workers s' = AList.delete w (im_workers (recover_in_flight w s))"
    using assms(2,3) by (auto simp: do_unregister_worker_def Let_def result_ok_def)
  then show ?thesis
    using recover_in_flight_requests [OF reachable_sys [OF assms(1)] assms(2,4)] by (simp add: delete_conv)
qed

theorem worker_lost_recovers_witness:
  "\<exists>r r'. find_req ex_running 30064771073 = Some r \<and> rec_state r = RS_Running \<and>
     find_req (snd (do_unregister_worker 9 ex_running)) 30064771073 = Some r' \<and> recovered ex_running r r'"
proof (rule ex_running_record)
  fix r wr
  assume req: "im_requests ex_running = [(30064771073, r)]" and r: "rec_state r = RS_Running"
    and wr: "im_workers ex_running = [(9, wr)]" "wk_in_flight wr = [(30064771073, 30064771075)]"
  have "reach well_behaved (new_impl default_scheduler_config 0 7 None) ex_running"
    using ex_reach(4) by (simp add: ex_init_def)
  from worker_lost_recovers [OF this _ prod.collapse [symmetric], of 9 wr 30064771073 r] show ?thesis
    using req r wr by auto
qed

lemma find_wrk_recover_other: "v \<noteq> w \<Longrightarrow> find_wrk (recover_in_flight w s) v = find_wrk s v"
proof -
  assume v: "v \<noteq> w"
  then have one: "find_wrk (recover_request w rid t) v = find_wrk t v" for rid t
    by (auto simp: recover_request_def Let_def make_retry_tables finish_failed_tables release_batch_member_workers
        restart_report_def AList.update_conv' split: option.split)
  have "find_wrk (fold (recover_request w) xs t) v = find_wrk t v" for xs t
    by (induction xs arbitrary: t) (simp_all add: one)
  then show ?thesis
    using v by (simp add: recover_in_flight_def Let_def AList.update_conv' split: option.split)
qed

text \<open>
  C25. What is reserved but not started is not recovered. When a worker is unregistered, a request reserved on it keeps
  its record: it is still \<open>Reserved\<close>, is not queued, and the batch it names is held by no worker any more.
\<close>

theorem reserved_stranded:
  assumes "reach well_behaved (new_impl cfg now salt ep) s" and "well_behaved s (UnregisterWorker w)"
    and "find_req s rid = Some r" and "rec_state r = RS_Reserved" and "holds s w (rec_batch_id r)"
    and "do_unregister_worker w s = (res, s')"
  shows "find_req s' rid = Some r \<and> rid \<notin> set (im_queued s') \<and> (\<forall>v. \<not> holds s' v (rec_batch_id r))"
proof -
  have inv: "sys_inv s"
    using assms(1) by (rule reachable_sys)
  obtain wr where wr: "find_wrk s w = Some wr"
    using assms(5) by (auto simp: holds_def)
  have s': "s' = exec (UnregisterWorker w) s"
    and tables: "im_requests s' = im_requests (recover_in_flight w s)"
      "im_workers s' = AList.delete w (im_workers (recover_in_flight w s))"
    using assms(6) wr by (auto simp: do_unregister_worker_def Let_def)
  have "rid \<notin> set (map fst (wk_in_flight wr))"
  proof
    assume "rid \<in> set (map fst (wk_in_flight wr))"
    then show False
      by (rule flyingE [OF sys_invD(3) [OF inv] in_flight_ids(2) [OF inv wr]]) (use assms(3,4) in simp)
  qed
  then have found: "find_req s' rid = Some r"
    using recover_in_flight_requests [OF inv wr assms(3)] tables(1) by simp
  have "queue_inv s'"
    using sys_invD(2) [OF own.inv_exec [OF inv assms(2)]] unfolding s' by (simp add: index_inv_def)
  then have "rid \<notin> set (im_queued s')"
    using found assms(4) by (simp add: queue_inv_def queued_state_def)
  moreover have "\<not> holds s' v (rec_batch_id r)" for v
  proof
    assume h: "holds s' v (rec_batch_id r)"
    then have "v \<noteq> w" and "holds s v (rec_batch_id r)"
      using find_wrk_recover_other [of v w s] by (auto simp: holds_def tables(2) delete_conv split: if_splits)
    then show False
      using sys_invD(3) [OF inv] assms(5) by (auto simp: batch_inv_def held_once_def)
  qed
  ultimately show ?thesis
    using found by blast
qed

theorem reserved_stranded_witness:
  "\<exists>r. find_req (snd (do_unregister_worker 9 ex_reserved)) 30064771073 = Some r \<and> rec_state r = RS_Reserved"
proof (rule ex_reserved_record)
  fix r
  assume req: "im_requests ex_reserved = [(30064771073, r)]" and r: "rec_state r = RS_Reserved" "rec_batch_id r = 30064771076"
  have reach: "reach well_behaved (new_impl default_scheduler_config 0 7 None) ex_reserved"
    using ex_reach(3) by (simp add: ex_init_def)
  have wb: "well_behaved ex_reserved (UnregisterWorker 9)"
    using ex_wb_start by (simp add: well_behaved_def submits_def fresh_submit_def)
  have h: "holds ex_reserved 9 (rec_batch_id r)"
    by (simp add: holds_def ex_reserved_fields ex_wrk1_fields r)
  have "find_req ex_reserved 30064771073 = Some r"
    by (simp add: req)
  from reserved_stranded [OF reach wb this r(1) h prod.collapse [symmetric]] show ?thesis
    using r(1) by blast
qed

end
