(* ===== verification/Codec.thy ===== *)
theory Codec
  imports Doubles Ids "HOL-Library.State_Monad"
begin

text \<open>
  The binary encoding of the persisted state: \<open>BinWriter\<close> and \<open>BinReader\<close> of \<open>scheduler.cpp\<close>.
  A \<open>std::string\<close> used as a byte buffer is a list of characters; integers are copied with
  \<open>memcpy\<close> on a little-endian machine. A reader keeps its position and a flag that stays down
  after the first read past the end; reading is a state monad over the reader. The lemmas show
  that every item is read back from what was written, whatever follows it.
\<close>

section \<open>Bytes of integers and doubles\<close>

fun le_bytes :: "nat \<Rightarrow> nat \<Rightarrow> string" where
  "le_bytes 0 n = []"
| "le_bytes (Suc k) n = char_of n # le_bytes k (n div 256)"

fun le_nat :: "string \<Rightarrow> nat" where
  "le_nat [] = 0"
| "le_nat (c # cs) = of_char c + 256 * le_nat cs"

definition double_bits :: "double \<Rightarrow> u64" where
  \<comment> \<open>the IEEE 754 binary64 pattern; a NaN is the quiet one and zero is positive\<close>
  "double_bits d = (case d of
     NaN \<Rightarrow> 0x7FF8000000000000
   | PInf \<Rightarrow> 0x7FF0000000000000
   | NInf \<Rightarrow> 0xFFF0000000000000
   | Fin m k \<Rightarrow> if m = 0 then 0 else
       (let e = max (ilog2 \<bar>m\<bar> + k) (- 1022);
            f = shl \<bar>m\<bar> (k - e + 52)
        in word_of_int ((if m < 0 then 2 ^ 63 else 0) + (e + 1022) * 2 ^ 52 + f)))"

definition bits_double :: "u64 \<Rightarrow> double" where
  "bits_double w =
     (let n = uint w; ex = n div 2 ^ 52 mod 2048; f = n mod 2 ^ 52; neg = 2 ^ 63 \<le> n in
      if ex = 2047 then (if f \<noteq> 0 then NaN else if neg then NInf else PInf)
      else (let (m, k) = (if ex = 0 then strip f (- 1074) else strip (f + 2 ^ 52) (ex - 1075))
            in Fin (if neg then - m else m) k))"

definition is_double :: "double \<Rightarrow> bool" where
  \<comment> \<open>the normal form of a binary64 value\<close>
  "is_double d \<longleftrightarrow> (case d of
     Fin m k \<Rightarrow> m = 0 \<and> k = 0 \<or> odd m \<and> ilog2 \<bar>m\<bar> \<le> 52 \<and> - 1074 \<le> k \<and> ilog2 \<bar>m\<bar> + k \<le> 1023
   | _ \<Rightarrow> True)"

lemma length_le_bytes [simp]: "length (le_bytes k n) = k"
  by (induction k n rule: le_bytes.induct) simp_all

lemma le_nat_le_bytes: "le_nat (le_bytes k n) = n mod 256 ^ k"
proof (induction k n rule: le_bytes.induct)
  case (2 k n)
  then show ?case
    by (simp add: mod_mult2_eq)
qed simp

lemma le_bytes_inj:
  assumes "le_bytes k m = le_bytes k n" and "m < 256 ^ k" and "n < 256 ^ k"
  shows "m = n"
proof -
  have "m mod 256 ^ k = n mod 256 ^ k"
    using arg_cong [OF assms(1), of le_nat] by (simp only: le_nat_le_bytes)
  then show ?thesis
    using assms(2,3) by (simp only: mod_less)
qed

lemma of_char_less: "of_char c < (256 :: nat)"
  by (metis of_char_mod_256 mod_less_divisor zero_less_numeral)

lemma le_nat_less: "le_nat s < 256 ^ length s"
proof (induction s)
  case (Cons c s)
  have "a + 256 * l < 256 * n" if "a < 256" "l < n" for a l n :: nat
    using that by linarith
  from this [OF of_char_less Cons] show ?case
    by simp
qed simp

lemma le_bytes_le_nat: "le_bytes (length s) (le_nat s) = s"
proof (induction s)
  case (Cons c s)
  have "char_of (of_char c + 256 * le_nat s) = c"
    by (metis char_of_mod_256 char_of_char mod_mult_self2)
  then show ?case
    using Cons of_char_less [of c] by simp
qed simp

lemma ilog2_bounds: "0 < n \<Longrightarrow> 2 ^ nat (ilog2 n) \<le> n \<and> n < 2 * 2 ^ nat (ilog2 n) \<and> 0 \<le> ilog2 n"
proof (induction n rule: ilog2.induct)
  case (1 n)
  show ?case
  proof (cases "n < 2")
    case True
    then show ?thesis
      using 1 by (simp add: ilog2.simps)
  next
    case False
    then have IH: "2 ^ nat (ilog2 (n div 2)) \<le> n div 2" "n div 2 < 2 * 2 ^ nat (ilog2 (n div 2))" "0 \<le> ilog2 (n div 2)"
      using 1 by simp_all
    have "nat (ilog2 n) = Suc (nat (ilog2 (n div 2)))" "0 \<le> ilog2 n"
      using False IH(3) by (simp_all add: ilog2.simps [of n])
    then show ?thesis
      using IH by simp linarith
  qed
qed

lemma strip_shift:
  assumes "odd m"
  shows "strip (m * 2 ^ t) k = (m, k + int t)"
proof (induction t arbitrary: k)
  case 0
  then show ?case
    using assms by (auto simp: strip.simps)
next
  case (Suc t)
  have "m * 2 ^ Suc t div 2 = m * 2 ^ t"
    by simp
  then show ?case
    using assms Suc by (subst strip.simps) auto
qed

lemma bits_double_fields:
  assumes "0 \<le> f" "f < 2 ^ 52" "0 \<le> ex" "ex < 2047"
  shows "bits_double (word_of_int ((if neg then 2 ^ 63 else 0) + ex * 2 ^ 52 + f)) =
    (let (m, k) = (if ex = 0 then strip f (- 1074) else strip (f + 2 ^ 52) (ex - 1075)) in Fin (if neg then - m else m) k)"
proof -
  let ?n = "(if neg then 2 ^ 63 else 0) + ex * 2 ^ 52 + f"
  have n: "uint (word_of_int ?n :: u64) = ?n"
  proof -
    have "0 \<le> ?n" "?n < 2 ^ LENGTH(64)"
      using assms by (cases neg; simp)+
    then show ?thesis
      by (simp only: uint_word_of_int mod_pos_pos_trivial)
  qed
  define q where "q = ex + (if neg then 2048 else 0)"
  have nq: "?n = f + q * 2 ^ 52"
    by (simp add: q_def)
  have "?n mod 2 ^ 52 = f" "?n div 2 ^ 52 = q"
    using assms unfolding nq by simp_all
  moreover have "q mod 2048 = ex" "2 ^ 63 \<le> ?n \<longleftrightarrow> neg"
    using assms by (cases neg; simp add: q_def)+
  moreover have "bits_double w = (let (m, k) = (if ex = 0 then strip f (- 1074) else strip (f + 2 ^ 52) (ex - 1075))
      in Fin (if neg then - m else m) k)"
    if "uint w = n" "n mod 2 ^ 52 = f" "n div 2 ^ 52 = q" "q mod 2048 = ex" "2 ^ 63 \<le> n \<longleftrightarrow> neg" for w n
    using that assms(4) by (auto simp: bits_double_def Let_def)
  ultimately show ?thesis
    using n by blast
qed

lemma double_round_trip:
  assumes "is_double d"
  shows "bits_double (double_bits d) = d"
proof (cases d)
  case (Fin m k)
  show ?thesis
  proof (cases "m = 0")
    case True
    then show ?thesis
      using Fin assms by (simp add: is_double_def double_bits_def bits_double_def strip.simps)
  next
    case False
    let ?a = "\<bar>m\<bar>" and ?L = "ilog2 \<bar>m\<bar>"
    define e where "e = max (?L + k) (- 1022)"
    define t where "t = nat (k - e + 52)"
    have odd: "odd m" and L: "?L \<le> 52" "- 1074 \<le> k" "?L + k \<le> 1023"
      using False Fin assms by (auto simp: is_double_def)
    have b: "2 ^ nat ?L \<le> ?a" "?a < 2 * 2 ^ nat ?L" "0 \<le> ?L"
      using ilog2_bounds [of ?a] False by simp_all
    have t: "int t = k - e + 52"
      using L by (auto simp: t_def e_def)
    have bits: "double_bits d = word_of_int ((if m < 0 then 2 ^ 63 else 0) + (e + 1022) * 2 ^ 52 + ?a * 2 ^ t)"
      using Fin False by (simp add: double_bits_def e_def t_def shl_def Let_def)
    have st: "strip (?a * 2 ^ t) j = (?a, j + int t)" for j
      using odd by (intro strip_shift) simp
    show ?thesis
    proof (cases "- 1022 \<le> ?L + k")
      case True
      then have e: "e = ?L + k" and "nat ?L + t = 52"
        using t b(3) by (auto simp: e_def)
      then have p: "(2 :: int) ^ nat ?L * 2 ^ t = 2 ^ 52"
        by (simp flip: power_add)
      have range: "2 ^ 52 \<le> ?a * 2 ^ t" "?a * 2 ^ t < 2 * 2 ^ 52"
        unfolding p [symmetric] mult.assoc [symmetric] using b(1,2)
        by (intro mult_right_mono mult_strict_right_mono; simp)+
      have eq: "double_bits d = word_of_int ((if m < 0 then 2 ^ 63 else 0) + (e + 1023) * 2 ^ 52 + (?a * 2 ^ t - 2 ^ 52))"
        unfolding bits by (rule arg_cong [of _ _ word_of_int]) simp
      have "bits_double (double_bits d) = (let (m', k') = (if e + 1023 = 0 then strip (?a * 2 ^ t - 2 ^ 52) (- 1074)
          else strip (?a * 2 ^ t - 2 ^ 52 + 2 ^ 52) (e + 1023 - 1075)) in Fin (if m < 0 then - m' else m') k')"
        unfolding eq by (rule bits_double_fields) (use range e L(3) True in simp_all)
      then show ?thesis
        using True e st t Fin by simp
    next
      case False
      then have e: "e = - 1022" and "nat ?L + t < 52"
        using t b(3) L by (auto simp: e_def)
      then have "(2 :: int) * 2 ^ nat ?L * 2 ^ t \<le> 2 ^ 52"
        using power_increasing [of "Suc (nat ?L + t)" 52 "2 :: int"] by (simp add: power_add)
      moreover have "?a * 2 ^ t < 2 * 2 ^ nat ?L * 2 ^ t"
        using b(2) by (intro mult_strict_right_mono) simp_all
      ultimately have range: "?a * 2 ^ t < 2 ^ 52"
        by (rule order.strict_trans2 [rotated])
      have eq: "double_bits d = word_of_int ((if m < 0 then 2 ^ 63 else 0) + 0 * 2 ^ 52 + ?a * 2 ^ t)"
        unfolding bits e by simp
      have "bits_double (double_bits d) = (let (m', k') = (if (0 :: int) = 0 then strip (?a * 2 ^ t) (- 1074)
          else strip (?a * 2 ^ t + 2 ^ 52) (0 - 1075)) in Fin (if m < 0 then - m' else m') k')"
        unfolding eq by (rule bits_double_fields) (use range in simp_all)
      then show ?thesis
        using e st t Fin by simp
    qed
  qed
qed (simp_all add: double_bits_def bits_double_def)

section \<open>The writer\<close>

text \<open>Each method appends to the buffer; here it is what it appends.\<close>

definition w_u8 :: "u8 \<Rightarrow> string" where "w_u8 v = le_bytes 1 (unat v)"
definition w_u32 :: "u32 \<Rightarrow> string" where "w_u32 v = le_bytes 4 (unat v)"
definition w_u64 :: "u64 \<Rightarrow> string" where "w_u64 v = le_bytes 8 (unat v)"
definition w_i64 :: "int \<Rightarrow> string" where "w_i64 v = w_u64 (word_of_int v)"
definition w_i32 :: "int \<Rightarrow> string" where "w_i32 v = w_u32 (word_of_int v)"
definition w_dbl :: "double \<Rightarrow> string" where "w_dbl v = w_u64 (double_bits v)"
definition w_yes :: "bool \<Rightarrow> string" where "w_yes v = w_u8 (if v then 1 else 0)"
definition w_str :: "string \<Rightarrow> string" where "w_str v = w_u64 (of_nat (length v)) @ v"

definition w_opt_id :: "u64 \<Rightarrow> string" where
  "w_opt_id v = w_yes (valid_id v) @ (if valid_id v then w_u64 v else [])"

section \<open>The reader\<close>

record BinReader =
  br_s :: string
  br_off :: nat
  br_ok :: bool
  br_named :: bool \<comment> \<open>not in the source: no cast so far gave an enumeration a value without a name\<close>

type_synonym 'a rd = "(BinReader, 'a) state"

definition can :: "nat \<Rightarrow> BinReader \<Rightarrow> bool" where
  "can n r \<longleftrightarrow> br_ok r \<and> br_off r + n \<le> length (br_s r)"

definition rd_bytes :: "nat \<Rightarrow> nat rd" where
  "rd_bytes n = State (\<lambda>r. if \<not> can n r then (0, r\<lparr>br_ok := False\<rparr>)
     else (le_nat (take n (drop (br_off r) (br_s r))), r\<lparr>br_off := br_off r + n\<rparr>))"

definition rd_u8 :: "u8 rd" where "rd_u8 = do { n \<leftarrow> rd_bytes 1; State_Monad.return (of_nat n) }"
definition rd_u32 :: "u32 rd" where "rd_u32 = do { n \<leftarrow> rd_bytes 4; State_Monad.return (of_nat n) }"
definition rd_u64 :: "u64 rd" where "rd_u64 = do { n \<leftarrow> rd_bytes 8; State_Monad.return (of_nat n) }"
definition rd_i64 :: "int rd" where "rd_i64 = do { w \<leftarrow> rd_u64; State_Monad.return (sint w) }"
definition rd_i32 :: "int rd" where "rd_i32 = do { w \<leftarrow> rd_u32; State_Monad.return (sint w) }"
definition rd_dbl :: "double rd" where "rd_dbl = do { w \<leftarrow> rd_u64; State_Monad.return (bits_double w) }"
definition rd_yes :: "bool rd" where "rd_yes = do { b \<leftarrow> rd_u8; State_Monad.return (b \<noteq> 0) }"

definition rd_ok :: "bool rd" where "rd_ok = State (\<lambda>r. (br_ok r, r))"

definition rd_str :: "string rd" where
  "rd_str = do { n \<leftarrow> rd_u64; State (\<lambda>r.
     if \<not> br_ok r \<or> 16 * 1024 * 1024 < n then ([], r\<lparr>br_ok := False\<rparr>)
     else if length (br_s r) < br_off r + unat n then ([], r\<lparr>br_ok := False\<rparr>)
     else (take (unat n) (drop (br_off r) (br_s r)), r\<lparr>br_off := br_off r + unat n\<rparr>)) }"

definition rd_opt_id :: "u64 rd" where
  "rd_opt_id = do { p \<leftarrow> rd_yes; if p then rd_u64 else State_Monad.return invalid_id }"

definition rd_enum :: "('a \<Rightarrow> int) \<Rightarrow> 'a list \<Rightarrow> 'a rd" where
  \<comment> \<open>\<open>static_cast<E>(r.i32())\<close>, which checks nothing\<close>
  "rd_enum to_int vals = do { n \<leftarrow> rd_i32; case find (\<lambda>e. to_int e = n) vals of
       Some e \<Rightarrow> State_Monad.return e
     | None \<Rightarrow> State (\<lambda>r. (hd vals, r\<lparr>br_named := False\<rparr>)) }"

fun rd_times :: "nat \<Rightarrow> 'a rd \<Rightarrow> 'a list rd" where
  "rd_times 0 m = State_Monad.return []"
| "rd_times (Suc n) m = do { x \<leftarrow> m; xs \<leftarrow> rd_times n m; State_Monad.return (x # xs) }"

section \<open>Reading back what was written\<close>

definition ready_for :: "BinReader \<Rightarrow> string \<Rightarrow> bool" where
  \<comment> \<open>a reader in order, with these bytes still to come\<close>
  "ready_for r bs \<longleftrightarrow> br_ok r \<and> br_named r \<and> br_off r \<le> length (br_s r) \<and> drop (br_off r) (br_s r) = bs"

definition parses :: "'a rd \<Rightarrow> string \<Rightarrow> 'a \<Rightarrow> bool" where
  "parses m bs v \<longleftrightarrow> (\<forall>r rest. ready_for r (bs @ rest) \<longrightarrow> (\<exists>r'. run_state m r = (v, r') \<and> ready_for r' rest))"

named_theorems parse_intros \<open>what each reader parses\<close>

lemma parsesD: "parses m bs v \<Longrightarrow> ready_for r (bs @ rest) \<Longrightarrow> \<exists>r'. run_state m r = (v, r') \<and> ready_for r' rest"
  by (simp add: parses_def)

lemma parses_return: "parses (State_Monad.return v) [] v"
  by (simp add: parses_def)

lemma parses_bind: "parses m bs v \<Longrightarrow> parses (f v) cs w \<Longrightarrow> parses (Monad_Syntax.bind m f) (bs @ cs) w"
  unfolding parses_def by simp fastforce

lemma parses_last: "parses m bs v \<Longrightarrow> parses (f v) [] w \<Longrightarrow> parses (Monad_Syntax.bind m f) bs w"
  using parses_bind [of m bs v f "[]" w] by simp

lemma parses_ok: "parses (f True) bs v \<Longrightarrow> parses (Monad_Syntax.bind rd_ok f) bs v"
  by (simp add: parses_def rd_ok_def ready_for_def)

lemma ready_advance:
  assumes "ready_for r (bs @ rest)"
  shows "br_ok r" and "br_off r + length bs \<le> length (br_s r)" and "take (length bs) (drop (br_off r) (br_s r)) = bs"
    and "ready_for (r\<lparr>br_off := br_off r + length bs\<rparr>) rest"
proof -
  have d: "drop (br_off r) (br_s r) = bs @ rest" and off: "br_off r \<le> length (br_s r)"
    and r: "br_ok r" "br_named r"
    using assms by (simp_all add: ready_for_def)
  have "length (br_s r) - br_off r = length bs + length rest"
    using arg_cong [OF d, of length] by simp
  then show len: "br_off r + length bs \<le> length (br_s r)"
    using off by linarith
  have "drop (br_off r + length bs) (br_s r) = rest"
    by (metis add.commute append_eq_conv_conj d drop_drop)
  then show "ready_for (r\<lparr>br_off := br_off r + length bs\<rparr>) rest"
    using r len by (simp add: ready_for_def)
  show "br_ok r" "take (length bs) (drop (br_off r) (br_s r)) = bs"
    using r d by simp_all
qed

lemma parses_bytes:
  assumes "length bs = n"
  shows "parses (rd_bytes n) bs (le_nat bs)"
  unfolding parses_def
proof (intro allI impI)
  fix r rest
  assume "ready_for r (bs @ rest)"
  from ready_advance [OF this] show "\<exists>r'. run_state (rd_bytes n) r = (le_nat bs, r') \<and> ready_for r' rest"
    using assms by (auto simp: rd_bytes_def can_def)
qed

lemma unat_mod_256 [simp]: "unat (w :: u8) mod 256 ^ 1 = unat w" "unat (v :: u32) mod 256 ^ 4 = unat v"
  "unat (x :: u64) mod 256 ^ 8 = unat x"
  using unsigned_less [of w, where ?'a = nat] unsigned_less [of v, where ?'a = nat] unsigned_less [of x, where ?'a = nat] by simp_all

lemma parses_words [parse_intros]:
  "parses rd_u8 (w_u8 a) a" "parses rd_u32 (w_u32 b) b" "parses rd_u64 (w_u64 c) c"
  unfolding rd_u8_def rd_u32_def rd_u64_def w_u8_def w_u32_def w_u64_def
  by (rule parses_last, rule parses_bytes, simp, simp only: le_nat_le_bytes unat_mod_256 of_nat_unat ucast_id parses_return)+

lemma parses_i64 [parse_intros]: "- (2 ^ 63) \<le> v \<Longrightarrow> v < 2 ^ 63 \<Longrightarrow> parses rd_i64 (w_i64 v) v"
  unfolding rd_i64_def w_i64_def
  by (rule parses_last, rule parses_words) (simp add: sint_sbintrunc' signed_take_bit_int_eq_self parses_return)

lemma parses_i32 [parse_intros]: "- (2 ^ 31) \<le> v \<Longrightarrow> v < 2 ^ 31 \<Longrightarrow> parses rd_i32 (w_i32 v) v"
  unfolding rd_i32_def w_i32_def
  by (rule parses_last, rule parses_words) (simp add: sint_sbintrunc' signed_take_bit_int_eq_self parses_return)

lemma parses_dbl [parse_intros]: "is_double v \<Longrightarrow> parses rd_dbl (w_dbl v) v"
  unfolding rd_dbl_def w_dbl_def
  by (rule parses_last, rule parses_words) (simp add: double_round_trip parses_return)

lemma parses_yes [parse_intros]: "parses rd_yes (w_yes v) v"
  unfolding rd_yes_def w_yes_def
  by (rule parses_last, rule parses_words) (cases v; simp add: parses_return)

lemma parses_opt_id [parse_intros]: "parses rd_opt_id (w_opt_id v) v"
  unfolding rd_opt_id_def w_opt_id_def
  by (rule parses_bind, rule parses_yes) (auto simp: parses_words parses_return valid_id_def)

lemma parses_str [parse_intros]:
  assumes "length v \<le> 16 * 1024 * 1024"
  shows "parses rd_str (w_str v) v"
  unfolding rd_str_def w_str_def
proof (rule parses_bind, rule parses_words)
  have n: "unat (of_nat (length v) :: u64) = length v"
    using assms by (simp add: unat_of_nat)
  have small: "\<not> 16 * 1024 * 1024 < (of_nat (length v) :: u64)"
    using assms n by (simp add: word_less_nat_alt)
  show "parses (State (\<lambda>r. if \<not> br_ok r \<or> 16 * 1024 * 1024 < (of_nat (length v) :: u64) then ([], r\<lparr>br_ok := False\<rparr>)
     else if length (br_s r) < br_off r + unat (of_nat (length v) :: u64) then ([], r\<lparr>br_ok := False\<rparr>)
     else (take (unat (of_nat (length v) :: u64)) (drop (br_off r) (br_s r)), r\<lparr>br_off := br_off r + unat (of_nat (length v) :: u64)\<rparr>))) v v"
    unfolding parses_def n
  proof (intro allI impI)
    fix r rest
    assume "ready_for r (v @ rest)"
    from ready_advance [OF this] small show "\<exists>r'. run_state (State (\<lambda>r. if \<not> br_ok r \<or> 16 * 1024 * 1024 < (of_nat (length v) :: u64) then ([], r\<lparr>br_ok := False\<rparr>)
       else if length (br_s r) < br_off r + length v then ([], r\<lparr>br_ok := False\<rparr>)
       else (take (length v) (drop (br_off r) (br_s r)), r\<lparr>br_off := br_off r + length v\<rparr>))) r = (v, r') \<and> ready_for r' rest"
      by auto
  qed
qed

lemma parses_enum:
  assumes "find (\<lambda>e. to_int e = to_int v) vals = Some v" and "- (2 ^ 31) \<le> to_int v" and "to_int v < 2 ^ 31"
  shows "parses (rd_enum to_int vals) (w_i32 (to_int v)) v"
  unfolding rd_enum_def
  by (rule parses_last, rule parses_i32) (use assms in \<open>simp_all add: parses_return\<close>)

lemma parses_times [parse_intros]:
  "(\<And>x. x \<in> set xs \<Longrightarrow> parses m (enc x) x) \<Longrightarrow> length xs = n \<Longrightarrow> parses (rd_times n m) (concat (map enc xs)) xs"
proof (induction xs arbitrary: n)
  case (Cons x xs)
  then have n: "n = Suc (length xs)" and head: "parses m (enc x) x" and rest: "parses (rd_times (length xs) m) (concat (map enc xs)) xs"
    by auto
  show ?case
    unfolding n rd_times.simps list.map concat.simps
    by (rule parses_bind [OF head], rule parses_last [OF rest], rule parses_return)
qed (simp add: parses_return)

end
