(* ===== verification/Persist_State.thy ===== *)
theory Persist_State
  imports Codec Workers
begin

text \<open>
  The durable state of the scheduler: \<open>serialize_locked\<close> writes counters, statistics, requests with their
  attempts, tenants and workers, \<open>deserialize_locked\<close> reads them back and rebuilds the ready queue
  with \<open>enqueue_locked\<close>. An enumeration is read with a cast the source does not check; when the bytes
  hold a value without a name the model gives no result (\<open>None\<close>).
\<close>

section \<open>Writing\<close>

definition w_attempt :: "AttemptRecord \<Rightarrow> string" where
  "w_attempt a = w_u64 (att_attempt_id a) @ w_u64 (att_generation a) @ w_i32 (attempt_state_int (att_state a)) @
     w_u64 (att_worker a) @ w_u64 (att_batch a) @ w_i32 (completion_status_int (att_final_status a)) @
     w_i32 (failure_class_int (att_failure_class a)) @ w_str (att_error_message a) @
     w_i64 (att_output_tokens a) @ w_i64 (att_work_units a) @ w_i64 (att_duration_us a)"

definition w_deadline :: "ClockTime \<Rightarrow> Deadline \<Rightarrow> string" where
  "w_deadline now d = w_i64 (if dl_valid d then remaining d now else - 1)"

definition w_spec :: "ClockTime \<Rightarrow> RequestSpec \<Rightarrow> string" where
  "w_spec now sp =
     w_u64 (spec_tenant sp) @ w_u64 (spec_session sp) @ w_u64 (spec_sequence sp) @ w_u64 (spec_model sp) @
     w_u64 (spec_revision sp) @ w_opt_id (spec_adapter sp) @
     w_i32 (request_phase_int (spec_phase sp)) @ w_i32 (priority_class_int (spec_priority sp)) @
     w_i32 (latency_class_int (spec_latency_class sp)) @
     w_i64 (tok_input (spec_tokens sp)) @ w_i64 (tok_output (spec_tokens sp)) @ w_i64 (tok_decoded (spec_tokens sp)) @
     w_i64 (spec_estimated_memory_bytes sp) @ w_i32 (spec_max_batch_size sp) @ w_str (spec_model_name sp) @
     w_i64 (dem_memory_bytes (spec_demand sp)) @ w_dbl (dem_cost_units (spec_demand sp)) @
     w_deadline now (spec_deadline sp)"

definition w_request :: "ClockTime \<Rightarrow> RequestId \<times> RequestRecord \<Rightarrow> string" where
  "w_request now p = (let rid = fst p; r = snd p; sp = rec_spec r in
     w_u64 rid @ w_i32 (request_state_int (rec_state r)) @ w_u64 (rec_current_attempt r) @ w_u64 (rec_generation r) @
     w_i32 (rec_attempts_used r) @
     w_yes (rec_cancellation_requested r) @ w_yes (rec_cancellation_committed r) @
     w_i32 (cancellation_reason_int (rec_cancel_reason r)) @ w_str (rec_terminal_reason r) @
     w_spec now sp @
     w_u64 (of_nat (length (rec_history r))) @ concat (map w_attempt (rec_history r)))"

definition w_tenant :: "TenantId \<times> TenantRecord \<Rightarrow> string" where
  "w_tenant p = (let t = snd p in
     w_u64 (fst p) @ w_dbl (ten_weight t) @ w_i32 (ten_admitted t) @ w_i32 (ten_queued t) @ w_i32 (ten_running t) @
     w_i64 (ten_services_consumed t) @ w_i64 (ten_service_debt t))"

definition w_ids :: "u64 list \<Rightarrow> string" where
  "w_ids xs = w_u64 (of_nat (length xs)) @ concat (map w_u64 xs)"

definition w_worker :: "WorkerId \<times> WorkerRecord \<Rightarrow> string" where
  "w_worker p = (let wr = snd p; reg = wk_registration wr; cap = reg_capability reg in
     w_u64 (reg_worker reg) @ w_u64 (reg_node reg) @ w_u64 (reg_accelerator reg) @ w_u64 (reg_boot_id reg) @
     w_i32 (worker_state_int (wk_state wr)) @ w_str (cap_backend cap) @ w_str (cap_device_name cap) @
     w_i32 (cap_total_capacity_units cap) @ w_i32 (cap_available_capacity_units cap) @
     w_i64 (cap_memory_bytes_total cap) @ w_i64 (cap_memory_bytes_available cap) @
     w_ids (cap_models cap) @ w_ids (cap_revisions cap) @ w_ids (cap_adapters cap) @
     w_u64 (of_nat (length (cap_phases cap))) @ concat (map (\<lambda>x. w_i32 (request_phase_int x)) (cap_phases cap)))"

definition w_counters :: "Impl \<Rightarrow> string" where
  "w_counters s = w_u64 (im_epoch_value s) @ w_i64 (im_global_admitted s) @ w_i64 (im_global_queued s) @
     w_i64 (im_global_reserved_units s) @ w_i64 (im_global_running_units s) @ w_i64 (im_global_tokens s)"

definition w_stats :: "SchedulerStats \<Rightarrow> string" where
  "w_stats st = w_u64 (st_requests_submitted st) @ w_u64 (st_requests_admitted st) @ w_u64 (st_requests_completed st) @
     w_u64 (st_requests_cancelled st) @ w_u64 (st_requests_failed st) @ w_u64 (st_requests_expired st) @
     w_u64 (st_attempts_created st) @ w_u64 (st_dispatches st) @ w_u64 (st_retries st)"

definition serialize_locked :: "Impl \<Rightarrow> string" where
  "serialize_locked s = w_u32 0x49534348 @ w_u32 1 @ w_counters s @ w_stats (im_stats s) @
     w_u64 (of_nat (length (im_requests s))) @ concat (map (w_request (im_clock_now s)) (im_requests s)) @
     w_u64 (of_nat (length (im_tenants s))) @ concat (map w_tenant (im_tenants s)) @
     w_u64 (of_nat (length (im_workers s))) @ concat (map w_worker (im_workers s))"

section \<open>Reading\<close>

definition corrupt :: "string \<Rightarrow> Error" where
  "corrupt m = make_error EC_Corruption m"

definition request_states :: "RequestState list" where
  "request_states = [RS_Created, RS_PendingAdmission, RS_Admitted, RS_Queued, RS_Reserved, RS_Dispatched, RS_Running,
     RS_Completing, RS_Completed, RS_Rejected, RS_Cancelled, RS_Expired, RS_Failed]"

definition attempt_states :: "AttemptState list" where
  "attempt_states = [AS_Created, AS_Reserved, AS_Dispatched, AS_Running, AS_Completing, AS_Succeeded, AS_Failed,
     AS_Cancelled, AS_Stale, AS_Expired]"

definition worker_states :: "WorkerState list" where
  "worker_states = [WS_Unknown, WS_Booted, WS_Online, WS_Busy, WS_Offline, WS_Drained, WS_Unhealthy]"

definition cancellation_reasons :: "CancellationReason list" where
  "cancellation_reasons = [CR_ClientRequested, CR_DeadlineExpired, CR_SchedulerDrain, CR_TransientFailure, CR_Policy,
     CR_Overload, CR_Manual]"

definition failure_classes :: "FailureClass list" where
  "failure_classes = [FC_RetryableTransport, FC_RetryableWorker, FC_NonRetryableRequest, FC_SchedulerRejection,
     FC_DeadlineExpiration, FC_Cancellation, FC_StaleAuthority, FC_AmbiguousDispatch, FC_Internal]"

definition request_phases :: "RequestPhase list" where
  "request_phases = [RP_Unknown, RP_Prefill, RP_Decode]"

definition priority_classes :: "PriorityClass list" where
  "priority_classes = [PC_Background, PC_Low, PC_Medium, PC_High, PC_Critical]"

definition latency_classes :: "LatencyClass list" where
  "latency_classes = [LC_Background, LC_Throughput, LC_Standard, LC_Interactive]"

definition rd_status :: "CompletionStatus rd" where
  "rd_status = do { n \<leftarrow> rd_i32; State_Monad.return (case find (\<lambda>e. completion_status_int e = n)
       [CS_Succeeded, CS_Failed, CS_Cancelled, CS_Expired, CS_Stale, CS_Ambiguous] of Some e \<Rightarrow> e | None \<Rightarrow> CS_other n) }"

definition rd_attempt :: "AttemptRecord rd" where
  "rd_attempt = do {
     attempt_id \<leftarrow> rd_u64; generation \<leftarrow> rd_u64; st \<leftarrow> rd_enum attempt_state_int attempt_states;
     worker \<leftarrow> rd_u64; batch \<leftarrow> rd_u64; final_status \<leftarrow> rd_status; fclass \<leftarrow> rd_enum failure_class_int failure_classes;
     msg \<leftarrow> rd_str; output_tokens \<leftarrow> rd_i64; work_units \<leftarrow> rd_i64; duration_us \<leftarrow> rd_i64;
     State_Monad.return (default_AttemptRecord\<lparr>att_attempt_id := attempt_id, att_generation := generation, att_state := st,
       att_worker := worker, att_batch := batch, att_final_status := final_status, att_failure_class := fclass,
       att_error_message := msg, att_output_tokens := output_tokens, att_work_units := work_units,
       att_duration_us := duration_us\<rparr>) }"

fun rd_attempts :: "nat \<Rightarrow> (Error + AttemptRecord list) rd" where
  "rd_attempts 0 = State_Monad.return (Inr [])"
| "rd_attempts (Suc n) = do {
     a \<leftarrow> rd_attempt; ok \<leftarrow> rd_ok;
     if \<not> ok then State_Monad.return (Inl (corrupt ''attempt record truncated''))
     else do { rest \<leftarrow> rd_attempts n; State_Monad.return (case rest of Inl e \<Rightarrow> Inl e | Inr xs \<Rightarrow> Inr (a # xs)) } }"

definition rd_deadline :: "ClockTime \<Rightarrow> Deadline rd" where
  "rd_deadline now = do { rem \<leftarrow> rd_i64;
     State_Monad.return (if 0 \<le> rem then deadline_after (rem * 1000000) now else spec_deadline default_RequestSpec) }"

definition rd_spec :: "ClockTime \<Rightarrow> RequestSpec rd" where
  "rd_spec now = do {
     tenant \<leftarrow> rd_u64; session \<leftarrow> rd_u64; sequence \<leftarrow> rd_u64; model \<leftarrow> rd_u64; revision \<leftarrow> rd_u64; adapter \<leftarrow> rd_opt_id;
     phase \<leftarrow> rd_enum request_phase_int request_phases; priority \<leftarrow> rd_enum priority_class_int priority_classes;
     latency \<leftarrow> rd_enum latency_class_int latency_classes;
     tin \<leftarrow> rd_i64; tout \<leftarrow> rd_i64; tdec \<leftarrow> rd_i64;
     mem \<leftarrow> rd_i64; maxb \<leftarrow> rd_i32; model_name \<leftarrow> rd_str;
     dmem \<leftarrow> rd_i64; cost \<leftarrow> rd_dbl; deadline \<leftarrow> rd_deadline now;
     State_Monad.return (default_RequestSpec\<lparr>spec_tenant := tenant, spec_session := session, spec_sequence := sequence,
       spec_model := model, spec_revision := revision, spec_adapter := adapter, spec_phase := phase,
       spec_priority := priority, spec_latency_class := latency,
       spec_tokens := \<lparr>tok_input = tin, tok_output = tout, tok_decoded = tdec\<rparr>,
       spec_estimated_memory_bytes := mem, spec_max_batch_size := maxb, spec_model_name := model_name,
       spec_demand := (spec_demand default_RequestSpec)\<lparr>dem_memory_bytes := dmem, dem_cost_units := cost\<rparr>,
       spec_deadline := deadline\<rparr>) }"

definition rd_request :: "ClockTime \<Rightarrow> (Error + RequestRecord) rd" where
  "rd_request now = do {
     rid \<leftarrow> rd_u64; st \<leftarrow> rd_enum request_state_int request_states; att \<leftarrow> rd_u64; gen \<leftarrow> rd_u64; used \<leftarrow> rd_i32;
     ok \<leftarrow> rd_ok;
     if \<not> ok then State_Monad.return (Inl (corrupt ''request record truncated''))
     else do {
       creq \<leftarrow> rd_yes; ccom \<leftarrow> rd_yes; reason \<leftarrow> rd_enum cancellation_reason_int cancellation_reasons; treason \<leftarrow> rd_str;
       sp \<leftarrow> rd_spec now;
       nh \<leftarrow> rd_u64; ok \<leftarrow> rd_ok;
       if \<not> ok \<or> 4096 < nh then State_Monad.return (Inl (corrupt ''bad history count''))
       else do {
         hist \<leftarrow> rd_attempts (unat nh);
         State_Monad.return (case hist of Inl e \<Rightarrow> Inl e
           | Inr hs \<Rightarrow> Inr (default_RequestRecord\<lparr>rec_request_id := rid, rec_state := st, rec_current_attempt := att,
               rec_generation := gen, rec_attempts_used := used, rec_cancellation_requested := creq,
               rec_cancellation_committed := ccom, rec_cancel_reason := reason, rec_terminal_reason := treason,
               rec_spec := sp, rec_history := hs, rec_created_at := now, rec_completed_at := now\<rparr>)) } } }"

definition rd_tenant :: "TenantRecord rd" where
  "rd_tenant = do {
     tenant \<leftarrow> rd_u64; weight \<leftarrow> rd_dbl; admitted \<leftarrow> rd_i32; queued \<leftarrow> rd_i32; running \<leftarrow> rd_i32;
     consumed \<leftarrow> rd_i64; debt \<leftarrow> rd_i64;
     State_Monad.return \<lparr>ten_tenant = tenant, ten_weight = weight, ten_admitted = admitted, ten_queued = queued,
       ten_running = running, ten_services_consumed = consumed, ten_service_debt = debt\<rparr> }"

definition rd_ids :: "string \<Rightarrow> (Error + u64 list) rd" where
  "rd_ids msg = do {
     n \<leftarrow> rd_u64; ok \<leftarrow> rd_ok;
     if \<not> ok \<or> 4096 < n then State_Monad.return (Inl (corrupt msg))
     else do { xs \<leftarrow> rd_times (unat n) rd_u64; State_Monad.return (Inr xs) } }"

definition rd_phases :: "(Error + RequestPhase list) rd" where
  "rd_phases = do {
     n \<leftarrow> rd_u64; ok \<leftarrow> rd_ok;
     if \<not> ok \<or> 16 < n then State_Monad.return (Inl (corrupt ''bad phase count''))
     else do { xs \<leftarrow> rd_times (unat n) (rd_enum request_phase_int request_phases); State_Monad.return (Inr xs) } }"

definition worker_of :: "WorkerRegistration \<Rightarrow> WorkerState \<Rightarrow> WorkerCapability \<Rightarrow> WorkerRecord" where
  "worker_of reg st cap = default_WorkerRecord\<lparr>wk_registration := reg\<lparr>reg_capability := cap\<rparr>, wk_state := st,
     wk_resource := copy_capacity cap default_ResourceSnapshot\<rparr>"

definition rd_worker :: "(Error + WorkerRecord) rd" where
  "rd_worker = do {
     worker \<leftarrow> rd_u64; node \<leftarrow> rd_u64; accel \<leftarrow> rd_u64; boot \<leftarrow> rd_u64;
     st \<leftarrow> rd_enum worker_state_int worker_states; backend \<leftarrow> rd_str; device \<leftarrow> rd_str;
     total \<leftarrow> rd_i32; avail \<leftarrow> rd_i32; mtotal \<leftarrow> rd_i64; mavail \<leftarrow> rd_i64;
     models \<leftarrow> rd_ids ''bad model count'';
     case models of Inl e \<Rightarrow> State_Monad.return (Inl e) | Inr ms \<Rightarrow> do {
     revisions \<leftarrow> rd_ids ''bad revision count'';
     case revisions of Inl e \<Rightarrow> State_Monad.return (Inl e) | Inr rvs \<Rightarrow> do {
     adapters \<leftarrow> rd_ids ''bad adapter count'';
     case adapters of Inl e \<Rightarrow> State_Monad.return (Inl e) | Inr ads \<Rightarrow> do {
     phases \<leftarrow> rd_phases;
     case phases of Inl e \<Rightarrow> State_Monad.return (Inl e) | Inr phs \<Rightarrow> do {
     ok \<leftarrow> rd_ok;
     State_Monad.return (if \<not> ok then Inl (corrupt ''worker record corrupted'')
       else Inr (worker_of (default_WorkerRegistration\<lparr>reg_worker := worker, reg_node := node, reg_accelerator := accel,
           reg_boot_id := boot\<rparr>) st
         (default_WorkerCapability\<lparr>cap_backend := backend, cap_device_name := device, cap_total_capacity_units := total,
           cap_available_capacity_units := avail, cap_memory_bytes_total := mtotal, cap_memory_bytes_available := mavail,
           cap_models := ms, cap_revisions := rvs, cap_adapters := ads, cap_phases := phs\<rparr>))) } } } } }"

definition rd_counters :: "(Impl \<Rightarrow> Impl) rd" where
  \<comment> \<open>the assignments to \<open>epoch_value_\<close> and the global counters\<close>
  "rd_counters = do {
     ep \<leftarrow> rd_u64; adm \<leftarrow> rd_i64; que \<leftarrow> rd_i64; res \<leftarrow> rd_i64; run \<leftarrow> rd_i64; tok \<leftarrow> rd_i64;
     State_Monad.return (\<lambda>s. s\<lparr>im_epoch_value := ep, im_global_admitted := adm, im_global_queued := que,
       im_global_reserved_units := res, im_global_running_units := run, im_global_tokens := tok\<rparr>) }"

definition rd_stats :: "(SchedulerStats \<Rightarrow> SchedulerStats) rd" where
  "rd_stats = do {
     sub \<leftarrow> rd_u64; adm \<leftarrow> rd_u64; com \<leftarrow> rd_u64; can \<leftarrow> rd_u64; fai \<leftarrow> rd_u64; ex \<leftarrow> rd_u64;
     att \<leftarrow> rd_u64; dis \<leftarrow> rd_u64; ret \<leftarrow> rd_u64;
     State_Monad.return (\<lambda>st. st\<lparr>st_requests_submitted := sub, st_requests_admitted := adm, st_requests_completed := com,
       st_requests_cancelled := can, st_requests_failed := fai, st_requests_expired := ex,
       st_attempts_created := att, st_dispatches := dis, st_retries := ret\<rparr>) }"

fun load_requests :: "nat \<Rightarrow> BinReader \<Rightarrow> Impl \<Rightarrow> Error option \<times> BinReader \<times> Impl" where
  "load_requests 0 r s = (None, r, s)"
| "load_requests (Suc n) r s = (case run_state (rd_request (im_clock_now s)) r of
     (Inl e, r1) \<Rightarrow> (Some e, r1, s)
   | (Inr rec, r1) \<Rightarrow> load_requests n r1 (s\<lparr>im_requests := umap_insert (rec_request_id rec) rec (im_requests s)\<rparr>))"

fun load_tenants :: "nat \<Rightarrow> BinReader \<Rightarrow> Impl \<Rightarrow> Error option \<times> BinReader \<times> Impl" where
  "load_tenants 0 r s = (None, r, s)"
| "load_tenants (Suc n) r s = (case run_state rd_tenant r of (t, r1) \<Rightarrow>
     if \<not> br_ok r1 then (Some (corrupt ''tenant record corrupted''), r1, s)
     else load_tenants n r1 (s\<lparr>im_tenants := umap_insert (ten_tenant t) t (im_tenants s)\<rparr>))"

fun load_workers :: "nat \<Rightarrow> BinReader \<Rightarrow> Impl \<Rightarrow> Error option \<times> BinReader \<times> Impl" where
  "load_workers 0 r s = (None, r, s)"
| "load_workers (Suc n) r s = (case run_state rd_worker r of
     (Inl e, r1) \<Rightarrow> (Some e, r1, s)
   | (Inr wr, r1) \<Rightarrow> load_workers n r1 (s\<lparr>im_workers := umap_insert (reg_worker (wk_registration wr)) wr (im_workers s)\<rparr>))"

section \<open>Rebuilding the ready queue\<close>

definition enqueue_locked :: "RequestId \<Rightarrow> Impl \<Rightarrow> Impl" where
  "enqueue_locked rid s =
     (let s1 = modify_req rid (\<lambda>r. r\<lparr>rec_state := RS_Queued\<rparr>) s;
          r = req_at s1 rid;
          ck = compat_key (im_cfg s) (rec_spec r);
          s2 = enqueue_flow r s1;
          s3 = s2\<lparr>im_queued := uset_insert (rec_request_id r) (im_queued s2)\<rparr>;
          s4 = s3\<lparr>im_compat := AList.update ck
                    (uset_insert (rec_request_id r) (umap_at [] (im_compat s3) ck)) (im_compat s3)\<rparr>;
          s5 = s4\<lparr>im_global_queued := im_global_queued s4 + 1\<rparr>
      in modify_tenant (spec_tenant (rec_spec r)) (\<lambda>t. t\<lparr>ten_queued := ten_queued t + 1\<rparr>) s5)"

definition requeue_one :: "RequestId \<times> RequestRecord \<Rightarrow> Impl \<Rightarrow> Impl" where
  "requeue_one p s = (if rec_state (snd p) = RS_Queued \<or> rec_state (snd p) = RS_Admitted
     then enqueue_locked (rec_request_id (snd p)) s else s)"

definition rebuild_queue :: "Impl \<Rightarrow> Impl" where
  "rebuild_queue s =
     (let s1 = s\<lparr>im_global_queued := 0, im_tenants := map (\<lambda>(k, t). (k, t\<lparr>ten_queued := 0\<rparr>)) (im_tenants s)\<rparr>
      in fold requeue_one (im_requests s1) s1)"

definition clear_tables :: "Impl \<Rightarrow> Impl" where
  "clear_tables s = s\<lparr>im_requests := [], im_tenants := [], im_workers := [], im_flows := [], im_compat := [],
     im_active_flows := [], im_queued := []\<rparr>"

definition open_reader :: "string \<Rightarrow> BinReader" where
  "open_reader data = \<lparr>br_s = data, br_off = 0, br_ok = True, br_named = True\<rparr>"

definition counted :: "nat \<Rightarrow> string \<Rightarrow> (nat \<Rightarrow> BinReader \<Rightarrow> Impl \<Rightarrow> Error option \<times> BinReader \<times> Impl) \<Rightarrow>
    BinReader \<Rightarrow> Impl \<Rightarrow> Error option \<times> BinReader \<times> Impl" where
  \<comment> \<open>\<open>n = r.u64(); if (!r.ok || n > limit) return err(msg); for (i < n) ...\<close>\<close>
  "counted limit msg load r s = (case run_state rd_u64 r of (n, r1) \<Rightarrow>
     if \<not> br_ok r1 \<or> limit < unat n then (Some (corrupt msg), r1, s) else load (unat n) r1 s)"

definition load_tables :: "BinReader \<Rightarrow> Impl \<Rightarrow> Error option \<times> BinReader \<times> Impl" where
  "load_tables r s = (case counted 10000000 ''bad request count'' load_requests r s of
     (Some e, r1, s1) \<Rightarrow> (Some e, r1, s1)
   | (None, r1, s1) \<Rightarrow> (case counted 100000 ''bad tenant count'' load_tenants r1 s1 of
       (Some e, r2, s2) \<Rightarrow> (Some e, r2, s2)
     | (None, r2, s2) \<Rightarrow> counted 100000 ''bad worker count'' load_workers r2 s2))"

definition deserialize_locked :: "string \<Rightarrow> Impl \<Rightarrow> (unit result \<times> Impl) option" where
  "deserialize_locked data s =
     (let (magic, r1) = run_state rd_u32 (open_reader data);
          (ver, r2) = run_state rd_u32 r1
      in if \<not> br_ok r2 \<or> magic \<noteq> 0x49534348 then Some (result_err (corrupt ''bad magic''), s)
         else if ver \<noteq> 1 then Some (result_err (corrupt ''bad format version''), s)
         else let (cnt, r3) = run_state rd_counters r2;
                  (sts, r4) = run_state rd_stats r3;
                  s1 = modify_stats sts (cnt (clear_tables s));
                  (res, r5, s2) = load_tables r4 s1
              in if \<not> br_named r5 then None
                 else (case res of
                    Some e \<Rightarrow> Some (result_err e, s2)
                  | None \<Rightarrow> if \<not> br_ok r5 then Some (result_err (corrupt ''trailing corruption at end of payload''), s2)
                            else Some (result_ok (), rebuild_queue s2)))"

end
