(* ===== verification/Persist_Round.thy ===== *)
theory Persist_Round
  imports Persist_State Queue_Inv
begin

text \<open>
  Saving and restoring. What the file keeps of a record is \<open>restored\<close>: reading the bytes
  of a state whose numbers, strings and tables fit the format gives exactly that, and the ready queue that
  is rebuilt from it satisfies the invariant of the ready queue.
\<close>

section \<open>What fits the format\<close>

definition i32_ok :: "int \<Rightarrow> bool" where "i32_ok v \<longleftrightarrow> - (2 ^ 31) \<le> v \<and> v < 2 ^ 31"
definition i64_ok :: "int \<Rightarrow> bool" where "i64_ok v \<longleftrightarrow> - (2 ^ 63) \<le> v \<and> v < 2 ^ 63"
definition str_ok :: "string \<Rightarrow> bool" where "str_ok v \<longleftrightarrow> length v \<le> 16 * 1024 * 1024"

definition status_ok :: "CompletionStatus \<Rightarrow> bool" where
  "status_ok c \<longleftrightarrow> (case c of CS_other n \<Rightarrow> i32_ok n \<and> n \<notin> {0..5} | _ \<Rightarrow> True)"

definition attempt_fits :: "AttemptRecord \<Rightarrow> bool" where
  "attempt_fits a \<longleftrightarrow> status_ok (att_final_status a) \<and> str_ok (att_error_message a) \<and> i64_ok (att_output_tokens a) \<and>
     i64_ok (att_work_units a) \<and> i64_ok (att_duration_us a)"

definition spec_fits :: "ClockTime \<Rightarrow> RequestSpec \<Rightarrow> bool" where
  "spec_fits now sp \<longleftrightarrow> i64_ok (tok_input (spec_tokens sp)) \<and> i64_ok (tok_output (spec_tokens sp)) \<and>
     i64_ok (tok_decoded (spec_tokens sp)) \<and> i64_ok (spec_estimated_memory_bytes sp) \<and> i32_ok (spec_max_batch_size sp) \<and>
     str_ok (spec_model_name sp) \<and> i64_ok (dem_memory_bytes (spec_demand sp)) \<and> is_double (dem_cost_units (spec_demand sp)) \<and>
     (dl_valid (spec_deadline sp) \<longrightarrow> i64_ok (remaining (spec_deadline sp) now))"

definition request_fits :: "ClockTime \<Rightarrow> RequestRecord \<Rightarrow> bool" where
  "request_fits now r \<longleftrightarrow> i32_ok (rec_attempts_used r) \<and> str_ok (rec_terminal_reason r) \<and> spec_fits now (rec_spec r) \<and>
     length (rec_history r) \<le> 4096 \<and> (\<forall>a\<in>set (rec_history r). attempt_fits a)"

definition tenant_fits :: "TenantRecord \<Rightarrow> bool" where
  "tenant_fits t \<longleftrightarrow> is_double (ten_weight t) \<and> i32_ok (ten_admitted t) \<and> i32_ok (ten_queued t) \<and> i32_ok (ten_running t) \<and>
     i64_ok (ten_services_consumed t) \<and> i64_ok (ten_service_debt t)"

definition capability_fits :: "WorkerCapability \<Rightarrow> bool" where
  "capability_fits c \<longleftrightarrow> str_ok (cap_backend c) \<and> str_ok (cap_device_name c) \<and> i32_ok (cap_total_capacity_units c) \<and>
     i32_ok (cap_available_capacity_units c) \<and> i64_ok (cap_memory_bytes_total c) \<and> i64_ok (cap_memory_bytes_available c) \<and>
     length (cap_models c) \<le> 4096 \<and> length (cap_revisions c) \<le> 4096 \<and> length (cap_adapters c) \<le> 4096 \<and>
     length (cap_phases c) \<le> 16"

definition state_fits :: "Impl \<Rightarrow> bool" where
  "state_fits s \<longleftrightarrow> i64_ok (im_global_admitted s) \<and> i64_ok (im_global_queued s) \<and> i64_ok (im_global_reserved_units s) \<and>
     i64_ok (im_global_running_units s) \<and> i64_ok (im_global_tokens s) \<and>
     length (im_requests s) \<le> 10000000 \<and> (\<forall>(k, r)\<in>set (im_requests s). rec_request_id r = k \<and> request_fits (im_clock_now s) r) \<and>
     length (im_tenants s) \<le> 100000 \<and> (\<forall>(k, t)\<in>set (im_tenants s). ten_tenant t = k \<and> tenant_fits t) \<and>
     length (im_workers s) \<le> 100000 \<and>
     (\<forall>(k, w)\<in>set (im_workers s). reg_worker (wk_registration w) = k \<and> capability_fits (reg_capability (wk_registration w)))"

section \<open>What the file keeps\<close>

definition restored_attempt :: "AttemptRecord \<Rightarrow> AttemptRecord" where
  "restored_attempt a = default_AttemptRecord\<lparr>att_attempt_id := att_attempt_id a, att_generation := att_generation a,
     att_state := att_state a, att_worker := att_worker a, att_batch := att_batch a, att_final_status := att_final_status a,
     att_failure_class := att_failure_class a, att_error_message := att_error_message a,
     att_output_tokens := att_output_tokens a, att_work_units := att_work_units a, att_duration_us := att_duration_us a\<rparr>"

definition restored_deadline :: "ClockTime \<Rightarrow> ClockTime \<Rightarrow> Deadline \<Rightarrow> Deadline" where
  \<comment> \<open>saved at one time and restored at another: the time that was left counts again from there\<close>
  "restored_deadline saved now d = (if dl_valid d then deadline_after (remaining d saved * 1000000) now
     else spec_deadline default_RequestSpec)"

definition restored_spec :: "ClockTime \<Rightarrow> ClockTime \<Rightarrow> RequestSpec \<Rightarrow> RequestSpec" where
  "restored_spec saved now sp = default_RequestSpec\<lparr>spec_tenant := spec_tenant sp, spec_session := spec_session sp,
     spec_sequence := spec_sequence sp, spec_model := spec_model sp, spec_revision := spec_revision sp,
     spec_adapter := spec_adapter sp, spec_phase := spec_phase sp, spec_priority := spec_priority sp,
     spec_latency_class := spec_latency_class sp,
     spec_tokens := \<lparr>tok_input = tok_input (spec_tokens sp), tok_output = tok_output (spec_tokens sp),
       tok_decoded = tok_decoded (spec_tokens sp)\<rparr>,
     spec_estimated_memory_bytes := spec_estimated_memory_bytes sp, spec_max_batch_size := spec_max_batch_size sp,
     spec_model_name := spec_model_name sp,
     spec_demand := (spec_demand default_RequestSpec)\<lparr>dem_memory_bytes := dem_memory_bytes (spec_demand sp),
       dem_cost_units := dem_cost_units (spec_demand sp)\<rparr>,
     spec_deadline := restored_deadline saved now (spec_deadline sp)\<rparr>"

definition restored :: "ClockTime \<Rightarrow> ClockTime \<Rightarrow> RequestRecord \<Rightarrow> RequestRecord" where
  "restored saved now r = default_RequestRecord\<lparr>rec_request_id := rec_request_id r, rec_state := rec_state r,
     rec_current_attempt := rec_current_attempt r, rec_generation := rec_generation r, rec_attempts_used := rec_attempts_used r,
     rec_cancellation_requested := rec_cancellation_requested r, rec_cancellation_committed := rec_cancellation_committed r,
     rec_cancel_reason := rec_cancel_reason r, rec_terminal_reason := rec_terminal_reason r,
     rec_spec := restored_spec saved now (rec_spec r), rec_history := map restored_attempt (rec_history r),
     rec_created_at := now, rec_completed_at := now\<rparr>"

definition restored_worker :: "WorkerRecord \<Rightarrow> WorkerRecord" where
  "restored_worker w = (let reg = wk_registration w; cap = reg_capability reg in
     worker_of (default_WorkerRegistration\<lparr>reg_worker := reg_worker reg, reg_node := reg_node reg,
         reg_accelerator := reg_accelerator reg, reg_boot_id := reg_boot_id reg\<rparr>) (wk_state w)
       (default_WorkerCapability\<lparr>cap_backend := cap_backend cap, cap_device_name := cap_device_name cap,
         cap_total_capacity_units := cap_total_capacity_units cap, cap_available_capacity_units := cap_available_capacity_units cap,
         cap_memory_bytes_total := cap_memory_bytes_total cap, cap_memory_bytes_available := cap_memory_bytes_available cap,
         cap_models := cap_models cap, cap_revisions := cap_revisions cap, cap_adapters := cap_adapters cap,
         cap_phases := cap_phases cap\<rparr>))"

section \<open>Each item is read back\<close>

lemma parses_enums [parse_intros]:
  "parses (rd_enum request_state_int request_states) (w_i32 (request_state_int a)) a"
  "parses (rd_enum attempt_state_int attempt_states) (w_i32 (attempt_state_int b)) b"
  "parses (rd_enum worker_state_int worker_states) (w_i32 (worker_state_int c)) c"
  "parses (rd_enum cancellation_reason_int cancellation_reasons) (w_i32 (cancellation_reason_int d)) d"
  "parses (rd_enum failure_class_int failure_classes) (w_i32 (failure_class_int e)) e"
  "parses (rd_enum request_phase_int request_phases) (w_i32 (request_phase_int f)) f"
  "parses (rd_enum priority_class_int priority_classes) (w_i32 (priority_class_int g)) g"
  "parses (rd_enum latency_class_int latency_classes) (w_i32 (latency_class_int h)) h"
  subgoal by (rule parses_enum; cases a; simp add: request_states_def)
  subgoal by (rule parses_enum; cases b; simp add: attempt_states_def)
  subgoal by (rule parses_enum; cases c; simp add: worker_states_def)
  subgoal by (rule parses_enum; cases d; simp add: cancellation_reasons_def)
  subgoal by (rule parses_enum; cases e; simp add: failure_classes_def)
  subgoal by (rule parses_enum; cases f; simp add: request_phases_def)
  subgoal by (rule parses_enum; cases g; simp add: priority_classes_def)
  subgoal by (rule parses_enum; cases h; simp add: latency_classes_def)
  done

lemma parses_status: "status_ok c \<Longrightarrow> parses rd_status (w_i32 (completion_status_int c)) c"
  unfolding rd_status_def
  by (rule parses_last, rule parses_i32)
    (cases c; auto simp: status_ok_def i32_ok_def parses_return)+

lemma parses_attempt:
  assumes "attempt_fits a"
  shows "parses rd_attempt (w_attempt a) (restored_attempt a)"
  unfolding rd_attempt_def w_attempt_def restored_attempt_def
  by ((rule parses_bind parses_last, (rule parse_intros parses_status;
        use assms in \<open>simp add: attempt_fits_def str_ok_def i64_ok_def\<close>))+, rule parses_return)

lemma count_word:
  assumes "n \<le> 10000000"
  shows "unat (of_nat n :: u64) = n" and "n \<le> 4096 \<Longrightarrow> \<not> 4096 < (of_nat n :: u64)" and "n \<le> 16 \<Longrightarrow> \<not> 16 < (of_nat n :: u64)"
proof -
  show n: "unat (of_nat n :: u64) = n"
    using assms by (simp add: unat_of_nat)
  show "n \<le> 4096 \<Longrightarrow> \<not> 4096 < (of_nat n :: u64)" "n \<le> 16 \<Longrightarrow> \<not> 16 < (of_nat n :: u64)"
    using n by (simp_all add: word_less_nat_alt)
qed

lemma parses_attempts:
  "(\<And>a. a \<in> set as \<Longrightarrow> attempt_fits a) \<Longrightarrow>
   parses (rd_attempts (length as)) (concat (map w_attempt as)) (Inr (map restored_attempt as))"
proof (induction as)
  case (Cons a as)
  then have head: "parses rd_attempt (w_attempt a) (restored_attempt a)"
    and rest: "parses (rd_attempts (length as)) (concat (map w_attempt as)) (Inr (map restored_attempt as))"
    by (simp_all add: parses_attempt)
  have "parses (do { rest \<leftarrow> rd_attempts (length as);
      State_Monad.return (case rest of Inl e \<Rightarrow> Inl e | Inr xs \<Rightarrow> Inr (restored_attempt a # xs)) })
      (concat (map w_attempt as)) (Inr (map restored_attempt (a # as)))"
    by (rule parses_last [OF rest]) (simp add: parses_return)
  then show ?case
    by (simp, intro parses_bind [OF head] parses_ok) simp
qed (simp add: parses_return)

lemma parses_deadline:
  assumes "dl_valid d \<longrightarrow> i64_ok (remaining d saved)"
  shows "parses (rd_deadline now) (w_deadline saved d) (restored_deadline saved now d)"
  unfolding rd_deadline_def w_deadline_def
  by (rule parses_last, rule parses_i64)
    (use assms in \<open>auto simp: i64_ok_def restored_deadline_def remaining_nonneg parses_return\<close>)

lemma parses_spec:
  assumes "spec_fits saved sp"
  shows "parses (rd_spec now) (w_spec saved sp) (restored_spec saved now sp)"
  unfolding rd_spec_def w_spec_def restored_spec_def
  by ((rule parses_bind parses_last, (rule parse_intros parses_deadline;
        use assms in \<open>simp add: spec_fits_def str_ok_def i64_ok_def i32_ok_def\<close>))+, rule parses_return)

lemma parses_tenant:
  assumes "tenant_fits t"
  shows "parses rd_tenant (w_tenant (ten_tenant t, t)) t"
proof -
  have "parses rd_tenant (w_tenant (ten_tenant t, t)) \<lparr>ten_tenant = ten_tenant t, ten_weight = ten_weight t,
      ten_admitted = ten_admitted t, ten_queued = ten_queued t, ten_running = ten_running t,
      ten_services_consumed = ten_services_consumed t, ten_service_debt = ten_service_debt t\<rparr>"
    unfolding rd_tenant_def w_tenant_def Let_def fst_conv snd_conv
    by ((rule parses_bind parses_last, (rule parse_intros;
          use assms in \<open>simp add: tenant_fits_def i64_ok_def i32_ok_def\<close>))+, rule parses_return)
  moreover have "\<lparr>ten_tenant = ten_tenant t, ten_weight = ten_weight t,
      ten_admitted = ten_admitted t, ten_queued = ten_queued t, ten_running = ten_running t,
      ten_services_consumed = ten_services_consumed t, ten_service_debt = ten_service_debt t\<rparr> = t"
    by simp
  ultimately show ?thesis
    by (simp only:)
qed

lemma parses_ids: "length xs \<le> 4096 \<Longrightarrow> parses (rd_ids msg) (w_ids xs) (Inr xs)"
  unfolding rd_ids_def w_ids_def
  by (rule parses_bind, rule parses_words, rule parses_ok)
    (simp add: count_word, rule parses_last, rule parses_times, rule parses_words, simp, rule parses_return)

lemma parses_phases:
  "length xs \<le> 16 \<Longrightarrow>
   parses rd_phases (w_u64 (of_nat (length xs)) @ concat (map (\<lambda>x. w_i32 (request_phase_int x)) xs)) (Inr xs)"
  unfolding rd_phases_def
  by (rule parses_bind, rule parses_words, rule parses_ok)
    (simp add: count_word, rule parses_last, rule parses_times, rule parses_enums, simp, rule parses_return)

lemma parses_request:
  assumes "request_fits saved r"
  shows "parses (rd_request now) (w_request saved (rec_request_id r, r)) (Inr (restored saved now r))"
proof -
  have hist: "parses (rd_attempts (unat (of_nat (length (rec_history r)) :: u64))) (concat (map w_attempt (rec_history r)))
      (Inr (map restored_attempt (rec_history r)))"
    using assms parses_attempts [of "rec_history r"] by (simp add: request_fits_def count_word)
  have small: "\<not> 4096 < (of_nat (length (rec_history r)) :: u64)"
    using assms by (simp add: request_fits_def count_word)
  show ?thesis
    unfolding rd_request_def w_request_def Let_def fst_conv snd_conv
    apply ((rule parses_bind, (rule parse_intros; use assms in \<open>simp add: request_fits_def str_ok_def i32_ok_def\<close>))+)
    apply (rule parses_ok, simp only: not_True_eq_False if_False)
    apply ((rule parses_bind, (rule parse_intros parses_spec; use assms in \<open>simp add: request_fits_def str_ok_def i32_ok_def\<close>))+)
    apply (rule parses_ok, simp only: not_True_eq_False if_False small simp_thms)
    apply (rule parses_last [OF hist])
    apply (simp add: restored_def parses_return)
    done
qed

lemma parses_worker:
  assumes "capability_fits (reg_capability (wk_registration w))"
  shows "parses rd_worker (w_worker (k, w)) (Inr (restored_worker w))"
proof -
  note fits = assms [unfolded capability_fits_def str_ok_def i32_ok_def i64_ok_def]
  show ?thesis
    unfolding rd_worker_def w_worker_def restored_worker_def Let_def snd_conv
    apply ((rule parses_bind, (rule parse_intros; use fits in simp))+)
    apply ((rule parses_bind, rule parses_ids, use fits in simp, simp only: sum.case)+)
    apply (rule parses_last, rule parses_phases, use fits in simp, simp only: sum.case)
    apply (rule parses_ok, simp add: parses_return)
    done
qed

lemma parses_counters:
  assumes "state_fits s"
  shows "parses rd_counters (w_counters s) (\<lambda>t. t\<lparr>im_epoch_value := im_epoch_value s, im_global_admitted := im_global_admitted s,
     im_global_queued := im_global_queued s, im_global_reserved_units := im_global_reserved_units s,
     im_global_running_units := im_global_running_units s, im_global_tokens := im_global_tokens s\<rparr>)"
  unfolding rd_counters_def w_counters_def
  by ((rule parses_bind parses_last, (rule parse_intros; use assms in \<open>simp add: state_fits_def i64_ok_def\<close>))+, rule parses_return)

lemma parses_stats:
  "parses rd_stats (w_stats st) (\<lambda>t. t\<lparr>st_requests_submitted := st_requests_submitted st,
     st_requests_admitted := st_requests_admitted st, st_requests_completed := st_requests_completed st,
     st_requests_cancelled := st_requests_cancelled st, st_requests_failed := st_requests_failed st,
     st_requests_expired := st_requests_expired st, st_attempts_created := st_attempts_created st,
     st_dispatches := st_dispatches st, st_retries := st_retries st\<rparr>)"
  unfolding rd_stats_def w_stats_def
  by ((rule parses_bind parses_last, rule parses_words)+, rule parses_return)

section \<open>The tables\<close>

lemma update_fresh: "k \<notin> set (map fst m) \<Longrightarrow> umap_insert k v m = m @ [(k, v)]"
proof -
  assume k: "k \<notin> set (map fst m)"
  then have "AList.update k v m = m @ [(k, v)]"
    by (induction m) auto
  then show ?thesis
    using k by (simp add: umap_insert_def map_of_eq_None_iff [THEN iffD2])
qed

lemma load_requests_all:
  assumes "\<And>k x. (k, x) \<in> set kvs \<Longrightarrow> rec_request_id x = k \<and> request_fits saved x" and "distinct (map fst (im_requests s @ kvs))"
    and "ready_for r (concat (map (w_request saved) kvs) @ rest)"
  shows "\<exists>r'. load_requests (length kvs) r s = (None, r', s\<lparr>im_requests := im_requests s @
      map (\<lambda>(k, x). (k, restored saved (im_clock_now s) x)) kvs\<rparr>) \<and> ready_for r' rest"
  using assms
proof (induction kvs arbitrary: r s)
  case (Cons p kvs)
  obtain k x where p: "p = (k, x)"
    by fastforce
  then have x: "rec_request_id x = k" "request_fits saved x" and fresh: "k \<notin> set (map fst (im_requests s))"
    using Cons.prems(1,2) by auto
  have "ready_for r (w_request saved p @ concat (map (w_request saved) kvs) @ rest)"
    using Cons.prems(3) by simp
  then obtain r1 where r1: "run_state (rd_request (im_clock_now s)) r = (Inr (restored saved (im_clock_now s) x), r1)"
    "ready_for r1 (concat (map (w_request saved) kvs) @ rest)"
    using parsesD [OF parses_request [OF x(2)]] p x(1) by blast
  have id: "rec_request_id (restored saved now x) = k" for now
    by (simp add: restored_def x)
  let ?s1 = "s\<lparr>im_requests := im_requests s @ [(k, restored saved (im_clock_now s) x)]\<rparr>"
  have "\<exists>r'. load_requests (length kvs) r1 ?s1 = (None, r', ?s1\<lparr>im_requests := im_requests ?s1 @
      map (\<lambda>(k, x). (k, restored saved (im_clock_now ?s1) x)) kvs\<rparr>) \<and> ready_for r' rest"
  proof (rule Cons.IH)
    show "rec_request_id x = k \<and> request_fits saved x" if "(k, x) \<in> set kvs" for k x
      using Cons.prems(1) that by (meson list.set_intros(2))
    show "distinct (map fst (im_requests ?s1 @ kvs))"
      using Cons.prems(2) p by simp
  qed (rule r1(2))
  then show ?case
    using r1(1) update_fresh [OF fresh] p id by simp
qed simp

lemma load_tenants_all:
  assumes "\<And>k t. (k, t) \<in> set kvs \<Longrightarrow> ten_tenant t = k \<and> tenant_fits t" and "distinct (map fst (im_tenants s @ kvs))"
    and "ready_for r (concat (map w_tenant kvs) @ rest)"
  shows "\<exists>r'. load_tenants (length kvs) r s = (None, r', s\<lparr>im_tenants := im_tenants s @ kvs\<rparr>) \<and> ready_for r' rest"
  using assms
proof (induction kvs arbitrary: r s)
  case (Cons p kvs)
  obtain k t where p: "p = (k, t)"
    by fastforce
  then have t: "ten_tenant t = k" "tenant_fits t" and fresh: "k \<notin> set (map fst (im_tenants s))"
    using Cons.prems(1,2) by auto
  have "ready_for r (w_tenant p @ concat (map w_tenant kvs) @ rest)"
    using Cons.prems(3) by simp
  then obtain r1 where r1: "run_state rd_tenant r = (t, r1)" "ready_for r1 (concat (map w_tenant kvs) @ rest)"
    using parsesD [OF parses_tenant [OF t(2)]] p t(1) by blast
  have ok: "br_ok r1"
    using r1(2) by (simp add: ready_for_def)
  let ?s1 = "s\<lparr>im_tenants := im_tenants s @ [(k, t)]\<rparr>"
  have "\<exists>r'. load_tenants (length kvs) r1 ?s1 = (None, r', ?s1\<lparr>im_tenants := im_tenants ?s1 @ kvs\<rparr>) \<and> ready_for r' rest"
  proof (rule Cons.IH)
    show "ten_tenant x = k \<and> tenant_fits x" if "(k, x) \<in> set kvs" for k x
      using Cons.prems(1) that by (meson list.set_intros(2))
    show "distinct (map fst (im_tenants ?s1 @ kvs))"
      using Cons.prems(2) p by simp
  qed (rule r1(2))
  then show ?case
    using r1(1) ok update_fresh [OF fresh] p t(1) by simp
qed simp

lemma load_workers_all:
  assumes "\<And>k w. (k, w) \<in> set kvs \<Longrightarrow> reg_worker (wk_registration w) = k \<and> capability_fits (reg_capability (wk_registration w))"
    and "distinct (map fst (im_workers s @ kvs))" and "ready_for r (concat (map w_worker kvs) @ rest)"
  shows "\<exists>r'. load_workers (length kvs) r s = (None, r', s\<lparr>im_workers := im_workers s @
      map (\<lambda>(k, w). (k, restored_worker w)) kvs\<rparr>) \<and> ready_for r' rest"
  using assms
proof (induction kvs arbitrary: r s)
  case (Cons p kvs)
  obtain k w where p: "p = (k, w)"
    by fastforce
  then have w: "reg_worker (wk_registration w) = k" "capability_fits (reg_capability (wk_registration w))"
    and fresh: "k \<notin> set (map fst (im_workers s))"
    using Cons.prems(1,2) by auto
  have "ready_for r (w_worker p @ concat (map w_worker kvs) @ rest)"
    using Cons.prems(3) by simp
  then obtain r1 where r1: "run_state rd_worker r = (Inr (restored_worker w), r1)" "ready_for r1 (concat (map w_worker kvs) @ rest)"
    using parsesD [OF parses_worker [OF w(2)]] p by blast
  have id: "reg_worker (wk_registration (restored_worker w)) = k"
    by (simp add: restored_worker_def worker_of_def Let_def w)
  let ?s1 = "s\<lparr>im_workers := im_workers s @ [(k, restored_worker w)]\<rparr>"
  have "\<exists>r'. load_workers (length kvs) r1 ?s1 = (None, r', ?s1\<lparr>im_workers := im_workers ?s1 @
      map (\<lambda>(k, w). (k, restored_worker w)) kvs\<rparr>) \<and> ready_for r' rest"
  proof (rule Cons.IH)
    show "reg_worker (wk_registration x) = k \<and> capability_fits (reg_capability (wk_registration x))" if "(k, x) \<in> set kvs" for k x
      using Cons.prems(1) that by (meson list.set_intros(2))
    show "distinct (map fst (im_workers ?s1 @ kvs))"
      using Cons.prems(2) p by simp
  qed (rule r1(2))
  then show ?case
    using r1(1) update_fresh [OF fresh] p id by simp
qed simp

lemma counted_all:
  assumes "ready_for r (w_u64 (of_nat n) @ rest)" and "n \<le> limit" and "limit \<le> 10000000"
  shows "\<exists>r'. counted limit msg load r s = load n r' s \<and> ready_for r' rest"
proof -
  obtain r' where r': "run_state rd_u64 r = (of_nat n, r')" "ready_for r' rest"
    using parsesD [OF parses_words(3) assms(1)] by blast
  moreover have "unat (of_nat n :: u64) = n"
    using assms(2,3) by (simp add: count_word)
  ultimately show ?thesis
    using assms(2) by (auto simp: counted_def ready_for_def)
qed

section \<open>The whole state\<close>

definition loaded :: "Impl \<Rightarrow> Impl \<Rightarrow> Impl" where
  \<comment> \<open>the scheduler \<open>s0\<close> after reading what \<open>s\<close> wrote, before the queue is rebuilt\<close>
  "loaded s s0 = s0\<lparr>im_epoch_value := im_epoch_value s, im_global_admitted := im_global_admitted s,
     im_global_queued := im_global_queued s, im_global_reserved_units := im_global_reserved_units s,
     im_global_running_units := im_global_running_units s, im_global_tokens := im_global_tokens s,
     im_stats := (im_stats s0)\<lparr>st_requests_submitted := st_requests_submitted (im_stats s),
       st_requests_admitted := st_requests_admitted (im_stats s), st_requests_completed := st_requests_completed (im_stats s),
       st_requests_cancelled := st_requests_cancelled (im_stats s), st_requests_failed := st_requests_failed (im_stats s),
       st_requests_expired := st_requests_expired (im_stats s), st_attempts_created := st_attempts_created (im_stats s),
       st_dispatches := st_dispatches (im_stats s), st_retries := st_retries (im_stats s)\<rparr>,
     im_requests := map (\<lambda>(k, x). (k, restored (im_clock_now s) (im_clock_now s0) x)) (im_requests s),
     im_tenants := im_tenants s, im_workers := map (\<lambda>(k, w). (k, restored_worker w)) (im_workers s),
     im_flows := [], im_compat := [], im_active_flows := [], im_queued := []\<rparr>"

definition distinct_keys :: "Impl \<Rightarrow> bool" where
  "distinct_keys s \<longleftrightarrow> distinct (map fst (im_requests s)) \<and> distinct (map fst (im_tenants s)) \<and> distinct (map fst (im_workers s))"

lemma load_tables_all:
  assumes "state_fits s" and "distinct_keys s"
    and "im_requests t = []" "im_tenants t = []" "im_workers t = []"
    and "ready_for r (w_u64 (of_nat (length (im_requests s))) @ concat (map (w_request (im_clock_now s)) (im_requests s)) @
       w_u64 (of_nat (length (im_tenants s))) @ concat (map w_tenant (im_tenants s)) @
       w_u64 (of_nat (length (im_workers s))) @ concat (map w_worker (im_workers s)) @ rest)"
  shows "\<exists>r'. load_tables r t = (None, r', t\<lparr>im_requests := map (\<lambda>(k, x). (k, restored (im_clock_now s) (im_clock_now t) x)) (im_requests s),
     im_tenants := im_tenants s, im_workers := map (\<lambda>(k, w). (k, restored_worker w)) (im_workers s)\<rparr>) \<and> ready_for r' rest"
proof -
  let ?t1 = "t\<lparr>im_requests := map (\<lambda>(k, x). (k, restored (im_clock_now s) (im_clock_now t) x)) (im_requests s)\<rparr>"
  let ?t2 = "?t1\<lparr>im_tenants := im_tenants s\<rparr>"
  let ?R = "concat (map (w_request (im_clock_now s)) (im_requests s))" and ?T = "concat (map w_tenant (im_tenants s))"
    and ?W = "concat (map w_worker (im_workers s))"
  have len: "length (im_requests s) \<le> 10000000" "length (im_tenants s) \<le> 100000" "length (im_workers s) \<le> 100000"
    and fits: "\<And>k x. (k, x) \<in> set (im_requests s) \<Longrightarrow> rec_request_id x = k \<and> request_fits (im_clock_now s) x"
      "\<And>k x. (k, x) \<in> set (im_tenants s) \<Longrightarrow> ten_tenant x = k \<and> tenant_fits x"
      "\<And>k x. (k, x) \<in> set (im_workers s) \<Longrightarrow> reg_worker (wk_registration x) = k \<and> capability_fits (reg_capability (wk_registration x))"
    using assms(1) unfolding state_fits_def by blast+
  obtain r1 where r1: "counted 10000000 ''bad request count'' load_requests r t = load_requests (length (im_requests s)) r1 t"
    "ready_for r1 (?R @ w_u64 (of_nat (length (im_tenants s))) @ ?T @ w_u64 (of_nat (length (im_workers s))) @ ?W @ rest)"
    using counted_all [OF assms(6) len(1)] by blast
  obtain r2 where r2: "load_requests (length (im_requests s)) r1 t = (None, r2, ?t1)"
    "ready_for r2 (w_u64 (of_nat (length (im_tenants s))) @ ?T @ w_u64 (of_nat (length (im_workers s))) @ ?W @ rest)"
    using load_requests_all [OF fits(1) _ r1(2), of t] assms(2,3) by (auto simp: distinct_keys_def)
  obtain r3 where r3: "counted 100000 ''bad tenant count'' load_tenants r2 ?t1 = load_tenants (length (im_tenants s)) r3 ?t1"
    "ready_for r3 (?T @ w_u64 (of_nat (length (im_workers s))) @ ?W @ rest)"
    using counted_all [OF r2(2) len(2)] by fastforce
  obtain r4 where r4: "load_tenants (length (im_tenants s)) r3 ?t1 = (None, r4, ?t2)"
    "ready_for r4 (w_u64 (of_nat (length (im_workers s))) @ ?W @ rest)"
    using load_tenants_all [OF fits(2) _ r3(2), of ?t1] assms(2,4) by (auto simp: distinct_keys_def)
  obtain r5 where r5: "counted 100000 ''bad worker count'' load_workers r4 ?t2 = load_workers (length (im_workers s)) r5 ?t2"
    "ready_for r5 (?W @ rest)"
    using counted_all [OF r4(2) len(3)] by fastforce
  obtain r6 where r6: "load_workers (length (im_workers s)) r5 ?t2 =
      (None, r6, ?t2\<lparr>im_workers := map (\<lambda>(k, w). (k, restored_worker w)) (im_workers s)\<rparr>)" "ready_for r6 rest"
    using load_workers_all [OF fits(3) _ r5(2), of ?t2] assms(2,5) by (auto simp: distinct_keys_def)
  show ?thesis
    by (rule exI [of _ r6]) (simp add: load_tables_def r1(1) r2(1) r3(1) r4(1) r5(1) r6)
qed

lemma deserialize_serialize:
  assumes "state_fits s" and "distinct_keys s"
  shows "deserialize_locked (serialize_locked s) s0 = Some (Inr (), rebuild_queue (loaded s s0))"
proof -
  let ?tail = "w_u64 (of_nat (length (im_requests s))) @ concat (map (w_request (im_clock_now s)) (im_requests s)) @
       w_u64 (of_nat (length (im_tenants s))) @ concat (map w_tenant (im_tenants s)) @
       w_u64 (of_nat (length (im_workers s))) @ concat (map w_worker (im_workers s)) @ []"
  have data: "serialize_locked s = w_u32 0x49534348 @ w_u32 1 @ w_counters s @ w_stats (im_stats s) @ ?tail"
    by (simp add: serialize_locked_def)
  have "ready_for (open_reader (serialize_locked s)) (serialize_locked s)"
    by (simp add: open_reader_def ready_for_def)
  then obtain r1 where r1: "run_state rd_u32 (open_reader (serialize_locked s)) = (0x49534348, r1)"
    "ready_for r1 (w_u32 1 @ w_counters s @ w_stats (im_stats s) @ ?tail)"
    using parsesD [OF parses_words(2)] unfolding data by blast
  obtain r2 where r2: "run_state rd_u32 r1 = (1, r2)" "ready_for r2 (w_counters s @ w_stats (im_stats s) @ ?tail)"
    using parsesD [OF parses_words(2) r1(2)] by blast
  obtain r3 where r3: "run_state rd_counters r2 = (\<lambda>t. t\<lparr>im_epoch_value := im_epoch_value s, im_global_admitted := im_global_admitted s,
     im_global_queued := im_global_queued s, im_global_reserved_units := im_global_reserved_units s,
     im_global_running_units := im_global_running_units s, im_global_tokens := im_global_tokens s\<rparr>, r3)"
    "ready_for r3 (w_stats (im_stats s) @ ?tail)"
    using parsesD [OF parses_counters [OF assms(1)] r2(2)] by blast
  obtain f r4 where r4: "run_state rd_stats r3 = (f, r4)" "ready_for r4 ?tail"
    and f: "f (im_stats s0) = im_stats (loaded s s0)"
    using parsesD [OF parses_stats r3(2)] by (auto simp: loaded_def)
  define t where "t = modify_stats f ((clear_tables s0)\<lparr>im_epoch_value := im_epoch_value s, im_global_admitted := im_global_admitted s,
     im_global_queued := im_global_queued s, im_global_reserved_units := im_global_reserved_units s,
     im_global_running_units := im_global_running_units s, im_global_tokens := im_global_tokens s\<rparr>)"
  have t: "im_requests t = []" "im_tenants t = []" "im_workers t = []"
    by (simp_all add: t_def clear_tables_def)
  obtain r5 where r5: "load_tables r4 t = (None, r5, t\<lparr>im_requests := map (\<lambda>(k, x). (k, restored (im_clock_now s) (im_clock_now t) x)) (im_requests s),
     im_tenants := im_tenants s, im_workers := map (\<lambda>(k, w). (k, restored_worker w)) (im_workers s)\<rparr>)" "ready_for r5 []"
    using load_tables_all [OF assms t r4(2)] by blast
  have "t\<lparr>im_requests := map (\<lambda>(k, x). (k, restored (im_clock_now s) (im_clock_now t) x)) (im_requests s),
     im_tenants := im_tenants s, im_workers := map (\<lambda>(k, w). (k, restored_worker w)) (im_workers s)\<rparr> = loaded s s0"
    using f by (simp add: t_def clear_tables_def modify_stats_def loaded_def)
  then show ?thesis
    using r1(1) r2 r3(1) r4(1) r5
    by (simp add: deserialize_locked_def ready_for_def result_ok_def flip: t_def)
qed

end
