(* ===== verification/Persist_Queue.thy ===== *)
theory Persist_Queue
  imports Persist_Round Scenario
begin

text \<open>
  The queue a restored scheduler starts with: after \<open>deserialize_locked\<close> the indices of the ready queue
  hold exactly the queued requests again.
\<close>

lemma index_inv_cong:
  assumes "map_of (im_requests s') = map_of (im_requests s)" and "im_cfg s' = im_cfg s"
    and "im_queued s' = im_queued s" and "im_global_queued s' = im_global_queued s" and "im_compat s' = im_compat s"
    and "im_flows s' = im_flows s" and "im_active_flows s' = im_active_flows s"
  shows "index_inv s' \<longleftrightarrow> index_inv s"
proof -
  have [simp]: "req_at s' rid = req_at s rid" "queued_state s' rid = queued_state s rid"
    "entry_of s' rid e = entry_of s rid e" "flow_at s' k = flow_at s k" for rid e k
    using assms by (simp_all add: req_at_def umap_at_def queued_state_def entry_of_def flow_at_def)
  show ?thesis
    using assms by (simp add: index_inv_def queue_inv_def compat_inv_def flow_inv_def)
qed

lemma enqueue_locked_tables:
  fixes rid s
  defines "r \<equiv> (req_at s rid)\<lparr>rec_state := RS_Queued\<rparr>"
  shows "im_requests (enqueue_locked rid s) = AList.update rid r (im_requests s)"
    and "im_cfg (enqueue_locked rid s) = im_cfg s"
    and "im_queued (enqueue_locked rid s) = uset_insert (rec_request_id r) (im_queued s)"
    and "im_global_queued (enqueue_locked rid s) = im_global_queued s + 1"
    and "im_compat (enqueue_locked rid s) = AList.update (compat_key (im_cfg s) (rec_spec r))
      (uset_insert (rec_request_id r) (umap_at [] (im_compat s) (compat_key (im_cfg s) (rec_spec r)))) (im_compat s)"
    and "fl_pending (flow_at (enqueue_locked rid s) k) = (if k = flow_key (rec_spec r)
      then pq_push (ready_entry r (im_clock_now s)) (fl_pending (flow_at s k)) else fl_pending (flow_at s k))"
    and "set (im_active_flows (enqueue_locked rid s)) = (if fl_pending (flow_at s (flow_key (rec_spec r))) = []
      then insert (flow_key (rec_spec r)) (set (im_active_flows s)) else set (im_active_flows s))"
    and "im_workers (enqueue_locked rid s) = im_workers s"
    and "im_epoch_value (enqueue_locked rid s) = im_epoch_value s"
    and "im_global_admitted (enqueue_locked rid s) = im_global_admitted s"
  by (simp_all add: r_def enqueue_locked_def Let_def enqueue_flow_pending enqueue_flow_active enqueue_flow_def [THEN arg_cong [of _ _ im_epoch_value]])

section \<open>The loop over the restored requests\<close>

definition only :: "RequestId set \<Rightarrow> Impl \<Rightarrow> Impl" where
  \<comment> \<open>the state with some of its requests left out\<close>
  "only X s = s\<lparr>im_requests := filter (\<lambda>(k, _). k \<in> X) (im_requests s)\<rparr>"

definition queueable :: "RequestRecord \<Rightarrow> bool" where
  "queueable r \<longleftrightarrow> rec_state r = RS_Queued \<or> rec_state r = RS_Admitted"

lemma only_fields [simp]:
  "im_cfg (only X s) = im_cfg s" "im_queued (only X s) = im_queued s" "im_global_queued (only X s) = im_global_queued s"
  "im_compat (only X s) = im_compat s" "im_flows (only X s) = im_flows s" "im_active_flows (only X s) = im_active_flows s"
  "flow_at (only X s) k = flow_at s k" "find_req (only X s) x = (if x \<in> X then find_req s x else None)"
proof -
  have "map_of (filter (\<lambda>(k, _). k \<in> X) m) x = (if x \<in> X then map_of m x else None)" for m :: "(RequestId \<times> RequestRecord) list"
    by (induction m) auto
  then show "find_req (only X s) x = (if x \<in> X then find_req s x else None)"
    by (simp add: only_def)
qed (simp_all add: only_def flow_at_def)

lemma only_enqueue:
  assumes "index_inv (only X s)" and "rid \<notin> X" and "find_req s rid = Some r" and "rec_request_id r = rid"
  shows "index_inv (only (insert rid X) (enqueue_locked rid s))"
proof -
  let ?r = "r\<lparr>rec_state := RS_Queued\<rparr>" and ?t = "enqueue_locked rid s"
  let ?u = "(only (insert rid X) ?t)\<lparr>im_requests := AList.update rid ?r (im_requests (only X s))\<rparr>"
  have r: "req_at s rid = r"
    using assms(3) by simp
  note tables = enqueue_locked_tables [where rid = rid and s = s, unfolded r]
  have "index_inv ?u"
    by (rule index_enter [OF assms(1), of _ rid ?r "ready_entry ?r (im_clock_now s)"])
      (use assms tables in \<open>simp_all add: queued_state_def flow_at_def [of "only X s\<lparr>im_requests := m\<rparr>" for X s m]
         ready_entry_def flow_at_def [symmetric]\<close>)
  moreover have "map_of (im_requests ?u) = map_of (im_requests (only (insert rid X) ?t))"
    using tables(1) by (auto simp: fun_eq_iff AList.update_conv')
  ultimately show ?thesis
    using index_inv_cong [of "only (insert rid X) ?t" ?u] by simp
qed

lemma only_skip:
  assumes "index_inv (only X s)" and "rid \<notin> X" and "find_req s rid = Some r" and "rec_state r \<noteq> RS_Queued"
  shows "index_inv (only (insert rid X) s)"
proof -
  let ?u = "(only (insert rid X) s)\<lparr>im_requests := AList.update rid r (im_requests (only X s))\<rparr>"
  have "index_inv ?u"
    by (rule index_neutral [OF assms(1), of _ rid r]) (use assms in \<open>simp_all add: queued_state_def flow_at_def\<close>)
  moreover have "map_of (im_requests ?u) = map_of (im_requests (only (insert rid X) s))"
    using assms(3) by (auto simp: fun_eq_iff AList.update_conv')
  ultimately show ?thesis
    using index_inv_cong [of "only (insert rid X) s" ?u] by simp
qed

abbreviation requeue :: "RequestRecord \<Rightarrow> RequestRecord" where
  "requeue r \<equiv> if queueable r then r\<lparr>rec_state := RS_Queued\<rparr> else r"

lemma requeue_one_tables:
  assumes "find_req s k = Some r" and "rec_request_id r = k"
  shows "find_req (requeue_one (k, r) s) x = (if x = k then Some (requeue r) else find_req s x)"
    and "im_workers (requeue_one (k, r) s) = im_workers s" and "im_epoch_value (requeue_one (k, r) s) = im_epoch_value s"
    and "im_global_admitted (requeue_one (k, r) s) = im_global_admitted s"
  using assms enqueue_locked_tables(1) [of k s]
  by (auto simp: requeue_one_def queueable_def enqueue_locked_tables(8-10) AList.update_conv')

lemma rebuild_loop:
  assumes "distinct (map fst ys)" and "\<And>k r. (k, r) \<in> set ys \<Longrightarrow> find_req s k = Some r \<and> rec_request_id r = k"
  shows "find_req (fold requeue_one ys s) x = (case map_of ys x of None \<Rightarrow> find_req s x | Some r \<Rightarrow> Some (requeue r))"
    and "im_workers (fold requeue_one ys s) = im_workers s" and "im_epoch_value (fold requeue_one ys s) = im_epoch_value s"
    and "im_global_admitted (fold requeue_one ys s) = im_global_admitted s"
    and "index_inv (only X s) \<Longrightarrow> fst ` set ys \<inter> X = {} \<Longrightarrow> index_inv (only (X \<union> fst ` set ys) (fold requeue_one ys s))"
proof -
  have "find_req (fold requeue_one ys s) x = (case map_of ys x of None \<Rightarrow> find_req s x | Some r \<Rightarrow> Some (requeue r)) \<and>
    im_workers (fold requeue_one ys s) = im_workers s \<and> im_epoch_value (fold requeue_one ys s) = im_epoch_value s \<and>
    im_global_admitted (fold requeue_one ys s) = im_global_admitted s \<and>
    (index_inv (only X s) \<longrightarrow> fst ` set ys \<inter> X = {} \<longrightarrow> index_inv (only (X \<union> fst ` set ys) (fold requeue_one ys s)))"
    using assms
  proof (induction ys arbitrary: X s)
    case (Cons p ys)
    obtain k r where p: "p = (k, r)"
      by fastforce
    have found: "find_req s k = Some r" and id: "rec_request_id r = k" and k: "k \<notin> fst ` set ys"
      using Cons.prems p by auto
    let ?t = "requeue_one (k, r) s"
    note t = requeue_one_tables [OF found id]
    have rest: "find_req ?t j = Some x \<and> rec_request_id x = j" if "(j, x) \<in> set ys" for j x
    proof -
      have "j \<noteq> k"
        using that k by force
      then show ?thesis
        using Cons.prems(2) [of j x] that by (simp add: t)
    qed
    have IH: "find_req (fold requeue_one ys ?t) x = (case map_of ys x of None \<Rightarrow> find_req ?t x | Some r \<Rightarrow> Some (requeue r))"
      "im_workers (fold requeue_one ys ?t) = im_workers ?t" "im_epoch_value (fold requeue_one ys ?t) = im_epoch_value ?t"
      "im_global_admitted (fold requeue_one ys ?t) = im_global_admitted ?t"
      "index_inv (only (insert k X) ?t) \<Longrightarrow> fst ` set ys \<inter> insert k X = {} \<Longrightarrow>
        index_inv (only (insert k X \<union> fst ` set ys) (fold requeue_one ys ?t))"
      using Cons.IH [OF _ rest, of "insert k X"] Cons.prems(1) by simp_all
    have "map_of ys k = None"
      using k by (simp add: map_of_eq_None_iff)
    moreover have "index_inv (only (X \<union> fst ` set (p # ys)) (fold requeue_one (p # ys) s))"
      if inv: "index_inv (only X s)" and disj: "fst ` set (p # ys) \<inter> X = {}"
    proof -
      have "k \<notin> X"
        using disj p by auto
      then have "index_inv (only (insert k X) ?t)"
        using only_enqueue [OF inv _ found id] only_skip [OF inv _ found] id by (auto simp: requeue_one_def)
      moreover have "fst ` set ys \<inter> insert k X = {}"
        using disj k by auto
      ultimately show ?thesis
        using IH(5) p by simp
    qed
    ultimately show ?case
      using IH(1-4) p by (auto simp: t split: option.split)
  qed simp
  then show "find_req (fold requeue_one ys s) x = (case map_of ys x of None \<Rightarrow> find_req s x | Some r \<Rightarrow> Some (requeue r))"
    and "im_workers (fold requeue_one ys s) = im_workers s" and "im_epoch_value (fold requeue_one ys s) = im_epoch_value s"
    and "im_global_admitted (fold requeue_one ys s) = im_global_admitted s"
    and "index_inv (only X s) \<Longrightarrow> fst ` set ys \<inter> X = {} \<Longrightarrow> index_inv (only (X \<union> fst ` set ys) (fold requeue_one ys s))"
    by blast+
qed

section \<open>The restored scheduler\<close>

lemma restored_state [simp]: "rec_state (restored saved now r) = rec_state r"
  by (simp add: restored_def)

lemma requeue_state: "rec_state (requeue r) = RS_Queued \<longleftrightarrow> rec_state r \<in> {RS_Queued, RS_Admitted}"
  by (simp add: queueable_def)

lemma loaded_requests:
  "find_req (loaded s s0) rid = map_option (restored (im_clock_now s) (im_clock_now s0)) (find_req s rid)"
  "find_wrk (loaded s s0) wid = map_option restored_worker (find_wrk s wid)"
  by (simp_all add: loaded_def map_of_map [unfolded comp_def])

lemma rebuilt:
  assumes "state_fits s" and "distinct_keys s"
  shows "find_req (rebuild_queue (loaded s s0)) rid =
      map_option (\<lambda>r. requeue (restored (im_clock_now s) (im_clock_now s0) r)) (find_req s rid)"
    and "find_wrk (rebuild_queue (loaded s s0)) wid = map_option restored_worker (find_wrk s wid)"
    and "im_epoch_value (rebuild_queue (loaded s s0)) = im_epoch_value s"
    and "im_global_admitted (rebuild_queue (loaded s s0)) = im_global_admitted s"
    and "index_inv (rebuild_queue (loaded s s0))"
proof -
  let ?l = "loaded s s0"
  define s1 where "s1 = ?l\<lparr>im_global_queued := 0, im_tenants := map (\<lambda>(k, t). (k, t\<lparr>ten_queued := 0\<rparr>)) (im_tenants ?l)\<rparr>"
  have reqs: "im_requests s1 = im_requests ?l"
    by (simp add: s1_def)
  have keys: "distinct (map fst (im_requests s1))"
    using assms(2) by (simp add: reqs loaded_def distinct_keys_def split_beta comp_def)
  have ids: "find_req s1 k = Some r \<and> rec_request_id r = k" if "(k, r) \<in> set (im_requests s1)" for k r
    using that keys assms(1) by (auto simp: reqs loaded_def state_fits_def restored_def)
  have eq: "rebuild_queue ?l = fold requeue_one (im_requests s1) s1"
    by (simp add: rebuild_queue_def s1_def)
  note loop = rebuild_loop [OF keys ids]
  show "find_req (rebuild_queue ?l) rid = map_option (\<lambda>r. requeue (restored (im_clock_now s) (im_clock_now s0) r)) (find_req s rid)"
    using loaded_requests(1) [of s s0 rid] by (auto simp: eq loop(1)) (auto simp: reqs split: option.split)
  show "find_wrk (rebuild_queue ?l) wid = map_option restored_worker (find_wrk s wid)"
    using loaded_requests(2) [of s s0 wid] by (simp add: eq loop) (simp add: s1_def)
  show "im_epoch_value (rebuild_queue ?l) = im_epoch_value s" "im_global_admitted (rebuild_queue ?l) = im_global_admitted s"
    by (simp_all add: eq loop) (simp_all add: s1_def loaded_def)
  have "index_inv (only {} s1)"
    by (simp add: index_inv_def queue_inv_def compat_inv_def flow_inv_def queued_state_def s1_def loaded_def only_def
          umap_at_def flow_at_def default_Flow_def pq_ordered_def entry_of_def)
  then have only_keys: "index_inv (only (fst ` set (im_requests s1)) (rebuild_queue ?l))"
    using loop(5) [of "{}"] by (simp add: eq)
  have none: "find_req (rebuild_queue ?l) x = None" if "x \<notin> fst ` set (im_requests s1)" for x
    using that by (simp add: eq loop(1) map_of_eq_None_iff split: option.split)
  have "find_req (only (fst ` set (im_requests s1)) (rebuild_queue ?l)) x = find_req (rebuild_queue ?l) x" for x
    using none [of x] by auto
  then show "index_inv (rebuild_queue ?l)"
    using only_keys index_inv_cong [of "rebuild_queue ?l" "only (fst ` set (im_requests s1)) (rebuild_queue ?l)"]
    by (simp add: fun_eq_iff)
qed

definition ex_saved :: Impl where
  \<comment> \<open>one request waits, one was admitted and one runs on worker 9\<close>
  "ex_saved = ex_init\<lparr>im_epoch_value := 4, im_global_admitted := 3,
     im_requests := map (\<lambda>(k, st). (k, default_RequestRecord\<lparr>rec_request_id := k, rec_state := st, rec_spec := ex_spec\<rparr>))
       [(5, RS_Queued), (6, RS_Admitted), (8, RS_Running)],
     im_workers := [(9, default_WorkerRecord\<lparr>wk_registration := ex_reg, wk_state := WS_Online\<rparr>)]\<rparr>"

lemma ex_init_units: "im_global_reserved_units ex_init = 0" "im_global_running_units ex_init = 0" "ilog2 1 = 0"
  by (simp_all add: ex_init_def new_impl_def) code_simp

lemma ex_saved_fits: "state_fits ex_saved" "distinct_keys ex_saved"
  by (simp_all add: state_fits_def distinct_keys_def ex_saved_def ex_init_fields request_fits_def spec_fits_def ex_spec_def ex_reg_def
        capability_fits_def i64_ok_def i32_ok_def str_ok_def default_RequestRecord_def default_RequestSpec_def default_WorkerRecord_def
        default_WorkerRegistration_def default_WorkerCapability_def deadline_none_def default_TokenEstimate_def
        is_double_def ex_init_units)

lemma recovered_state:
  assumes "state_fits s" and "distinct_keys s"
  shows "\<exists>t. deserialize_locked (serialize_locked s) s0 = Some (Inr (), t) \<and>
    im_epoch_value t = im_epoch_value s \<and> im_global_admitted t = im_global_admitted s \<and>
    (\<forall>rid. find_req t rid = map_option (\<lambda>r. let x = restored (im_clock_now s) (im_clock_now s0) r in
       if rec_state r = RS_Admitted then x\<lparr>rec_state := RS_Queued\<rparr> else x) (find_req s rid)) \<and>
    (\<forall>wid. find_wrk t wid = map_option restored_worker (find_wrk s wid))"
proof -
  have "requeue (restored a b r) = (let x = restored a b r in if rec_state r = RS_Admitted then x\<lparr>rec_state := RS_Queued\<rparr> else x)" for a b r
    by (simp add: queueable_def restored_def Let_def)
  then show ?thesis
    by (simp add: deserialize_serialize [OF assms] rebuilt [OF assms])
qed

text \<open>
  C27. Recovery rebuilds the ready queue. After saving and restoring, the waiting requests are exactly those
  that were \<open>Queued\<close> or \<open>Admitted\<close> when the state was saved, whatever the queue of the restoring scheduler held before,
  and the indices satisfy the invariant of the ready queue: the counter is their number, the compatibility
  index groups exactly them by key, and each has a current entry in its flow, which is active and ordered.
\<close>

theorem recovery_rebuilds_queue:
  assumes "state_fits s" and "distinct_keys s" and "deserialize_locked (serialize_locked s) s0 = Some (Inr (), t)"
  shows "distinct (im_queued t) \<and> im_global_queued t = int (length (im_queued t)) \<and>
    (\<forall>rid. rid \<in> set (im_queued t) \<longleftrightarrow> (\<exists>r. find_req s rid = Some r \<and> rec_state r \<in> {RS_Queued, RS_Admitted})) \<and>
    (\<forall>k rid. rid \<in> set (umap_at [] (im_compat t) k) \<longleftrightarrow>
       rid \<in> set (im_queued t) \<and> compat_key (im_cfg t) (rec_spec (req_at t rid)) = k) \<and>
    (\<forall>rid\<in>set (im_queued t). \<exists>e\<in>set (fl_pending (flow_at t (flow_key (rec_spec (req_at t rid))))).
       re_id e = rid \<and> re_generation e = rec_generation (req_at t rid)) \<and>
    (\<forall>k. fl_pending (flow_at t k) \<noteq> [] \<longrightarrow> k \<in> set (im_active_flows t)) \<and>
    (\<forall>k. sorted_wrt (\<lambda>a b. \<not> urgent b a) (fl_pending (flow_at t k)))"
proof -
  have t: "t = rebuild_queue (loaded s s0)"
    using assms(3) by (simp add: deserialize_serialize [OF assms(1,2)])
  have "queued_state t rid \<longleftrightarrow> (\<exists>r. find_req s rid = Some r \<and> rec_state r \<in> {RS_Queued, RS_Admitted})" for rid
    by (cases "find_req s rid") (simp_all add: t queued_state_def rebuilt [OF assms(1,2)] requeue_state)
  moreover have "index_inv t"
    unfolding t by (rule rebuilt(5) [OF assms(1,2)])
  ultimately show ?thesis
    by (simp add: index_inv_def queue_inv_def compat_inv_def flow_inv_def entry_of_def pq_ordered_def)
qed

theorem recovery_rebuilds_queue_witness:
  "\<exists>t. deserialize_locked (serialize_locked ex_saved) ex_init = Some (Inr (), t) \<and> set (im_queued t) = {5, 6} \<and> im_global_queued t = 2"
proof -
  obtain t where t: "deserialize_locked (serialize_locked ex_saved) ex_init = Some (Inr (), t)"
    using deserialize_serialize [OF ex_saved_fits] by blast
  have "distinct (im_queued t)" and "im_global_queued t = int (length (im_queued t))"
    and "\<And>rid. rid \<in> set (im_queued t) \<longleftrightarrow> (\<exists>r. find_req ex_saved rid = Some r \<and> rec_state r \<in> {RS_Queued, RS_Admitted})"
    using recovery_rebuilds_queue [OF ex_saved_fits t] by blast+
  moreover have "(\<exists>r. find_req ex_saved rid = Some r \<and> rec_state r \<in> {RS_Queued, RS_Admitted}) \<longleftrightarrow> rid \<in> {5, 6}" for rid
    by (auto simp: ex_saved_def)
  ultimately have "set (im_queued t) = {5, 6}" and "distinct (im_queued t)" and n: "im_global_queued t = int (length (im_queued t))"
    by (blast+)
  moreover from this have "length (im_queued t) = 2"
    using distinct_card [of "im_queued t"] by simp
  ultimately show ?thesis
    using t by simp
qed

end
