(* ===== verification/Persist_File.thy ===== *)
theory Persist_File
  imports Persist_Queue
begin

text \<open>
  The file around the saved state (\<open>persistence.cpp\<close>): a header, the payload and a checksum, written to a
  temporary file that then replaces the old one. The files are a map from paths to bytes. What the C library
  calls did (whether a file could be opened, how many bytes were transferred) is an argument of the
  operations, so each of their failures is a branch. The branch for POSIX is modelled.
\<close>

unbundle bit_operations_syntax

section \<open>The envelope\<close>

definition fnv1a :: "u64 \<Rightarrow> u64 \<Rightarrow> u64" where
  "fnv1a h b = (h XOR b) * 1099511628211"

definition checksum_of :: "string \<Rightarrow> u64" where
  "checksum_of s = foldl (\<lambda>h c. fnv1a h (of_nat (of_char c))) 1469598103934665603 s"

definition put_u32 :: "string \<Rightarrow> u32 \<Rightarrow> string" where
  "put_u32 s v = s @ le_bytes 4 (unat v)"

definition put_u64 :: "string \<Rightarrow> u64 \<Rightarrow> string" where
  "put_u64 s v = s @ le_bytes 8 (unat v)"

definition get_u32 :: "string \<Rightarrow> nat \<Rightarrow> (u32 \<times> nat) option" where
  "get_u32 s off = (if off + 4 > length s then None else Some (of_nat (le_nat (take 4 (drop off s))), off + 4))"

definition get_u64 :: "string \<Rightarrow> nat \<Rightarrow> (u64 \<times> nat) option" where
  "get_u64 s off = (if off + 8 > length s then None else Some (of_nat (le_nat (take 8 (drop off s))), off + 8))"

definition k_persistence_magic :: u32 where "k_persistence_magic = 0x49534653"
definition k_persistence_frame_version :: u32 where "k_persistence_frame_version = 1"
definition k_persistence_header_size :: nat where "k_persistence_header_size = 16"
definition k_persistence_trailer_size :: nat where "k_persistence_trailer_size = 8"

definition envelope :: "string \<Rightarrow> string" where
  "envelope payload =
     (let frame = put_u64 (put_u32 (put_u32 [] k_persistence_magic) k_persistence_frame_version) (of_nat (length payload)) @ payload
      in put_u64 frame (checksum_of frame))"

definition open_envelope :: "string \<Rightarrow> string result" where
  "open_envelope s =
     (if length s < k_persistence_header_size + k_persistence_trailer_size
      then Inl (make_error_ctx EC_Corruption ''envelope too short'' (''size='' @ to_string_nat (length s)))
      else case get_u32 s 0 of None \<Rightarrow> Inl (make_error EC_Corruption ''envelope fields truncated'')
      | Some (magic, off) \<Rightarrow> (case get_u32 s off of None \<Rightarrow> Inl (make_error EC_Corruption ''envelope fields truncated'')
      | Some (ver, off) \<Rightarrow> (case get_u64 s off of None \<Rightarrow> Inl (make_error EC_Corruption ''envelope fields truncated'')
      | Some (len, off) \<Rightarrow>
        (let chk = (of_nat (le_nat (drop (length s - k_persistence_trailer_size) s)) :: u64)
         in if magic \<noteq> k_persistence_magic then Inl (make_error EC_Corruption ''bad magic'')
            else if ver \<noteq> k_persistence_frame_version
            then Inl (make_error_ctx EC_Corruption ''unsupported frame version'' (''version='' @ to_string_nat (unat ver)))
            else if len + of_nat k_persistence_header_size + of_nat k_persistence_trailer_size \<noteq> of_nat (length s)
            then Inl (make_error_ctx EC_Corruption ''length mismatch''
                   (''len='' @ to_string_nat (unat len) @ '' vs '' @ to_string_nat (length s)))
            else let payload = take (unat len) (drop k_persistence_header_size s);
                     pre = take (k_persistence_header_size + unat len) s
                 in if checksum_of pre \<noteq> chk then Inl (make_error EC_Corruption ''checksum mismatch'')
                    else Inr payload))))"

section \<open>The files\<close>

type_synonym Files = "string \<rightharpoonup> string"

record Io =
  io_open :: bool \<comment> \<open>\<open>fopen\<close> gave a file\<close>
  io_count :: nat \<comment> \<open>the bytes \<open>fwrite\<close> took, or \<open>fread\<close> gave, at most\<close>
  io_flush :: bool \<comment> \<open>\<open>fflush\<close> returned 0\<close>
  io_kept :: nat \<comment> \<open>how much of a failed write reached the file\<close>
  io_rename :: bool \<comment> \<open>\<open>rename\<close> returned 0\<close>
  io_tell :: bool \<comment> \<open>\<open>ftell\<close> gave the size\<close>

definition tmp_path :: "string \<Rightarrow> string" where
  "tmp_path path = path @ ''.tmp''"

definition replace_file :: "Io \<Rightarrow> string \<Rightarrow> string \<Rightarrow> Files \<Rightarrow> unit result \<times> Files" where
  "replace_file io path frame fs =
     (let tmp = tmp_path path
      in if \<not> io_open io then (Inl (make_error EC_PersistenceFailure ''open temp failed''), fs)
         else let w = min (io_count io) (length frame);
                  full = (w = length frame \<and> io_flush io);
                  fs1 = fs(tmp \<mapsto> (if full then frame else take (io_kept io) frame))
              in if \<not> full then (Inl (make_error EC_PersistenceFailure ''write/flush failed''), fs1)
                 else if \<not> io_rename io then (Inl (make_error EC_PersistenceFailure ''atomic replace failed''), fs1)
                 else (result_ok (), fs1(path := fs1 tmp, tmp := None)))"

definition write_persistence_file :: "Io \<Rightarrow> string \<Rightarrow> string \<Rightarrow> Files \<Rightarrow> unit result \<times> Files" where
  "write_persistence_file io path payload fs = replace_file io path (envelope payload) fs"

definition read_persistence_file :: "Io \<Rightarrow> string \<Rightarrow> Files \<Rightarrow> string result" where
  "read_persistence_file io path fs =
     (case (if io_open io then fs path else None) of
        None \<Rightarrow> Inl (make_error EC_NotFound ''persistence file not readable'')
      | Some blob \<Rightarrow>
          (let sz = (if io_tell io then int (length blob) else - 1)
           in if sz \<le> 0 then Inl (make_error EC_Corruption ''unreadable size'')
              else if min (io_count io) (length blob) \<noteq> length blob
              then Inl (make_error EC_PersistenceFailure ''read failed'')
              else open_envelope blob))"


definition do_recover :: "Io \<Rightarrow> string \<Rightarrow> Files \<Rightarrow> Impl \<Rightarrow> (unit result \<times> Impl) option" where
  "do_recover io path fs s =
     (case read_persistence_file io path fs of Inl e \<Rightarrow> Some (Inl e, s)
      | Inr payload \<Rightarrow> map_option (\<lambda>(res, s'). (res, s'\<lparr>im_recovery_mode := 0\<rparr>))
          (deserialize_locked payload (s\<lparr>im_recovery_mode := 1\<rparr>)))"

section \<open>Reading an envelope\<close>

lemma tmp_path_neq [simp]: "tmp_path path \<noteq> path" "path \<noteq> tmp_path path"
  by (simp_all add: tmp_path_def)

lemmas envelope_sizes = k_persistence_header_size_def k_persistence_trailer_size_def

lemma length_envelope: "length (envelope payload) = length payload + 24"
  by (simp add: envelope_def Let_def put_u32_def put_u64_def)

lemma le_nat_word: "le_nat (le_bytes 4 (unat (v :: u32))) = unat v" "le_nat (le_bytes 8 (unat (w :: u64))) = unat w"
  by (simp_all only: le_nat_le_bytes unat_mod_256)


lemma open_envelope_checked:
  assumes "open_envelope s = Inr payload" and "length s < 2 ^ 64"
  shows "24 \<le> length s" and "checksum_of (take (length s - 8) s) = of_nat (le_nat (drop (length s - 8) s))"
proof -
  show n: "24 \<le> length s"
    using assms(1) by (simp add: open_envelope_def envelope_sizes split: if_splits)
  then obtain len :: u64 where len: "len + 16 + 8 = of_nat (length s)"
      "checksum_of (take (16 + unat len) s) = of_nat (le_nat (drop (length s - 8) s))"
    using assms(1) by (auto simp: open_envelope_def envelope_sizes Let_def split: if_splits option.splits)
  have "len = of_nat (length s - 24)"
    using len(1) n by (simp add: of_nat_diff algebra_simps)
  moreover have "unat (of_nat (length s - 24) :: u64) = length s - 24"
    using assms(2) by (simp add: unat_of_nat del: of_nat_diff)
  ultimately have "16 + unat len = length s - 8"
    using n by (simp del: of_nat_diff)
  with len(2) show "checksum_of (take (length s - 8) s) = of_nat (le_nat (drop (length s - 8) s))"
    by simp
qed

section \<open>The checksum\<close>

lemma fnv1a_inverse: "fnv1a h b * 14886173955864302971 XOR b = h"
proof -
  have "(1099511628211 * 14886173955864302971 :: u64) = 1"
    by code_simp
  then show ?thesis
    by (simp only: fnv1a_def mult.assoc mult_1_right xor.assoc xor_self_eq xor.right_neutral)
qed

lemma fnv1a_inj: "fnv1a h b = fnv1a h' b \<longleftrightarrow> h = h'" "fnv1a h b = fnv1a h b' \<longleftrightarrow> b = b'"
proof -
  show "fnv1a h b = fnv1a h' b \<longleftrightarrow> h = h'"
    by (metis fnv1a_inverse)
  have "fnv1a h b = fnv1a b h" for h b
    by (simp add: fnv1a_def xor.commute)
  then show "fnv1a h b = fnv1a h b' \<longleftrightarrow> b = b'"
    by (metis fnv1a_inverse)
qed

lemma checksum_tail_inj: "foldl (\<lambda>h c. fnv1a h (of_nat (of_char c))) h s = foldl (\<lambda>h c. fnv1a h (of_nat (of_char c))) h' s \<longleftrightarrow> h = h'"
  by (induction s arbitrary: h h') (simp_all add: fnv1a_inj)

lemma byte_word_inj: "(of_nat (of_char a) :: u64) = of_nat (of_char b) \<longleftrightarrow> a = b"
proof -
  have "unat (of_nat (of_char c :: nat) :: u64) = of_char c" for c :: char
    using of_char_less [of c] by (simp add: unat_of_nat mod_less less_trans [of _ 256])
  then show ?thesis
    by (metis of_char_eq_iff)
qed

lemma checksum_change:
  assumes "i < length s" and "c \<noteq> s ! i"
  shows "checksum_of (s[i := c]) \<noteq> checksum_of s"
proof -
  have "checksum_of (take i s @ s ! i # drop (Suc i) s) \<noteq> checksum_of (take i s @ c # drop (Suc i) s)"
    using assms(2) by (simp add: checksum_of_def checksum_tail_inj fnv1a_inj byte_word_inj)
  then show ?thesis
    using assms(1) by (simp add: id_take_nth_drop [symmetric] upd_conv_take_nth_drop)
qed

lemma checksum_of_envelope: "checksum_of (take (length (envelope p) - 8) (envelope p)) = of_nat (le_nat (drop (length (envelope p) - 8) (envelope p)))"
  by (simp add: envelope_def Let_def put_u32_def put_u64_def le_nat_word)

lemma trailer_inj:
  assumes "length a = 8" and "length b = 8" and "(of_nat (le_nat a) :: u64) = of_nat (le_nat b)"
  shows "a = b"
proof -
  have "le_nat a < 2 ^ 64" "le_nat b < 2 ^ 64"
    using le_nat_less [of a] le_nat_less [of b] assms(1,2) by simp_all
  then have "le_nat a = le_nat b"
    using arg_cong [OF assms(3), of unat] by (simp add: unat_of_nat)
  then show ?thesis
    using le_bytes_le_nat [of a] le_bytes_le_nat [of b] assms(1,2) by simp
qed

lemma open_envelope_error: "open_envelope s = Inl e \<Longrightarrow> err_code e = EC_Corruption"
  by (auto simp: open_envelope_def Let_def make_error_def make_error_ctx_def split: option.splits if_splits)

lemma changed_byte_rejected:
  assumes "length p + 24 < 2 ^ 64" and "i < length (envelope p)" and "c \<noteq> envelope p ! i"
  shows "\<exists>e. open_envelope ((envelope p)[i := c]) = Inl e \<and> err_code e = EC_Corruption"
proof (cases "open_envelope ((envelope p)[i := c])")
  case (Inl e)
  then show ?thesis
    using open_envelope_error by blast
next
  case (Inr q)
  let ?s = "envelope p" and ?n = "length (envelope p) - 8"
  from open_envelope_checked(2) [OF Inr] assms(1)
  have eq: "checksum_of (take ?n (?s[i := c])) = of_nat (le_nat (drop ?n (?s[i := c])))"
    by (simp add: length_envelope)
  have False
  proof (cases "i < ?n")
    case True
    then have "checksum_of ((take ?n ?s)[i := c]) = checksum_of (take ?n ?s)"
      using eq checksum_of_envelope [of p] by (simp add: take_update_swap drop_update_cancel)
    then show False
      using checksum_change [of i "take ?n ?s" c] True assms(3) by simp
  next
    case False
    then have "(of_nat (le_nat (drop ?n (?s[i := c]))) :: u64) = of_nat (le_nat (drop ?n ?s))"
      using eq checksum_of_envelope [of p] by (simp add: take_update_cancel)
    then have same: "drop ?n (?s[i := c]) = drop ?n ?s"
      by (rule trailer_inj [rotated 2]) (simp_all add: length_envelope)
    have "c = ?s[i := c] ! i"
      using assms(2) by simp
    also have "\<dots> = drop ?n (?s[i := c]) ! (i - ?n)"
      using False assms(2) by (simp add: nth_list_update)
    also have "\<dots> = ?s ! i"
      unfolding same using False assms(2) by simp
    finally show False
      using assms(3) by simp
  qed
  then show ?thesis ..
qed

section \<open>Saving and recovering\<close>


lemma read_whole:
  assumes "fs path = Some blob" and "io_open io" and "io_tell io" and "length blob \<le> io_count io" and "blob \<noteq> []"
  shows "read_persistence_file io path fs = open_envelope blob"
  using assms by (simp add: read_persistence_file_def min_def)

lemma envelope_not_empty: "envelope p \<noteq> []" "(envelope p)[i := c] \<noteq> []"
  using length_envelope [of p] by auto

definition good_io :: Io where
  "good_io = \<lparr>io_open = True, io_count = 1000000, io_flush = True, io_kept = 0, io_rename = True, io_tell = True\<rparr>"







text \<open>
  C28. A save replaces the file completely or not at all. Whatever the calls of the C library did, an error of
  \<open>write_persistence_file\<close> leaves the old file at the path as it was, success leaves the whole
  envelope there and no temporary file, success is reported exactly when every call succeeded, and no
  file other than the path and its temporary companion changes.
\<close>

theorem save_all_or_nothing:
  "case write_persistence_file io path payload fs of (res, fs') \<Rightarrow>
    (case res of Inl e \<Rightarrow> err_code e = EC_PersistenceFailure \<and> fs' path = fs path
     | Inr _ \<Rightarrow> fs' path = Some (envelope payload) \<and> fs' (tmp_path path) = None) \<and>
    (res = Inr () \<longleftrightarrow> io_open io \<and> length payload + 24 \<le> io_count io \<and> io_flush io \<and> io_rename io) \<and>
    (\<forall>q. q \<noteq> path \<longrightarrow> q \<noteq> tmp_path path \<longrightarrow> fs' q = fs q)"
  by (auto simp: write_persistence_file_def replace_file_def Let_def length_envelope result_ok_def)

theorem save_all_or_nothing_witness:
  "snd (write_persistence_file good_io ''a'' ''xy'' [''b'' \<mapsto> ''keep'']) ''b'' = Some ''keep'' \<and>
   fst (write_persistence_file good_io ''a'' ''xy'' Map.empty) = Inr ()"
  using save_all_or_nothing [where io = good_io and path = "''a''" and payload = "''xy''" and fs = "[''b'' \<mapsto> ''keep'']"]
    save_all_or_nothing [where io = good_io and path = "''a''" and payload = "''xy''" and fs = Map.empty]
  by (simp add: good_io_def tmp_path_def split: prod.splits)

text \<open>
  C29. One damaged byte is noticed. When the file at the path is a saved envelope in which one byte, of the header, the
  payload or the checksum, has another value, recovering from it reports \<open>Corruption\<close> and
  leaves the scheduler as it was.
\<close>

theorem damaged_file_rejected:
  assumes "fs path = Some ((envelope p)[i := c])" and "i < length p + 24" and "c \<noteq> envelope p ! i"
    and "length p + 24 < 2 ^ 64" and "io_open io" and "io_tell io" and "length p + 24 \<le> io_count io"
  shows "\<exists>e. do_recover io path fs s = Some (Inl e, s) \<and> err_code e = EC_Corruption"
proof -
  have "i < length (envelope p)"
    using assms(2) by (simp add: length_envelope)
  from changed_byte_rejected [OF assms(4) this assms(3)]
  obtain e where "open_envelope ((envelope p)[i := c]) = Inl e" "err_code e = EC_Corruption"
    by blast
  moreover have "read_persistence_file io path fs = open_envelope ((envelope p)[i := c])"
    using assms by (intro read_whole) (simp_all add: envelope_not_empty length_envelope)
  ultimately show ?thesis
    by (simp add: do_recover_def)
qed

lemma envelope_byte: "envelope ''ab'' ! 16 = CHR ''a''"
  by (simp add: envelope_def Let_def put_u32_def put_u64_def nth_append)

theorem damaged_file_rejected_witness:
  "\<exists>e. do_recover good_io ''f'' [''f'' \<mapsto> (envelope ''ab'')[16 := CHR ''x'']] ex_init = Some (Inl e, ex_init) \<and> err_code e = EC_Corruption"
  by (rule damaged_file_rejected [where p = "''ab''" and i = 16 and c = "CHR ''x''"])
    (simp_all add: good_io_def envelope_byte)

section \<open>A payload that ends early\<close>

definition consumes :: "'a rd \<Rightarrow> nat \<Rightarrow> bool" where
  \<comment> \<open>a reader that is still in order has moved on by so many bytes\<close>
  "consumes m k \<longleftrightarrow> (\<forall>r. case run_state m r of (_, r') \<Rightarrow> br_s r' = br_s r \<and> br_named r' = br_named r \<and>
     (br_ok r' \<longrightarrow> br_ok r \<and> br_off r' = br_off r + k \<and> (0 < k \<longrightarrow> br_off r' \<le> length (br_s r))))"

lemma consumes_bind:
  assumes "consumes m a" and "\<And>v. consumes (f v) b"
  shows "consumes (Monad_Syntax.bind m f) (a + b)"
  unfolding consumes_def
proof
  fix r
  obtain v r1 where 1: "run_state m r = (v, r1)"
    by fastforce
  obtain w r2 where 2: "run_state (f v) r1 = (w, r2)"
    by fastforce
  have "run_state (Monad_Syntax.bind m f) r = (w, r2)"
    using 1 2 by simp
  then show "case run_state (Monad_Syntax.bind m f) r of (_, r') \<Rightarrow> br_s r' = br_s r \<and> br_named r' = br_named r \<and>
     (br_ok r' \<longrightarrow> br_ok r \<and> br_off r' = br_off r + (a + b) \<and> (0 < a + b \<longrightarrow> br_off r' \<le> length (br_s r)))"
    using assms(1) [unfolded consumes_def, rule_format, of r] assms(2) [of v, unfolded consumes_def, rule_format, of r1] 1 2
    by (cases "b = 0") auto
qed

lemma consumes_return: "consumes (State_Monad.return v) 0"
  by (simp add: consumes_def)

lemma consumes_u64: "consumes rd_u64 8" "consumes rd_i64 8"
proof -
  have bytes: "consumes (rd_bytes n) n" for n
    by (simp add: consumes_def rd_bytes_def can_def)
  show u64: "consumes rd_u64 8"
    unfolding rd_u64_def using consumes_bind [OF bytes consumes_return, of 8] by simp
  show "consumes rd_i64 8"
    unfolding rd_i64_def using consumes_bind [OF u64 consumes_return] by simp
qed

lemma consumes_counters: "consumes rd_counters 48" "consumes rd_stats 72"
proof -
  have "consumes rd_counters (8 + (8 + (8 + (8 + (8 + (8 + 0))))))"
    unfolding rd_counters_def by (intro consumes_bind consumes_u64 consumes_return)
  moreover have "consumes rd_stats (8 + (8 + (8 + (8 + (8 + (8 + (8 + (8 + (8 + 0)))))))))"
    unfolding rd_stats_def by (intro consumes_bind consumes_u64 consumes_return)
  ultimately show "consumes rd_counters 48" "consumes rd_stats 72"
    by simp_all
qed

lemma counters_fields:
  "im_requests (fst (run_state rd_counters r) s) = im_requests s" "im_workers (fst (run_state rd_counters r) s) = im_workers s"
  "im_queued (fst (run_state rd_counters r) s) = im_queued s"
  by (simp_all add: rd_counters_def split_beta)

text \<open>
  C30. A payload that ends early costs the current state. When the payload starts with the right magic and version but
  ends before the counters and the number of requests, \<open>deserialize_locked\<close> reports \<open>bad request count\<close>,
  but the tables of the scheduler have been emptied by then: its requests, its workers and its queue are
  gone.
\<close>

theorem short_payload_clears:
  assumes "length rest < 128"
  shows "\<exists>t. deserialize_locked (w_u32 0x49534348 @ w_u32 1 @ rest) s = Some (Inl (corrupt ''bad request count''), t) \<and>
    im_requests t = [] \<and> im_workers t = [] \<and> im_queued t = []"
proof -
  let ?d = "w_u32 0x49534348 @ w_u32 1 @ rest"
  have "ready_for (open_reader ?d) ?d"
    by (simp add: open_reader_def ready_for_def)
  then obtain r1 where r1: "run_state rd_u32 (open_reader ?d) = (0x49534348, r1)" "ready_for r1 (w_u32 1 @ rest)"
    using parsesD [OF parses_words(2)] by blast
  obtain r2 where r2: "run_state rd_u32 r1 = (1, r2)" "ready_for r2 rest"
    using parsesD [OF parses_words(2) r1(2)] by blast
  have left: "length (br_s r2) = br_off r2 + length rest" "br_ok r2" "br_named r2"
    using r2(2) by (auto simp: ready_for_def)
  obtain cnt r3 where r3: "run_state rd_counters r2 = (cnt, r3)"
    by fastforce
  obtain sts r4 where r4: "run_state rd_stats r3 = (sts, r4)"
    by fastforce
  obtain n r5 where r5: "run_state rd_u64 r4 = (n, r5)"
    by fastforce
  have "br_named r5" "\<not> br_ok r5"
    using consumes_counters(1) [unfolded consumes_def, rule_format, of r2] consumes_counters(2) [unfolded consumes_def, rule_format, of r3]
      consumes_u64(1) [unfolded consumes_def, rule_format, of r4] r3 r4 r5 left assms by auto
  then show ?thesis
    using counters_fields [of r2 "clear_tables s"]
    by (simp add: deserialize_locked_def r1(1) r2(1) left r3 r4 load_tables_def counted_def r5 modify_stats_def clear_tables_def
          corrupt_def)
qed

theorem short_payload_clears_witness:
  "\<exists>t. deserialize_locked (w_u32 0x49534348 @ w_u32 1) ex_saved = Some (Inl (corrupt ''bad request count''), t) \<and>
    im_requests t = [] \<and> im_requests ex_saved \<noteq> []"
  using short_payload_clears [of "[]" ex_saved] by (auto simp: ex_saved_def)

end
