(* ===== verification/Spec2Isabelle.thy ===== *)
theory Spec2Isabelle
  imports Accounting Dispatch_Props Calls Persist_File
begin

text \<open>
  A verification development of the inference scheduler.
\<close>

end
